(* ===== verification/Prelude.thy ===== *)
theory Prelude
  imports Main "HOL-Library.Word" "HOL-Library.Char_ord" "HOL-Library.List_Lexorder"
begin

text \<open>
  The vocabulary every component shares: the operations of \<open>std::string\<close>,
  \<open>std::istringstream\<close>, \<open>std::getline\<close>, \<open>std::stoi\<close> and \<open>std::to_string\<close> that the
  daemon calls, and \<open>std::map\<close> as a key-ordered association list.

  A C++ string is a \<^typ>\<open>string\<close>: its characters are bytes, as they are in C++.  The value
  \<open>npos\<close> of a failed search is \<^const>\<open>None\<close>.  \<open>operator<\<close> on strings compares bytes as
  unsigned values, which is the lexicographic order of the library on character lists.
\<close>

named_theorems cpp_simps \<open>unfolding of the C++ string vocabulary\<close>

type_synonym size_t = "64 word"
type_synonym uint32_t = "32 word"
type_synonym uint8_t = "8 word"
type_synonym uint16_t = "16 word"

section \<open>Searching and cutting strings\<close>

text \<open>\<open>s.find(c)\<close>: the first position of a character.\<close>

fun find_char :: "char \<Rightarrow> string \<Rightarrow> nat option" where
  "find_char c [] = None"
| "find_char c (x # xs) = (if x = c then Some 0 else map_option Suc (find_char c xs))"

text \<open>\<open>s.find(c, pos)\<close>.\<close>

definition find_char_from :: "char \<Rightarrow> string \<Rightarrow> nat \<Rightarrow> nat option" where
  "find_char_from c s pos = map_option ((+) pos) (find_char c (drop pos s))"

text \<open>\<open>s.find(pat) == 0\<close> is the prefix test; \<open>s.find(pat)\<close> is the first occurrence.\<close>

definition starts_with :: "string \<Rightarrow> string \<Rightarrow> bool" where
  "starts_with pat s \<longleftrightarrow> take (length pat) s = pat"

fun find_sub :: "string \<Rightarrow> string \<Rightarrow> nat option" where
  "find_sub pat [] = (if pat = [] then Some 0 else None)"
| "find_sub pat (x # xs) =
     (if starts_with pat (x # xs) then Some 0 else map_option Suc (find_sub pat xs))"

definition contains_sub :: "string \<Rightarrow> string \<Rightarrow> bool" where
  "contains_sub pat s \<longleftrightarrow> find_sub pat s \<noteq> None"

text \<open>\<open>s.substr(pos, n)\<close> and \<open>s.substr(pos)\<close> for a position within the string.\<close>

definition substr :: "string \<Rightarrow> nat \<Rightarrow> nat \<Rightarrow> string" where
  "substr s pos n = take n (drop pos s)"

text \<open>\<open>s.c_str()\<close> handed to a C function: everything up to the first NUL byte.\<close>

definition c_str :: "string \<Rightarrow> string" where
  "c_str s = takeWhile (\<lambda>c. c \<noteq> CHR 0x00) s"

text \<open>
  \<open>s.erase(0, s.find_first_not_of(" \t"))\<close> followed by
  \<open>s.erase(s.find_last_not_of(" \t") + 1)\<close>.  When every character is blank the first call
  erases the whole string, because \<open>npos\<close> is the largest length; when the second finds
  nothing, \<open>npos + 1\<close> wraps to 0.  Both agree with dropping the blanks at the two ends.
\<close>

definition is_blank :: "char \<Rightarrow> bool" where
  "is_blank c \<longleftrightarrow> c = CHR '' '' \<or> c = CHR 0x09"

definition ltrim :: "string \<Rightarrow> string" where
  "ltrim s = dropWhile is_blank s"

definition rtrim :: "string \<Rightarrow> string" where
  "rtrim s = rev (dropWhile is_blank (rev s))"

definition trim :: "string \<Rightarrow> string" where
  "trim s = rtrim (ltrim s)"

section \<open>Streams\<close>

text \<open>\<open>isspace\<close> in the C locale.\<close>

definition isspace :: "char \<Rightarrow> bool" where
  "isspace c \<longleftrightarrow> c \<in> {CHR '' '', CHR 0x09, CHR 0x0A, CHR 0x0B, CHR 0x0C, CHR 0x0D}"

text \<open>
  \<open>stream >> word\<close>: skip white space, take the characters up to the next white space.
  \<^const>\<open>None\<close> is the failed extraction, which leaves the target string unchanged.
\<close>

definition extract_word :: "string \<Rightarrow> (string \<times> string) option" where
  "extract_word s =
     (case dropWhile isspace s of
        [] \<Rightarrow> None
      | c # cs \<Rightarrow> Some (takeWhile (\<lambda>d. \<not> isspace d) (c # cs), dropWhile (\<lambda>d. \<not> isspace d) (c # cs)))"

lemma extract_word_shorter:
  assumes "extract_word s = Some (w, r)"
  shows "length r < length s"
proof -
  from assms obtain c cs where d: "dropWhile isspace s = c # cs"
    and r: "r = dropWhile (\<lambda>d. \<not> isspace d) (c # cs)"
    by (auto simp: extract_word_def split: list.splits)
  from d have "\<not> isspace c" by (metis hd_dropWhile list.sel(1) list.distinct(1))
  then have "r = dropWhile (\<lambda>d. \<not> isspace d) cs" using r by simp
  then have "length r \<le> length cs" by (simp add: length_dropWhile_le)
  also have "length cs < length (dropWhile isspace s)" by (simp add: d)
  also have "\<dots> \<le> length s" by (rule length_dropWhile_le)
  finally show ?thesis .
qed

text \<open>\<open>while (stream >> token)\<close>: the words that remain on the stream.\<close>

function words :: "string \<Rightarrow> string list" where
  "words s = (case extract_word s of None \<Rightarrow> [] | Some (w, r) \<Rightarrow> w # words r)"
  by pat_completeness auto
termination
  by (relation "measure length") (auto dest: extract_word_shorter)

declare words.simps [simp del]

text \<open>
  \<open>while (std::getline(stream, line, delim))\<close>: the pieces between delimiters.  A delimiter at
  the very end does not open another (empty) piece.
\<close>

fun getlines_acc :: "char \<Rightarrow> string \<Rightarrow> string \<Rightarrow> string list" where
  "getlines_acc d cur [] = (if cur = [] then [] else [rev cur])"
| "getlines_acc d cur (c # cs) =
     (if c = d then rev cur # getlines_acc d [] cs else getlines_acc d (c # cur) cs)"

definition getlines :: "char \<Rightarrow> string \<Rightarrow> string list" where
  "getlines d s = getlines_acc d [] s"

abbreviation newline :: char where "newline \<equiv> CHR 0x0A"

section \<open>Characters and numbers\<close>

definition toupper :: "char \<Rightarrow> char" where
  "toupper c = (let n = of_char c :: nat in if 97 \<le> n \<and> n \<le> 122 then char_of (n - 32) else c)"

definition tolower :: "char \<Rightarrow> char" where
  "tolower c = (let n = of_char c :: nat in if 65 \<le> n \<and> n \<le> 90 then char_of (n + 32) else c)"

definition isdigit :: "char \<Rightarrow> bool" where
  "isdigit c \<longleftrightarrow> (let n = of_char c :: nat in 48 \<le> n \<and> n \<le> 57)"

definition isupper :: "char \<Rightarrow> bool" where
  "isupper c \<longleftrightarrow> (let n = of_char c :: nat in 65 \<le> n \<and> n \<le> 90)"

definition islower :: "char \<Rightarrow> bool" where
  "islower c \<longleftrightarrow> (let n = of_char c :: nat in 97 \<le> n \<and> n \<le> 122)"

definition isalnum :: "char \<Rightarrow> bool" where
  "isalnum c \<longleftrightarrow> isupper c \<or> islower c \<or> isdigit c"

definition digit_val :: "char \<Rightarrow> nat" where
  "digit_val c = of_char c - 48"

definition digit_char :: "nat \<Rightarrow> char" where
  "digit_char n = char_of (48 + n)"

text \<open>\<open>std::to_string\<close>.\<close>

fun show_nat :: "nat \<Rightarrow> string" where
  "show_nat n = (if n < 10 then [digit_char n] else show_nat (n div 10) @ [digit_char (n mod 10)])"

declare show_nat.simps [simp del]

definition show_int :: "int \<Rightarrow> string" where
  "show_int i = (if i < 0 then CHR ''-'' # show_nat (nat (- i)) else show_nat (nat i))"

text \<open>
  \<open>std::stoi\<close>: leading white space, an optional sign, then as many digits as there are; what
  follows the digits is ignored.  \<^const>\<open>None\<close> is the exception (no digit, or a value that
  does not fit an \<open>int\<close>).
\<close>

definition nat_of_digits :: "string \<Rightarrow> nat" where
  "nat_of_digits ds = foldl (\<lambda>n c. 10 * n + digit_val c) 0 ds"

definition scan_int :: "string \<Rightarrow> int option" where
  "scan_int s =
     (let t = dropWhile isspace s;
          (neg, u) = (case t of c # cs \<Rightarrow> (if c = CHR ''-'' then (True, cs)
                                          else if c = CHR ''+'' then (False, cs) else (False, t))
                      | [] \<Rightarrow> (False, []));
          ds = takeWhile isdigit u
      in if ds = [] then None
         else Some (if neg then - int (nat_of_digits ds) else int (nat_of_digits ds)))"

definition stoi :: "string \<Rightarrow> int option" where
  "stoi s = (case scan_int s of None \<Rightarrow> None
             | Some i \<Rightarrow> if - (2 ^ 31) \<le> i \<and> i < 2 ^ 31 then Some i else None)"

text \<open>Two lower-case hexadecimal digits per byte (\<open>std::hex\<close>, \<open>setw(2)\<close>, \<open>setfill('0')\<close>).\<close>

definition hex_digit :: "nat \<Rightarrow> char" where
  "hex_digit n = (if n < 10 then char_of (48 + n) else char_of (87 + n))"

definition hex_byte :: "uint8_t \<Rightarrow> string" where
  "hex_byte b = [hex_digit (unat b div 16), hex_digit (unat b mod 16)]"

definition hex_string :: "uint8_t list \<Rightarrow> string" where
  "hex_string bs = concat (map hex_byte bs)"

section \<open>Lemmas on the string vocabulary\<close>

lemma starts_with_append [simp]: "starts_with p (p @ s)"
  by (simp add: starts_with_def)

lemma starts_with_refl [simp]: "starts_with p p"
  by (simp add: starts_with_def)

lemma starts_with_iff: "starts_with p s \<longleftrightarrow> (\<exists>r. s = p @ r)"
  unfolding starts_with_def by (metis append_eq_conv_conj append_take_drop_id)

lemma find_char_None: "find_char c s = None \<longleftrightarrow> c \<notin> set s"
  by (induction s) auto

lemma find_char_append: "c \<notin> set p \<Longrightarrow> find_char c (p @ c # s) = Some (length p)"
  by (induction p) auto

lemma find_char_SomeD:
  "find_char c s = Some i \<Longrightarrow> i < length s \<and> s ! i = c \<and> c \<notin> set (take i s)"
  by (induction s arbitrary: i) (auto split: if_splits)

lemma find_char_split:
  assumes "find_char c s = Some i"
  shows "s = take i s @ c # drop (Suc i) s"
  using find_char_SomeD [OF assms] by (metis id_take_nth_drop)

lemma find_char_fst_occurrence:
  "find_char c s = Some i \<longleftrightarrow> (\<exists>p r. s = p @ c # r \<and> c \<notin> set p \<and> length p = i)"
proof
  assume a: "find_char c s = Some i"
  then have "length (take i s) = i" using find_char_SomeD [OF a] by simp
  then show "\<exists>p r. s = p @ c # r \<and> c \<notin> set p \<and> length p = i"
    using find_char_SomeD [OF a] find_char_split [OF a] by metis
qed (auto simp: find_char_append)

lemma find_char_from_ge: "find_char_from c s pos = Some i \<Longrightarrow> pos \<le> i"
  by (auto simp: find_char_from_def)

lemma contains_sub_iff: "contains_sub p s \<longleftrightarrow> (\<exists>a b. s = a @ p @ b)"
proof (induction s)
  case Nil
  then show ?case by (auto simp: contains_sub_def)
next
  case (Cons x xs)
  have IH: "(find_sub p xs \<noteq> None) = (\<exists>a b. xs = a @ p @ b)"
    using Cons by (simp add: contains_sub_def)
  show ?case
  proof (cases "starts_with p (x # xs)")
    case True
    then obtain r where "x # xs = p @ r" by (auto simp: starts_with_iff)
    then have "x # xs = [] @ p @ r" by simp
    then show ?thesis using True unfolding contains_sub_def by (metis find_sub.simps(2) option.distinct(1))
  next
    case False
    then have "(\<exists>a b. x # xs = a @ p @ b) = (\<exists>a b. xs = a @ p @ b)"
      by (metis append_Cons append_Nil list.exhaust list.inject starts_with_iff)
    with False IH show ?thesis by (simp add: contains_sub_def)
  qed
qed

lemma trim_id: "\<lbrakk>s = [] \<or> \<not> is_blank (hd s) \<and> \<not> is_blank (last s)\<rbrakk> \<Longrightarrow> trim s = s"
  by (cases s rule: rev_cases)
     (auto simp: trim_def ltrim_def rtrim_def neq_Nil_conv dropWhile_append hd_append
           split: if_splits elim: list.set_cases)

lemma trim_Nil [simp]: "trim [] = []"
  by (simp add: trim_def ltrim_def rtrim_def)

text \<open>Reading back what was written piece by piece.\<close>

lemma getlines_acc_line:
  "d \<notin> set l \<Longrightarrow> getlines_acc d cur (l @ d # r) = (rev cur @ l) # getlines_acc d [] r"
  by (induction l arbitrary: cur) auto

lemma getlines_line: "d \<notin> set l \<Longrightarrow> getlines d (l @ d # r) = l # getlines d r"
  by (simp add: getlines_def getlines_acc_line)

lemma getlines_join:
  "d \<notin> set (concat (p # ps)) \<Longrightarrow> last (p # ps) \<noteq> [] \<Longrightarrow>
     getlines d (p @ concat (map (\<lambda>q. d # q) ps)) = p # ps"
proof (induction ps arbitrary: p)
  case Nil
  have "getlines_acc d cur p = (if rev cur @ p = [] then [] else [rev cur @ p])" if "d \<notin> set p" for cur
    using that by (induction p arbitrary: cur) auto
  with Nil show ?case by (simp add: getlines_def)
next
  case (Cons q ps)
  then have "d \<notin> set p" "d \<notin> set (concat (q # ps))" "last (q # ps) \<noteq> []" by auto
  with Cons.IH [of q] show ?case by (simp add: getlines_line)
qed

text \<open>The lines of a file written entry by entry.\<close>

lemma getlines_concat:
  "\<forall>l \<in> set ls. d \<notin> set l \<Longrightarrow> getlines d (concat (map (\<lambda>l. l @ [d]) ls)) = ls"
  by (induction ls) (simp_all add: getlines_line, simp add: getlines_def)

end
