(* ===== verification/Std_Map.thy ===== *)
theory Std_Map
  imports Prelude
begin

text \<open>
  \<open>std::map\<close>: a key-ordered container.  Iterating over it visits the keys in increasing order,
  which the program relies on when it writes a database file or a listing.  The model is the list
  of its entries in iteration order; \<open>find\<close>, \<open>operator[]\<close> assignment and \<open>erase\<close> are the three
  operations the program uses.  The interface \<open>key_store\<close> states what a client of a store may
  rely on; every store of the program interprets it.
\<close>

type_synonym ('k, 'v) std_map = "('k \<times> 'v) list"

abbreviation std_find :: "('k, 'v) std_map \<Rightarrow> 'k \<Rightarrow> 'v option" where
  "std_find m k \<equiv> map_of m k"

fun std_insert :: "'k::linorder \<Rightarrow> 'v \<Rightarrow> ('k, 'v) std_map \<Rightarrow> ('k, 'v) std_map" where
  "std_insert k v [] = [(k, v)]"
| "std_insert k v ((k', v') # m) =
     (if k < k' then (k, v) # (k', v') # m
      else if k = k' then (k, v) # m
      else (k', v') # std_insert k v m)"

definition std_erase :: "'k \<Rightarrow> ('k, 'v) std_map \<Rightarrow> ('k, 'v) std_map" where
  "std_erase k m = filter (\<lambda>(k', _). k' \<noteq> k) m"

definition std_keys :: "('k, 'v) std_map \<Rightarrow> 'k list" where
  "std_keys m = map fst m"

text \<open>The representation invariant of the ordered map.\<close>

definition std_wf :: "('k::linorder, 'v) std_map \<Rightarrow> bool" where
  "std_wf m \<longleftrightarrow> sorted_wrt (<) (std_keys m)"

named_theorems std_simps \<open>characteristic equations of the ordered map\<close>

lemma find_insert [simp, std_simps]: "std_find (std_insert k v m) = (std_find m)(k \<mapsto> v)"
  by (induction m) auto

lemma find_erase [simp, std_simps]: "std_find (std_erase k m) = (std_find m)(k := None)"
  by (induction m) (auto simp: std_erase_def)

lemma keys_dom: "set (std_keys m) = dom (std_find m)"
  by (simp add: std_keys_def dom_map_of_conv_image_fst)

lemma keys_insert [simp, std_simps]: "set (std_keys (std_insert k v m)) = insert k (set (std_keys m))"
  by (auto simp: keys_dom split: if_splits)

lemma keys_erase [simp, std_simps]: "set (std_keys (std_erase k m)) = set (std_keys m) - {k}"
  by (auto simp: keys_dom split: if_splits)

lemma wf_Nil [simp]: "std_wf []"
  by (simp add: std_wf_def std_keys_def)

lemma wf_insert [simp]: "std_wf m \<Longrightarrow> std_wf (std_insert k v m)"
proof (induction m)
  case (Cons e m)
  obtain k' v' where e: "e = (k', v')" by (cases e)
  from Cons.prems have m: "std_wf m" and lt: "\<forall>x \<in> set (std_keys m). k' < x"
    by (auto simp: e std_wf_def std_keys_def)
  have "set (std_keys (std_insert k v m)) = insert k (set (std_keys m))" by simp
  with Cons.IH [OF m] Cons.prems lt show ?case
    by (auto simp: e std_wf_def std_keys_def)
qed (simp add: std_wf_def std_keys_def)

lemma wf_erase [simp]: "std_wf m \<Longrightarrow> std_wf (std_erase k m)"
  by (induction m) (auto simp: std_wf_def std_keys_def std_erase_def)

lemma wf_filter: "std_wf m \<Longrightarrow> std_wf (filter P m)"
  by (simp add: std_wf_def std_keys_def sorted_wrt_map sorted_wrt_filter)

lemma wf_distinct: "std_wf m \<Longrightarrow> distinct (std_keys m)"
  by (simp add: std_wf_def strict_sorted_iff)

lemma wf_find_iff: "std_wf m \<Longrightarrow> std_find m k = Some v \<longleftrightarrow> (k, v) \<in> set m"
  using wf_distinct [of m] by (auto simp: std_keys_def)

lemma erase_absent: "k \<notin> dom (std_find m) \<Longrightarrow> std_erase k m = m"
  by (force simp: std_erase_def domIff map_of_eq_None_iff intro!: filter_True)

text \<open>
  Building a map by assigning in key order gives the entries back: the step of every
  save/load round trip.
\<close>

lemma insert_last: "\<forall>x \<in> set (std_keys m). x < k \<Longrightarrow> std_insert k v m = m @ [(k, v)]"
  by (induction m) (auto simp: std_keys_def)

lemma foldl_insert_sorted:
  assumes "std_wf (m @ es)"
  shows "foldl (\<lambda>m (k, v). std_insert k v m) m es = m @ es"
  using assms
proof (induction es arbitrary: m)
  case (Cons e es)
  obtain k v where e: "e = (k, v)" by (cases e)
  from Cons.prems have "std_insert k v m = m @ [(k, v)]"
    by (intro insert_last) (auto simp: e std_wf_def std_keys_def sorted_wrt_append)
  moreover have "std_wf ((m @ [(k, v)]) @ es)" using Cons.prems by (simp add: e)
  ultimately show ?case using Cons.IH [of "m @ [(k, v)]"] by (simp add: e)
qed simp

section \<open>The interface of a keyed store\<close>

text \<open>
  What the client of a store may rely on: an abstract lookup, an assignment and a removal that
  change one key, and an invariant all of them keep.
\<close>

locale key_store =
  fixes lookup :: "'m \<Rightarrow> 'k \<Rightarrow> 'v option"
    and assign :: "'k \<Rightarrow> 'v \<Rightarrow> 'm \<Rightarrow> 'm"
    and remove :: "'k \<Rightarrow> 'm \<Rightarrow> 'm"
    and invar :: "'m \<Rightarrow> bool"
  assumes lookup_assign: "invar m \<Longrightarrow> lookup (assign k v m) = (lookup m)(k \<mapsto> v)"
    and lookup_remove: "invar m \<Longrightarrow> lookup (remove k m) = (lookup m)(k := None)"
    and invar_assign: "invar m \<Longrightarrow> invar (assign k v m)"
    and invar_remove: "invar m \<Longrightarrow> invar (remove k m)"
begin

lemma lookup_same: "invar m \<Longrightarrow> lookup (assign k v m) k = Some v"
  by (simp add: lookup_assign)

lemma lookup_other: "invar m \<Longrightarrow> k' \<noteq> k \<Longrightarrow> lookup (assign k v m) k' = lookup m k'"
  by (simp add: lookup_assign)

lemma remove_assign: "invar m \<Longrightarrow> lookup m k = None \<Longrightarrow> lookup (remove k (assign k v m)) = lookup m"
  by (auto simp: lookup_assign lookup_remove invar_assign)

lemma remove_gone: "invar m \<Longrightarrow> lookup (remove k m) k = None"
  by (simp add: lookup_remove)

lemma assign_many:
  "invar m \<Longrightarrow> lookup (fold (\<lambda>(k, v). assign k v) es m) = lookup m ++ map_of (rev es)
     \<and> invar (fold (\<lambda>(k, v). assign k v) es m)"
proof (induction es arbitrary: m)
  case (Cons e es)
  then show ?case
    by (cases e) (simp add: lookup_assign invar_assign map_add_upd_left fun_eq_iff map_add_def
                       split: option.splits)
qed simp

end

interpretation std: key_store std_find std_insert std_erase std_wf
  by unfold_locales auto

section \<open>The interface of a guarded machine\<close>

text \<open>
  Several components are machines that take one event after another (accepted connections,
  session operations, received messages).  A step may be restricted to the events the
  environment can produce in that state; an invariant that one step keeps holds after any run.
\<close>

fun run_ok :: "('s \<Rightarrow> 'e \<Rightarrow> bool) \<Rightarrow> ('s \<Rightarrow> 'e \<Rightarrow> 's) \<Rightarrow> 's \<Rightarrow> 'e list \<Rightarrow> bool" where
  "run_ok ok step s [] = True"
| "run_ok ok step s (e # es) = (ok s e \<and> run_ok ok step (step s e) es)"

locale guarded_machine =
  fixes step :: "'s \<Rightarrow> 'e \<Rightarrow> 's"
    and ok :: "'s \<Rightarrow> 'e \<Rightarrow> bool"
    and inv :: "'s \<Rightarrow> bool"
  assumes inv_step: "inv s \<Longrightarrow> ok s e \<Longrightarrow> inv (step s e)"
begin

lemma inv_run: "inv s \<Longrightarrow> run_ok ok step s es \<Longrightarrow> inv (foldl step s es)"
  by (induction es arbitrary: s) (auto intro: inv_step)

lemma inv_prefix: "inv s \<Longrightarrow> run_ok ok step s (es @ es') \<Longrightarrow> inv (foldl step s es)"
proof (induction es arbitrary: s)
  case (Cons e es)
  then show ?case by (auto intro: inv_step)
qed simp

end

end
