(* ===== verification/NetworkAccess.thy ===== *)
theory NetworkAccess
  imports Std_Map
begin

unbundle bit_operations_syntax

text \<open>
  IPv4 allow and deny lists, from \<open>src/simple-rsyncd/security/network_access.cpp\<close>.
  \<open>inet_pton(AF_INET, ...)\<close> belongs to the system's C library: it is the parameter
  \<open>inet_pton4\<close>, the four bytes it writes in memory order, or \<^const>\<open>None\<close> when it does not
  return 1.  Nothing is assumed of it.
\<close>

type_synonym inet_pton4 = "string \<Rightarrow> (uint8_t \<times> uint8_t \<times> uint8_t \<times> uint8_t) option"

section \<open>Model\<close>

text \<open>\<open>parseIpv4\<close>: \<open>ntohl\<close> makes the first byte the most significant.\<close>

definition parseIpv4 :: "inet_pton4 \<Rightarrow> string \<Rightarrow> uint32_t option" where
  "parseIpv4 pton address =
     (case pton (c_str address) of
        None \<Rightarrow> None
      | Some (b0, b1, b2, b3) \<Rightarrow>
          Some (push_bit 24 (ucast b0) OR push_bit 16 (ucast b1) OR push_bit 8 (ucast b2) OR ucast b3))"

definition parseCidr :: "inet_pton4 \<Rightarrow> string \<Rightarrow> (uint32_t \<times> uint8_t) option" where
  "parseCidr pton rule =
     (case find_char (CHR ''/'') rule of
        None \<Rightarrow>
          (case parseIpv4 pton rule of
             None \<Rightarrow> None
           | Some network \<Rightarrow> Some (network, 32))
      | Some slash \<Rightarrow>
          (let ip_part = take slash rule;
               prefix_part = drop (slash + 1) rule
           in case parseIpv4 pton ip_part of
                None \<Rightarrow> None
              | Some network \<Rightarrow>
                  (case stoi prefix_part of
                     None \<Rightarrow> None
                   | Some prefix \<Rightarrow>
                       if prefix < 0 \<or> prefix > 32 then None
                       else Some (network, word_of_int prefix))))"

definition ipInCidr :: "uint32_t \<Rightarrow> uint32_t \<Rightarrow> uint8_t \<Rightarrow> bool" where
  "ipInCidr ip network prefix_len =
     (if prefix_len = 0 then True
      else let mask = (if prefix_len = 32 then 0xFFFFFFFF
                       else push_bit (32 - unat prefix_len) (0xFFFFFFFF :: uint32_t))
           in ip AND mask = network AND mask)"

definition ipMatchesRule :: "inet_pton4 \<Rightarrow> string \<Rightarrow> string \<Rightarrow> bool" where
  "ipMatchesRule pton client_ip rule =
     (case parseIpv4 pton client_ip of
        None \<Rightarrow> False
      | Some client \<Rightarrow>
          (case parseCidr pton rule of
             None \<Rightarrow> False
           | Some (network, prefix_len) \<Rightarrow> ipInCidr client network prefix_len))"

fun matchesAny :: "inet_pton4 \<Rightarrow> string \<Rightarrow> string list \<Rightarrow> bool" where
  "matchesAny pton client_ip [] = False"
| "matchesAny pton client_ip (rule # rules) =
     (if rule = [] then matchesAny pton client_ip rules
      else if ipMatchesRule pton client_ip rule then True
      else matchesAny pton client_ip rules)"

definition isValidIpv4 :: "inet_pton4 \<Rightarrow> string \<Rightarrow> bool" where
  "isValidIpv4 pton address \<longleftrightarrow> parseIpv4 pton address \<noteq> None"

definition hostMatchesRule :: "inet_pton4 \<Rightarrow> string \<Rightarrow> string \<Rightarrow> bool" where
  "hostMatchesRule pton client_ip rule = ipMatchesRule pton client_ip rule"

definition isAllowed ::
  "inet_pton4 \<Rightarrow> string \<Rightarrow> string list \<Rightarrow> string list \<Rightarrow> string list \<Rightarrow> string list \<Rightarrow> bool" where
  "isAllowed pton client_ip denied_hosts denied_networks allowed_hosts allowed_networks =
     (if matchesAny pton client_ip denied_hosts \<or> matchesAny pton client_ip denied_networks then False
      else let has_allow_list = (allowed_hosts \<noteq> [] \<or> allowed_networks \<noteq> [])
           in if \<not> has_allow_list then True
              else matchesAny pton client_ip allowed_hosts \<or> matchesAny pton client_ip allowed_networks)"

section \<open>Masks and prefixes\<close>

lemma mask32_eq: "(0xFFFFFFFF :: uint32_t) = -1"
  by simp

lemma and_shifted_ones_eq:
  fixes a b :: "'a::len word"
  shows "a AND push_bit n (-1) = b AND push_bit n (-1) \<longleftrightarrow> drop_bit n a = drop_bit n b"
proof
  assume l: "a AND push_bit n (-1) = b AND push_bit n (-1)"
  show "drop_bit n a = drop_bit n b"
  proof (rule bit_eqI)
    fix i assume i: "possible_bit TYPE('a word) i"
    have "bit (a AND push_bit n (-1)) (n + i) = bit (b AND push_bit n (-1)) (n + i)"
      by (simp only: l)
    then have "n + i < LENGTH('a) \<Longrightarrow> bit a (n + i) = bit b (n + i)"
      by (simp add: bit_simps)
    moreover have "\<not> n + i < LENGTH('a) \<Longrightarrow> \<not> bit a (n + i) \<and> \<not> bit b (n + i)"
      using bit_imp_le_length by blast
    ultimately show "bit (drop_bit n a) i = bit (drop_bit n b) i"
      by (simp only: bit_drop_bit_eq comp_def) blast
  qed
next
  assume r: "drop_bit n a = drop_bit n b"
  show "a AND push_bit n (-1) = b AND push_bit n (-1)"
  proof (rule bit_eqI)
    fix i assume i: "possible_bit TYPE('a word) i"
    show "bit (a AND push_bit n (-1)) i = bit (b AND push_bit n (-1)) i"
    proof (cases "n \<le> i")
      case True
      then have "bit a i = bit (drop_bit n a) (i - n)" "bit b i = bit (drop_bit n b) (i - n)"
        by (simp_all add: bit_drop_bit_eq)
      with r show ?thesis by (simp add: bit_and_iff)
    qed (simp add: bit_simps)
  qed
qed

lemma and_not_mask_eq:
  fixes a b :: "'a::len word"
  shows "a AND NOT (mask n) = b AND NOT (mask n) \<longleftrightarrow> drop_bit n a = drop_bit n b"
  using and_shifted_ones_eq [of a n b] by simp

lemma ipInCidr_drop_bit:
  assumes "unat p \<le> 32"
  shows "ipInCidr ip net p \<longleftrightarrow> drop_bit (32 - unat p) ip = drop_bit (32 - unat p) net"
proof -
  consider "p = 0" | "p = 32" | "p \<noteq> 0" "p \<noteq> 32" by blast
  then show ?thesis
  proof cases
    case 1
    have "drop_bit 32 ip = 0" "drop_bit 32 net = 0"
      by (auto intro!: bit_eqI simp: bit_drop_bit_eq dest: bit_imp_le_length)
    with 1 show ?thesis by (simp add: ipInCidr_def)
  next
    case 2
    then show ?thesis by (simp add: ipInCidr_def mask32_eq)
  next
    case 3
    then show ?thesis
      by (simp add: ipInCidr_def Let_def mask32_eq and_not_mask_eq)
  qed
qed

section \<open>Lemmas\<close>

lemma unat_prefix: "0 \<le> i \<Longrightarrow> i \<le> 32 \<Longrightarrow> unat (word_of_int i :: uint8_t) = nat i"
  by (simp add: unat_eq_nat_uint uint_word_of_int)

lemma parseCidr_prefix_le:
  assumes "parseCidr pton rule = Some (net, p)"
  shows "unat p \<le> 32"
proof -
  from assms have "p = 32 \<or> (\<exists>i. 0 \<le> i \<and> i \<le> 32 \<and> p = word_of_int i)"
    unfolding parseCidr_def Let_def by (auto simp: not_less split: option.splits if_splits)
  then show ?thesis by (auto simp: unat_prefix)
qed

lemma matchesAny_iff:
  "matchesAny pton ip rules \<longleftrightarrow> (\<exists>r \<in> set rules. r \<noteq> [] \<and> hostMatchesRule pton ip r)"
  by (induction rules) (auto simp: hostMatchesRule_def)

lemma matchesAny_invalid: "parseIpv4 pton ip = None \<Longrightarrow> \<not> matchesAny pton ip rules"
  by (induction rules) (auto simp: ipMatchesRule_def)

lemma drop_bit_mono:
  fixes a b :: "'a::len word"
  assumes "drop_bit m a = drop_bit m b" "m \<le> n"
  shows "drop_bit n a = drop_bit n b"
proof -
  have "drop_bit n a = drop_bit (n - m) (drop_bit m a)" for a :: "'a word"
    using assms(2) by (simp add: drop_bit_drop_bit)
  then show ?thesis using assms(1) by metis
qed

lemma ipInCidr_refl: "ipInCidr net net p"
  by (simp add: ipInCidr_def Let_def)

text \<open>A wider network (a shorter prefix) contains every narrower one around the same address.\<close>

lemma ipInCidr_widen:
  assumes "unat q \<le> 32" "unat p \<le> unat q" "ipInCidr ip net q"
  shows "ipInCidr ip net p"
  using assms by (auto simp: ipInCidr_drop_bit intro: drop_bit_mono)

section \<open>Properties\<close>

text \<open>C19. A client address matches a rule exactly when the address and the rule's network parse
  as IPv4 and agree on the leading \<open>prefix_len\<close> bits; an address or rule that does not parse
  (an IPv6 address, for instance) matches nothing.  The rule is read by \<open>parseCidr\<close>, the mask
  arithmetic of \<open>ipInCidr\<close> is replaced by a comparison of the leading bits.\<close>

theorem hostMatchesRule_iff:
  "hostMatchesRule pton client rule \<longleftrightarrow>
     (\<exists>ip net p. parseIpv4 pton client = Some ip \<and> parseCidr pton rule = Some (net, p)
        \<and> unat p \<le> 32 \<and> drop_bit (32 - unat p) ip = drop_bit (32 - unat p) net)"
proof (cases "parseIpv4 pton client")
  case None
  then show ?thesis by (simp add: hostMatchesRule_def ipMatchesRule_def)
next
  case (Some ip)
  show ?thesis
  proof (cases "parseCidr pton rule")
    case None
    then show ?thesis by (simp add: hostMatchesRule_def ipMatchesRule_def split: option.splits)
  next
    case (Some np)
    obtain net p where np: "np = (net, p)" by (cases np)
    with Some have "unat p \<le> 32" by (blast intro: parseCidr_prefix_le)
    then show ?thesis using Some \<open>parseIpv4 pton client = Some ip\<close>
      by (simp add: np hostMatchesRule_def ipMatchesRule_def ipInCidr_drop_bit)
  qed
qed

text \<open>C16. The admission decision: a client is refused when any non-empty entry of the two deny
  lists matches it, whatever the allow lists say; otherwise it is admitted when both allow lists
  are empty (even if its address does not parse) or when some non-empty allow entry matches.  An
  allow list whose only entries are empty strings refuses everyone.\<close>

theorem isAllowed_iff:
  "isAllowed pton ip denied_hosts denied_networks allowed_hosts allowed_networks \<longleftrightarrow>
     \<not> (\<exists>r \<in> set (denied_hosts @ denied_networks). r \<noteq> [] \<and> hostMatchesRule pton ip r)
     \<and> (allowed_hosts @ allowed_networks = []
        \<or> (\<exists>r \<in> set (allowed_hosts @ allowed_networks). r \<noteq> [] \<and> hostMatchesRule pton ip r))"
proof -
  have m: "matchesAny pton ip xs \<or> matchesAny pton ip ys
             \<longleftrightarrow> (\<exists>r \<in> set (xs @ ys). r \<noteq> [] \<and> hostMatchesRule pton ip r)" for xs ys
    by (auto simp: matchesAny_iff)
  show ?thesis by (simp only: isAllowed_def Let_def m) auto
qed

end
