(* ===== verification/RateLimiter.thy ===== *)
theory RateLimiter
  imports Std_Map
begin

text \<open>
  The per-client connection rate limiter, from \<open>src/simple-rsyncd/security/rate_limiter.cpp\<close>.
  \<open>std::chrono::steady_clock\<close> is read several times per call; each reading is an argument.  A
  time is the tick count of the clock (nanoseconds since its epoch), so that the test
  \<open>time_since_epoch().count() == 0\<close> is the comparison with 0.  The mutex makes each operation
  atomic; it has no other effect on the state.
\<close>

section \<open>Model\<close>

type_synonym ticks = int

record Window =
  count :: size_t
  start :: ticks

record ConnectionRateLimiter =
  max_per_minute :: size_t
  max_per_hour :: size_t
  minute_windows :: "(string, Window) std_map"
  hour_windows :: "(string, Window) std_map"

definition default_window :: Window where
  "default_window = \<lparr>count = 0, start = 0\<rparr>"

definition seconds :: "int \<Rightarrow> ticks" where
  "seconds n = n * 1000000000"

definition new_ConnectionRateLimiter :: "size_t \<Rightarrow> size_t \<Rightarrow> ConnectionRateLimiter" where
  "new_ConnectionRateLimiter per_minute per_hour =
     \<lparr>max_per_minute = per_minute, max_per_hour = per_hour, minute_windows = [], hour_windows = []\<rparr>"

text \<open>\<open>windows[client_ip]\<close>: an absent entry is created with the default window.\<close>

definition window_at :: "(string, Window) std_map \<Rightarrow> string \<Rightarrow> Window" where
  "window_at ws ip = (case std_find ws ip of None \<Rightarrow> default_window | Some w \<Rightarrow> w)"

text \<open>The reset both operations share: a fresh or elapsed window starts again now.\<close>

definition roll :: "ticks \<Rightarrow> ticks \<Rightarrow> Window \<Rightarrow> Window" where
  "roll now period w =
     (if start w = 0 \<or> now - start w \<ge> period then w\<lparr>start := now, count := 0\<rparr> else w)"

definition incrementWindow :: "ticks \<Rightarrow> Window \<Rightarrow> size_t \<Rightarrow> ticks \<Rightarrow> bool \<times> Window" where
  "incrementWindow now w max_count period =
     (let w1 = roll now period w
      in if max_count > 0 \<and> count w1 \<ge> max_count then (False, w1)
         else (True, w1\<lparr>count := count w1 + 1\<rparr>))"

definition allowConnection ::
  "ticks \<Rightarrow> string \<Rightarrow> ConnectionRateLimiter \<Rightarrow> bool \<times> ConnectionRateLimiter" where
  "allowConnection now client_ip s =
     (if max_per_minute s = 0 \<and> max_per_hour s = 0 then (True, s)
      else
        let (minute_ok, s1) =
              (if max_per_minute s > 0 then
                 let minute = roll now (seconds 60) (window_at (minute_windows s) client_ip);
                     s' = s\<lparr>minute_windows := std_insert client_ip minute (minute_windows s)\<rparr>
                 in (\<not> count minute \<ge> max_per_minute s, s')
               else (True, s))
        in if \<not> minute_ok then (False, s1)
           else if max_per_hour s1 > 0 then
             let hour = roll now (seconds 3600) (window_at (hour_windows s1) client_ip);
                 s2 = s1\<lparr>hour_windows := std_insert client_ip hour (hour_windows s1)\<rparr>
             in (\<not> count hour \<ge> max_per_hour s1, s2)
           else (True, s1))"

definition recordConnection ::
  "ticks \<Rightarrow> ticks \<Rightarrow> string \<Rightarrow> ConnectionRateLimiter \<Rightarrow> ConnectionRateLimiter" where
  "recordConnection now_minute now_hour client_ip s =
     (if max_per_minute s = 0 \<and> max_per_hour s = 0 then s
      else
        let s1 = (if max_per_minute s > 0 then
                    s\<lparr>minute_windows := std_insert client_ip
                        (snd (incrementWindow now_minute (window_at (minute_windows s) client_ip)
                               (max_per_minute s) (seconds 60))) (minute_windows s)\<rparr>
                  else s)
        in if max_per_hour s1 > 0 then
             s1\<lparr>hour_windows := std_insert client_ip
                 (snd (incrementWindow now_hour (window_at (hour_windows s1) client_ip)
                        (max_per_hour s1) (seconds 3600))) (hour_windows s1)\<rparr>
           else s1)"

section \<open>The effect of the operations on one client's windows\<close>

lemma window_at_insert:
  "window_at (std_insert ip w ws) ip' = (if ip' = ip then w else window_at ws ip')"
  by (simp add: window_at_def)

definition minute_of :: "ConnectionRateLimiter \<Rightarrow> string \<Rightarrow> Window" where
  "minute_of s ip = window_at (minute_windows s) ip"

definition hour_of :: "ConnectionRateLimiter \<Rightarrow> string \<Rightarrow> Window" where
  "hour_of s ip = window_at (hour_windows s) ip"

lemma roll_idem: "0 < t \<Longrightarrow> 0 < p \<Longrightarrow> roll t p (roll t p w) = roll t p w"
  by (auto simp: roll_def)

lemma allow_limits [simp]:
  "max_per_minute (snd (allowConnection t ip s)) = max_per_minute s"
  "max_per_hour (snd (allowConnection t ip s)) = max_per_hour s"
  by (auto simp: allowConnection_def Let_def)

lemma record_limits [simp]:
  "max_per_minute (recordConnection t1 t2 ip s) = max_per_minute s"
  "max_per_hour (recordConnection t1 t2 ip s) = max_per_hour s"
  by (auto simp: recordConnection_def Let_def)

lemma allow_minute:
  "minute_of (snd (allowConnection t ip s)) ip' =
     (if max_per_minute s > 0 \<and> ip' = ip then roll t (seconds 60) (minute_of s ip) else minute_of s ip')"
  by (auto simp: allowConnection_def Let_def minute_of_def window_at_insert)

lemma allow_hour:
  "hour_of (snd (allowConnection t ip s)) ip' =
     (if max_per_hour s > 0 \<and> ip' = ip
         \<and> (max_per_minute s > 0 \<longrightarrow> count (roll t (seconds 60) (minute_of s ip)) < max_per_minute s)
      then roll t (seconds 3600) (hour_of s ip) else hour_of s ip')"
  by (auto simp: allowConnection_def Let_def hour_of_def minute_of_def window_at_insert not_le)

lemma allow_iff:
  "fst (allowConnection t ip s) \<longleftrightarrow>
     (max_per_minute s = 0 \<or> count (roll t (seconds 60) (minute_of s ip)) < max_per_minute s)
     \<and> (max_per_hour s = 0 \<or> count (roll t (seconds 3600) (hour_of s ip)) < max_per_hour s)"
  by (auto simp: allowConnection_def Let_def hour_of_def minute_of_def not_le word_gt_0)

lemma record_minute:
  "minute_of (recordConnection t1 t2 ip s) ip' =
     (if max_per_minute s > 0 \<and> ip' = ip
      then snd (incrementWindow t1 (minute_of s ip) (max_per_minute s) (seconds 60)) else minute_of s ip')"
  by (auto simp: recordConnection_def Let_def minute_of_def window_at_insert)

lemma record_hour:
  "hour_of (recordConnection t1 t2 ip s) ip' =
     (if max_per_hour s > 0 \<and> ip' = ip
      then snd (incrementWindow t2 (hour_of s ip) (max_per_hour s) (seconds 3600)) else hour_of s ip')"
  by (auto simp: recordConnection_def Let_def hour_of_def window_at_insert)

lemma unat_Suc_less:
  assumes "(w :: size_t) < m"
  shows "unat (w + 1) = Suc (unat w)"
proof -
  have "unat w < unat m" using assms by (simp add: word_less_nat_alt)
  moreover have "unat m < 2 ^ 64" using unsigned_less [of m] by simp
  ultimately show ?thesis by (simp add: unat_word_ariths)
qed

lemma roll_count_less: "count w < m \<Longrightarrow> count (roll t p w) < m"
  by (auto simp: roll_def word_less_nat_alt)

section \<open>One window against the log of its admissions\<close>

text \<open>
  \<open>log_inv p m w now log\<close> relates a window with period \<open>p\<close> and limit \<open>m\<close> to the times it has
  counted so far (a ghost list): the counter is the number of logged times since the window
  started and is within the limit, no logged time lies beyond the window, and neither the time
  just before the window nor any interval of length \<open>p\<close> holds more than it may.
\<close>

definition within :: "ticks \<Rightarrow> ticks \<Rightarrow> ticks list \<Rightarrow> nat" where
  "within a b log = length (filter (\<lambda>t. a \<le> t \<and> t < b) log)"

lemma within_Nil [simp]: "within a b [] = 0"
  by (simp add: within_def)

lemma within_Cons [simp]:
  "within a b (t # log) = (if a \<le> t \<and> t < b then Suc (within a b log) else within a b log)"
  by (simp add: within_def)

lemma within_mono: "a' \<le> a \<Longrightarrow> b \<le> b' \<Longrightarrow> within a b log \<le> within a' b' log"
  by (induction log) auto

lemma within_split: "a \<le> m \<Longrightarrow> m \<le> b \<Longrightarrow> within a b log = within a m log + within m b log"
  by (induction log) auto

lemma within_zero: "(\<And>t. t \<in> set log \<Longrightarrow> t < a) \<Longrightarrow> within a b log = 0"
  by (force simp: within_def filter_empty_conv)

definition log_inv :: "ticks \<Rightarrow> size_t \<Rightarrow> Window \<Rightarrow> ticks \<Rightarrow> ticks list \<Rightarrow> bool" where
  "log_inv p m w now log \<longleftrightarrow>
     0 \<le> start w \<and> start w \<le> now \<and> (start w = 0 \<longrightarrow> log = [])
     \<and> (\<forall>t \<in> set log. t \<le> now \<and> t < start w + p)
     \<and> unat (count w) \<le> unat m \<and> within (start w) (start w + p) log = unat (count w)
     \<and> (\<forall>a. start w - p < a \<longrightarrow> within a (start w) log \<le> unat m)
     \<and> (\<forall>a. within a (a + p) log \<le> 2 * unat m)"

lemma log_inv_init: "0 \<le> now \<Longrightarrow> log_inv p m default_window now []"
  by (simp add: log_inv_def default_window_def)

lemma log_inv_later: "log_inv p m w now log \<Longrightarrow> now \<le> now' \<Longrightarrow> log_inv p m w now' log"
  unfolding log_inv_def by (meson order_trans)

lemma log_inv_roll:
  assumes inv: "log_inv p m w now log" and t: "now \<le> t" "0 < t" and p: "0 < p"
  shows "log_inv p m (roll t p w) t log"
proof (cases "start w = 0 \<or> t - start w \<ge> p")
  case True
  have old: "s < t" if "s \<in> set log" for s
    using True inv that unfolding log_inv_def by fastforce
  have "within a t log \<le> unat m" if "t - p < a" for a
  proof (cases "start w = 0")
    case False
    with True that have "start w < a" by simp
    then have "within a t log \<le> within (start w) (start w + p) log"
    proof -
      have "within a t log = within a (start w + p) log"
        using inv old unfolding log_inv_def within_def by (intro arg_cong [where f = length] filter_cong) auto
      also have "\<dots> \<le> within (start w) (start w + p) log"
        using \<open>start w < a\<close> by (intro within_mono) auto
      finally show ?thesis .
    qed
    with inv show ?thesis by (simp add: log_inv_def)
  qed (use inv in \<open>simp add: log_inv_def\<close>)
  moreover have "within t (t + p) log = 0" using old by (intro within_zero) auto
  ultimately show ?thesis using True inv t old p by (auto simp: log_inv_def roll_def)
next
  case False
  then show ?thesis using log_inv_later [OF inv t(1)] by (simp add: roll_def)
qed

lemma log_inv_push:
  assumes inv: "log_inv p m w now log" and w: "start w \<noteq> 0" "now < start w + p" "count w < m"
  shows "log_inv p m (w\<lparr>count := count w + 1\<rparr>) now (now # log)"
proof -
  have c: "unat (count w + 1) = Suc (unat (count w))" "Suc (unat (count w)) \<le> unat m"
    using w(3) by (auto simp: unat_Suc_less word_less_nat_alt)
  have "within a (a + p) (now # log) \<le> 2 * unat m" for a
  proof (cases "a \<le> now \<and> now < a + p")
    case True
    have "within a (a + p) log \<le> unat m + unat (count w)"
    proof (cases "a \<le> start w")
      case True': True
      have "within a (a + p) log = within a (start w) log + within (start w) (a + p) log"
        using True' True inv by (intro within_split) (auto simp: log_inv_def)
      moreover have "within a (start w) log \<le> unat m"
        using True inv by (auto simp: log_inv_def)
      moreover have "within (start w) (a + p) log \<le> unat (count w)"
        using inv within_mono [of "start w" "start w" "a + p" "start w + p" log] True'
        by (auto simp: log_inv_def)
      ultimately show ?thesis by simp
    next
      case False
      have "within a (a + p) log = within a (start w + p) log"
        using inv True False unfolding log_inv_def within_def
        by (intro arg_cong [where f = length] filter_cong) auto
      also have "\<dots> \<le> within (start w) (start w + p) log"
        using False by (intro within_mono) auto
      finally show ?thesis using inv by (simp add: log_inv_def)
    qed
    then show ?thesis using c True by simp
  next
    case False
    then show ?thesis using inv by (auto simp: log_inv_def)
  qed
  then show ?thesis using inv w c by (auto simp: log_inv_def)
qed

lemma roll_fresh: "0 < t \<Longrightarrow> 0 < p \<Longrightarrow> start w \<le> t \<Longrightarrow> start (roll t p w) \<noteq> 0 \<and> t < start (roll t p w) + p"
  by (auto simp: roll_def)

text \<open>Counting a connection the check has let through always succeeds and extends the log.\<close>

lemma log_inv_increment:
  assumes inv: "log_inv p m w now log" and t: "now \<le> t" "0 < t" and p: "0 < p" and c: "count w < m"
  shows "fst (incrementWindow t w m p) \<and> log_inv p m (snd (incrementWindow t w m p)) t (t # log)"
proof -
  have r: "log_inv p m (roll t p w) t log" by (rule log_inv_roll [OF inv t p])
  have "start w \<le> t" using inv t by (simp add: log_inv_def)
  then have f: "start (roll t p w) \<noteq> 0" "t < start (roll t p w) + p"
    using roll_fresh [OF t(2) p] by auto
  have "count (roll t p w) < m" using c by (rule roll_count_less)
  then show ?thesis
    using log_inv_push [OF r f] by (simp add: incrementWindow_def Let_def not_le)
qed

section \<open>Runs of the accept loop against the limiter\<close>

text \<open>
  What \<open>RSyncDaemon::acceptLoop\<close> does with the limiter for one connection: \<open>checkRateLimit\<close>,
  and, when the connection goes on to a session (it may still be refused because the session
  table is full), \<open>updateRateLimit\<close>.  \<open>log\<close> is the ghost list of admissions, newest first, with
  the two clock readings under which each was counted.
\<close>

record accept_event =
  ev_ip :: string
  ev_check :: ticks
  ev_minute :: ticks
  ev_hour :: ticks
  ev_full :: bool

record limiter_run =
  limiter :: ConnectionRateLimiter
  clock :: ticks
  log :: "(string \<times> ticks \<times> ticks) list"

definition accept_step :: "limiter_run \<Rightarrow> accept_event \<Rightarrow> limiter_run" where
  "accept_step r e =
     (let (ok, l1) = allowConnection (ev_check e) (ev_ip e) (limiter r)
      in if \<not> ok \<or> ev_full e then r\<lparr>limiter := l1, clock := ev_check e\<rparr>
         else r\<lparr>limiter := recordConnection (ev_minute e) (ev_hour e) (ev_ip e) l1,
                clock := ev_hour e,
                log := (ev_ip e, ev_minute e, ev_hour e) # log r\<rparr>)"

text \<open>The clock is steady and has left its epoch: readings never decrease.\<close>

definition clock_ok :: "limiter_run \<Rightarrow> accept_event \<Rightarrow> bool" where
  "clock_ok r e \<longleftrightarrow> 0 < ev_check e \<and> clock r \<le> ev_check e \<and> ev_check e \<le> ev_minute e \<and> ev_minute e \<le> ev_hour e"

definition minute_log :: "string \<Rightarrow> (string \<times> ticks \<times> ticks) list \<Rightarrow> ticks list" where
  "minute_log ip es = map (\<lambda>(_, m, _). m) (filter (\<lambda>(i, _). i = ip) es)"

definition hour_log :: "string \<Rightarrow> (string \<times> ticks \<times> ticks) list \<Rightarrow> ticks list" where
  "hour_log ip es = map (\<lambda>(_, _, h). h) (filter (\<lambda>(i, _). i = ip) es)"

definition run_inv :: "limiter_run \<Rightarrow> bool" where
  "run_inv r \<longleftrightarrow>
     (let l = limiter r in
       (max_per_minute l > 0 \<longrightarrow> (\<forall>ip. log_inv (seconds 60) (max_per_minute l) (minute_of l ip)
          (clock r) (minute_log ip (log r))))
       \<and> (max_per_hour l > 0 \<longrightarrow> (\<forall>ip. log_inv (seconds 3600) (max_per_hour l) (hour_of l ip)
          (clock r) (hour_log ip (log r)))))"

definition start_run :: "size_t \<Rightarrow> size_t \<Rightarrow> limiter_run" where
  "start_run per_minute per_hour =
     \<lparr>limiter = new_ConnectionRateLimiter per_minute per_hour, clock = 0, log = []\<rparr>"

lemma seconds_pos [simp]: "0 < n \<Longrightarrow> 0 < seconds n"
  by (simp add: seconds_def)

lemma minute_log_Cons [simp]:
  "minute_log ip ((i, m, h) # es) = (if i = ip then m # minute_log ip es else minute_log ip es)"
  by (simp add: minute_log_def)

lemma hour_log_Cons [simp]:
  "hour_log ip ((i, m, h) # es) = (if i = ip then h # hour_log ip es else hour_log ip es)"
  by (simp add: hour_log_def)

lemma run_inv_start: "run_inv (start_run per_minute per_hour)"
proof -
  have w: "window_at [] ip = default_window" for ip by (simp add: window_at_def)
  show ?thesis
    by (simp add: run_inv_def start_run_def new_ConnectionRateLimiter_def minute_of_def hour_of_def
        minute_log_def hour_log_def w log_inv_init)
qed

lemma accept_step_minute:
  assumes inv: "\<forall>ip. log_inv (seconds 60) (max_per_minute (limiter r)) (minute_of (limiter r) ip)
                     (clock r) (minute_log ip (log r))"
    and ok: "clock_ok r e" and on: "max_per_minute (limiter r) > 0"
  shows "log_inv (seconds 60) (max_per_minute (limiter r)) (minute_of (limiter (accept_step r e)) ip)
           (clock (accept_step r e)) (minute_log ip (log (accept_step r e)))"
proof -
  let ?l = "limiter r" and ?l1 = "snd (allowConnection (ev_check e) (ev_ip e) (limiter r))"
  let ?ok = "fst (allowConnection (ev_check e) (ev_ip e) ?l)"
  from ok have t: "clock r \<le> ev_check e" "0 < ev_check e" "ev_check e \<le> ev_minute e" "ev_minute e \<le> ev_hour e"
    by (auto simp: clock_ok_def)
  have l1: "log_inv (seconds 60) (max_per_minute ?l) (minute_of ?l1 ip) (ev_check e) (minute_log ip (log r))" for ip
    using inv on t by (auto simp: allow_minute intro: log_inv_roll log_inv_later)
  show ?thesis
  proof (cases "\<not> ?ok \<or> ev_full e")
    case True
    then have "accept_step r e = r\<lparr>limiter := ?l1, clock := ev_check e\<rparr>"
      by (auto simp: accept_step_def Let_def split: prod.splits)
    then show ?thesis using l1 by simp
  next
    case False
    then have st: "accept_step r e = r\<lparr>limiter := recordConnection (ev_minute e) (ev_hour e) (ev_ip e) ?l1,
        clock := ev_hour e, log := (ev_ip e, ev_minute e, ev_hour e) # log r\<rparr>"
      by (auto simp: accept_step_def Let_def split: prod.splits)
    have c: "count (minute_of ?l1 (ev_ip e)) < max_per_minute ?l"
      using False on by (auto simp: allow_iff allow_minute)
    have "log_inv (seconds 60) (max_per_minute ?l)
            (snd (incrementWindow (ev_minute e) (minute_of ?l1 (ev_ip e)) (max_per_minute ?l) (seconds 60)))
            (ev_minute e) (ev_minute e # minute_log (ev_ip e) (log r))"
      using log_inv_increment [OF l1 t(3) _ _ c] t by simp
    then have "log_inv (seconds 60) (max_per_minute ?l)
            (minute_of (recordConnection (ev_minute e) (ev_hour e) (ev_ip e) ?l1) ip)
            (ev_minute e) (minute_log ip ((ev_ip e, ev_minute e, ev_hour e) # log r))"
      using on t l1 by (auto simp: record_minute intro: log_inv_later)
    then show ?thesis using t by (auto simp: st intro: log_inv_later)
  qed
qed

lemma accept_step_hour:
  assumes inv: "\<forall>ip. log_inv (seconds 3600) (max_per_hour (limiter r)) (hour_of (limiter r) ip)
                     (clock r) (hour_log ip (log r))"
    and ok: "clock_ok r e" and on: "max_per_hour (limiter r) > 0"
  shows "log_inv (seconds 3600) (max_per_hour (limiter r)) (hour_of (limiter (accept_step r e)) ip)
           (clock (accept_step r e)) (hour_log ip (log (accept_step r e)))"
proof -
  let ?l = "limiter r" and ?l1 = "snd (allowConnection (ev_check e) (ev_ip e) (limiter r))"
  let ?ok = "fst (allowConnection (ev_check e) (ev_ip e) ?l)"
  from ok have t: "clock r \<le> ev_check e" "0 < ev_check e" "ev_check e \<le> ev_hour e"
    by (auto simp: clock_ok_def)
  have l1: "log_inv (seconds 3600) (max_per_hour ?l) (hour_of ?l1 ip) (ev_check e) (hour_log ip (log r))" for ip
    using inv on t by (auto simp: allow_hour intro: log_inv_roll log_inv_later)
  show ?thesis
  proof (cases "\<not> ?ok \<or> ev_full e")
    case True
    then have "accept_step r e = r\<lparr>limiter := ?l1, clock := ev_check e\<rparr>"
      by (auto simp: accept_step_def Let_def split: prod.splits)
    then show ?thesis using l1 by simp
  next
    case False
    then have st: "accept_step r e = r\<lparr>limiter := recordConnection (ev_minute e) (ev_hour e) (ev_ip e) ?l1,
        clock := ev_hour e, log := (ev_ip e, ev_minute e, ev_hour e) # log r\<rparr>"
      by (auto simp: accept_step_def Let_def split: prod.splits)
    have c: "count (hour_of ?l1 (ev_ip e)) < max_per_hour ?l"
      using False on by (auto simp: allow_iff allow_hour)
    have "log_inv (seconds 3600) (max_per_hour ?l)
            (snd (incrementWindow (ev_hour e) (hour_of ?l1 (ev_ip e)) (max_per_hour ?l) (seconds 3600)))
            (ev_hour e) (ev_hour e # hour_log (ev_ip e) (log r))"
      using log_inv_increment [OF l1 t(3) _ _ c] t by simp
    then have "log_inv (seconds 3600) (max_per_hour ?l)
            (hour_of (recordConnection (ev_minute e) (ev_hour e) (ev_ip e) ?l1) ip)
            (ev_hour e) (hour_log ip ((ev_ip e, ev_minute e, ev_hour e) # log r))"
      using on t l1 by (auto simp: record_hour intro: log_inv_later)
    then show ?thesis by (simp add: st)
  qed
qed

lemma accept_step_limits [simp]:
  "max_per_minute (limiter (accept_step r e)) = max_per_minute (limiter r)"
  "max_per_hour (limiter (accept_step r e)) = max_per_hour (limiter r)"
  by (auto simp: accept_step_def Let_def split: prod.splits dest: arg_cong [where f = snd])
     (metis allow_limits snd_conv record_limits)+

lemma accept_run_limits [simp]:
  "max_per_minute (limiter (foldl accept_step r es)) = max_per_minute (limiter r)"
  "max_per_hour (limiter (foldl accept_step r es)) = max_per_hour (limiter r)"
  by (induction es arbitrary: r) auto

interpretation accept: guarded_machine accept_step clock_ok run_inv
proof unfold_locales
  fix r e
  assume "run_inv r" "clock_ok r e"
  then show "run_inv (accept_step r e)"
    using accept_step_minute [of r e] accept_step_hour [of r e] by (simp add: run_inv_def Let_def)
qed

section \<open>Properties\<close>

text \<open>C13. Whatever connections arrive, and however the clock advances between the check, the two
  counter updates and the next connection, no client has more than twice \<open>max_per_minute\<close>
  connections counted in any interval of 60 seconds and no more than twice \<open>max_per_hour\<close> in any
  interval of 3600 seconds (fixed windows allow up to two adjacent windows to overlap the
  interval); a limit of 0 turns that bound off.\<close>

theorem limiter_sliding_bound:
  assumes "run_ok clock_ok accept_step (start_run per_minute per_hour) es"
  shows "(per_minute > 0 \<longrightarrow>
            within a (a + seconds 60)
              (minute_log ip (log (foldl accept_step (start_run per_minute per_hour) es)))
              \<le> 2 * unat per_minute)
       \<and> (per_hour > 0 \<longrightarrow>
            within a (a + seconds 3600)
              (hour_log ip (log (foldl accept_step (start_run per_minute per_hour) es)))
              \<le> 2 * unat per_hour)"
proof -
  have "run_inv (foldl accept_step (start_run per_minute per_hour) es)"
    by (rule accept.inv_run [OF run_inv_start assms])
  moreover have "max_per_minute (limiter (start_run per_minute per_hour)) = per_minute"
    "max_per_hour (limiter (start_run per_minute per_hour)) = per_hour"
    by (simp_all add: start_run_def new_ConnectionRateLimiter_def)
  ultimately show ?thesis by (auto simp: run_inv_def Let_def log_inv_def)
qed

text \<open>Four connections under a limit of two per minute: the third is refused, the fourth comes in a
  new window and is counted.\<close>

theorem limiter_sliding_bound_witness:
  "let es = [\<lparr>ev_ip = ''h'', ev_check = 1, ev_minute = 2, ev_hour = 3, ev_full = False\<rparr>,
             \<lparr>ev_ip = ''h'', ev_check = seconds 59, ev_minute = seconds 59, ev_hour = seconds 59, ev_full = False\<rparr>,
             \<lparr>ev_ip = ''h'', ev_check = seconds 60, ev_minute = seconds 60, ev_hour = seconds 60, ev_full = False\<rparr>,
             \<lparr>ev_ip = ''h'', ev_check = seconds 61, ev_minute = seconds 61, ev_hour = seconds 61, ev_full = False\<rparr>];
       r = foldl accept_step (start_run 2 10) es
   in minute_log ''h'' (log r) = [seconds 61, seconds 59, 2]
      \<and> within (seconds 59) (seconds 59 + seconds 60) (minute_log ''h'' (log r)) \<le> 2 * unat (2 :: size_t)"
proof -
  let ?es = "[\<lparr>ev_ip = ''h'', ev_check = 1, ev_minute = 2, ev_hour = 3, ev_full = False\<rparr>,
             \<lparr>ev_ip = ''h'', ev_check = seconds 59, ev_minute = seconds 59, ev_hour = seconds 59, ev_full = False\<rparr>,
             \<lparr>ev_ip = ''h'', ev_check = seconds 60, ev_minute = seconds 60, ev_hour = seconds 60, ev_full = False\<rparr>,
             \<lparr>ev_ip = ''h'', ev_check = seconds 61, ev_minute = seconds 61, ev_hour = seconds 61, ev_full = False\<rparr>]"
  have run: "run_ok clock_ok accept_step (start_run 2 10) ?es" by code_simp
  have log: "minute_log ''h'' (log (foldl accept_step (start_run 2 10) ?es)) = [seconds 61, seconds 59, 2]"
    by code_simp
  show ?thesis using limiter_sliding_bound [OF run, of "seconds 59" "''h''"] log by simp
qed

text \<open>A connection the check admits is always counted: when \<open>allowConnection\<close> returns true for
  a client at one time, the following \<open>recordConnection\<close>, at that time or any later one, adds one
  (without wrapping) to the client's minute counter and hour counter as they stand at its own
  clock readings; it never runs into the silent refusal of \<open>incrementWindow\<close>.\<close>

theorem allowed_then_counted:
  assumes "allowConnection t ip s = (True, s1)"
  shows "(max_per_minute s > 0 \<longrightarrow>
            unat (count (minute_of (recordConnection t1 t2 ip s1) ip))
              = Suc (unat (count (roll t1 (seconds 60) (minute_of s1 ip)))))
       \<and> (max_per_hour s > 0 \<longrightarrow>
            unat (count (hour_of (recordConnection t1 t2 ip s1) ip))
              = Suc (unat (count (roll t2 (seconds 3600) (hour_of s1 ip)))))"
proof -
  from assms have ok: "fst (allowConnection t ip s)" and s1: "s1 = snd (allowConnection t ip s)" by simp_all
  have lims: "max_per_minute s1 = max_per_minute s" "max_per_hour s1 = max_per_hour s" by (simp_all add: s1)
  have m: "count (roll t1 (seconds 60) (minute_of s1 ip)) < max_per_minute s" if "max_per_minute s > 0"
    using ok that by (intro roll_count_less) (auto simp: s1 allow_iff allow_minute)
  have h: "count (roll t2 (seconds 3600) (hour_of s1 ip)) < max_per_hour s" if "max_per_hour s > 0"
    using ok that by (intro roll_count_less) (auto simp: s1 allow_iff allow_minute allow_hour)
  show ?thesis
    using m h by (auto simp: record_minute record_hour incrementWindow_def Let_def lims unat_Suc_less)
qed

theorem allowed_then_counted_witness:
  "let s1 = snd (allowConnection 5 ''h'' (new_ConnectionRateLimiter 1 1))
   in unat (count (minute_of (recordConnection 9 9 ''h'' s1) ''h'')) = 1
      \<and> unat (count (hour_of (recordConnection 9 9 ''h'' s1) ''h'')) = 1"
proof -
  let ?s = "new_ConnectionRateLimiter 1 1" and ?s1 = "snd (allowConnection 5 ''h'' (new_ConnectionRateLimiter 1 1))"
  have "fst (allowConnection 5 ''h'' ?s)" by code_simp
  then have "allowConnection 5 ''h'' ?s = (True, ?s1)" by (simp add: prod_eq_iff)
  note inst = allowed_then_counted [OF this, of 9 9]
  have "unat (count (roll 9 (seconds 60) (minute_of ?s1 ''h''))) = 0"
    "unat (count (roll 9 (seconds 3600) (hour_of ?s1 ''h''))) = 0" by code_simp+
  then show ?thesis using inst by (simp add: new_ConnectionRateLimiter_def)
qed

end
