(* ===== verification/Paths.thy ===== *)
theory Paths
  imports Std_Map
begin

text \<open>
  The part of \<open>std::filesystem::path\<close> the daemon uses, on a POSIX system: a path is its string,
  \<open>/\<close> is the separator and there are no root names.  The definitions follow the standard's
  description of path iteration, \<open>operator/\<close>, \<open>lexically_normal\<close>, \<open>parent_path\<close>, \<open>filename\<close>,
  \<open>stem\<close> and \<open>extension\<close>.
\<close>

named_theorems path_simps \<open>paths as strings against paths as component lists\<close>

abbreviation sep :: char where "sep \<equiv> CHR ''/''"
abbreviation dot :: string where "dot \<equiv> ''.''"
abbreviation dotdot :: string where "dotdot \<equiv> ''..''"

section \<open>Model\<close>

fun split_on :: "char \<Rightarrow> string \<Rightarrow> string list" where
  "split_on d [] = [[]]"
| "split_on d (c # cs) =
     (if c = d then [] # split_on d cs
      else (case split_on d cs of [] \<Rightarrow> [[c]] | w # ws \<Rightarrow> (c # w) # ws))"

definition is_absolute :: "string \<Rightarrow> bool" where
  "is_absolute p \<longleftrightarrow> p \<noteq> [] \<and> hd p = sep"

definition ends_sep :: "string \<Rightarrow> bool" where
  "ends_sep p \<longleftrightarrow> p \<noteq> [] \<and> last p = sep"

text \<open>The non-empty components, without the root directory.\<close>

definition path_parts :: "string \<Rightarrow> string list" where
  "path_parts p = filter (\<lambda>w. w \<noteq> []) (split_on sep p)"

text \<open>
  The components as the kernel resolves them, and as \<open>for (const auto& part : p)\<close> visits them:
  the iteration starts with the root directory, and a trailing separator after a name shows as
  an empty last component.
\<close>

definition raw_parts :: "string \<Rightarrow> string list" where
  "raw_parts p = path_parts p @ (if path_parts p \<noteq> [] \<and> ends_sep p then [[]] else [])"

definition path_elems :: "string \<Rightarrow> string list" where
  "path_elems p = (if is_absolute p then [[sep]] else []) @ raw_parts p"

text \<open>\<open>operator/\<close>: an absolute right side replaces the left side.\<close>

definition path_append :: "string \<Rightarrow> string \<Rightarrow> string" where
  "path_append p q =
     (if is_absolute q then q
      else if p = [] \<or> ends_sep p then p @ q
      else p @ [sep] @ q)"

definition path_of :: "string list \<Rightarrow> string" where
  "path_of ps = (if ps = [] then [sep] else concat (map (\<lambda>c. sep # c) ps))"

text \<open>
  \<open>lexically_normal\<close>: the state of the scan is the stack of kept components, the latest first,
  and whether the last component read leaves a trailing separator.
\<close>

fun normal_step :: "bool \<Rightarrow> string list \<times> bool \<Rightarrow> string \<Rightarrow> string list \<times> bool" where
  "normal_step rooted (st, tr) c =
     (if c = [] \<or> c = dot then (st, True)
      else if c = dotdot then
        (case st of
           [] \<Rightarrow> if rooted then ([], True) else ([dotdot], False)
         | x # xs \<Rightarrow> if x = dotdot then (dotdot # st, False) else (xs, True))
      else (c # st, False))"

definition join_sep :: "string list \<Rightarrow> string" where
  "join_sep ps = (case ps of [] \<Rightarrow> [] | c # cs \<Rightarrow> c @ concat (map (\<lambda>c. sep # c) cs))"

definition lexically_normal :: "string \<Rightarrow> string" where
  "lexically_normal p =
     (if p = [] then []
      else
        let (st, tr) = foldl (normal_step (is_absolute p)) ([], False) (raw_parts p);
            ps = rev st
        in if ps = [] then (if is_absolute p then [sep] else dot)
           else (if is_absolute p then [sep] else []) @ join_sep ps
                  @ (if tr \<and> last ps \<noteq> dotdot then [sep] else []))"

text \<open>\<open>filename\<close>, \<open>parent_path\<close>, \<open>extension\<close> and \<open>stem\<close>.\<close>

definition filename :: "string \<Rightarrow> string" where
  "filename p = last (split_on sep p)"

definition parent_path :: "string \<Rightarrow> string" where
  "parent_path p =
     (if path_parts p = [] then p
      else if ends_sep p then rev (dropWhile (\<lambda>c. c = sep) (rev p))
      else let q = take (length p - length (filename p)) p;
               r = rev (dropWhile (\<lambda>c. c = sep) (rev q))
           in if r = [] \<and> q \<noteq> [] then [sep] else r)"

definition rfind_char :: "char \<Rightarrow> string \<Rightarrow> nat option" where
  "rfind_char c s = map_option (\<lambda>i. length s - Suc i) (find_char c (rev s))"

definition extension :: "string \<Rightarrow> string" where
  "extension p =
     (let f = filename p
      in if f = dot \<or> f = dotdot then []
         else (case rfind_char (CHR ''.'') f of
                 None \<Rightarrow> [] | Some i \<Rightarrow> if i = 0 then [] else drop i f))"

definition stem :: "string \<Rightarrow> string" where
  "stem p = (let f = filename p in take (length f - length (extension p)) f)"

section \<open>Proper names\<close>

text \<open>A proper name is a component that names an entry: not empty, not a dot, no separator.\<close>

definition proper :: "string \<Rightarrow> bool" where
  "proper c \<longleftrightarrow> c \<noteq> [] \<and> c \<noteq> dot \<and> c \<noteq> dotdot \<and> sep \<notin> set c"

lemma split_on_ne [simp]: "split_on d s \<noteq> []"
  by (induction s) (auto split: list.splits)

lemma split_on_none [path_simps]: "d \<notin> set w \<Longrightarrow> split_on d w = [w]"
  by (induction w) auto

lemma split_on_append [path_simps]: "split_on d (xs @ d # ys) = split_on d xs @ split_on d ys"
  by (induction xs) (auto split: list.splits)

lemma split_on_no_sep: "w \<in> set (split_on d s) \<Longrightarrow> d \<notin> set w"
  by (induction s arbitrary: w) (auto split: list.splits if_splits)

lemma split_on_ends: "s \<noteq> [] \<Longrightarrow> last s = d \<Longrightarrow> last (split_on d s) = []"
  by (metis append_butlast_last_id last_appendR list.distinct(1) split_on.simps(1) split_on_append last.simps)

lemma path_parts_ne: "c \<in> set (path_parts p) \<Longrightarrow> c \<noteq> [] \<and> sep \<notin> set c"
  by (auto simp: path_parts_def dest: split_on_no_sep)

lemma path_parts_Nil [simp]: "path_parts [] = []"
  by (simp add: path_parts_def)

lemma path_parts_sep [simp]: "path_parts (sep # p) = path_parts p"
  by (simp add: path_parts_def)

lemma path_parts_append [path_simps]: "path_parts (p @ sep # q) = path_parts p @ path_parts q"
  by (simp add: path_parts_def split_on_append)

lemma path_parts_name [path_simps]: "c \<noteq> [] \<Longrightarrow> sep \<notin> set c \<Longrightarrow> path_parts c = [c]"
  by (simp add: path_parts_def split_on_none)

lemma concat_seps_snoc: "concat (map (\<lambda>c. sep # c) (ps @ [c])) = concat (map (\<lambda>c. sep # c) ps) @ sep # c"
  by simp

lemma parts_concat_seps:
  "\<forall>c \<in> set ps. c \<noteq> [] \<and> sep \<notin> set c \<Longrightarrow> path_parts (concat (map (\<lambda>c. sep # c) ps)) = ps"
proof (induction ps rule: rev_induct)
  case (snoc c ps)
  then show ?case by (simp only: concat_seps_snoc path_parts_append) (simp add: path_parts_name)
qed simp

lemma parts_path_of [path_simps]:
  "\<forall>c \<in> set ps. c \<noteq> [] \<and> sep \<notin> set c \<Longrightarrow> path_parts (path_of ps) = ps"
  by (simp add: path_of_def parts_concat_seps)

lemma is_absolute_path_of [simp]: "is_absolute (path_of ps)"
  by (cases ps) (auto simp: path_of_def is_absolute_def)

lemma path_of_ne [simp]: "path_of ps \<noteq> []"
  by (cases ps) (auto simp: path_of_def)

lemma ends_sep_path_of:
  "\<forall>c \<in> set ps. c \<noteq> [] \<and> sep \<notin> set c \<Longrightarrow> ends_sep (path_of ps) \<longleftrightarrow> ps = []"
proof (cases ps rule: rev_cases)
  case (snoc qs c)
  moreover assume "\<forall>c \<in> set ps. c \<noteq> [] \<and> sep \<notin> set c"
  ultimately have "c \<noteq> []" "last c \<noteq> sep" by (auto dest: last_in_set)
  then show ?thesis using snoc by (auto simp: path_of_def ends_sep_def)
qed (simp add: path_of_def ends_sep_def)

text \<open>Appending a name to a path is appending it to the list of components.\<close>

lemma append_path_of [path_simps]:
  assumes "\<forall>c \<in> set ps. c \<noteq> [] \<and> sep \<notin> set c" "c \<noteq> []" "sep \<notin> set c"
  shows "path_append (path_of ps) c = path_of (ps @ [c])"
proof -
  have "\<not> is_absolute c" using assms(2,3) by (metis hd_in_set is_absolute_def)
  then show ?thesis
    using ends_sep_path_of [OF assms(1)] by (auto simp: path_append_def path_of_def)
qed

lemma raw_parts_path_of [path_simps]:
  "\<forall>c \<in> set ps. c \<noteq> [] \<and> sep \<notin> set c \<Longrightarrow> raw_parts (path_of ps) = ps"
  by (simp add: raw_parts_def parts_path_of ends_sep_path_of)

lemma raw_parts_path_of_sep [path_simps]:
  "\<forall>c \<in> set ps. c \<noteq> [] \<and> sep \<notin> set c \<Longrightarrow> ps \<noteq> [] \<Longrightarrow> raw_parts (path_of ps @ [sep]) = ps @ [[]]"
  by (simp add: raw_parts_def path_parts_append parts_path_of ends_sep_def)

lemma proper_noslash: "proper c \<Longrightarrow> c \<noteq> [] \<and> sep \<notin> set c"
  by (simp add: proper_def)

lemma all_proper_noslash: "\<forall>c \<in> set ps. proper c \<Longrightarrow> \<forall>c \<in> set ps. c \<noteq> [] \<and> sep \<notin> set c"
  by (simp add: proper_def)

section \<open>Normalising a path whose components do not climb\<close>

lemma normal_fold_names:
  assumes "dotdot \<notin> set cs"
  shows "\<exists>tr'. foldl (normal_step a) (st, tr) cs = (rev (filter (\<lambda>c. c \<noteq> [] \<and> c \<noteq> dot) cs) @ st, tr')"
  using assms
proof (induction cs arbitrary: st tr)
  case (Cons c cs)
  then show ?case
    by (cases "c = [] \<or> c = dot") auto
qed simp

lemma join_sep_path_of: "ps \<noteq> [] \<Longrightarrow> [sep] @ join_sep ps = path_of ps"
  by (cases ps) (auto simp: join_sep_def path_of_def)

text \<open>
  An absolute path without a climbing component normalises to its names, with or without a
  trailing separator.
\<close>

lemma lexically_normal_names:
  assumes "is_absolute p" "dotdot \<notin> set (path_parts p)"
  defines "ns \<equiv> filter (\<lambda>c. c \<noteq> dot) (path_parts p)"
  shows "lexically_normal p = path_of ns \<or> ns \<noteq> [] \<and> lexically_normal p = path_of ns @ [sep]"
proof -
  have ne: "p \<noteq> []" using assms(1) by (auto simp: is_absolute_def)
  have "dotdot \<notin> set (raw_parts p)" using assms(2) by (auto simp: raw_parts_def)
  then obtain tr where f: "foldl (normal_step (is_absolute p)) ([], False) (raw_parts p)
      = (rev (filter (\<lambda>c. c \<noteq> [] \<and> c \<noteq> dot) (raw_parts p)) @ [], tr)"
    using normal_fold_names by blast
  have "filter (\<lambda>c. c \<noteq> [] \<and> c \<noteq> dot) (raw_parts p) = ns"
    using path_parts_ne by (auto simp: raw_parts_def ns_def intro!: filter_cong)
  with f have f': "foldl (normal_step (is_absolute p)) ([], False) (raw_parts p) = (rev ns, tr)" by simp
  show ?thesis
  proof (cases "ns = []")
    case True
    then show ?thesis using assms(1) ne f' by (simp add: lexically_normal_def path_of_def)
  next
    case False
    then have "lexically_normal p = path_of ns @ (if tr \<and> last ns \<noteq> dotdot then [sep] else [])"
      using assms(1) ne f' join_sep_path_of [OF False] by (simp add: lexically_normal_def)
    then show ?thesis using False by auto
  qed
qed

end
