(* ===== verification/Filesystem.thy ===== *)
theory Filesystem
  imports Paths
begin

text \<open>
  The file system the program acts on, and the \<open>std::filesystem\<close> and stream operations it calls.
  A file system is a finite list of entries, each named by its physical component list (no
  symbolic link, dot or empty component in it); the root directory is always there.  The operating
  system's permission decisions are part of the state (\<open>can_search\<close>, \<open>can_read\<close>, \<open>can_write\<close>).

  A \<open>filesystem_error\<close> that the throwing overloads raise is the value \<^const>\<open>None\<close>; the text of its
  \<open>what()\<close> is \<open>what_text\<close>.  A missing file is not an error of the queries: \<open>exists\<close> and the
  \<open>is_...\<close> tests answer false for \<open>ENOENT\<close> and \<open>ENOTDIR\<close> and throw for the other errors
  (a directory that may not be searched, too many levels of symbolic links).  An operation that
  throws leaves the modelled file system as it was: what a refused \<open>create_directories\<close> or
  \<open>remove_all\<close> has done before it met the refusal is not modelled.
\<close>

section \<open>Model\<close>

datatype node = File string | Dir | Symlink string

type_synonym phys = "string list"

record fs =
  entries :: "(phys \<times> node) list"
  cwd :: phys
  can_search :: "phys \<Rightarrow> bool"
  can_read :: "phys \<Rightarrow> bool"
  can_write :: "phys \<Rightarrow> bool"
  links :: "phys \<Rightarrow> nat"
  what_text :: string

definition node_at :: "fs \<Rightarrow> phys \<Rightarrow> node option" where
  "node_at s p = (if p = [] then Some Dir else map_of (entries s) p)"

text \<open>
  Path resolution.  \<open>NoFollow\<close> stops at a final symbolic link (\<open>lstat\<close>), \<open>Follow\<close> follows it
  (\<open>stat\<close>); \<open>Create\<close> (\<open>open\<close> with \<open>O_CREAT\<close>) and \<open>CreateNoFollow\<close> (\<open>mkdir\<close>, \<open>rename\<close>) also accept a
  final name that does not exist yet.  The kernel follows at most 40 symbolic links in one
  resolution.
\<close>

datatype walk_mode = NoFollow | Follow | Create | CreateNoFollow

definition follows :: "walk_mode \<Rightarrow> bool" where
  "follows m \<longleftrightarrow> m = Follow \<or> m = Create"

definition creates :: "walk_mode \<Rightarrow> bool" where
  "creates m \<longleftrightarrow> m = Create \<or> m = CreateNoFollow"

datatype walk_result = Found phys | Missing | Failed

text \<open>
  What one component does: it ends the resolution, or moves to a directory with a number of links
  left and some components to resolve before the remaining ones (the target of a link).
\<close>

datatype hop = Stop walk_result | Hop nat phys "string list"

definition hop :: "fs \<Rightarrow> walk_mode \<Rightarrow> nat \<Rightarrow> phys \<Rightarrow> string \<Rightarrow> bool \<Rightarrow> hop" where
  "hop s m n d c is_last =
     (if node_at s d \<noteq> Some Dir then Stop Missing
      else if \<not> can_search s d then Stop Failed
      else if c = [] \<or> c = dot then Hop n d []
      else if c = dotdot then Hop n (butlast d) []
      else (case node_at s (d @ [c]) of
              None \<Rightarrow> if creates m \<and> is_last then Stop (Found (d @ [c])) else Stop Missing
            | Some (Symlink t) \<Rightarrow>
                if \<not> follows m \<and> is_last then Stop (Found (d @ [c]))
                else (case n of
                        0 \<Rightarrow> Stop Failed
                      | Suc k \<Rightarrow> Hop k (if is_absolute t then [] else d) (raw_parts t))
            | Some _ \<Rightarrow> Hop n (d @ [c]) []))"

lemma hop_shrinks: "hop s m n d c l = Hop n' d' pre \<Longrightarrow> n' < n \<or> n' = n \<and> pre = []"
  by (auto simp: hop_def split: if_splits option.splits node.splits nat.splits)

function walk :: "fs \<Rightarrow> walk_mode \<Rightarrow> nat \<Rightarrow> phys \<Rightarrow> string list \<Rightarrow> walk_result" where
  "walk s m n d [] = Found d"
| "walk s m n d (c # cs) =
     (case hop s m n d c (cs = []) of
        Stop r \<Rightarrow> r
      | Hop n' d' pre \<Rightarrow> walk s m n' d' (pre @ cs))"
  by pat_completeness auto
termination
  by (relation "inv_image (less_than <*lex*> less_than) (\<lambda>(s, m, n, d, cs). (n, length cs))")
     (auto dest: hop_shrinks)

declare walk.simps(2) [simp del]

definition max_symlinks :: nat where
  "max_symlinks = 40"

definition locate :: "fs \<Rightarrow> walk_mode \<Rightarrow> string \<Rightarrow> walk_result" where
  "locate s m p =
     (if p = [] then Missing
      else walk s m max_symlinks (if is_absolute p then [] else cwd s) (raw_parts p))"

text \<open>\<open>status(p)\<close> as the type of the file the path leads to, and the tests built on it.\<close>

definition status :: "fs \<Rightarrow> string \<Rightarrow> node option option" where
  "status s p = (case locate s Follow p of
                   Failed \<Rightarrow> None | Missing \<Rightarrow> Some None | Found q \<Rightarrow> Some (node_at s q))"

definition symlink_status :: "fs \<Rightarrow> string \<Rightarrow> node option option" where
  "symlink_status s p = (case locate s NoFollow p of
                           Failed \<Rightarrow> None | Missing \<Rightarrow> Some None | Found q \<Rightarrow> Some (node_at s q))"

definition fs_exists :: "fs \<Rightarrow> string \<Rightarrow> bool option" where
  "fs_exists s p = map_option (\<lambda>n. n \<noteq> None) (status s p)"

definition is_directory :: "fs \<Rightarrow> string \<Rightarrow> bool option" where
  "is_directory s p = map_option (\<lambda>n. n = Some Dir) (status s p)"

definition is_regular_file :: "fs \<Rightarrow> string \<Rightarrow> bool option" where
  "is_regular_file s p = map_option (\<lambda>n. case n of Some (File _) \<Rightarrow> True | _ \<Rightarrow> False) (status s p)"

definition is_symlink :: "fs \<Rightarrow> string \<Rightarrow> bool option" where
  "is_symlink s p = map_option (\<lambda>n. case n of Some (Symlink _) \<Rightarrow> True | _ \<Rightarrow> False) (symlink_status s p)"

definition fs_absolute :: "fs \<Rightarrow> string \<Rightarrow> string option" where
  "fs_absolute s p =
     (if p = [] then None
      else if is_absolute p then Some p
      else Some (path_append (path_of (cwd s)) p))"

definition canonical :: "fs \<Rightarrow> string \<Rightarrow> string option" where
  "canonical s p = (case locate s Follow p of Found q \<Rightarrow> Some (path_of q) | _ \<Rightarrow> None)"

text \<open>\<open>weakly_canonical\<close>: the longest existing prefix is made canonical, the rest is kept.\<close>

fun existing_prefix :: "fs \<Rightarrow> string \<Rightarrow> string list \<Rightarrow> (string \<times> string list) option" where
  "existing_prefix s result [] = Some (result, [])"
| "existing_prefix s result (e # es) =
     (case fs_exists s (path_append result e) of
        None \<Rightarrow> None
      | Some True \<Rightarrow> existing_prefix s (path_append result e) es
      | Some False \<Rightarrow> Some (result, e # es))"

definition weakly_canonical :: "fs \<Rightarrow> string \<Rightarrow> string option" where
  "weakly_canonical s p =
     (case fs_exists s p of
        None \<Rightarrow> None
      | Some True \<Rightarrow> canonical s p
      | Some False \<Rightarrow>
          (case existing_prefix s [] (path_elems p) of
             None \<Rightarrow> None
           | Some (result, rest) \<Rightarrow>
               (case (if result = [] then Some [] else canonical s result) of
                  None \<Rightarrow> None
                | Some r \<Rightarrow> Some (lexically_normal (foldl path_append r rest)))))"

text \<open>Directory entries, in the order the directory yields them.\<close>

definition children :: "fs \<Rightarrow> phys \<Rightarrow> phys list" where
  "children s d = map fst (filter (\<lambda>(p, _). p \<noteq> [] \<and> butlast p = d) (entries s))"

definition max_depth :: "fs \<Rightarrow> nat" where
  "max_depth s = fold max (map (length \<circ> fst) (entries s)) 0"

text \<open>Reading and writing whole files through streams.\<close>

definition open_in :: "fs \<Rightarrow> string \<Rightarrow> (phys \<times> string) option" where
  "open_in s p =
     (case locate s Follow p of
        Found q \<Rightarrow> (case node_at s q of
                      Some (File c) \<Rightarrow> if can_read s q then Some (q, c) else None
                    | Some Dir \<Rightarrow> if can_read s q then Some (q, []) else None
                    | _ \<Rightarrow> None)
      | _ \<Rightarrow> None)"

definition set_node :: "phys \<Rightarrow> node \<Rightarrow> fs \<Rightarrow> fs" where
  "set_node p n s = s\<lparr>entries := (p, n) # filter (\<lambda>(q, _). q \<noteq> p) (entries s)\<rparr>"

definition del_node :: "phys \<Rightarrow> fs \<Rightarrow> fs" where
  "del_node p s = s\<lparr>entries := filter (\<lambda>(q, _). q \<noteq> p) (entries s)\<rparr>"

text \<open>
  \<open>std::ofstream(p)\<close> (or \<open>open\<close> with \<open>ios::out\<close>): the file is created or truncated.  The first
  component is the open file; \<^const>\<open>None\<close> when the stream is not open.
\<close>

definition open_out :: "fs \<Rightarrow> string \<Rightarrow> phys option \<times> fs" where
  "open_out s p =
     (case locate s Create p of
        Found q \<Rightarrow>
          (case node_at s q of
             Some (File _) \<Rightarrow> if can_write s q then (Some q, set_node q (File []) s) else (None, s)
           | None \<Rightarrow> if can_write s (butlast q) then (Some q, set_node q (File []) s) else (None, s)
           | _ \<Rightarrow> (None, s))
      | _ \<Rightarrow> (None, s))"

definition append_file :: "phys \<Rightarrow> string \<Rightarrow> fs \<Rightarrow> fs" where
  "append_file q bytes s =
     (case node_at s q of
        Some (File c) \<Rightarrow> set_node q (File (c @ bytes)) s
      | _ \<Rightarrow> s)"

text \<open>\<open>remove\<close>, \<open>remove_all\<close>: the last component is not followed.\<close>

definition fs_remove :: "fs \<Rightarrow> string \<Rightarrow> (bool \<times> fs) option" where
  "fs_remove s p =
     (case locate s NoFollow p of
        Failed \<Rightarrow> None
      | Missing \<Rightarrow> Some (False, s)
      | Found q \<Rightarrow>
          if q = [] \<or> \<not> can_write s (butlast q) \<or> (node_at s q = Some Dir \<and> children s q \<noteq> []) then None
          else Some (True, del_node q s))"

definition under :: "phys \<Rightarrow> phys \<Rightarrow> bool" where
  "under d p \<longleftrightarrow> take (length d) p = d"

definition fs_remove_all :: "fs \<Rightarrow> string \<Rightarrow> (nat \<times> fs) option" where
  "fs_remove_all s p =
     (case locate s NoFollow p of
        Failed \<Rightarrow> None
      | Missing \<Rightarrow> Some (0, s)
      | Found q \<Rightarrow>
          (let gone = filter (\<lambda>(r, _). under q r) (entries s)
           in if q = [] \<or> (\<exists>(r, _) \<in> set gone. \<not> can_write s (butlast r)) then None
              else Some (length gone, s\<lparr>entries := filter (\<lambda>(r, _). \<not> under q r) (entries s)\<rparr>)))"

text \<open>\<open>create_directory\<close> and \<open>create_directories\<close>: true when a directory was made.\<close>

definition create_directory :: "fs \<Rightarrow> string \<Rightarrow> (bool \<times> fs) option" where
  "create_directory s p =
     (case walk s CreateNoFollow max_symlinks (if is_absolute p then [] else cwd s) (path_parts p) of
        Found q \<Rightarrow>
          (if node_at s q = None then
             (if can_write s (butlast q) then Some (True, set_node q Dir s) else None)
           else if is_directory s p = Some True then Some (False, s) else None)
      | _ \<Rightarrow> None)"

fun create_dirs_along :: "string \<Rightarrow> string list \<Rightarrow> bool \<Rightarrow> fs \<Rightarrow> (bool \<times> fs) option" where
  "create_dirs_along done_path [] made s = Some (made, s)"
| "create_dirs_along done_path (c # cs) made s =
     (case create_directory s (path_append done_path c) of
        None \<Rightarrow> None
      | Some (b, s') \<Rightarrow> create_dirs_along (path_append done_path c) cs (made \<or> b) s')"

definition create_directories :: "fs \<Rightarrow> string \<Rightarrow> (bool \<times> fs) option" where
  "create_directories s p =
     create_dirs_along (if is_absolute p then [sep] else []) (path_parts p) False s"

text \<open>\<open>copy_file\<close> (with or without \<open>overwrite_existing\<close>) and \<open>rename\<close>.\<close>

definition copy_file :: "fs \<Rightarrow> string \<Rightarrow> string \<Rightarrow> bool \<Rightarrow> fs option" where
  "copy_file s src dst overwrite =
     (case open_in s src of
        Some (q, c) \<Rightarrow>
          (if node_at s q = Some Dir then None
           else case fs_exists s dst of
             None \<Rightarrow> None
           | Some there \<Rightarrow>
               if there \<and> (\<not> overwrite \<or> locate s Follow dst = Found q)
                  \<or> \<not> overwrite \<and> is_symlink s dst = Some True then None
               else (case open_out s dst of
                       (Some r, s') \<Rightarrow> Some (append_file r c s')
                     | (None, _) \<Rightarrow> None))
      | None \<Rightarrow> None)"

definition rename_file :: "fs \<Rightarrow> string \<Rightarrow> string \<Rightarrow> fs option" where
  "rename_file s src dst =
     (case (locate s NoFollow src, locate s CreateNoFollow dst) of
        (Found q, Found r) \<Rightarrow>
          (case node_at s q of
             Some (File c) \<Rightarrow>
               if can_write s (butlast q) \<and> can_write s (butlast r) \<and> node_at s r \<noteq> Some Dir
               then Some (set_node r (File c) (if q = r then s else del_node q s)) else None
           | _ \<Rightarrow> None)
      | _ \<Rightarrow> None)"

section \<open>Path resolution, one component after another\<close>

lemma follows_simps [simp]: "follows Follow" "\<not> follows NoFollow" "\<not> creates Follow" "\<not> creates NoFollow"
  by (simp_all add: follows_def creates_def)

text \<open>How the last component, and the mode, matter to one hop.\<close>

lemma hop_Follow_Found [simp]: "hop s Follow n d c l \<noteq> Stop (Found q)"
  by (auto simp: hop_def split: option.splits node.splits nat.splits)

lemma hop_not_last: "hop s m n d c False = hop s Follow n d c l"
  by (auto simp: hop_def split: option.splits node.splits nat.splits)

lemma walk_Cons_Follow:
  assumes "walk s Follow n d (c # cs) = Found q"
  obtains n' d' pre where "hop s Follow n d c (cs = []) = Hop n' d' pre"
    "walk s Follow n' d' (pre @ cs) = Found q"
  using assms by (auto simp: walk.simps(2) split: hop.splits)

lemma walk_Cons_more:
  assumes "walk s m n d (c # cs) = Found q" "cs \<noteq> []"
  obtains n' d' pre where "hop s Follow n d c False = Hop n' d' pre"
    "walk s m n' d' (pre @ cs) = Found q"
  using assms hop_not_last [of s m n d c False] by (auto simp: walk.simps(2) split: hop.splits)

text \<open>
  A resolved prefix can be replaced by the directory it resolves to: the rest of the path is
  resolved from there with the symbolic links that are left.
\<close>

lemma walk_append:
  assumes "walk s Follow n d xs = Found b"
  shows "\<exists>n'. \<forall>m ys. ys \<noteq> [] \<or> m = Follow \<longrightarrow> walk s m n d (xs @ ys) = walk s m n' b ys"
  using assms
proof (induction s m \<equiv> Follow n d xs rule: walk.induct)
  case (1 s n d)
  then show ?case by auto
next
  case (2 s n d c cs)
  from "2.prems" obtain n1 d1 pre where h: "hop s Follow n d c (cs = []) = Hop n1 d1 pre"
    and w: "walk s Follow n1 d1 (pre @ cs) = Found b" by (rule walk_Cons_Follow)
  from "2.hyps" [OF h w] obtain n' where
    n': "\<And>m ys. ys \<noteq> [] \<or> m = Follow \<Longrightarrow> walk s m n1 d1 ((pre @ cs) @ ys) = walk s m n' b ys" by blast
  have "walk s m n d ((c # cs) @ ys) = walk s m n' b ys" if "ys \<noteq> [] \<or> m = Follow" for m ys
  proof -
    have "hop s m n d c (cs @ ys = []) = Hop n1 d1 pre"
      using that h hop_not_last [of s m n d c "cs = []"] hop_not_last [of s Follow n d c] by auto
    then show ?thesis using n' [OF that] by (simp add: walk.simps(2))
  qed
  then show ?case by blast
qed

text \<open>Every proper prefix of a path that resolves is itself a directory.\<close>

lemma walk_Cons_dir: "walk s m n d (c # cs) = Found q \<Longrightarrow> node_at s d = Some Dir"
  by (auto simp: walk.simps(2) hop_def split: if_splits)

lemma walk_prefix:
  assumes "walk s m n d (xs @ y # ys) = Found q"
  shows "\<exists>b. walk s Follow n d xs = Found b \<and> node_at s b = Some Dir"
  using assms
proof (induction s m n d "xs @ y # ys" arbitrary: xs rule: walk.induct)
  case (2 s m n d c cs)
  from "2.prems" "2.hyps"(2) have w: "walk s m n d (c # cs) = Found q" by simp
  show ?case
  proof (cases xs)
    case Nil
    then show ?thesis using walk_Cons_dir [OF w] by simp
  next
    case (Cons x xs')
    with "2.hyps"(2) have c: "x = c" "cs = xs' @ y # ys" by auto
    from c have "cs \<noteq> []" by simp
    with w obtain n1 d1 pre where h: "hop s Follow n d c False = Hop n1 d1 pre"
      and w1: "walk s m n1 d1 (pre @ cs) = Found q" by (rule walk_Cons_more)
    have hm: "hop s m n d c (cs = []) = Hop n1 d1 pre"
      using h hop_not_last [of s m n d c False] c by simp
    have "\<exists>b. walk s Follow n1 d1 (pre @ xs') = Found b \<and> node_at s b = Some Dir"
      using "2.hyps"(1) [OF hm, of "pre @ xs'"] w1 c by simp
    moreover have "hop s Follow n d c (xs' = []) = Hop n1 d1 pre"
      using h hop_not_last [of s Follow n d c] by simp
    ultimately show ?thesis by (simp add: Cons c walk.simps(2))
  qed
qed simp

text \<open>The physical path a resolution ends in is made of proper names.\<close>

lemma raw_parts_noslash: "c \<in> set (raw_parts t) \<Longrightarrow> sep \<notin> set c"
  by (auto simp: raw_parts_def dest: path_parts_ne split: if_splits)

lemma hop_proper:
  assumes "\<forall>c \<in> set d. proper c" "sep \<notin> set c"
  shows "hop s m n d c l = Stop (Found q) \<Longrightarrow> \<forall>c \<in> set q. proper c"
    and "hop s m n d c l = Hop n' d' pre \<Longrightarrow> (\<forall>c \<in> set d'. proper c) \<and> (\<forall>c \<in> set pre. sep \<notin> set c)"
  using assms raw_parts_noslash
  by (auto simp: hop_def proper_def split: if_splits option.splits node.splits nat.splits
      dest!: in_set_butlastD)

lemma walk_proper:
  assumes "walk s m n d cs = Found q" "\<forall>c \<in> set d. proper c" "\<forall>c \<in> set cs. sep \<notin> set c"
  shows "\<forall>c \<in> set q. proper c"
  using assms
proof (induction s m n d cs rule: walk.induct)
  case (2 s m n d c cs)
  show ?case
  proof (cases "hop s m n d c (cs = [])")
    case (Stop r)
    with "2.prems" hop_proper(1) show ?thesis by (auto simp: walk.simps(2))
  next
    case (Hop n1 d1 pre)
    with "2.prems" have "walk s m n1 d1 (pre @ cs) = Found q" by (simp add: walk.simps(2))
    moreover have "(\<forall>c \<in> set d1. proper c) \<and> (\<forall>c \<in> set pre. sep \<notin> set c)"
      using "2.prems" by (intro hop_proper(2) [OF _ _ Hop]) auto
    ultimately show ?thesis using "2.IH" [OF Hop] "2.prems"(3) by auto
  qed
qed auto

text \<open>Whether the last component is followed matters only when it is a symbolic link.\<close>

lemma walk_NoFollow:
  assumes "walk s Follow n d cs = Found r"
  shows "walk s NoFollow n d cs = Found r
       \<or> (\<exists>p t. walk s NoFollow n d cs = Found p \<and> node_at s p = Some (Symlink t))"
  using assms
proof (induction s m \<equiv> Follow n d cs rule: walk.induct)
  case (2 s n d c cs)
  from "2.prems" obtain n1 d1 pre where h: "hop s Follow n d c (cs = []) = Hop n1 d1 pre"
    and w: "walk s Follow n1 d1 (pre @ cs) = Found r" by (rule walk_Cons_Follow)
  note IH = "2.hyps" [OF h w]
  show ?case
  proof (cases "hop s NoFollow n d c (cs = []) = Hop n1 d1 pre")
    case True
    with IH show ?thesis by (simp add: walk.simps(2))
  next
    case False
    with h have "cs = []"
      using hop_not_last [of s NoFollow n d c] hop_not_last [of s Follow n d c] by (cases "cs = []") auto
    with h False have "\<exists>p t. hop s NoFollow n d c True = Stop (Found p) \<and> node_at s p = Some (Symlink t)"
      by (auto simp: hop_def split: if_split_asm option.splits node.splits nat.splits)
    with \<open>cs = []\<close> show ?thesis by (auto simp: walk.simps(2))
  qed
qed simp

lemma fs_remove_False: "fs_remove s p = Some (False, s') \<Longrightarrow> s' = s"
  by (auto simp: fs_remove_def split: walk_result.splits if_split_asm)

section \<open>Resolution below a directory, without symbolic links\<close>

lemma locate_path_of:
  "\<forall>c \<in> set ps. c \<noteq> [] \<and> sep \<notin> set c \<Longrightarrow> locate s m (path_of ps) = walk s m max_symlinks [] ps"
  by (simp add: locate_def raw_parts_path_of)

lemma locate_path_of_sep:
  "\<forall>c \<in> set ps. c \<noteq> [] \<and> sep \<notin> set c \<Longrightarrow> ps \<noteq> [] \<Longrightarrow>
     locate s m (path_of ps @ [sep]) = walk s m max_symlinks [] (ps @ [[]])"
  using is_absolute_path_of [of ps] by (simp add: locate_def raw_parts_path_of_sep is_absolute_def)

lemma exists_Found: "fs_exists s p = Some True \<longleftrightarrow> (\<exists>q. locate s Follow p = Found q \<and> node_at s q \<noteq> None)"
  by (auto simp: fs_exists_def status_def split: walk_result.splits)

lemma regular_Found:
  "is_regular_file s p = Some True \<longleftrightarrow> (\<exists>q c. locate s Follow p = Found q \<and> node_at s q = Some (File c))"
  by (auto simp: is_regular_file_def status_def split: walk_result.splits option.splits node.splits)

lemma directory_Found:
  "is_directory s p = Some True \<longleftrightarrow> (\<exists>q. locate s Follow p = Found q \<and> node_at s q = Some Dir)"
  by (auto simp: is_directory_def status_def split: walk_result.splits)

lemma root_exists [simp]: "fs_exists s [sep] = Some True"
  by (simp add: exists_Found locate_def is_absolute_def raw_parts_def node_at_def)

text \<open>One proper name below a directory: its entry, unless that is a link.\<close>

lemma walk_one_name:
  assumes "walk s Follow n b [x] = Found q" "proper x"
  shows "q = b @ [x] \<or> walk s NoFollow n' b [x] = Found (b @ [x])
           \<and> (\<exists>t. node_at s (b @ [x]) = Some (Symlink t))"
  using assms
  by (auto simp: walk.simps(2) hop_def proper_def split: if_splits option.splits node.splits nat.splits)

text \<open>
  \<open>link_free s bs b ns\<close>: the directory named by \<open>bs\<close> resolves to \<open>b\<close>, and no existing entry
  on the way from it down the names \<open>ns\<close> is a symbolic link.
\<close>

definition link_free :: "fs \<Rightarrow> string list \<Rightarrow> phys \<Rightarrow> string list \<Rightarrow> bool" where
  "link_free s bs b ns \<longleftrightarrow>
     locate s Follow (path_of bs) = Found b \<and> node_at s b = Some Dir
     \<and> (\<forall>c \<in> set bs. proper c) \<and> (\<forall>c \<in> set ns. proper c)
     \<and> (\<forall>i < length ns. fs_exists s (path_of (bs @ take (Suc i) ns)) = Some True
          \<longrightarrow> is_symlink s (path_of (bs @ take (Suc i) ns)) = Some False)"

lemma all_noslash: "link_free s bs b ns \<Longrightarrow> \<forall>c \<in> set (bs @ ns). c \<noteq> [] \<and> sep \<notin> set c"
  using proper_noslash by (auto simp: link_free_def)

lemma take_noslash: "link_free s bs b ns \<Longrightarrow> \<forall>c \<in> set (bs @ take i ns). c \<noteq> [] \<and> sep \<notin> set c"
  using all_noslash by (fastforce dest: in_set_takeD)

lemma base_walk: "link_free s bs b ns \<Longrightarrow> walk s Follow max_symlinks [] bs = Found b"
  using all_noslash [of s bs b ns] by (simp add: link_free_def locate_path_of)

lemma found_below:
  assumes lf: "link_free s bs b ns" and "i \<le> length ns" "fs_exists s (path_of (bs @ take i ns)) = Some True"
  shows "locate s Follow (path_of (bs @ take i ns)) = Found (b @ take i ns)"
  using assms(2,3)
proof (induction i)
  case 0
  then show ?case using lf by (simp add: link_free_def)
next
  case (Suc i)
  let ?x = "ns ! i"
  have tk: "take (Suc i) ns = take i ns @ [?x]" using Suc.prems(1) by (simp add: take_Suc_conv_app_nth)
  have px: "proper ?x" using lf Suc.prems(1) by (simp add: link_free_def)
  from Suc.prems(2) obtain q where "locate s Follow (path_of (bs @ take (Suc i) ns)) = Found q"
    by (auto simp: exists_Found)
  then have w: "walk s Follow max_symlinks [] ((bs @ take i ns) @ [?x]) = Found q"
    using take_noslash [OF lf, of "Suc i"] by (simp add: locate_path_of tk)
  obtain d where d: "walk s Follow max_symlinks [] (bs @ take i ns) = Found d" "node_at s d = Some Dir"
    using walk_prefix [OF w] by blast
  then have "locate s Follow (path_of (bs @ take i ns)) = Found d"
    using take_noslash [OF lf] by (simp add: locate_path_of)
  with d(2) Suc.IH Suc.prems(1) have deq: "d = b @ take i ns" by (auto simp: exists_Found)
  obtain n' where n': "\<And>m. walk s m max_symlinks [] ((bs @ take i ns) @ [?x]) = walk s m n' d [?x]"
    using walk_append [OF d(1)] by blast
  have "walk s Follow n' d [?x] = Found q" using w n' by simp
  then consider "q = d @ [?x]" | t where "walk s NoFollow n' d [?x] = Found (d @ [?x])"
      "node_at s (d @ [?x]) = Some (Symlink t)"
    using walk_one_name px by blast
  then show ?case
  proof cases
    case 1
    then show ?thesis using w take_noslash [OF lf, of "Suc i"] by (simp add: locate_path_of tk deq)
  next
    case 2
    then have "locate s NoFollow (path_of (bs @ take (Suc i) ns)) = Found (d @ [?x])"
      using n' take_noslash [OF lf, of "Suc i"] by (simp add: locate_path_of tk)
    then have "is_symlink s (path_of (bs @ take (Suc i) ns)) = Some True"
      using 2(2) by (simp add: is_symlink_def symlink_status_def)
    then show ?thesis using lf Suc.prems by (auto simp: link_free_def)
  qed
qed

lemma below_noslash:
  assumes "link_free s bs b ns"
  shows "\<forall>c \<in> set (b @ ns). c \<noteq> [] \<and> sep \<notin> set c"
proof -
  have "\<forall>c \<in> set b. proper c"
    using walk_proper [OF base_walk [OF assms]] all_noslash [OF assms] by simp
  then show ?thesis using assms proper_noslash by (auto simp: link_free_def)
qed

lemma base_prefix_exists:
  assumes "link_free s bs b ns" "i \<le> length bs"
  shows "fs_exists s (path_of (take i bs)) = Some True"
proof (cases "i = length bs")
  case True
  then show ?thesis using assms by (simp add: exists_Found link_free_def)
next
  case False
  with assms have "bs = take i bs @ bs ! i # drop (Suc i) bs" by (simp add: id_take_nth_drop)
  then have "walk s Follow max_symlinks [] (take i bs @ bs ! i # drop (Suc i) bs) = Found b"
    using base_walk [OF assms(1)] by simp
  then obtain d where "walk s Follow max_symlinks [] (take i bs) = Found d" "node_at s d = Some Dir"
    using walk_prefix by blast
  moreover have "\<forall>c \<in> set (take i bs). c \<noteq> [] \<and> sep \<notin> set c"
    using all_noslash [OF assms(1)] by (auto dest: in_set_takeD)
  ultimately show ?thesis by (simp add: exists_Found locate_path_of)
qed

section \<open>What \<open>weakly_canonical\<close> returns below a link-free directory\<close>

definition tail_sep :: "bool \<Rightarrow> string list" where
  "tail_sep tr = (if tr then [[]] else [])"

definition sep_if :: "bool \<Rightarrow> string" where
  "sep_if tr = (if tr then [sep] else [])"

lemma existing_prefix_names:
  assumes "existing_prefix s (path_of qs) (rs @ tail_sep tr) = Some (r, rest)"
    and "\<forall>c \<in> set (qs @ rs). c \<noteq> [] \<and> sep \<notin> set c"
  shows "(\<exists>i \<le> length rs. r = path_of (qs @ take i rs) \<and> rest = drop i rs @ tail_sep tr
            \<and> (0 < i \<longrightarrow> fs_exists s r = Some True)
            \<and> (i < length rs \<longrightarrow> fs_exists s (path_of (qs @ take (Suc i) rs)) = Some False))
       \<or> (tr \<and> fs_exists s (path_append (path_of (qs @ rs)) []) = Some True)"
  using assms
proof (induction rs arbitrary: qs)
  case Nil
  then show ?case by (auto simp: tail_sep_def split: option.splits bool.splits if_splits)
next
  case (Cons c rs)
  have a: "path_append (path_of qs) c = path_of (qs @ [c])"
    using Cons.prems(2) by (intro append_path_of) auto
  show ?case
  proof (cases "fs_exists s (path_of (qs @ [c]))")
    case None
    with Cons.prems(1) a show ?thesis by simp
  next
    case (Some ex)
    show ?thesis
    proof (cases ex)
      case False
      with Some Cons.prems(1) a show ?thesis by (intro disjI1 exI [of _ 0]) auto
    next
      case True
      with Some Cons.prems(1) a have "existing_prefix s (path_of (qs @ [c])) (rs @ tail_sep tr) = Some (r, rest)"
        by simp
      from Cons.IH [OF this] Cons.prems(2) consider
        i where "i \<le> length rs" "r = path_of ((qs @ [c]) @ take i rs)" "rest = drop i rs @ tail_sep tr"
          "0 < i \<longrightarrow> fs_exists s r = Some True"
          "i < length rs \<longrightarrow> fs_exists s (path_of ((qs @ [c]) @ take (Suc i) rs)) = Some False"
        | "tr \<and> fs_exists s (path_append (path_of ((qs @ [c]) @ rs)) []) = Some True" by auto
      then show ?thesis
      proof cases
        case 1
        then have "fs_exists s r = Some True" using Some True by (cases "i = 0") auto
        with 1 show ?thesis by (intro disjI1 exI [of _ "Suc i"]) auto
      qed simp
    qed
  qed
qed

lemma foldl_append_names:
  "\<forall>c \<in> set (qs @ rs). c \<noteq> [] \<and> sep \<notin> set c \<Longrightarrow> foldl path_append (path_of qs) rs = path_of (qs @ rs)"
  by (induction rs arbitrary: qs) (auto simp: append_path_of)

lemma append_empty_sep:
  assumes "\<forall>c \<in> set ps. c \<noteq> [] \<and> sep \<notin> set c" "ps \<noteq> []"
  shows "path_append (path_of ps) [] = path_of ps @ [sep]"
  using ends_sep_path_of [OF assms(1)] assms(2) by (simp add: path_append_def is_absolute_def)

lemma parts_path_of_append_empty:
  assumes "\<forall>c \<in> set ps. c \<noteq> [] \<and> sep \<notin> set c"
  shows "path_parts (foldl path_append (path_of ps) (tail_sep tr)) = ps
       \<and> is_absolute (foldl path_append (path_of ps) (tail_sep tr))"
proof (cases "ps = []")
  case True
  then show ?thesis
    by (auto simp: tail_sep_def path_append_def path_of_def is_absolute_def ends_sep_def)
next
  case False
  have "is_absolute (path_of ps @ [sep])" using is_absolute_path_of [of ps] by (simp add: is_absolute_def)
  then show ?thesis
    using append_empty_sep [OF assms False] assms
    by (auto simp: tail_sep_def parts_path_of path_parts_append)
qed

lemma lexically_normal_proper:
  assumes "is_absolute p" "\<forall>c \<in> set (path_parts p). proper c"
  shows "\<exists>t. lexically_normal p = path_of (path_parts p) @ sep_if t \<and> (t \<longrightarrow> path_parts p \<noteq> [])"
proof -
  have nd: "dotdot \<notin> set (path_parts p)" and f: "filter (\<lambda>c. c \<noteq> dot) (path_parts p) = path_parts p"
    using assms(2) by (auto simp: proper_def intro!: filter_True)
  then show ?thesis
    using lexically_normal_names [OF assms(1) nd] unfolding f sep_if_def by (metis append_Nil2)
qed

text \<open>The whole path, with or without a trailing separator.\<close>

lemma found_below_sep:
  assumes lf: "link_free s bs b ns" and ne: "tr \<Longrightarrow> bs @ ns \<noteq> []"
    and ex: "fs_exists s (path_of (bs @ ns) @ sep_if tr) = Some True"
    and r: "locate s Follow (path_of (bs @ ns) @ sep_if tr) = Found r"
  shows "r = b @ ns"
proof (cases tr)
  case False
  with ex r found_below [OF lf, of "length ns"] show ?thesis by (simp add: sep_if_def)
next
  case True
  note ns = all_noslash [OF lf]
  from True r ne have w: "walk s Follow max_symlinks [] ((bs @ ns) @ [[]]) = Found r"
    using locate_path_of_sep [OF ns] by (simp add: sep_if_def)
  then obtain d where d: "walk s Follow max_symlinks [] (bs @ ns) = Found d" "node_at s d = Some Dir"
    using walk_prefix by blast
  then have ld: "locate s Follow (path_of (bs @ ns)) = Found d" using ns by (simp add: locate_path_of)
  with d(2) have "fs_exists s (path_of (bs @ ns)) = Some True" by (simp add: exists_Found)
  with found_below [OF lf, of "length ns"] ld have "d = b @ ns" by simp
  moreover obtain n' where "walk s Follow n' d [[]] = Found r"
    using walk_append [OF d(1)] w by (metis list.distinct(1))
  then have "r = d" by (auto simp: walk.simps(2) hop_def split: if_splits)
  ultimately show ?thesis by simp
qed

lemma nofollow_below:
  assumes lf: "link_free s bs b ns" and ne: "ns \<noteq> []"
    and ex: "fs_exists s (path_of (bs @ ns) @ sep_if tr) = Some True"
  shows "locate s NoFollow (path_of (bs @ ns) @ sep_if tr) = Found (b @ ns)"
proof -
  note ns = all_noslash [OF lf]
  from ex obtain r where r: "locate s Follow (path_of (bs @ ns) @ sep_if tr) = Found r"
    by (auto simp: exists_Found)
  then have rb: "r = b @ ns" using found_below_sep [OF lf _ ex r] ne by simp
  have w: "walk s Follow max_symlinks [] ((bs @ ns) @ tail_sep tr) = Found (b @ ns)"
    using r ns ne locate_path_of [of "bs @ ns"] locate_path_of_sep [of "bs @ ns"]
    by (auto simp: rb sep_if_def tail_sep_def)
  have l: "locate s NoFollow (path_of (bs @ ns) @ sep_if tr)
             = walk s NoFollow max_symlinks [] ((bs @ ns) @ tail_sep tr)"
    using ns ne locate_path_of [of "bs @ ns"] locate_path_of_sep [of "bs @ ns"]
    by (auto simp: sep_if_def tail_sep_def)
  show ?thesis
  proof (cases tr)
    case True
    with w obtain d where d: "walk s Follow max_symlinks [] (bs @ ns) = Found d"
      using walk_prefix [of s Follow max_symlinks "[]" "bs @ ns" "[]" "[]"] by (auto simp: tail_sep_def)
    obtain n' where n': "\<And>m. walk s m max_symlinks [] ((bs @ ns) @ [[]]) = walk s m n' d [[]]"
      using walk_append [OF d] by blast
    have "walk s NoFollow n' d [[]] = walk s Follow n' d [[]]"
      by (simp add: walk.simps(2) hop_def)
    with n' w l True show ?thesis by (simp add: tail_sep_def)
  next
    case False
    then have ex': "fs_exists s (path_of (bs @ ns)) = Some True" using ex by (simp add: sep_if_def)
    have "is_symlink s (path_of (bs @ take (Suc (length ns - 1)) ns)) = Some False"
      using lf ne ex' unfolding link_free_def by (metis Suc_pred' diff_less length_greater_0_conv less_numeral_extra(1) take_all_iff order_refl)
    then have "is_symlink s (path_of (bs @ ns)) = Some False" using ne by simp
    with walk_NoFollow [OF w] l False ns show ?thesis
      by (auto simp: is_symlink_def symlink_status_def tail_sep_def sep_if_def split: walk_result.splits)
  qed
qed

text \<open>The main fact: the result names exactly the directory and the names below it.\<close>

lemma weakly_canonical_below:
  assumes lf: "link_free s bs b ns"
    and p: "p = path_of (bs @ ns) @ sep_if tr" "tr \<Longrightarrow> bs @ ns \<noteq> []"
    and q: "weakly_canonical s p = Some q"
  shows "\<exists>t. q = path_of (b @ ns) @ sep_if t \<and> (t \<longrightarrow> b @ ns \<noteq> [])"
proof -
  note ns = all_noslash [OF lf] and bn = below_noslash [OF lf]
  have bp: "\<forall>c \<in> set (b @ ns). proper c"
    using walk_proper [OF base_walk [OF lf]] ns lf by (auto simp: link_free_def)
  show ?thesis
  proof (cases "fs_exists s p = Some True")
    case True
    then obtain r where r: "locate s Follow p = Found r" by (auto simp: exists_Found)
    with True q have qr: "q = path_of r" by (simp add: weakly_canonical_def canonical_def)
    have "r = b @ ns" using found_below_sep [OF lf] True r p by blast
    with qr show ?thesis by (intro exI [of _ False]) (simp add: sep_if_def)
  next
    case False
    from q False have nex: "fs_exists s p = Some False"
      by (auto simp: weakly_canonical_def split: option.splits)
    have elems: "path_elems p = [sep] # (bs @ ns) @ tail_sep tr"
      using p ns raw_parts_path_of [of "bs @ ns"] raw_parts_path_of_sep [of "bs @ ns"]
        is_absolute_path_of [of "bs @ ns"]
      by (auto simp: path_elems_def sep_if_def tail_sep_def is_absolute_def)
    have "existing_prefix s [] (path_elems p) = existing_prefix s (path_of []) ((bs @ ns) @ tail_sep tr)"
      by (simp add: elems path_append_def is_absolute_def path_of_def)
    then obtain r rest c where ep: "existing_prefix s (path_of []) ((bs @ ns) @ tail_sep tr) = Some (r, rest)"
      and c: "(if r = [] then Some [] else canonical s r) = Some c"
      and qc: "q = lexically_normal (foldl path_append c rest)"
      using q nex by (auto simp: weakly_canonical_def split: option.splits if_splits)
    have "\<not> (tr \<and> fs_exists s (path_append (path_of ([] @ bs @ ns)) []) = Some True)"
      using nex p append_empty_sep [OF ns] by (auto simp: sep_if_def)
    then obtain i where i: "i \<le> length (bs @ ns)" "r = path_of (take i (bs @ ns))"
      "rest = drop i (bs @ ns) @ tail_sep tr" "0 < i \<longrightarrow> fs_exists s r = Some True"
      "i < length (bs @ ns) \<longrightarrow> fs_exists s (path_of (take (Suc i) (bs @ ns))) = Some False"
      using existing_prefix_names [OF ep] ns by auto
    have ib: "length bs \<le> i"
    proof (rule ccontr)
      assume "\<not> length bs \<le> i"
      then show False using base_prefix_exists [OF lf, of "Suc i"] i(5) by simp
    qed
    define j where "j = i - length bs"
    have rj: "r = path_of (bs @ take j ns)" "j \<le> length ns" "rest = drop j ns @ tail_sep tr"
      using i ib by (simp_all add: j_def)
    have "fs_exists s r = Some True" using i(2,4) by (cases "i = 0") (auto simp: path_of_def)
    then have "canonical s r = Some (path_of (b @ take j ns))"
      using found_below [OF lf rj(2)] rj(1) by (simp add: canonical_def)
    then have "c = path_of (b @ take j ns)" using c rj(1) by simp
    moreover have "foldl path_append (path_of (b @ take j ns)) (drop j ns) = path_of (b @ ns)"
      using foldl_append_names [of "b @ take j ns" "drop j ns"] bn by (auto dest: in_set_takeD in_set_dropD)
    ultimately have "q = lexically_normal (foldl path_append (path_of (b @ ns)) (tail_sep tr))"
      by (simp add: qc rj(3))
    then show ?thesis
      using parts_path_of_append_empty [OF bn, of tr] lexically_normal_proper bp by metis
  qed
qed

section \<open>What writing a file changes\<close>

lemma map_of_other: "p \<noteq> q \<Longrightarrow> map_of (filter (\<lambda>(r, _). r \<noteq> q) xs) p = map_of xs p"
  by (induction xs) auto

lemma node_at_set_node: "q \<noteq> [] \<Longrightarrow> node_at (set_node q n s) p = (if p = q then Some n else node_at s p)"
  by (simp add: node_at_def set_node_def map_of_other)

lemma node_at_append_file:
  "node_at s q = Some (File c) \<Longrightarrow> q \<noteq> [] \<Longrightarrow>
     node_at (append_file q d s) p = (if p = q then Some (File (c @ d)) else node_at s p)"
  by (auto simp: append_file_def node_at_set_node)

end
