(* ===== verification/Module.thy ===== *)
theory Module
  imports Filesystem "HOL-Library.Monad_Syntax"
begin

text \<open>
  A module (an exported directory) and its operations, from \<open>include/simple-rsyncd/core/module.hpp\<close>
  and \<open>src/simple-rsyncd/core/module.cpp\<close>: configuration, glob patterns, path resolution and its
  traversal checks, permission probes, listing, file information, creation, deletion and transfers.

  An operation returns \<^const>\<open>None\<close> when a \<open>filesystem_error\<close> leaves it; where the code has a
  \<open>try\<close> block the exception is caught as the code catches it.  Members that are left uninitialised
  by \<open>FileInfo info;\<close> (\<open>type\<close> and \<open>size\<close>) are options: \<^const>\<open>None\<close> is an indeterminate value.
  Clock readings, the mutexes and the declared but never defined helpers of \<open>class Module\<close> have no
  counterpart.
\<close>

section \<open>Data\<close>

record ModuleConfig =
  mc_name :: string
  mc_path :: string
  mc_comment :: string
  mc_read_only :: bool
  mc_list :: bool
  mc_allow_delete :: bool
  mc_overwrite :: bool
  mc_exclude_patterns :: "string list"
  mc_include_patterns :: "string list"
  mc_environment_variables :: "(string, string) std_map"
  mc_pre_transfer_script :: string
  mc_post_transfer_script :: string
  mc_pre_delete_script :: string
  mc_post_delete_script :: string
  mc_pre_list_script :: string
  mc_post_list_script :: string
  mc_allow_symlinks :: bool
  mc_allow_hardlinks :: bool
  mc_custom_options :: "(string, string) std_map"

definition default_ModuleConfig :: ModuleConfig where
  "default_ModuleConfig =
     \<lparr>mc_name = [], mc_path = [], mc_comment = [], mc_read_only = False, mc_list = True,
      mc_allow_delete = False, mc_overwrite = False, mc_exclude_patterns = [],
      mc_include_patterns = [], mc_environment_variables = [], mc_pre_transfer_script = [],
      mc_post_transfer_script = [], mc_pre_delete_script = [], mc_post_delete_script = [],
      mc_pre_list_script = [], mc_post_list_script = [], mc_allow_symlinks = False,
      mc_allow_hardlinks = False, mc_custom_options = []\<rparr>"

datatype file_type = regular | directory | symlink | not_found

record FileInfo =
  fi_name :: string
  fi_path :: string
  fi_relative_path :: string
  fi_type :: "file_type option"
  fi_size :: "size_t option"
  fi_is_symlink :: bool
  fi_is_hardlink :: bool
  fi_symlink_target :: string

definition default_FileInfo :: FileInfo where
  "default_FileInfo =
     \<lparr>fi_name = [], fi_path = [], fi_relative_path = [], fi_type = None, fi_size = None,
      fi_is_symlink = False, fi_is_hardlink = False, fi_symlink_target = []\<rparr>"

record DirectoryListing =
  dl_path :: string
  dl_files :: "FileInfo list"
  dl_directories :: "FileInfo list"
  dl_symlinks :: "FileInfo list"
  dl_other :: "FileInfo list"
  dl_total_files :: size_t
  dl_total_directories :: size_t
  dl_total_symlinks :: size_t
  dl_total_other :: size_t
  dl_total_size :: "size_t option"
  dl_recursive :: bool

definition default_DirectoryListing :: DirectoryListing where
  "default_DirectoryListing =
     \<lparr>dl_path = [], dl_files = [], dl_directories = [], dl_symlinks = [], dl_other = [],
      dl_total_files = 0, dl_total_directories = 0, dl_total_symlinks = 0, dl_total_other = 0,
      dl_total_size = Some 0, dl_recursive = False\<rparr>"

record TransferStats =
  bytes_transferred :: size_t
  files_transferred :: size_t
  directories_created :: size_t
  symlinks_created :: size_t
  hardlinks_created :: size_t
  failed_transfers :: size_t

definition reset_stats :: TransferStats where
  "reset_stats =
     \<lparr>bytes_transferred = 0, files_transferred = 0, directories_created = 0, symlinks_created = 0,
      hardlinks_created = 0, failed_transfers = 0\<rparr>"

record TransferResult =
  tr_success :: bool
  tr_error_message :: string
  tr_stats :: TransferStats
  tr_transferred_files :: "string list"
  tr_failed_files :: "string list"
  tr_skipped_files :: "string list"

definition default_TransferResult :: TransferResult where
  "default_TransferResult =
     \<lparr>tr_success = False, tr_error_message = [], tr_stats = reset_stats, tr_transferred_files = [],
      tr_failed_files = [], tr_skipped_files = []\<rparr>"

section \<open>Configuration queries and glob patterns\<close>

definition matchesPattern :: "string \<Rightarrow> string \<Rightarrow> bool" where
  "matchesPattern fname pattern =
     (if pattern = ''*'' then True
      else if pattern = fname then True
      else (case find_char (CHR ''*'') pattern of
              Some star_pos \<Rightarrow>
                (let prefix = take star_pos pattern;
                     suffix = drop (star_pos + 1) pattern
                 in if length fname < length prefix + length suffix then False
                    else take (length prefix) fname = prefix
                         \<and> drop (length fname - length suffix) fname = suffix)
            | None \<Rightarrow> False))"

definition isExcluded :: "ModuleConfig \<Rightarrow> string \<Rightarrow> bool" where
  "isExcluded cfg fname = list_ex (matchesPattern fname) (mc_exclude_patterns cfg)"

definition isIncluded :: "ModuleConfig \<Rightarrow> string \<Rightarrow> bool" where
  "isIncluded cfg fname =
     (if mc_include_patterns cfg = [] then True
      else list_ex (matchesPattern fname) (mc_include_patterns cfg))"

definition getEnvironmentVariable :: "ModuleConfig \<Rightarrow> string \<Rightarrow> string \<Rightarrow> string" where
  "getEnvironmentVariable cfg name default_value =
     (case std_find (mc_environment_variables cfg) name of Some v \<Rightarrow> v | None \<Rightarrow> default_value)"

definition getCustomOption :: "ModuleConfig \<Rightarrow> string \<Rightarrow> string \<Rightarrow> string" where
  "getCustomOption cfg name default_value =
     (case std_find (mc_custom_options cfg) name of Some v \<Rightarrow> v | None \<Rightarrow> default_value)"

definition isReadOnly :: "ModuleConfig \<Rightarrow> bool" where "isReadOnly cfg = mc_read_only cfg"
definition allowsListing :: "ModuleConfig \<Rightarrow> bool" where "allowsListing cfg = mc_list cfg"
definition allowsDeletion :: "ModuleConfig \<Rightarrow> bool" where "allowsDeletion cfg = mc_allow_delete cfg"
definition allowsOverwriting :: "ModuleConfig \<Rightarrow> bool" where "allowsOverwriting cfg = mc_overwrite cfg"

section \<open>Path resolution\<close>

text \<open>
  The loop over the components of the requested path when symbolic links are not allowed: true
  when it runs to its end, false when it returns the empty string.
\<close>

fun symlink_scan :: "fs \<Rightarrow> string \<Rightarrow> string list \<Rightarrow> bool option" where
  "symlink_scan s walk_path [] = Some True"
| "symlink_scan s walk_path (part # parts) =
     (if part = dot \<or> part = [] then symlink_scan s walk_path parts
      else if part = dotdot then Some False
      else let w = path_append walk_path part in
        (case fs_exists s w of
           None \<Rightarrow> None
         | Some False \<Rightarrow> symlink_scan s w parts
         | Some True \<Rightarrow>
             (case is_symlink s w of
                None \<Rightarrow> None
              | Some True \<Rightarrow> Some False
              | Some False \<Rightarrow> symlink_scan s w parts)))"

definition resolvePath :: "fs \<Rightarrow> ModuleConfig \<Rightarrow> string \<Rightarrow> string option" where
  "resolvePath s cfg path =
     (if path = [] then Some (mc_path cfg)
      else
        let base_path = mc_path cfg;
            resolved = lexically_normal (path_append base_path path)
        in do {
          base_absolute \<leftarrow> fs_absolute s base_path;
          resolved_absolute \<leftarrow> fs_absolute s resolved;
          if \<not> starts_with base_absolute resolved_absolute then Some []
          else if contains_sub dotdot resolved_absolute then Some []
          else do {
            clean \<leftarrow> (if mc_allow_symlinks cfg then Some True
                       else symlink_scan s base_absolute (path_elems path));
            if \<not> clean then Some []
            else (case (weakly_canonical s resolved_absolute, weakly_canonical s base_absolute) of
                    (Some canonical_str, Some base_canonical_str) \<Rightarrow>
                      if \<not> starts_with base_canonical_str canonical_str then Some []
                      else Some canonical_str
                  | _ \<Rightarrow> Some resolved_absolute)
          }
        })"

definition validatePath :: "fs \<Rightarrow> ModuleConfig \<Rightarrow> string \<Rightarrow> bool option" where
  "validatePath s cfg path =
     (if path = [] then Some False
      else do {
        resolved \<leftarrow> resolvePath s cfg path;
        if resolved = [] then Some False
        else do {
          there \<leftarrow> fs_exists s resolved;
          Some (there \<and> \<not> isExcluded cfg (filename path) \<and> isIncluded cfg (filename path))
        }
      })"

definition isPathAllowed :: "fs \<Rightarrow> ModuleConfig \<Rightarrow> string \<Rightarrow> bool option" where
  "isPathAllowed s cfg path = validatePath s cfg path"

definition sanitizePath :: "fs \<Rightarrow> ModuleConfig \<Rightarrow> string \<Rightarrow> string option" where
  "sanitizePath s cfg path = resolvePath s cfg path"

definition normalizePath :: "fs \<Rightarrow> ModuleConfig \<Rightarrow> string \<Rightarrow> string option" where
  "normalizePath s cfg path = sanitizePath s cfg path"

definition isPathTraversal :: "fs \<Rightarrow> ModuleConfig \<Rightarrow> string \<Rightarrow> bool option" where
  "isPathTraversal s cfg path =
     (if contains_sub dotdot path then Some True
      else if contains_sub ''/../'' path then Some True
      else if starts_with ''../'' path then Some True
      else do { resolved \<leftarrow> resolvePath s cfg path; Some (resolved = []) })"

definition isPathSafe :: "fs \<Rightarrow> ModuleConfig \<Rightarrow> string \<Rightarrow> bool option" where
  "isPathSafe s cfg path = do {
     traversal \<leftarrow> isPathTraversal s cfg path;
     if traversal then Some False
     else do { resolved \<leftarrow> resolvePath s cfg path; Some (resolved \<noteq> []) }
   }"

section \<open>Permission probes\<close>

definition checkReadPermission :: "fs \<Rightarrow> ModuleConfig \<Rightarrow> string \<Rightarrow> bool option" where
  "checkReadPermission s cfg path = do {
     resolved \<leftarrow> resolvePath s cfg path;
     if resolved = [] then Some False
     else do {
       there \<leftarrow> fs_exists s resolved;
       if \<not> there then Some False
       else do {
         dir \<leftarrow> is_directory s resolved;
         if dir then Some True
         else do {
           file \<leftarrow> is_regular_file s resolved;
           Some (file \<and> open_in s resolved \<noteq> None)
         }
       }
     }
   }"

text \<open>The write probe creates, closes and removes \<open>.rsyncd_write_test\<close>.\<close>

definition checkWritePermission :: "fs \<Rightarrow> ModuleConfig \<Rightarrow> string \<Rightarrow> (bool \<times> fs) option" where
  "checkWritePermission s cfg path =
     (if isReadOnly cfg then Some (False, s)
      else do {
        resolved \<leftarrow> resolvePath s cfg path;
        if resolved = [] then Some (False, s)
        else do {
          there \<leftarrow> (if parent_path resolved = [] then Some False else fs_exists s (parent_path resolved));
          let parent_dir = (if there then parent_path resolved else mc_path cfg);
              test_path = path_append parent_dir ''.rsyncd_write_test'';
              (test, s1) = open_out s test_path
          in case test of
               None \<Rightarrow> Some (False, s1)
             | Some _ \<Rightarrow> do { (_, s2) \<leftarrow> fs_remove s1 test_path; Some (True, s2) }
        }
      })"

definition checkDeletePermission :: "fs \<Rightarrow> ModuleConfig \<Rightarrow> string \<Rightarrow> bool option" where
  "checkDeletePermission s cfg path =
     (if \<not> allowsDeletion cfg then Some False
      else if isReadOnly cfg then Some False
      else do {
        resolved \<leftarrow> resolvePath s cfg path;
        if resolved = [] then Some False else fs_exists s resolved
      })"

definition checkFilePermissions :: "fs \<Rightarrow> ModuleConfig \<Rightarrow> string \<Rightarrow> string \<Rightarrow> (bool \<times> fs) option" where
  "checkFilePermissions s cfg path operation = do {
     resolved \<leftarrow> resolvePath s cfg path;
     there \<leftarrow> (if resolved = [] then Some False else fs_exists s resolved);
     if \<not> there then Some (False, s)
     else if operation = ''read'' then do { b \<leftarrow> checkReadPermission s cfg path; Some (b, s) }
     else if operation = ''write'' then checkWritePermission s cfg path
     else if operation = ''delete'' then do { b \<leftarrow> checkDeletePermission s cfg path; Some (b, s) }
     else Some (False, s)
   }"

section \<open>Queries\<close>

definition fileExists :: "fs \<Rightarrow> ModuleConfig \<Rightarrow> string \<Rightarrow> bool option" where
  "fileExists s cfg path =
     (if path = [] then Some False
      else do {
        full_path \<leftarrow> resolvePath s cfg path;
        if full_path = [] then Some False
        else do {
          safe \<leftarrow> isPathSafe s cfg path;
          if \<not> safe then Some False
          else do {
            there \<leftarrow> fs_exists s full_path;
            if \<not> there then Some False else is_regular_file s full_path
          }
        }
      })"

definition directoryExists :: "fs \<Rightarrow> ModuleConfig \<Rightarrow> string \<Rightarrow> bool option" where
  "directoryExists s cfg path =
     (if path = [] then Some False
      else do {
        full_path \<leftarrow> resolvePath s cfg path;
        if full_path = [] then Some False
        else do {
          safe \<leftarrow> isPathSafe s cfg path;
          if \<not> safe then Some False
          else do {
            there \<leftarrow> fs_exists s full_path;
            if \<not> there then Some False else is_directory s full_path
          }
        }
      })"

text \<open>The type and the size that \<open>status\<close> and \<open>file_size\<close> report.\<close>

definition type_of_node :: "node option \<Rightarrow> file_type" where
  "type_of_node n = (case n of None \<Rightarrow> not_found | Some (File _) \<Rightarrow> regular
                     | Some Dir \<Rightarrow> directory | Some (Symlink _) \<Rightarrow> symlink)"

definition size_of_node :: "node option \<Rightarrow> size_t" where
  "size_of_node n = (case n of Some (File c) \<Rightarrow> word_of_nat (length c) | _ \<Rightarrow> 0)"

definition getFileInfo :: "fs \<Rightarrow> ModuleConfig \<Rightarrow> string \<Rightarrow> FileInfo option" where
  "getFileInfo s cfg path = do {
     readable \<leftarrow> checkReadPermission s cfg path;
     if \<not> readable then Some default_FileInfo
     else do {
       full_path \<leftarrow> resolvePath s cfg path;
       safe \<leftarrow> (if full_path = [] then Some False else isPathSafe s cfg path);
       if \<not> safe then Some default_FileInfo
       else Some (case locate s Follow full_path of
              Found q \<Rightarrow>
                if node_at s q = None then default_FileInfo
                else let lnk = (is_symlink s full_path = Some True) in
                  \<lparr>fi_name = filename full_path,
                   fi_path = full_path,
                   fi_relative_path = path,
                   fi_type = Some (type_of_node (node_at s q)),
                   fi_size = Some (size_of_node (node_at s q)),
                   fi_is_symlink = lnk,
                   fi_is_hardlink = (type_of_node (node_at s q) = regular \<and> links s q > 1),
                   fi_symlink_target =
                     (case locate s NoFollow full_path of
                        Found l \<Rightarrow> (case node_at s l of Some (Symlink t) \<Rightarrow> if lnk then t else [] | _ \<Rightarrow> [])
                      | _ \<Rightarrow> [])\<rparr>
            | _ \<Rightarrow> default_FileInfo)
     }
   }"

text \<open>
  Iterating a directory.  The iterator throws when a directory may not be read; the entries seen
  before that are kept by the enclosing \<open>catch\<close>.  Recursive iteration does not enter symbolic
  links; its depth is bounded by the depth of the file system.
\<close>

definition dir_iter :: "fs \<Rightarrow> string \<Rightarrow> phys \<Rightarrow> string list \<times> bool" where
  "dir_iter s p d =
     (if \<not> can_read s d then ([], False)
      else (map (\<lambda>c. path_append p (last c)) (children s d), True))"

primrec rec_iter :: "nat \<Rightarrow> fs \<Rightarrow> string \<Rightarrow> phys \<Rightarrow> string list \<times> bool" where
  "rec_iter 0 s p d = ([], True)"
| "rec_iter (Suc k) s p d =
     (if \<not> can_read s d then ([], False)
      else foldl (\<lambda>(acc, go) c.
             if \<not> go then (acc, False)
             else let cp = path_append p (last c);
                      (sub, go') = (if node_at s c = Some Dir then rec_iter k s cp c else ([], True))
                  in (acc @ cp # sub, go')) ([], True) (children s d))"

text \<open>\<open>std::filesystem::relative\<close> for the paths of a listing.\<close>

fun drop_common :: "string list \<Rightarrow> string list \<Rightarrow> string list \<times> string list" where
  "drop_common (x # xs) (y # ys) = (if x = y then drop_common xs ys else (x # xs, y # ys))"
| "drop_common xs ys = (xs, ys)"

definition relative :: "fs \<Rightarrow> string \<Rightarrow> string \<Rightarrow> string option" where
  "relative s p base = do {
     p' \<leftarrow> weakly_canonical s p;
     b' \<leftarrow> weakly_canonical s base;
     let (xs, ys) = drop_common (path_parts p') (path_parts b')
     in Some (if xs = [] \<and> ys = [] then dot else join_sep (replicate (length ys) dotdot @ xs))
   }"

text \<open>\<open>addFileInfo\<close>: an entry whose queries throw is skipped.\<close>

definition add_size :: "size_t option \<Rightarrow> size_t option \<Rightarrow> size_t option" where
  "add_size a b = (case (a, b) of (Some x, Some y) \<Rightarrow> Some (x + y) | _ \<Rightarrow> None)"

definition addFileInfo :: "fs \<Rightarrow> string \<Rightarrow> string \<Rightarrow> DirectoryListing \<Rightarrow> DirectoryListing" where
  "addFileInfo s entry base_path listing =
     (case (status s entry, relative s entry base_path, is_symlink s entry) of
        (Some st, Some rel, Some lnk) \<Rightarrow>
          (let info = default_FileInfo\<lparr>fi_path := entry, fi_relative_path := rel,
                        fi_name := filename entry, fi_type := Some (type_of_node st)\<rparr>
           in case st of
                Some (File c) \<Rightarrow>
                  (let info = info\<lparr>fi_size := Some (word_of_nat (length c))\<rparr>
                   in listing\<lparr>dl_files := dl_files listing @ [info],
                        dl_total_files := dl_total_files listing + 1,
                        dl_total_size := add_size (dl_total_size listing) (fi_size info)\<rparr>)
              | Some Dir \<Rightarrow>
                  listing\<lparr>dl_directories := dl_directories listing @ [info],
                    dl_total_directories := dl_total_directories listing + 1,
                    dl_total_size := add_size (dl_total_size listing) (fi_size info)\<rparr>
              | _ \<Rightarrow>
                  (if lnk then
                     (let info = info\<lparr>fi_is_symlink := True\<rparr>
                      in listing\<lparr>dl_symlinks := dl_symlinks listing @ [info],
                           dl_total_symlinks := dl_total_symlinks listing + 1,
                           dl_total_size := add_size (dl_total_size listing) (fi_size info)\<rparr>)
                   else listing\<lparr>dl_other := dl_other listing @ [info],
                          dl_total_other := dl_total_other listing + 1,
                          dl_total_size := add_size (dl_total_size listing) (fi_size info)\<rparr>))
      | _ \<Rightarrow> listing)"

definition listDirectory :: "fs \<Rightarrow> ModuleConfig \<Rightarrow> string \<Rightarrow> bool \<Rightarrow> DirectoryListing option" where
  "listDirectory s cfg path recursive =
     (let listing = default_DirectoryListing\<lparr>dl_path := path, dl_recursive := recursive\<rparr>
      in do {
        readable \<leftarrow> checkReadPermission s cfg path;
        if \<not> readable then Some listing
        else do {
          full_path \<leftarrow> resolvePath s cfg path;
          safe \<leftarrow> (if full_path = [] then Some False else isPathSafe s cfg path);
          if \<not> safe then Some listing
          else Some (case locate s Follow full_path of
                 Found d \<Rightarrow>
                   if node_at s d \<noteq> Some Dir then listing
                   else foldl (\<lambda>l entry. addFileInfo s entry full_path l) listing
                          (fst (if recursive then rec_iter (Suc (max_depth s)) s full_path d
                                else dir_iter s full_path d))
               | _ \<Rightarrow> listing)
        }
      })"

section \<open>Operations that change the file system\<close>

definition createDirectory :: "fs \<Rightarrow> ModuleConfig \<Rightarrow> string \<Rightarrow> bool \<Rightarrow> (bool \<times> fs) option" where
  "createDirectory s cfg path recursive =
     (if isReadOnly cfg then Some (False, s)
      else do {
        (writable, s1) \<leftarrow> checkWritePermission s cfg path;
        if \<not> writable then Some (False, s1)
        else do {
          full_path \<leftarrow> resolvePath s1 cfg path;
          if full_path = [] then Some (False, s1)
          else do {
            safe \<leftarrow> isPathSafe s1 cfg path;
            if \<not> safe then Some (False, s1)
            else (case (if recursive then create_directories s1 full_path
                        else create_directory s1 full_path) of
                    None \<Rightarrow> Some (False, s1)
                  | Some r \<Rightarrow> Some r)
          }
        }
      })"

definition deleteFile :: "fs \<Rightarrow> ModuleConfig \<Rightarrow> string \<Rightarrow> (bool \<times> fs) option" where
  "deleteFile s cfg path =
     (if isReadOnly cfg \<or> \<not> allowsDeletion cfg then Some (False, s)
      else do {
        deletable \<leftarrow> checkDeletePermission s cfg path;
        if \<not> deletable then Some (False, s)
        else do {
          full_path \<leftarrow> resolvePath s cfg path;
          if full_path = [] then Some (False, s)
          else do {
            safe \<leftarrow> isPathSafe s cfg path;
            if \<not> safe then Some (False, s)
            else (case is_regular_file s full_path of
                    Some True \<Rightarrow> (case fs_remove s full_path of None \<Rightarrow> Some (False, s) | Some r \<Rightarrow> Some r)
                  | _ \<Rightarrow> Some (False, s))
          }
        }
      })"

definition deleteDirectory :: "fs \<Rightarrow> ModuleConfig \<Rightarrow> string \<Rightarrow> bool \<Rightarrow> (bool \<times> fs) option" where
  "deleteDirectory s cfg path recursive =
     (if isReadOnly cfg \<or> \<not> allowsDeletion cfg then Some (False, s)
      else do {
        deletable \<leftarrow> checkDeletePermission s cfg path;
        if \<not> deletable then Some (False, s)
        else do {
          full_path \<leftarrow> resolvePath s cfg path;
          if full_path = [] then Some (False, s)
          else do {
            safe \<leftarrow> isPathSafe s cfg path;
            if \<not> safe then Some (False, s)
            else if recursive then
              (case fs_remove_all s full_path of
                 None \<Rightarrow> Some (False, s) | Some (n, s') \<Rightarrow> Some (n > 0, s'))
            else (case fs_remove s full_path of None \<Rightarrow> Some (False, s) | Some r \<Rightarrow> Some r)
          }
        }
      })"

text \<open>The part of both transfers inside their \<open>try\<close>: make the parent directory, copy.\<close>

definition copy_into :: "fs \<Rightarrow> string \<Rightarrow> string \<Rightarrow> bool \<Rightarrow> fs option" where
  "copy_into s src dst overwrite = do {
     let parent = parent_path dst;
     there \<leftarrow> (if parent = [] then Some True else fs_exists s parent);
     s1 \<leftarrow> (if there then Some s else map_option snd (create_directories s parent));
     copy_file s1 src dst overwrite
   }"

definition copied_result :: "string \<Rightarrow> fs option \<Rightarrow> fs \<Rightarrow> TransferResult \<times> fs" where
  "copied_result remote_path copied s =
     (case copied of
        Some s' \<Rightarrow> (default_TransferResult\<lparr>tr_success := True,
                     tr_stats := reset_stats\<lparr>files_transferred := 1\<rparr>,
                     tr_transferred_files := [remote_path]\<rparr>, s')
      | None \<Rightarrow> (default_TransferResult\<lparr>tr_error_message := what_text s,
                   tr_stats := reset_stats\<lparr>failed_transfers := 1\<rparr>,
                   tr_failed_files := [remote_path]\<rparr>, s))"

definition transferFile ::
  "fs \<Rightarrow> ModuleConfig \<Rightarrow> string \<Rightarrow> string \<Rightarrow> bool \<Rightarrow> (TransferResult \<times> fs) option" where
  "transferFile s cfg local_path remote_path overwrite =
     (if isReadOnly cfg then
        Some (default_TransferResult\<lparr>tr_error_message := ''Module is read-only''\<rparr>, s)
      else do {
        (writable, s1) \<leftarrow> checkWritePermission s cfg remote_path;
        if \<not> writable then
          Some (default_TransferResult\<lparr>tr_error_message := ''Write permission denied''\<rparr>, s1)
        else do {
          there \<leftarrow> (if overwrite then Some False else fileExists s1 cfg remote_path);
          if there then
            Some (default_TransferResult\<lparr>tr_error_message :=
                    ''File already exists and overwrite not allowed''\<rparr>, s1)
          else do {
            full_remote_path \<leftarrow> resolvePath s1 cfg remote_path;
            safe \<leftarrow> (if full_remote_path = [] then Some False else isPathSafe s1 cfg remote_path);
            if \<not> safe then
              Some (default_TransferResult\<lparr>tr_error_message :=
                      ''Invalid path or path outside module root''\<rparr>, s1)
            else Some (copied_result remote_path (copy_into s1 local_path full_remote_path overwrite) s1)
          }
        }
      })"

definition receiveFile ::
  "fs \<Rightarrow> ModuleConfig \<Rightarrow> string \<Rightarrow> string \<Rightarrow> (TransferResult \<times> fs) option" where
  "receiveFile s cfg remote_path local_path = do {
     readable \<leftarrow> checkReadPermission s cfg remote_path;
     if \<not> readable then
       Some (default_TransferResult\<lparr>tr_error_message := ''Read permission denied''\<rparr>, s)
     else do {
       full_remote_path \<leftarrow> resolvePath s cfg remote_path;
       safe \<leftarrow> (if full_remote_path = [] then Some False else isPathSafe s cfg remote_path);
       there \<leftarrow> (if safe then fileExists s cfg remote_path else Some False);
       if \<not> there then
         Some (default_TransferResult\<lparr>tr_error_message := ''File does not exist or invalid path''\<rparr>, s)
       else Some (copied_result remote_path (copy_into s full_remote_path local_path True) s)
     }
   }"

section \<open>Validation\<close>

definition module_validate :: "fs \<Rightarrow> ModuleConfig \<Rightarrow> bool option" where
  "module_validate s cfg =
     (if mc_path cfg = [] then Some False
      else do {
        there \<leftarrow> fs_exists s (mc_path cfg);
        if \<not> there then Some False else is_directory s (mc_path cfg)
      })"

definition module_getErrors :: "fs \<Rightarrow> ModuleConfig \<Rightarrow> string list option" where
  "module_getErrors s cfg =
     (if mc_path cfg = [] then Some [''Module path is empty'']
      else do {
        there \<leftarrow> fs_exists s (mc_path cfg);
        if \<not> there then Some [''Module path does not exist: '' @ mc_path cfg]
        else do {
          dir \<leftarrow> is_directory s (mc_path cfg);
          Some (if \<not> dir then [''Module path is not a directory: '' @ mc_path cfg] else [])
        }
      })"

definition module_reload :: "fs \<Rightarrow> ModuleConfig \<Rightarrow> bool option" where
  "module_reload s cfg = module_validate s cfg"

section \<open>Confinement lemmas\<close>

text \<open>The components a requested path adds below the module root.\<close>

definition below :: "string \<Rightarrow> string list" where
  "below path = filter (\<lambda>c. c \<noteq> dot) (path_parts path)"

lemma symlink_scan_names:
  assumes "symlink_scan s (path_of qs) parts = Some True"
    and "\<forall>c \<in> set qs. c \<noteq> [] \<and> sep \<notin> set c" "\<forall>c \<in> set parts. sep \<notin> set c"
  defines "ns \<equiv> filter (\<lambda>c. c \<noteq> dot \<and> c \<noteq> []) parts"
  shows "dotdot \<notin> set parts \<and>
    (\<forall>i < length ns. fs_exists s (path_of (qs @ take (Suc i) ns)) = Some True
        \<longrightarrow> is_symlink s (path_of (qs @ take (Suc i) ns)) = Some False)"
  using assms(1,2,3) unfolding ns_def
proof (induction parts arbitrary: qs)
  case (Cons c parts)
  show ?case
  proof (cases "c = dot \<or> c = []")
    case True
    with Cons show ?thesis by auto
  next
    case False
    with Cons.prems have nd: "c \<noteq> dotdot" by auto
    have a: "path_append (path_of qs) c = path_of (qs @ [c])"
      using Cons.prems False by (intro append_path_of) auto
    have rec: "symlink_scan s (path_of (qs @ [c])) parts = Some True"
      and here: "fs_exists s (path_of (qs @ [c])) = Some True \<longrightarrow> is_symlink s (path_of (qs @ [c])) = Some False"
      using Cons.prems(1) False nd a by (auto simp: Let_def split: option.splits bool.splits)
    have IH: "dotdot \<notin> set parts \<and>
      (\<forall>i < length (filter (\<lambda>c. c \<noteq> dot \<and> c \<noteq> []) parts).
         fs_exists s (path_of ((qs @ [c]) @ take (Suc i) (filter (\<lambda>c. c \<noteq> dot \<and> c \<noteq> []) parts))) = Some True
        \<longrightarrow> is_symlink s (path_of ((qs @ [c]) @ take (Suc i) (filter (\<lambda>c. c \<noteq> dot \<and> c \<noteq> []) parts))) = Some False)"
      using rec Cons.prems False by (intro Cons.IH) auto
    show ?thesis
    proof (intro conjI allI impI)
      show "dotdot \<notin> set (c # parts)" using IH nd by simp
    next
      fix i
      assume i: "i < length (filter (\<lambda>c. c \<noteq> dot \<and> c \<noteq> []) (c # parts))"
        and ex: "fs_exists s (path_of (qs @ take (Suc i) (filter (\<lambda>c. c \<noteq> dot \<and> c \<noteq> []) (c # parts)))) = Some True"
      show "is_symlink s (path_of (qs @ take (Suc i) (filter (\<lambda>c. c \<noteq> dot \<and> c \<noteq> []) (c # parts)))) = Some False"
      proof (cases i)
        case 0
        with here ex False show ?thesis by simp
      next
        case (Suc k)
        with IH i ex False show ?thesis by simp
      qed
    qed
  qed
qed simp

lemma below_elems:
  assumes "\<not> is_absolute path"
  shows "filter (\<lambda>c. c \<noteq> dot \<and> c \<noteq> []) (path_elems path) = below path"
    and "\<forall>c \<in> set (path_elems path). sep \<notin> set c"
    and "dotdot \<in> set (path_elems path) \<longleftrightarrow> dotdot \<in> set (path_parts path)"
  using assms path_parts_ne [of _ path]
  by (auto simp: path_elems_def raw_parts_def below_def intro!: filter_cong)

lemma below_proper: "dotdot \<notin> set (path_parts path) \<Longrightarrow> \<forall>c \<in> set (below path). proper c"
  by (auto simp: below_def proper_def dest: path_parts_ne)

lemma append_relative_parts:
  assumes "\<not> is_absolute path" "path \<noteq> []" "\<forall>c \<in> set bs. c \<noteq> [] \<and> sep \<notin> set c"
  shows "is_absolute (path_append (path_of bs) path) \<and>
         path_parts (path_append (path_of bs) path) = bs @ path_parts path"
proof (cases "bs = []")
  case True
  then show ?thesis using assms(1,2)
    by (simp add: path_append_def path_of_def ends_sep_def is_absolute_def)
next
  case False
  then have "path_append (path_of bs) path = path_of bs @ sep # path"
    using assms ends_sep_path_of [OF assms(3)] by (simp add: path_append_def)
  then show ?thesis using assms(3) is_absolute_path_of [of bs]
    by (simp add: path_parts_append parts_path_of is_absolute_def)
qed

end
