(* ===== verification/Confinement.thy ===== *)
theory Confinement
  imports Module
begin

text \<open>
  What the checks of \<open>FileSystemModule\<close> achieve: a requested path that \<open>resolvePath\<close> accepts names
  an entry below the module root, the queries answer only about such entries, the operations
  keep to the module's permission flags, and a glob pattern means what its text says.  The last
  section states where the checks stop short.
\<close>

section \<open>Accepted paths\<close>

lemma resolvePath_cases:
  assumes "resolvePath s cfg path = Some q" "q \<noteq> []" "path \<noteq> []"
  obtains ba ra where "fs_absolute s (mc_path cfg) = Some ba"
    "fs_absolute s (lexically_normal (path_append (mc_path cfg) path)) = Some ra"
    "starts_with ba ra" "\<not> contains_sub dotdot ra"
    "mc_allow_symlinks cfg \<or> symlink_scan s ba (path_elems path) = Some True"
    "weakly_canonical s ra = Some q \<or> q = ra"
proof -
  from assms obtain ba ra c where a: "fs_absolute s (mc_path cfg) = Some ba"
      "fs_absolute s (lexically_normal (path_append (mc_path cfg) path)) = Some ra"
    and p: "starts_with ba ra" "\<not> contains_sub dotdot ra"
    and c: "(if mc_allow_symlinks cfg then Some True else symlink_scan s ba (path_elems path)) = Some c" "c"
    and r: "(case (weakly_canonical s ra, weakly_canonical s ba) of
                    (Some canonical_str, Some base_canonical_str) \<Rightarrow>
                      if \<not> starts_with base_canonical_str canonical_str then Some []
                      else Some canonical_str
                  | _ \<Rightarrow> Some ra) = Some q"
    unfolding resolvePath_def Let_def
    by (auto simp: bind_eq_Some_conv simp del: split_paired_Ex split: if_split_asm)
  from r assms(2) have "weakly_canonical s ra = Some q \<or> q = ra"
    by (simp split: option.splits if_split_asm)
  with a p c that show ?thesis by (simp split: if_split_asm)
qed

text \<open>A module root given as an absolute path of proper names that leads to a directory.\<close>

definition root_at :: "fs \<Rightarrow> ModuleConfig \<Rightarrow> string list \<Rightarrow> phys \<Rightarrow> bool" where
  "root_at s cfg bs b \<longleftrightarrow> mc_path cfg = path_of bs \<and> (\<forall>c \<in> set bs. proper c)
     \<and> locate s Follow (path_of bs) = Found b \<and> node_at s b = Some Dir"

lemma resolved_below:
  assumes root: "root_at s cfg bs b" and rel: "\<not> is_absolute path" "path \<noteq> []"
    and nosym: "\<not> mc_allow_symlinks cfg"
    and q: "resolvePath s cfg path = Some q" "q \<noteq> []"
  shows "dotdot \<notin> set (path_parts path) \<and> link_free s bs b (below path) \<and>
    (\<exists>d \<in> {b, bs}. \<exists>t. q = path_of (d @ below path) @ sep_if t \<and> (t \<longrightarrow> d @ below path \<noteq> []))"
proof -
  have bs: "\<forall>c \<in> set bs. c \<noteq> [] \<and> sep \<notin> set c"
    using root by (auto simp: root_at_def dest: proper_noslash)
  have base: "mc_path cfg = path_of bs" using root by (simp add: root_at_def)
  from q rel obtain ra where ra: "fs_absolute s (lexically_normal (path_append (path_of bs) path)) = Some ra"
    and scan: "symlink_scan s (path_of bs) (path_elems path) = Some True"
    and res: "weakly_canonical s ra = Some q \<or> q = ra"
    using resolvePath_cases [OF q rel(2)] nosym by (auto simp: fs_absolute_def base)
  note elems = below_elems [OF rel(1)]
  note names = symlink_scan_names [OF scan bs elems(2), unfolded elems]
  then have nd: "dotdot \<notin> set (path_parts path)" by simp
  note app = append_relative_parts [OF rel bs]
  have bsn: "filter (\<lambda>c. c \<noteq> dot) bs = bs" "dotdot \<notin> set bs"
    using root by (auto simp: root_at_def proper_def intro!: filter_True)
  obtain t where t: "lexically_normal (path_append (path_of bs) path) = path_of (bs @ below path) @ sep_if t"
    "t \<longrightarrow> bs @ below path \<noteq> []"
    using lexically_normal_names [of "path_append (path_of bs) path"] app nd bsn
    by (auto simp: below_def sep_if_def intro: that [of True] that [of False])
  then have raq: "ra = path_of (bs @ below path) @ sep_if t"
    using ra is_absolute_path_of [of "bs @ below path"]
    by (auto simp: fs_absolute_def is_absolute_def)
  have lf: "link_free s bs b (below path)"
    using root names below_proper [OF nd] by (auto simp: link_free_def root_at_def)
  from res show ?thesis
  proof
    assume "weakly_canonical s ra = Some q"
    from weakly_canonical_below [OF lf raq _ this] t(2) nd lf show ?thesis by blast
  next
    assume "q = ra"
    with raq t(2) nd lf show ?thesis by blast
  qed
qed

lemma below_parts:
  assumes "\<forall>c \<in> set d. c \<noteq> [] \<and> sep \<notin> set c" "t \<longrightarrow> d \<noteq> []"
  shows "path_parts (path_of d @ sep_if t) = d \<and> is_absolute (path_of d @ sep_if t)"
  using assms is_absolute_path_of [of d]
  by (auto simp: sep_if_def parts_path_of path_parts_append is_absolute_def)

section \<open>Properties\<close>

text \<open>C2. Without symbolic links allowed, a relative request that \<open>resolvePath\<close> accepts has no
  climbing component, and the answer is the absolute path of the module root (or of the directory
  it leads to, once \<open>weakly_canonical\<close> has followed the links in the configured path) followed by
  exactly the requested names: nothing the client writes in a relative path changes the directory
  the answer hangs from.\<close>

theorem resolvePath_confined:
  assumes "root_at s cfg bs b" "\<not> mc_allow_symlinks cfg"
    and "\<not> is_absolute path" "path \<noteq> []"
    and "resolvePath s cfg path = Some q" "q \<noteq> []"
  shows "is_absolute q \<and> dotdot \<notin> set (path_parts path)
         \<and> (path_parts q = b @ below path \<or> path_parts q = bs @ below path)"
proof -
  from resolved_below [OF assms(1,3,4,2,5,6)] obtain d t where
    nd: "dotdot \<notin> set (path_parts path)" and lf: "link_free s bs b (below path)"
    and d: "d \<in> {b, bs}" "q = path_of (d @ below path) @ sep_if t" "t \<longrightarrow> d @ below path \<noteq> []" by blast
  have "\<forall>c \<in> set (d @ below path). c \<noteq> [] \<and> sep \<notin> set c"
    using d(1) all_noslash [OF lf] below_noslash [OF lf] by auto
  from below_parts [OF this d(3)] d(1,2) nd show ?thesis by auto
qed

definition demo_fs :: fs where
  "demo_fs = \<lparr>entries = [([''srv''], Dir), ([''srv'', ''mod''], Dir),
       ([''srv'', ''mod'', ''a.txt''], File ''hello''), ([''srv'', ''mod'', ''sub''], Dir),
       ([''srv'', ''mod'', ''out''], Symlink ''/etc/new''),
       ([''srv'', ''mod2''], Dir), ([''srv'', ''mod2'', ''secret''], File ''key''), ([''etc''], Dir)],
     cwd = [], can_search = (\<lambda>_. True), can_read = (\<lambda>_. True), can_write = (\<lambda>_. True),
     links = (\<lambda>_. 1), what_text = ''error''\<rparr>"

definition demo_module :: ModuleConfig where
  "demo_module = default_ModuleConfig\<lparr>mc_name := ''m'', mc_path := ''/srv/mod''\<rparr>"

lemma demo_root: "root_at demo_fs demo_module [''srv'', ''mod''] [''srv'', ''mod'']"
  by code_simp

theorem resolvePath_confined_witness:
  "path_parts ''/srv/mod/sub/new'' = [''srv'', ''mod''] @ below ''./sub//new''
   \<and> resolvePath demo_fs demo_module ''./sub//new'' = Some ''/srv/mod/sub/new''"
proof -
  have r: "resolvePath demo_fs demo_module ''./sub//new'' = Some ''/srv/mod/sub/new''" by code_simp
  have "\<not> mc_allow_symlinks demo_module" "\<not> is_absolute ''./sub//new''" by code_simp+
  from resolvePath_confined [OF demo_root this _ r] r show ?thesis by simp
qed

lemma resolved_entry:
  assumes "root_at s cfg bs bs" "\<not> mc_allow_symlinks cfg" "\<not> is_absolute path" "path \<noteq> []"
    and "resolvePath s cfg path = Some q" "q \<noteq> []" "fs_exists s q = Some True"
  shows "locate s Follow q = Found (bs @ below path) \<and> node_at s (bs @ below path) \<noteq> None"
proof -
  from resolved_below [OF assms(1,3,4,2,5,6)] obtain t where lf: "link_free s bs bs (below path)"
    and q: "q = path_of (bs @ below path) @ sep_if t" "t \<longrightarrow> bs @ below path \<noteq> []" by auto
  from assms(7) obtain r where r: "locate s Follow q = Found r" "node_at s r \<noteq> None"
    by (auto simp: exists_Found)
  have "r = bs @ below path"
    using found_below_sep [OF lf, of t r] q assms(7) r(1) by blast
  with r show ?thesis by simp
qed

lemma resolved_nofollow:
  assumes "root_at s cfg bs bs" "\<not> mc_allow_symlinks cfg" "\<not> is_absolute path" "path \<noteq> []"
    and "resolvePath s cfg path = Some q" "q \<noteq> []" "fs_exists s q = Some True" "below path \<noteq> []"
  shows "locate s NoFollow q = Found (bs @ below path)"
proof -
  from resolved_below [OF assms(1,3,4,2,5,6)] obtain t where lf: "link_free s bs bs (below path)"
    and q: "q = path_of (bs @ below path) @ sep_if t" by auto
  from nofollow_below [OF lf assms(8)] assms(7) q show ?thesis by simp
qed

lemma fileExists_regular:
  assumes "root_at s cfg bs bs" "\<not> mc_allow_symlinks cfg" "\<not> is_absolute path"
    and "fileExists s cfg path = Some True"
  shows "\<exists>q c. resolvePath s cfg path = Some q \<and> locate s Follow q = Found (bs @ below path)
            \<and> node_at s (bs @ below path) = Some (File c)"
proof -
  from assms(4) obtain q where ne: "path \<noteq> []" and q: "resolvePath s cfg path = Some q" "q \<noteq> []"
    and ex: "fs_exists s q = Some True" and reg: "is_regular_file s q = Some True"
    by (auto simp: fileExists_def bind_eq_Some_conv split: if_split_asm)
  note e = resolved_entry [OF assms(1-3) ne q ex]
  from reg e obtain c where "node_at s (bs @ below path) = Some (File c)"
    by (auto simp: regular_Found)
  with q e show ?thesis by blast
qed

text \<open>When the module root is given by its physical path and links are not allowed, a relative
  path the module reports as an existing file is a regular file, and the entry the kernel reaches
  by the answer of \<open>resolvePath\<close> is exactly the entry below the module root with the requested
  names: no symbolic link on the way leads elsewhere.\<close>

theorem fileExists_inside:
  assumes "root_at s cfg bs bs" "\<not> mc_allow_symlinks cfg" "\<not> is_absolute path"
    and "fileExists s cfg path = Some True"
  shows "\<exists>q c. resolvePath s cfg path = Some q \<and> locate s Follow q = Found (bs @ below path)
            \<and> node_at s (bs @ below path) = Some (File c)"
  using fileExists_regular [OF assms] .

theorem fileExists_inside_witness:
  "\<exists>q c. resolvePath demo_fs demo_module ''sub/.././/a.txt'' = Some [] \<and>
     resolvePath demo_fs demo_module ''./a.txt'' = Some q
     \<and> locate demo_fs Follow q = Found [''srv'', ''mod'', ''a.txt'']
     \<and> node_at demo_fs [''srv'', ''mod'', ''a.txt''] = Some (File c)"
proof -
  have "\<not> mc_allow_symlinks demo_module" "\<not> is_absolute ''./a.txt''"
    "fileExists demo_fs demo_module ''./a.txt'' = Some True" by code_simp+
  note inst = fileExists_inside [OF demo_root this]
  have "[''srv'', ''mod''] @ below ''./a.txt'' = [''srv'', ''mod'', ''a.txt'']"
    "resolvePath demo_fs demo_module ''sub/.././/a.txt'' = Some []" by code_simp+
  with inst show ?thesis by simp
qed

text \<open>C12. What \<open>deleteFile\<close> does with a non-empty relative path in a module that does not allow symbolic
  links and whose root is given by its physical path: if it reports success the module allows
  deletion and is not read-only, the requested entry below the root was a regular file and is gone,
  and every other entry is as before; if it reports failure nothing has changed.  (Where links are
  allowed, the file a link leads to is removed and the link stays, and an absolute path may name a
  file outside the module; the statement is not about those.)\<close>

theorem deleteFile_effect:
  assumes "root_at s cfg bs bs" "\<not> mc_allow_symlinks cfg" "\<not> is_absolute path" "path \<noteq> []"
    and "deleteFile s cfg path = Some (ok, s')"
  shows "if ok then mc_allow_delete cfg \<and> \<not> mc_read_only cfg \<and> s' = del_node (bs @ below path) s
                  \<and> (\<exists>c. node_at s (bs @ below path) = Some (File c))
         else s' = s"
proof (cases ok)
  case False
  with assms(5) show ?thesis
    by (auto simp: deleteFile_def dest: fs_remove_False
        split: if_split_asm option.splits bool.splits Option.bind_split_asm)
next
  case True
  with assms(5) obtain q where flags: "mc_allow_delete cfg" "\<not> mc_read_only cfg"
    and q: "resolvePath s cfg path = Some q" "q \<noteq> []"
    and reg: "is_regular_file s q = Some True" and rm: "fs_remove s q = Some (True, s')"
    by (auto simp: deleteFile_def isReadOnly_def allowsDeletion_def
        split: if_split_asm option.splits bool.splits Option.bind_split_asm)
  from reg have ex: "fs_exists s q = Some True" by (auto simp: regular_Found exists_Found)
  note e = resolved_entry [OF assms(1-4) q ex]
  from reg e obtain c where c: "node_at s (bs @ below path) = Some (File c)"
    by (auto simp: regular_Found)
  then have "below path \<noteq> []" using assms(1) by (auto simp: root_at_def)
  from resolved_nofollow [OF assms(1-4) q ex this] rm have "s' = del_node (bs @ below path) s"
    by (auto simp: fs_remove_def split: if_split_asm)
  with c flags True show ?thesis by auto
qed

definition open_module :: ModuleConfig where
  "open_module = demo_module\<lparr>mc_allow_delete := True\<rparr>"

lemma open_root: "root_at demo_fs open_module [''srv'', ''mod''] [''srv'', ''mod'']"
  by code_simp

theorem deleteFile_effect_witness:
  "\<exists>s'. deleteFile demo_fs open_module ''a.txt'' = Some (True, s')
     \<and> node_at s' [''srv'', ''mod'', ''a.txt''] = None"
proof -
  have h: "\<not> mc_allow_symlinks open_module" "\<not> is_absolute ''a.txt''" "''a.txt'' \<noteq> []" by code_simp+
  have "map_option fst (deleteFile demo_fs open_module ''a.txt'') = Some True" by code_simp
  then obtain s' where r: "deleteFile demo_fs open_module ''a.txt'' = Some (True, s')" by auto
  from deleteFile_effect [OF open_root h r]
  have "s' = del_node ([''srv'', ''mod''] @ below ''a.txt'') demo_fs" by simp
  moreover have "node_at (del_node ([''srv'', ''mod''] @ below ''a.txt'') demo_fs)
      [''srv'', ''mod'', ''a.txt''] = None" by code_simp
  ultimately show ?thesis using r by blast
qed

text \<open>A recursive \<open>deleteDirectory\<close> of a named directory obeys the flags and removes exactly the
  entries at and below the requested one: when it reports success the file system is the old one
  without that subtree, and at least one entry is gone; when it reports failure nothing has
  changed.\<close>

theorem deleteDirectory_effect:
  assumes "root_at s cfg bs bs" "\<not> mc_allow_symlinks cfg" "\<not> is_absolute path" "path \<noteq> []"
    and "below path \<noteq> []" and "deleteDirectory s cfg path True = Some (ok, s')"
  shows "if ok then mc_allow_delete cfg \<and> \<not> mc_read_only cfg
                  \<and> s' = s\<lparr>entries := filter (\<lambda>(r, _). \<not> under (bs @ below path) r) (entries s)\<rparr>
                  \<and> (\<exists>(r, _) \<in> set (entries s). under (bs @ below path) r)
         else s' = s"
proof -
  consider "\<not> ok" "s' = s" | q n where "mc_allow_delete cfg" "\<not> mc_read_only cfg"
      "resolvePath s cfg path = Some q" "q \<noteq> []" "fs_exists s q = Some True"
      "fs_remove_all s q = Some (n, s')" "ok = (n > 0)"
    using assms(6)
    by (auto simp: deleteDirectory_def checkDeletePermission_def isReadOnly_def allowsDeletion_def
        split: if_split_asm option.splits Option.bind_split_asm)
  then show ?thesis
  proof cases
    case 2
    have "locate s NoFollow q = Found (bs @ below path)"
      by (rule resolved_nofollow [OF assms(1-4) 2(3-5) assms(5)])
    with 2(6) have n: "n = length (filter (\<lambda>(r, _). under (bs @ below path) r) (entries s))"
      and s': "s' = s\<lparr>entries := filter (\<lambda>(r, _). \<not> under (bs @ below path) r) (entries s)\<rparr>"
      by (auto simp: fs_remove_all_def Let_def split: if_split_asm)
    have "(\<exists>(r, _) \<in> set (entries s). under (bs @ below path) r) \<longleftrightarrow> n > 0"
      unfolding n length_greater_0_conv filter_empty_conv by auto
    moreover have "s' = s" if "n = 0"
    proof -
      from that have "filter (\<lambda>(r, _). \<not> under (bs @ below path) r) (entries s) = entries s"
        unfolding n length_0_conv filter_empty_conv by (auto intro!: filter_True)
      then show ?thesis by (simp add: s')
    qed
    ultimately show ?thesis using 2 s' by auto
  qed simp
qed

theorem deleteDirectory_effect_witness:
  "\<exists>s'. deleteDirectory demo_fs open_module ''sub'' True = Some (True, s')
     \<and> node_at s' [''srv'', ''mod'', ''sub''] = None
     \<and> node_at s' [''srv'', ''mod'', ''a.txt''] = Some (File ''hello'')"
proof -
  have h: "\<not> mc_allow_symlinks open_module" "\<not> is_absolute ''sub''" "''sub'' \<noteq> []" "below ''sub'' \<noteq> []"
    by code_simp+
  have "map_option fst (deleteDirectory demo_fs open_module ''sub'' True) = Some True" by code_simp
  then obtain s' where r: "deleteDirectory demo_fs open_module ''sub'' True = Some (True, s')" by auto
  let ?t = "demo_fs\<lparr>entries := filter (\<lambda>(r, _). \<not> under ([''srv'', ''mod''] @ below ''sub'') r) (entries demo_fs)\<rparr>"
  from deleteDirectory_effect [OF open_root h r] have "s' = ?t" by simp
  moreover have "node_at ?t [''srv'', ''mod'', ''sub''] = None"
    "node_at ?t [''srv'', ''mod'', ''a.txt''] = Some (File ''hello'')" by code_simp+
  ultimately show ?thesis using r by blast
qed

text \<open>C37. No operation of a read-only module changes the file system: whatever the request, creating a
  directory, deleting a file or a directory and storing a file all report failure and leave every
  entry as it was.\<close>

theorem read_only_unchanged:
  assumes "mc_read_only cfg"
  shows "createDirectory s cfg path recursive = Some (False, s)
       \<and> deleteFile s cfg path = Some (False, s)
       \<and> deleteDirectory s cfg path recursive = Some (False, s)
       \<and> (\<exists>r. transferFile s cfg local_path path overwrite = Some (r, s) \<and> \<not> tr_success r
              \<and> tr_error_message r = ''Module is read-only'')
       \<and> checkWritePermission s cfg path = Some (False, s)"
  using assms
  by (simp add: createDirectory_def deleteFile_def deleteDirectory_def transferFile_def
      checkWritePermission_def isReadOnly_def default_TransferResult_def)

theorem read_only_unchanged_witness:
  "deleteFile demo_fs (open_module\<lparr>mc_read_only := True\<rparr>) ''a.txt'' = Some (False, demo_fs)"
  using read_only_unchanged [of "open_module\<lparr>mc_read_only := True\<rparr>" demo_fs "''a.txt''"] by simp

text \<open>A pattern of the exclude and include lists matches a file name exactly when it is the name
  itself or when its first star stands for some stretch of the name: the part before the star is
  a prefix, the part after it a suffix, and the two do not overlap.\<close>

theorem matchesPattern_iff:
  "matchesPattern fname pattern \<longleftrightarrow>
     pattern = fname \<or>
     (\<exists>prefix suffix mid. pattern = prefix @ CHR ''*'' # suffix \<and> CHR ''*'' \<notin> set prefix
         \<and> fname = prefix @ mid @ suffix)"
proof -
  have glob: "length p + length q \<le> length f \<and> take (length p) f = p \<and> drop (length f - length q) f = q
      \<longleftrightarrow> (\<exists>mid. f = p @ mid @ q)" for p q f :: string
  proof
    assume a: "length p + length q \<le> length f \<and> take (length p) f = p \<and> drop (length f - length q) f = q"
    let ?mid = "drop (length p) (take (length f - length q) f)"
    have "f = take (length f - length q) f @ q" using a by (metis append_take_drop_id)
    moreover have "take (length f - length q) f = p @ ?mid"
      using a by (metis append_take_drop_id le_diff_conv2 min.absorb1 nat_le_linear take_take add.commute
          add_leD2)
    ultimately have "f = p @ ?mid @ q" by (metis append.assoc)
    then show "\<exists>mid. f = p @ mid @ q" ..
  qed auto
  show ?thesis
  proof (cases "find_char (CHR ''*'') pattern")
    case None
    then have "CHR ''*'' \<notin> set pattern" by (simp add: find_char_None)
    moreover from this have "pattern \<noteq> ''*''" by auto
    ultimately show ?thesis using None by (auto simp: matchesPattern_def)
  next
    case (Some i)
    note occ = find_char_SomeD [OF Some] and sp = find_char_split [OF Some]
    have uniq: "(\<exists>prefix suffix mid. pattern = prefix @ CHR ''*'' # suffix \<and> CHR ''*'' \<notin> set prefix
          \<and> fname = prefix @ mid @ suffix) \<longleftrightarrow> (\<exists>mid. fname = take i pattern @ mid @ drop (i + 1) pattern)"
      (is "?L = ?R")
    proof
      assume ?L
      then obtain prefix suffix mid where e: "pattern = prefix @ CHR ''*'' # suffix" "CHR ''*'' \<notin> set prefix"
        "fname = prefix @ mid @ suffix" by blast
      then have "i = length prefix" using Some find_char_append by simp
      with e show ?R by auto
    next
      assume ?R
      then show ?L using occ sp by (metis Suc_eq_plus1)
    qed
    show ?thesis
      unfolding uniq glob [symmetric] using Some
      by (cases "pattern = ''*''") (auto simp: matchesPattern_def Let_def not_less)
  qed
qed

section \<open>Listings\<close>

lemma fold_max_ge: "(m :: nat) \<le> fold max xs m \<and> (\<forall>x \<in> set xs. x \<le> fold max xs m)"
proof (induction xs arbitrary: m)
  case (Cons x xs)
  from Cons [of "max x m"] show ?case by auto
qed simp

lemma depth_bound: "node_at s d \<noteq> None \<Longrightarrow> length d \<le> max_depth s"
  using fold_max_ge [of 0 "map (length \<circ> fst) (entries s)"]
  by (force simp: node_at_def max_depth_def split: if_split_asm dest!: map_of_SomeD)

lemma child_bound: "c \<in> set (children s d) \<Longrightarrow> length c \<le> max_depth s \<and> length c = Suc (length d)"
  using fold_max_ge [of 0 "map (length \<circ> fst) (entries s)"]
  by (auto simp: children_def max_depth_def)

text \<open>The bound of the recursive iteration is never reached: more depth yields the same entries.\<close>

lemma rec_iter_enough:
  "length d \<le> max_depth s \<Longrightarrow> Suc (max_depth s) \<le> k + length d \<Longrightarrow>
     rec_iter (k + j) s p d = rec_iter k s p d"
proof (induction k arbitrary: p d)
  case (Suc k)
  show ?case
  proof (cases "can_read s d")
    case True
    have IH: "rec_iter (k + j) s cp c = rec_iter k s cp c" if "c \<in> set (children s d)" for c cp
      using child_bound [OF that] Suc.prems by (intro Suc.IH) auto
    show ?thesis using True
      by (simp add: Let_def) (rule foldl_cong, auto simp: IH Let_def split: prod.splits)
  qed simp
qed simp

definition listing_counts :: "DirectoryListing \<Rightarrow> bool" where
  "listing_counts l \<longleftrightarrow>
     dl_total_files l = word_of_nat (length (dl_files l))
     \<and> dl_total_directories l = word_of_nat (length (dl_directories l))
     \<and> dl_total_symlinks l = word_of_nat (length (dl_symlinks l))
     \<and> dl_total_other l = word_of_nat (length (dl_other l))
     \<and> list_all (\<lambda>i. fi_type i = Some regular \<and> fi_size i \<noteq> None) (dl_files l)
     \<and> list_all (\<lambda>i. fi_type i = Some directory) (dl_directories l)
     \<and> (dl_total_size l = (if dl_directories l = [] \<and> dl_symlinks l = [] \<and> dl_other l = []
                          then Some (sum_list (map (the \<circ> fi_size) (dl_files l))) else None))"

lemma counts_add:
  assumes "listing_counts l"
  shows "listing_counts (addFileInfo s entry base l)"
proof (cases "status s entry = None \<or> relative s entry base = None \<or> is_symlink s entry = None")
  case True
  then show ?thesis using assms by (auto simp: addFileInfo_def split: option.splits)
next
  case False
  then obtain st rel lnk where "status s entry = Some st" "relative s entry base = Some rel"
    "is_symlink s entry = Some lnk" by auto
  then show ?thesis
    using assms
    by (cases st rule: option.exhaust [case_product node.exhaust])
       (auto simp: addFileInfo_def listing_counts_def add_size_def default_FileInfo_def type_of_node_def
          Let_def split: option.splits node.splits)
qed

lemma counts_fold: "listing_counts l \<Longrightarrow> listing_counts (foldl (\<lambda>l e. addFileInfo s e base l) l es)"
  by (induction es arbitrary: l) (auto simp: counts_add)

text \<open>A listing is consistent with itself, whatever entries throw and are skipped: each counter is
  the length of its list, the files carry a known size and the directories their type, and the
  total size is the sum of the sizes of the files as long as nothing but files is listed; once a
  directory, a link or another entry is listed the total is indeterminate, because the size of such
  an entry is added without ever having been set.\<close>

theorem listDirectory_counts:
  "pred_option listing_counts (listDirectory s cfg path recursive)"
proof -
  have "listing_counts (default_DirectoryListing\<lparr>dl_path := path, dl_recursive := recursive\<rparr>)"
    by (simp add: listing_counts_def default_DirectoryListing_def)
  then show ?thesis
    by (auto simp: listDirectory_def Let_def counts_fold pred_option_def elem_set
        split: Option.bind_split_asm if_split_asm walk_result.splits)
qed

section \<open>Where the checks stop short\<close>

text \<open>The containment test compares strings, not components, and the link test misses links that
  lead to nothing.  With the module rooted at \<open>/srv/mod\<close>, an absolute request for
  \<open>/srv/mod2/secret\<close> is answered as an existing file of the module; and storing to the dangling
  link \<open>out\<close>, links not being allowed, creates the file \<open>/etc/new\<close> the link points to.\<close>

theorem path_checks_escape:
  "fileExists demo_fs demo_module ''/srv/mod2/secret'' = Some True
   \<and> map_option (\<lambda>(r, s'). (tr_success r, node_at s' [''etc'', ''new'']))
       (transferFile demo_fs demo_module ''/srv/mod/a.txt'' ''out'' True)
     = Some (True, Some (File ''hello''))"
  by code_simp

definition probe_fs :: fs where
  "probe_fs = set_node [''srv'', ''mod'', ''.rsyncd_write_test''] (File ''data'') demo_fs"

text \<open>The write probe destroys data: a client's file called \<open>.rsyncd_write_test\<close> is truncated and
  removed by any operation of a writable module that checks the permission to write beside it.\<close>

theorem write_probe_destroys:
  "fileExists probe_fs demo_module ''.rsyncd_write_test'' = Some True
   \<and> map_option (\<lambda>(ok, s'). (ok, node_at s' [''srv'', ''mod'', ''.rsyncd_write_test'']))
       (checkWritePermission probe_fs demo_module ''other.txt'') = Some (True, None)"
  by code_simp

end
