(* ===== verification/Protocol.thy ===== *)
theory Protocol
  imports Module
begin

text \<open>
  The request parser and the command handler, from \<open>include/simple-rsyncd/core/protocol.hpp\<close> and
  \<open>src/simple-rsyncd/core/protocol.cpp\<close>.  A handler's answer is \<^const>\<open>None\<close> when a
  \<open>filesystem_error\<close> leaves it; the exceptions its \<open>try\<close> block catches become the error response
  the code builds.  \<open>indet\<close> is the value a program happens to print for a size that was never
  set.  \<open>modules\<close> is the map from names to modules, each given by its configuration.
\<close>

section \<open>Data\<close>

datatype ProtocolVersion = VERSION_30 | VERSION_29 | VERSION_27

datatype ProtocolCommand = LIST | GET | PUT | DELETE | STAT | AUTH | UNKNOWN

record ProtocolMessage =
  pm_command :: ProtocolCommand
  pm_module :: string
  pm_path :: string
  pm_arguments :: "(string, string) std_map"
  pm_data :: "uint8_t list"
  pm_valid :: bool
  pm_error_message :: string

definition default_ProtocolMessage :: ProtocolMessage where
  "default_ProtocolMessage =
     \<lparr>pm_command = UNKNOWN, pm_module = [], pm_path = [], pm_arguments = [], pm_data = [],
      pm_valid = False, pm_error_message = []\<rparr>"

text \<open>The only state of a parser is the version it has last seen.\<close>

definition new_ProtocolParser :: ProtocolVersion where
  "new_ProtocolParser = VERSION_30"

section \<open>The parser\<close>

definition parseCommand :: "string \<Rightarrow> ProtocolCommand" where
  "parseCommand line =
     (let cmd = map toupper (case words line of [] \<Rightarrow> [] | w # _ \<Rightarrow> w)
      in if cmd = ''LIST'' \<or> cmd = ''LS'' then LIST
         else if cmd = ''GET'' \<or> cmd = ''DOWNLOAD'' then GET
         else if cmd = ''PUT'' \<or> cmd = ''UPLOAD'' \<or> cmd = ''SEND'' then PUT
         else if cmd = ''DELETE'' \<or> cmd = ''DEL'' \<or> cmd = ''RM'' then DELETE
         else if cmd = ''STAT'' \<or> cmd = ''STATUS'' \<or> cmd = ''INFO'' then STAT
         else if cmd = ''AUTH'' \<or> cmd = ''LOGIN'' then AUTH
         else UNKNOWN)"

definition parseModule :: "string \<Rightarrow> string" where
  "parseModule line = (case words line of _ # m # _ \<Rightarrow> m | _ \<Rightarrow> [])"

definition parsePath :: "string \<Rightarrow> string" where
  "parsePath line = (case words line of _ # _ # p # _ \<Rightarrow> p | _ \<Rightarrow> [])"

definition parseArguments :: "string \<Rightarrow> (string, string) std_map" where
  "parseArguments line =
     foldl (\<lambda>args token.
        case find_char (CHR ''='') token of
          None \<Rightarrow> args
        | Some eq_pos \<Rightarrow> std_insert (take eq_pos token) (drop (eq_pos + 1) token) args)
       [] (drop 3 (words line))"

definition header_version :: "string \<Rightarrow> ProtocolVersion \<Rightarrow> ProtocolVersion" where
  "header_version line version =
     (case find_char (CHR '':'') line of
        None \<Rightarrow> version
      | Some version_pos \<Rightarrow>
          (case stoi (trim (drop (version_pos + 1) line)) of
             None \<Rightarrow> version
           | Some version_num \<Rightarrow>
               if version_num = 30 then VERSION_30
               else if version_num = 29 then VERSION_29
               else if version_num = 27 then VERSION_27
               else version))"

definition parse :: "ProtocolVersion \<Rightarrow> string \<Rightarrow> ProtocolMessage \<times> ProtocolVersion" where
  "parse version data =
     (if data = [] then (default_ProtocolMessage\<lparr>pm_error_message := ''Empty data''\<rparr>, version)
      else case getlines newline data of
        [] \<Rightarrow> (default_ProtocolMessage, version)
      | first # rest \<Rightarrow>
          (if starts_with ''@RSYNCD:'' first then
             (case rest of
                [] \<Rightarrow> (default_ProtocolMessage, header_version first version)
              | line # _ \<Rightarrow>
                  (default_ProtocolMessage\<lparr>pm_command := parseCommand line,
                     pm_module := parseModule line, pm_path := parsePath line,
                     pm_arguments := parseArguments line,
                     pm_valid := (parseCommand line \<noteq> UNKNOWN)\<rparr>, header_version first version))
           else if parseCommand first \<noteq> UNKNOWN then
             (default_ProtocolMessage\<lparr>pm_command := parseCommand first,
                pm_module := parseModule first, pm_path := parsePath first,
                pm_arguments := parseArguments first,
                pm_valid := (parseModule first \<noteq> [])\<rparr>, version)
           else (default_ProtocolMessage\<lparr>pm_command := parseCommand first\<rparr>, version)))"

definition parse_buffer :: "ProtocolVersion \<Rightarrow> string \<Rightarrow> ProtocolMessage \<times> ProtocolVersion" where
  "parse_buffer version buffer =
     (if buffer = [] then (default_ProtocolMessage\<lparr>pm_error_message := ''Empty buffer''\<rparr>, version)
      else parse version buffer)"

section \<open>Responses\<close>

abbreviation endl :: string where "endl \<equiv> [newline]"

definition formatSuccess :: "string \<Rightarrow> string" where
  "formatSuccess message = ''@RSYNCD: OK'' @ endl @ message @ endl"

definition formatError :: "int \<Rightarrow> string \<Rightarrow> string" where
  "formatError code message = ''@RSYNCD: ERROR '' @ show_int code @ endl @ message @ endl"

definition buildResponse :: "bool \<Rightarrow> string \<Rightarrow> string" where
  "buildResponse success message = (if success then formatSuccess message else formatError (-1) message)"

definition buildErrorResponse :: "int \<Rightarrow> string \<Rightarrow> string" where
  "buildErrorResponse error_code error_message = formatError error_code error_message"

section \<open>The command handler\<close>

type_synonym modules = "(string, ModuleConfig) std_map"

definition getModule :: "modules \<Rightarrow> string \<Rightarrow> ModuleConfig option" where
  "getModule modules module_name = std_find modules module_name"

definition message_module :: "string \<Rightarrow> ProtocolMessage \<Rightarrow> string" where
  "message_module current_module message =
     (if pm_module message = [] then current_module else pm_module message)"

text \<open>\<open>operator<<\<close> for a size that may be indeterminate.\<close>

definition show_size :: "size_t \<Rightarrow> size_t option \<Rightarrow> string" where
  "show_size indet v = show_nat (unat (case v of Some x \<Rightarrow> x | None \<Rightarrow> indet))"

definition file_type_code :: "file_type \<Rightarrow> int" where
  "file_type_code t = (case t of not_found \<Rightarrow> -1 | regular \<Rightarrow> 1 | directory \<Rightarrow> 2 | symlink \<Rightarrow> 3)"

definition handleList :: "size_t \<Rightarrow> modules \<Rightarrow> string \<Rightarrow> ProtocolMessage \<Rightarrow> fs \<Rightarrow> string" where
  "handleList indet modules current message s =
     (let module_name = message_module current message
      in case getModule modules module_name of
           None \<Rightarrow> buildErrorResponse 1 (''Module not found: '' @ module_name)
         | Some cfg \<Rightarrow>
             if \<not> allowsListing cfg then
               buildErrorResponse 2 (''Listing not allowed for module: '' @ module_name)
             else
               let recursive = (std_find (pm_arguments message) ''recursive'' \<noteq> None)
               in case listDirectory s cfg (pm_path message) recursive of
                    None \<Rightarrow> buildErrorResponse 3 (''Error listing directory: '' @ what_text s)
                  | Some listing \<Rightarrow>
                      ''@RSYNCD: OK'' @ endl
                      @ ''Path: '' @ dl_path listing @ endl
                      @ ''Files: '' @ show_nat (unat (dl_total_files listing)) @ endl
                      @ ''Directories: '' @ show_nat (unat (dl_total_directories listing)) @ endl
                      @ ''Total size: '' @ show_size indet (dl_total_size listing) @ endl
                      @ concat (map (\<lambda>file. ''F '' @ fi_name file @ '' '' @ show_size indet (fi_size file) @ endl)
                                 (dl_files listing))
                      @ concat (map (\<lambda>dir. ''D '' @ fi_name dir @ endl) (dl_directories listing)))"

definition handleGet :: "size_t \<Rightarrow> modules \<Rightarrow> string \<Rightarrow> ProtocolMessage \<Rightarrow> fs \<Rightarrow> string option" where
  "handleGet indet modules current message s =
     (let module_name = message_module current message
      in case getModule modules module_name of
           None \<Rightarrow> Some (buildErrorResponse 1 (''Module not found: '' @ module_name))
         | Some cfg \<Rightarrow>
             (case fileExists s cfg (pm_path message) of
                None \<Rightarrow> None
              | Some False \<Rightarrow> Some (buildErrorResponse 4 (''File not found: '' @ pm_path message))
              | Some True \<Rightarrow>
                  (case getFileInfo s cfg (pm_path message) of
                     None \<Rightarrow> Some (buildErrorResponse 3 (''Error getting file: '' @ what_text s))
                   | Some info \<Rightarrow> Some (
                       ''@RSYNCD: OK'' @ endl
                       @ ''File: '' @ fi_name info @ endl
                       @ ''Size: '' @ show_size indet (fi_size info) @ endl
                       @ ''Path: '' @ fi_path info @ endl
                       @ ''Ready for transfer'' @ endl))))"

definition handlePut :: "modules \<Rightarrow> string \<Rightarrow> ProtocolMessage \<Rightarrow> string" where
  "handlePut modules current message =
     (let module_name = message_module current message
      in case getModule modules module_name of
           None \<Rightarrow> buildErrorResponse 1 (''Module not found: '' @ module_name)
         | Some cfg \<Rightarrow>
             if isReadOnly cfg then buildErrorResponse 5 (''Module is read-only: '' @ module_name)
             else ''@RSYNCD: OK'' @ endl @ ''Ready to receive file: '' @ pm_path message @ endl
                  @ ''Send file data'' @ endl)"

definition handleDelete :: "modules \<Rightarrow> string \<Rightarrow> ProtocolMessage \<Rightarrow> fs \<Rightarrow> string \<times> fs" where
  "handleDelete modules current message s =
     (let module_name = message_module current message
      in case getModule modules module_name of
           None \<Rightarrow> (buildErrorResponse 1 (''Module not found: '' @ module_name), s)
         | Some cfg \<Rightarrow>
             if isReadOnly cfg \<or> \<not> allowsDeletion cfg then
               (buildErrorResponse 5 (''Deletion not allowed for module: '' @ module_name), s)
             else
               let recursive = (std_find (pm_arguments message) ''recursive'' \<noteq> None);
                   outcome = do {
                     file \<leftarrow> fileExists s cfg (pm_path message);
                     if file then map_option Some (deleteFile s cfg (pm_path message))
                     else do {
                       dir \<leftarrow> directoryExists s cfg (pm_path message);
                       if dir then map_option Some (deleteDirectory s cfg (pm_path message) recursive)
                       else Some None
                     }
                   }
               in case outcome of
                    None \<Rightarrow> (buildErrorResponse 3 (''Error deleting: '' @ what_text s), s)
                  | Some None \<Rightarrow> (buildErrorResponse 4 (''Path not found: '' @ pm_path message), s)
                  | Some (Some (deleted, s')) \<Rightarrow>
                      if deleted then (buildResponse True (''Deleted: '' @ pm_path message), s')
                      else (buildErrorResponse 6 (''Failed to delete: '' @ pm_path message), s'))"

definition handleStat :: "size_t \<Rightarrow> modules \<Rightarrow> string \<Rightarrow> ProtocolMessage \<Rightarrow> fs \<Rightarrow> string" where
  "handleStat indet modules current message s =
     (let module_name = message_module current message
      in case getModule modules module_name of
           None \<Rightarrow> buildErrorResponse 1 (''Module not found: '' @ module_name)
         | Some cfg \<Rightarrow>
             (case getFileInfo s cfg (pm_path message) of
                None \<Rightarrow> buildErrorResponse 3 (''Error getting file stats: '' @ what_text s)
              | Some info \<Rightarrow>
                  if fi_path info = [] then buildErrorResponse 4 (''File not found: '' @ pm_path message)
                  else ''@RSYNCD: OK'' @ endl
                       @ ''Name: '' @ fi_name info @ endl
                       @ ''Path: '' @ fi_path info @ endl
                       @ ''Size: '' @ show_size indet (fi_size info) @ endl
                       @ ''Type: '' @ show_int (case fi_type info of Some t \<Rightarrow> file_type_code t | None \<Rightarrow> sint indet) @ endl
                       @ ''Is symlink: '' @ (if fi_is_symlink info then ''yes'' else ''no'') @ endl))"

text \<open>\<open>ProtocolHandler::handle\<close>: the response and the file system after it.\<close>

definition handle ::
  "size_t \<Rightarrow> modules \<Rightarrow> string \<Rightarrow> ProtocolMessage \<Rightarrow> fs \<Rightarrow> string option \<times> fs" where
  "handle indet modules current message s =
     (if \<not> pm_valid message then (Some (buildErrorResponse (-1) ''Invalid protocol message''), s)
      else case pm_command message of
             LIST \<Rightarrow> (Some (handleList indet modules current message s), s)
           | GET \<Rightarrow> (handleGet indet modules current message s, s)
           | PUT \<Rightarrow> (Some (handlePut modules current message), s)
           | DELETE \<Rightarrow> (let (r, s') = handleDelete modules current message s in (Some r, s'))
           | STAT \<Rightarrow> (Some (handleStat indet modules current message s), s)
           | _ \<Rightarrow> (Some (buildErrorResponse (-1) ''Unknown command''), s))"

end
