(* ===== verification/Protocol_Facts.thy ===== *)
theory Protocol_Facts
  imports Protocol Confinement
begin

text \<open>
  The grammar the parser accepts, stated as a round trip with a printer of requests, and what the
  command handler may do to the file system.
\<close>

section \<open>Words and lines\<close>

definition token :: "string \<Rightarrow> bool" where
  "token w \<longleftrightarrow> w \<noteq> [] \<and> list_all (\<lambda>c. \<not> isspace c) w"

fun join_words :: "string list \<Rightarrow> string" where
  "join_words [] = []"
| "join_words [w] = w"
| "join_words (w # ws) = w @ CHR '' '' # join_words ws"

lemma isspace_space [simp]: "isspace CHR '' ''"
  by (simp add: isspace_def)

lemma isspace_newline [simp]: "isspace newline"
  by (simp add: isspace_def)

lemma extract_token:
  assumes "token w" "r = [] \<or> isspace (hd r)"
  shows "extract_word (w @ r) = Some (w, r)"
proof -
  obtain c cs where w: "w = c # cs" and c: "\<not> isspace c" "list_all (\<lambda>c. \<not> isspace c) cs"
    using assms(1) by (cases w) (auto simp: token_def)
  have "takeWhile (\<lambda>d. \<not> isspace d) (cs @ r) = cs" "dropWhile (\<lambda>d. \<not> isspace d) (cs @ r) = r"
    using c(2) assms(2) by (cases r; simp add: takeWhile_append dropWhile_append list_all_iff)+
  then show ?thesis using c(1) by (simp add: extract_word_def w)
qed

lemma words_space: "words (CHR '' '' # s) = words s"
  by (subst (1 2) words.simps) (simp add: extract_word_def)

lemma words_Nil [simp]: "words [] = []"
  by (subst words.simps) (simp add: extract_word_def)

lemma words_join: "list_all token ws \<Longrightarrow> words (join_words ws) = ws"
proof (induction ws rule: join_words.induct)
  case (2 w)
  then show ?case using extract_token [of w "[]"] by (subst words.simps) simp
next
  case (3 w v ws)
  have "extract_word (w @ CHR '' '' # join_words (v # ws)) = Some (w, CHR '' '' # join_words (v # ws))"
    using 3(2) by (intro extract_token) auto
  then have "words (join_words (w # v # ws)) = w # words (CHR '' '' # join_words (v # ws))"
    by (subst words.simps) simp
  then show ?case using 3 by (simp only: words_space) simp
qed simp

lemma join_no_newline: "list_all token ws \<Longrightarrow> newline \<notin> set (join_words ws)"
proof (induction ws rule: join_words.induct)
  case (2 w)
  then show ?case by (auto simp: token_def list_all_iff)
next
  case (3 w v ws)
  then have "newline \<notin> set w" by (auto simp: token_def list_all_iff)
  with 3 show ?case by simp
qed simp

section \<open>Requests\<close>

text \<open>What a client writes: the command, the module, the path and the options, between blanks.\<close>

definition option_token :: "string \<times> string \<Rightarrow> string" where
  "option_token = (\<lambda>(k, v). k @ CHR ''='' # v)"

definition request_line ::
  "string \<Rightarrow> string \<Rightarrow> string \<Rightarrow> (string, string) std_map \<Rightarrow> string" where
  "request_line cmd m path args = join_words (cmd # m # path # map option_token args) @ endl"

definition options_ok :: "(string, string) std_map \<Rightarrow> bool" where
  "options_ok args \<longleftrightarrow> std_wf args
     \<and> list_all (\<lambda>(k, v). CHR ''='' \<notin> set k \<and> list_all (\<lambda>c. \<not> isspace c) (k @ v)) args"

lemma option_tokens: "options_ok args \<Longrightarrow> list_all token (map option_token args)"
  by (fastforce simp: options_ok_def option_token_def token_def list_all_iff isspace_def)

lemma fold_options:
  "list_all (\<lambda>(k, v). CHR ''='' \<notin> set k) args \<Longrightarrow>
   foldl (\<lambda>args token. case find_char (CHR ''='') token of
          None \<Rightarrow> args
        | Some eq_pos \<Rightarrow> std_insert (take eq_pos token) (drop (eq_pos + 1) token) args) m
     (map option_token args) = foldl (\<lambda>m (k, v). std_insert k v m) m args"
  by (induction args arbitrary: m) (auto simp: option_token_def find_char_append)

lemma parse_line:
  assumes "token cmd" "token m" "token path" "options_ok args"
  defines "line \<equiv> join_words (cmd # m # path # map option_token args)"
  shows "parseCommand line = parseCommand cmd" "parseModule line = m" "parsePath line = path"
    "parseArguments line = args" "newline \<notin> set line"
proof -
  have t: "list_all token (cmd # m # path # map option_token args)"
    using assms option_tokens by simp
  then have w: "words line = cmd # m # path # map option_token args"
    unfolding line_def by (rule words_join)
  have "words cmd = [cmd]" using words_join [of "[cmd]"] assms(1) by simp
  then show "parseCommand line = parseCommand cmd" by (simp add: parseCommand_def w)
  show "parseModule line = m" "parsePath line = path"
    by (simp_all add: parseModule_def parsePath_def w)
  have "foldl (\<lambda>m (k, v). std_insert k v m) [] args = args"
    using foldl_insert_sorted [of "[]" args] assms(4) by (simp add: options_ok_def)
  then show "parseArguments line = args"
    using assms(4) fold_options [of args "[]"]
    by (auto simp: parseArguments_def w options_ok_def list_all_iff)
  show "newline \<notin> set line" unfolding line_def by (rule join_no_newline [OF t])
qed

text \<open>A command word does not start a header.\<close>

lemma toupper_at: "toupper CHR ''@'' = CHR ''@''"
  by code_simp

lemma command_no_header:
  assumes "starts_with ''@RSYNCD:'' line"
  shows "parseCommand line = UNKNOWN"
proof -
  obtain r where "line = CHR ''@'' # r" using assms by (auto simp: starts_with_iff)
  moreover have "\<not> isspace CHR ''@''" by code_simp
  ultimately have "\<exists>w ws. words line = (CHR ''@'' # w) # ws"
    by (subst words.simps) (simp add: extract_word_def)
  then show ?thesis by (auto simp: parseCommand_def toupper_at Let_def)
qed

section \<open>Properties\<close>

text \<open>C27. The parser reads back every request a client can print: a command word it knows, a module,
  a path and options in key order give a valid message with exactly these fields, whether the
  line comes alone or after a version header, and the header sets the parser's version.\<close>

theorem parse_request:
  assumes "token cmd" "token m" "token path" "options_ok args" "parseCommand cmd \<noteq> UNKNOWN"
  shows "parse v (request_line cmd m path args) =
           (default_ProtocolMessage\<lparr>pm_command := parseCommand cmd, pm_module := m, pm_path := path,
              pm_arguments := args, pm_valid := True\<rparr>, v)
       \<and> parse v (''@RSYNCD: 29'' @ endl @ request_line cmd m path args) =
           (default_ProtocolMessage\<lparr>pm_command := parseCommand cmd, pm_module := m, pm_path := path,
              pm_arguments := args, pm_valid := True\<rparr>, VERSION_29)"
proof -
  let ?line = "join_words (cmd # m # path # map option_token args)"
  note l = parse_line [OF assms(1-4)]
  have lines: "getlines newline (request_line cmd m path args) = [?line]"
    using l(5) getlines_line [of newline ?line "[]"] by (simp add: request_line_def getlines_def)
  have "newline \<notin> set ''@RSYNCD: 29''" by code_simp
  from getlines_line [OF this, of "request_line cmd m path args"]
  have hlines: "getlines newline (''@RSYNCD: 29'' @ endl @ request_line cmd m path args)
      = [''@RSYNCD: 29'', ?line]" by (simp only: lines append.simps)
  have nh: "\<not> starts_with ''@RSYNCD:'' ?line"
    using command_no_header [of ?line] l(1) assms(5) by (simp only:) metis
  have h: "starts_with ''@RSYNCD:'' ''@RSYNCD: 29''" "header_version ''@RSYNCD: 29'' v = VERSION_29"
    by (simp_all add: starts_with_def) (cases v; code_simp)
  have ne: "m \<noteq> []" "request_line cmd m path args \<noteq> []"
    using assms(2) by (auto simp: token_def request_line_def)
  have kn: "parseCommand ?line \<noteq> UNKNOWN" using l(1) assms(5) by simp
  have "parse v (request_line cmd m path args) =
           (default_ProtocolMessage\<lparr>pm_command := parseCommand cmd, pm_module := m, pm_path := path,
              pm_arguments := args, pm_valid := True\<rparr>, v)"
    unfolding parse_def lines using ne nh kn l by simp
  moreover have "parse v (''@RSYNCD: 29'' @ endl @ request_line cmd m path args) =
           (default_ProtocolMessage\<lparr>pm_command := parseCommand cmd, pm_module := m, pm_path := path,
              pm_arguments := args, pm_valid := True\<rparr>, VERSION_29)"
    unfolding parse_def hlines using h kn l by simp
  ultimately show ?thesis ..
qed

theorem parse_request_witness:
  "fst (parse new_ProtocolParser (''get data a.txt depth=2 recursive=yes'' @ endl)) =
     default_ProtocolMessage\<lparr>pm_command := GET, pm_module := ''data'', pm_path := ''a.txt'',
       pm_arguments := [(''depth'', ''2''), (''recursive'', ''yes'')], pm_valid := True\<rparr>"
proof -
  have g: "parseCommand ''get'' = GET" by code_simp
  have "token ''get''" "token ''data''" "token ''a.txt''"
    "options_ok [(''depth'', ''2''), (''recursive'', ''yes'')]" "parseCommand ''get'' \<noteq> UNKNOWN"
    by code_simp+
  from parse_request [OF this, of new_ProtocolParser]
  show ?thesis by (simp add: request_line_def option_token_def g)
qed

text \<open>A request changes the file system only if it is a valid \<open>DELETE\<close> for a module that exists,
  is not read-only and allows deletion; otherwise the handler leaves every entry as it was,
  whatever the command, the path and the outcome.\<close>

theorem handle_changes_only_delete:
  "snd (handle indet modules current message s) = s
   \<or> (pm_valid message \<and> pm_command message = DELETE
      \<and> (\<exists>cfg. getModule modules (message_module current message) = Some cfg
               \<and> mc_read_only cfg = False \<and> mc_allow_delete cfg))"
  by (cases "getModule modules (message_module current message)")
     (auto simp: handle_def handleDelete_def isReadOnly_def allowsDeletion_def Let_def
        split: ProtocolCommand.splits prod.splits)

text \<open>A command for a module the daemon does not export is answered with error 1 and the name,
  and nothing else happens; the same command word for an exported module that forbids it is
  refused with its own code (2 for listing, 5 for storing and deleting).\<close>

theorem handle_refusals:
  assumes "pm_valid message" "pm_command message \<in> {LIST, GET, PUT, DELETE, STAT}"
  shows "let name = message_module current message;
             answer = handle indet modules current message s
         in case getModule modules name of
              None \<Rightarrow> answer = (Some (buildErrorResponse 1 (''Module not found: '' @ name)), s)
            | Some cfg \<Rightarrow>
                (pm_command message = LIST \<and> \<not> mc_list cfg \<longrightarrow>
                   answer = (Some (buildErrorResponse 2 (''Listing not allowed for module: '' @ name)), s))
                \<and> (pm_command message = PUT \<and> mc_read_only cfg \<longrightarrow>
                   answer = (Some (buildErrorResponse 5 (''Module is read-only: '' @ name)), s))
                \<and> (pm_command message = DELETE \<and> (mc_read_only cfg \<or> \<not> mc_allow_delete cfg) \<longrightarrow>
                   answer = (Some (buildErrorResponse 5 (''Deletion not allowed for module: '' @ name)), s))"
  using assms
  by (cases "getModule modules (message_module current message)")
     (auto simp: handle_def handleList_def handleGet_def handlePut_def handleDelete_def handleStat_def
       allowsListing_def isReadOnly_def allowsDeletion_def Let_def)

theorem handle_refusals_witness:
  "handle 0 [(''m'', demo_module)] [] (default_ProtocolMessage\<lparr>pm_command := DELETE, pm_module := ''m'',
       pm_path := ''a.txt'', pm_valid := True\<rparr>) demo_fs =
     (Some (buildErrorResponse 5 ''Deletion not allowed for module: m''), demo_fs)"
proof -
  let ?msg = "default_ProtocolMessage\<lparr>pm_command := DELETE, pm_module := ''m'', pm_path := ''a.txt'',
      pm_valid := True\<rparr>"
  have "pm_valid ?msg" "pm_command ?msg \<in> {LIST, GET, PUT, DELETE, STAT}" by simp_all
  from handle_refusals [OF this, of "[]" 0 "[(''m'', demo_module)]" demo_fs] show ?thesis
    by (simp add: getModule_def message_module_def demo_module_def default_ModuleConfig_def Let_def)
qed

end
