(* ===== verification/SshKey.thy ===== *)
theory SshKey
  imports Prelude "HOL-Library.Monad_Syntax"
begin

unbundle bit_operations_syntax

text \<open>
  SSH keys and signatures, from \<open>include/simple-rsyncd/security/ssh_key.hpp\<close> and
  \<open>src/simple-rsyncd/security/ssh_key.cpp\<close>: the wire format of RFC 4251 strings, the import of a
  public key, the SSHSIG envelope and the verification of a signature.  OpenSSL is the record
  \<open>openssl\<close> of functions, a parameter of every definition that calls it: a key object has an
  arbitrary type, an import returns \<^const>\<open>None\<close> for a null pointer.  Nothing is assumed of it
  here.
\<close>

section \<open>OpenSSL as a parameter\<close>

datatype md = SHA1 | SHA256 | SHA384 | SHA512

datatype ec_nid = prime256v1 | secp384r1 | secp521r1

record 'k openssl =
  bio_base64_decode :: "string \<Rightarrow> string"
  bio_base64_encode :: "string \<Rightarrow> string"
  rsa_pkey :: "string \<Rightarrow> string \<Rightarrow> 'k option"
  ed25519_pkey :: "string \<Rightarrow> 'k option"
  ec_pkey :: "ec_nid \<Rightarrow> string \<Rightarrow> 'k option"
  evp_verify :: "'k \<Rightarrow> md option \<Rightarrow> string \<Rightarrow> string \<Rightarrow> bool"
  sha_digest :: "md \<Rightarrow> string \<Rightarrow> string"
  evp_sha256 :: "string \<Rightarrow> uint8_t list option"

section \<open>The wire format\<close>

definition char_byte :: "char \<Rightarrow> uint8_t" where
  "char_byte c = of_char c"

definition byte_char :: "uint8_t \<Rightarrow> char" where
  "byte_char b = char_of (unat b)"

definition appendWireString :: "string \<Rightarrow> string \<Rightarrow> string" where
  "appendWireString out value =
     (let len = word_of_nat (length value) :: uint32_t
      in out @ [byte_char (ucast (drop_bit 24 len AND 0xFF)),
                byte_char (ucast (drop_bit 16 len AND 0xFF)),
                byte_char (ucast (drop_bit 8 len AND 0xFF)),
                byte_char (ucast (len AND 0xFF))] @ value)"

definition readBe32 :: "string \<Rightarrow> uint32_t" where
  "readBe32 p =
     push_bit 24 (ucast (char_byte (p ! 0))) OR push_bit 16 (ucast (char_byte (p ! 1)))
     OR push_bit 8 (ucast (char_byte (p ! 2))) OR ucast (char_byte (p ! 3))"

record SshWireReader =
  rd_data :: string
  rd_size :: size_t
  rd_offset :: size_t

definition new_SshWireReader :: "string \<Rightarrow> SshWireReader" where
  "new_SshWireReader blob = \<lparr>rd_data = blob, rd_size = word_of_nat (length blob), rd_offset = 0\<rparr>"

definition readString :: "SshWireReader \<Rightarrow> string option \<times> SshWireReader" where
  "readString r =
     (if rd_offset r + 4 > rd_size r then (None, r)
      else let len = readBe32 (drop (unat (rd_offset r)) (rd_data r));
               r1 = r\<lparr>rd_offset := rd_offset r + 4\<rparr>
           in if rd_offset r1 + ucast len > rd_size r1 then (None, r1)
              else (Some (substr (rd_data r1) (unat (rd_offset r1)) (unat len)),
                    r1\<lparr>rd_offset := rd_offset r1 + ucast len\<rparr>))"

definition readByte :: "SshWireReader \<Rightarrow> uint8_t option \<times> SshWireReader" where
  "readByte r =
     (if rd_offset r \<ge> rd_size r then (None, r)
      else (Some (char_byte (rd_data r ! unat (rd_offset r))), r\<lparr>rd_offset := rd_offset r + 1\<rparr>))"

definition rd_empty :: "SshWireReader \<Rightarrow> bool" where
  "rd_empty r \<longleftrightarrow> rd_offset r \<ge> rd_size r"

definition rd_remaining :: "SshWireReader \<Rightarrow> size_t" where
  "rd_remaining r = (if rd_offset r < rd_size r then rd_size r - rd_offset r else 0)"

section \<open>Importing keys\<close>

definition ecNidFromSshType :: "string \<Rightarrow> ec_nid option" where
  "ecNidFromSshType key_type =
     (if key_type = ''ecdsa-sha2-nistp256'' then Some prime256v1
      else if key_type = ''ecdsa-sha2-nistp384'' then Some secp384r1
      else if key_type = ''ecdsa-sha2-nistp521'' then Some secp521r1
      else None)"

definition mdFromSshSigType :: "string \<Rightarrow> md option" where
  "mdFromSshSigType sig_type =
     (if sig_type = ''rsa-sha2-256'' then Some SHA256
      else if sig_type = ''rsa-sha2-512'' then Some SHA512
      else if sig_type = ''ssh-rsa'' then Some SHA1
      else None)"

definition pkeyFromEd25519 :: "'k openssl \<Rightarrow> string \<Rightarrow> 'k option" where
  "pkeyFromEd25519 ssl raw32 = (if length raw32 \<noteq> 32 then None else ed25519_pkey ssl raw32)"

definition pkeyFromEc :: "'k openssl \<Rightarrow> string \<Rightarrow> string \<Rightarrow> string \<Rightarrow> 'k option" where
  "pkeyFromEc ssl key_type curve_id q_bytes =
     (case ecNidFromSshType key_type of None \<Rightarrow> None | Some nid \<Rightarrow> ec_pkey ssl nid q_bytes)"

text \<open>An mpint is handed to \<open>BN_bin2bn\<close> as the bytes of its string.\<close>

definition fromSshBlob :: "'k openssl \<Rightarrow> string \<Rightarrow> 'k option" where
  "fromSshBlob ssl decoded_blob =
     (case readString (new_SshWireReader decoded_blob) of
        (None, _) \<Rightarrow> None
      | (Some key_type, r) \<Rightarrow>
          if key_type = ''ssh-rsa'' then
            (case readString r of
               (None, _) \<Rightarrow> None
             | (Some e, r1) \<Rightarrow>
                 (case readString r1 of (None, _) \<Rightarrow> None | (Some n, _) \<Rightarrow> rsa_pkey ssl n e))
          else if key_type = ''ssh-ed25519'' then
            (case readString r of (None, _) \<Rightarrow> None | (Some raw, _) \<Rightarrow> pkeyFromEd25519 ssl raw)
          else if starts_with ''ecdsa-sha2-'' key_type then
            (case readString r of
               (None, _) \<Rightarrow> None
             | (Some curve_id, r1) \<Rightarrow>
                 (case readString r1 of
                    (None, _) \<Rightarrow> None
                  | (Some q_bytes, _) \<Rightarrow> pkeyFromEc ssl key_type curve_id q_bytes))
          else None)"

section \<open>Verifying signatures\<close>

definition digestVerify :: "'k openssl \<Rightarrow> 'k \<Rightarrow> md \<Rightarrow> string \<Rightarrow> string \<Rightarrow> bool" where
  "digestVerify ssl pkey m data sig_raw = evp_verify ssl pkey (Some m) sig_raw data"

definition ed25519Verify :: "'k openssl \<Rightarrow> 'k \<Rightarrow> string \<Rightarrow> string \<Rightarrow> bool" where
  "ed25519Verify ssl pkey data sig_raw = evp_verify ssl pkey None sig_raw data"

definition verifyInnerSignature ::
  "'k openssl \<Rightarrow> 'k \<Rightarrow> string \<Rightarrow> string \<Rightarrow> string \<Rightarrow> string \<Rightarrow> bool" where
  "verifyInnerSignature ssl pkey key_type sig_type sig_raw signed_data =
     (if key_type = ''ssh-ed25519'' \<or> sig_type = ''ssh-ed25519'' then
        ed25519Verify ssl pkey signed_data sig_raw
      else if key_type = ''ssh-rsa'' \<or> sig_type = ''ssh-rsa'' \<or> sig_type = ''rsa-sha2-256''
              \<or> sig_type = ''rsa-sha2-512'' then
        (let m = (case mdFromSshSigType sig_type of None \<Rightarrow> SHA256 | Some m \<Rightarrow> m)
         in if digestVerify ssl pkey m signed_data sig_raw then True
            else if sig_type \<noteq> ''ssh-rsa'' then digestVerify ssl pkey SHA1 signed_data sig_raw
            else False)
      else if starts_with ''ecdsa-sha2-'' key_type then
        digestVerify ssl pkey
          (if contains_sub ''nistp384'' sig_type then SHA384
           else if contains_sub ''nistp521'' sig_type then SHA512 else SHA256)
          signed_data sig_raw
      else False)"

definition hashMessage :: "'k openssl \<Rightarrow> string \<Rightarrow> string \<Rightarrow> string" where
  "hashMessage ssl hash_alg message =
     (if hash_alg = ''sha512'' then sha_digest ssl SHA512 message
      else if hash_alg = ''sha256'' then sha_digest ssl SHA256 message
      else message)"

abbreviation kMagicV0 :: string where "kMagicV0 \<equiv> ''SSH SIG''"
abbreviation kMagicV1 :: string where "kMagicV1 \<equiv> ''SSHSIG''"

definition buildOpenSshSignedDataV1 :: "'k openssl \<Rightarrow> string \<Rightarrow> string \<Rightarrow> string \<Rightarrow> string" where
  "buildOpenSshSignedDataV1 ssl namespace_name hash_alg message =
     appendWireString (appendWireString (appendWireString (appendWireString kMagicV1
       namespace_name) []) hash_alg) (hashMessage ssl hash_alg message)"

definition buildOpenSshSignedDataV0 :: "'k openssl \<Rightarrow> string \<Rightarrow> string \<Rightarrow> string \<Rightarrow> string" where
  "buildOpenSshSignedDataV0 ssl namespace_name hash_alg message =
     appendWireString (appendWireString (appendWireString kMagicV0 namespace_name @ [CHR 0x00])
       hash_alg) (hashMessage ssl hash_alg message)"

text \<open>The parsed envelope: version, namespace, hash, signature type and raw signature.\<close>

definition parseSshSigEnvelope ::
  "string \<Rightarrow> (uint32_t \<times> string \<times> string \<times> string \<times> string) option" where
  "parseSshSigEnvelope sig_blob =
     do {
       header_len \<leftarrow> (if starts_with kMagicV1 sig_blob then Some (length kMagicV1)
                      else if starts_with kMagicV0 sig_blob then Some (length kMagicV0)
                      else None);
       if length sig_blob < header_len + 4 then None
       else
         let version = readBe32 (drop header_len sig_blob);
             r0 = new_SshWireReader (drop (header_len + 4) sig_blob)
         in do {
           (embedded_pubkey, r1) \<leftarrow> (case readString r0 of (v, r) \<Rightarrow> map_option (\<lambda>v. (v, r)) v);
           (namespace_name, r2) \<leftarrow> (case readString r1 of (v, r) \<Rightarrow> map_option (\<lambda>v. (v, r)) v);
           r3 \<leftarrow> (if version \<ge> 1 then
                    (case readString r2 of (v, r) \<Rightarrow> map_option (\<lambda>_. r) v)
                  else (case readByte r2 of
                          (None, _) \<Rightarrow> None
                        | (Some reserved_byte, r) \<Rightarrow> if reserved_byte \<noteq> 0 then None else Some r));
           (hash_alg, r4) \<leftarrow> (case readString r3 of (v, r) \<Rightarrow> map_option (\<lambda>v. (v, r)) v);
           (inner_sig_blob, r5) \<leftarrow> (case readString r4 of (v, r) \<Rightarrow> map_option (\<lambda>v. (v, r)) v);
           (sig_type, i1) \<leftarrow> (case readString (new_SshWireReader inner_sig_blob) of
                                  (v, r) \<Rightarrow> map_option (\<lambda>v. (v, r)) v);
           sig_raw \<leftarrow> fst (readString i1);
           Some (version, namespace_name, hash_alg, sig_type, sig_raw)
         }
     }"

text \<open>PEM armour: the lines between the two markers, joined.\<close>

definition find_from :: "string \<Rightarrow> string \<Rightarrow> nat \<Rightarrow> nat option" where
  "find_from pat s pos = map_option ((+) pos) (find_sub pat (drop pos s))"

function armor_body :: "string \<Rightarrow> nat \<Rightarrow> nat \<Rightarrow> string \<Rightarrow> string" where
  "armor_body signature fin pos body =
     (if pos < fin then
        (let line_end = find_char_from newline signature pos;
             chunk_end = (case line_end of None \<Rightarrow> fin | Some e \<Rightarrow> if e > fin then fin else e);
             body' = body @ substr signature pos (chunk_end - pos)
         in case line_end of
              None \<Rightarrow> body'
            | Some e \<Rightarrow> if e \<ge> fin then body' else armor_body signature fin (e + 1) body')
      else body)"
  by pat_completeness auto
termination
  by (relation "measure (\<lambda>(_, fin, pos, _). fin - pos)")
     (auto dest!: find_char_from_ge [OF sym])

declare armor_body.simps [simp del]

definition normalizeSignatureInput :: "string \<Rightarrow> string" where
  "normalizeSignatureInput signature =
     (case find_sub ''-----BEGIN SSH SIGNATURE-----'' signature of
        None \<Rightarrow> signature
      | Some bgn \<Rightarrow>
          (case find_sub ''-----END SSH SIGNATURE-----'' signature of
             None \<Rightarrow> signature
           | Some fin \<Rightarrow>
               (case find_char_from newline signature bgn of
                  None \<Rightarrow> signature
                | Some lines_start \<Rightarrow> armor_body signature fin (lines_start + 1) [])))"

definition base64Decode :: "'k openssl \<Rightarrow> string \<Rightarrow> string" where
  "base64Decode ssl encoded = bio_base64_decode ssl encoded"

definition base64Encode :: "'k openssl \<Rightarrow> string \<Rightarrow> string" where
  "base64Encode ssl raw = bio_base64_encode ssl raw"

definition kDefaultNamespace :: string where
  "kDefaultNamespace = ''simple-rsyncd''"

definition ssh_verify :: "'k openssl \<Rightarrow> string \<Rightarrow> string \<Rightarrow> string \<Rightarrow> string \<Rightarrow> bool" where
  "ssh_verify ssl key_type key_data_b64 data signature_b64 =
     (let normalized_sig = normalizeSignatureInput signature_b64;
          key_blob = base64Decode ssl key_data_b64;
          sig_blob = base64Decode ssl normalized_sig
      in if key_blob = [] \<or> sig_blob = [] then False
         else case fromSshBlob ssl key_blob of
           None \<Rightarrow> False
         | Some pkey \<Rightarrow>
             if starts_with kMagicV0 sig_blob \<or> starts_with kMagicV1 sig_blob then
               (case parseSshSigEnvelope sig_blob of
                  None \<Rightarrow> False
                | Some (version, namespace_name, hash_alg, sig_type, sig_raw) \<Rightarrow>
                    verifyInnerSignature ssl pkey key_type sig_type sig_raw
                      (if version \<ge> 1 then buildOpenSshSignedDataV1 ssl namespace_name hash_alg data
                       else buildOpenSshSignedDataV0 ssl namespace_name hash_alg data))
             else
               (case readString (new_SshWireReader sig_blob) of
                  (None, _) \<Rightarrow> False
                | (Some sig_type, r) \<Rightarrow>
                    (case readString r of
                       (None, _) \<Rightarrow> False
                     | (Some sig_raw, _) \<Rightarrow>
                         verifyInnerSignature ssl pkey key_type sig_type sig_raw data
                         \<or> key_type = ''ssh-ed25519''
                           \<and> (verifyInnerSignature ssl pkey key_type sig_type sig_raw
                                 (buildOpenSshSignedDataV1 ssl kDefaultNamespace ''sha512'' data)
                              \<or> verifyInnerSignature ssl pkey key_type sig_type sig_raw
                                 (buildOpenSshSignedDataV0 ssl kDefaultNamespace ''sha512'' data)))))"

definition buildEd25519KeyData :: "'k openssl \<Rightarrow> string \<Rightarrow> string" where
  "buildEd25519KeyData ssl raw32 =
     (if length raw32 \<noteq> 32 then []
      else base64Encode ssl (appendWireString (appendWireString [] ''ssh-ed25519'') raw32))"

definition buildSignatureBlob :: "'k openssl \<Rightarrow> string \<Rightarrow> string \<Rightarrow> string" where
  "buildSignatureBlob ssl sig_type sig_raw =
     base64Encode ssl (appendWireString (appendWireString [] sig_type) sig_raw)"

end
