(* ===== verification/SshKey_Facts.thy ===== *)
theory SshKey_Facts
  imports SshKey
begin

text \<open>
  The wire format as a codec, the reader as an implementation of a parser that consumes a list,
  and what the verifier accepts.  The locale \<open>codec\<close> is the interface: a printer and a consuming
  parser that undo each other.
\<close>

section \<open>The interface of a wire format\<close>

locale codec =
  fixes put :: "'a \<Rightarrow> string"
    and get :: "string \<Rightarrow> ('a \<times> string) option"
    and ok :: "'a \<Rightarrow> bool"
  assumes get_put: "ok x \<Longrightarrow> get (put x @ r) = Some (x, r)"
begin

lemma put_unique: "ok x \<Longrightarrow> ok y \<Longrightarrow> put x @ r = put y @ r' \<Longrightarrow> x = y \<and> r = r'"
proof -
  assume a: "ok x" "ok y" "put x @ r = put y @ r'"
  then have "get (put y @ r') = Some (x, r)" using get_put [of x r] by simp
  with get_put [OF a(2), of r'] show ?thesis by simp
qed

lemma put_inj: "ok x \<Longrightarrow> ok y \<Longrightarrow> put x = put y \<Longrightarrow> x = y"
  using put_unique [of x y "[]" "[]"] by simp

lemma put_many_unique:
  "list_all ok xs \<Longrightarrow> list_all ok ys \<Longrightarrow> length xs = length ys \<Longrightarrow>
     concat (map put xs) @ r = concat (map put ys) @ r' \<Longrightarrow> xs = ys \<and> r = r'"
proof (induction xs arbitrary: ys)
  case (Cons x xs)
  then obtain y ys' where ys: "ys = y # ys'" by (cases ys) auto
  with Cons.prems have "x = y \<and> concat (map put xs) @ r = concat (map put ys') @ r'"
    by (intro put_unique) auto
  with Cons.IH [of ys'] Cons.prems ys show ?case by auto
qed simp

end

section \<open>Four bytes and their word\<close>

lemma char_byte_char [simp]: "char_byte (byte_char b) = b"
proof -
  have a: "of_char (char_of n :: char) = (n mod 256 :: nat)" for n by simp
  have c: "(of_char c :: 8 word) = of_nat (of_char c :: nat)" for c by (rule of_nat_of_char [symmetric])
  have "unat b < 2 ^ LENGTH(8)" by (rule unsigned_less)
  then have "unat b mod 256 = unat b" by simp
  then show ?thesis unfolding char_byte_def byte_char_def c a by simp
qed
lemma bytes_of_word:
  "(push_bit 24 (ucast (ucast (drop_bit 24 w AND 0xFF) :: uint8_t))
    OR push_bit 16 (ucast (ucast (drop_bit 16 w AND 0xFF) :: uint8_t))
    OR push_bit 8 (ucast (ucast (drop_bit 8 w AND 0xFF) :: uint8_t))
    OR ucast (ucast (w AND 0xFF) :: uint8_t)) = (w :: uint32_t)" 
proof -
  have m: "(0xFF :: uint32_t) = mask 8" by (simp add: mask_eq_exp_minus_1)
  show ?thesis unfolding m 
  proof (rule bit_word_eqI)
    fix n assume "n < LENGTH(32)"
    then consider "n < 8" | "8 \<le> n" "n < 16" | "16 \<le> n" "n < 24" | "24 \<le> n" "n < 32" by fastforce
    then show "bit (push_bit 24 (ucast (ucast (drop_bit 24 w AND mask 8) :: uint8_t))
        OR push_bit 16 (ucast (ucast (drop_bit 16 w AND mask 8) :: uint8_t))
        OR push_bit 8 (ucast (ucast (drop_bit 8 w AND mask 8) :: uint8_t))
        OR ucast (ucast (w AND mask 8) :: uint8_t) :: uint32_t) n = bit w n"
      by cases (auto simp add: bit_simps)
  qed
qed

definition wire_bytes :: "uint32_t \<Rightarrow> string" where
  "wire_bytes len =
     [byte_char (ucast (drop_bit 24 len AND 0xFF)), byte_char (ucast (drop_bit 16 len AND 0xFF)),
      byte_char (ucast (drop_bit 8 len AND 0xFF)), byte_char (ucast (len AND 0xFF))]"

lemma readBe32_wire [simp]: "readBe32 (wire_bytes w @ r) = w"
  using bytes_of_word [of w] by (simp add: readBe32_def wire_bytes_def)

lemma length_wire_bytes [simp]: "length (wire_bytes w) = 4"
  by (simp add: wire_bytes_def)

abbreviation wire :: "string \<Rightarrow> string" where "wire v \<equiv> appendWireString [] v"

lemma wire_eq: "wire v = wire_bytes (word_of_nat (length v)) @ v"
  by (simp add: appendWireString_def wire_bytes_def Let_def)

lemma append_wire: "appendWireString (c # out) v = c # out @ wire v"
  by (simp add: appendWireString_def Let_def)

section \<open>The reader consumes a list\<close>

definition take_string :: "string \<Rightarrow> (string \<times> string) option" where
  "take_string s =
     (if length s < 4 then None
      else let len = unat (readBe32 s)
           in if length s < 4 + len then None else Some (take len (drop 4 s), drop (4 + len) s))"

definition wire_ok :: "string \<Rightarrow> bool" where
  "wire_ok v \<longleftrightarrow> length v < 2 ^ 32"

lemma unat_length32: "length v < 2 ^ 32 \<Longrightarrow> unat (word_of_nat (length v) :: uint32_t) = length v"
  by (simp add: unat_of_nat take_bit_nat_eq_self)

interpretation wire_string: codec "appendWireString []" take_string wire_ok
  by unfold_locales (simp add: take_string_def wire_eq wire_ok_def unat_length32 Let_def)

text \<open>A reader that stays inside its buffer; a buffer of less than half the address space.\<close>

definition rd_ok :: "SshWireReader \<Rightarrow> bool" where
  "rd_ok r \<longleftrightarrow> length (rd_data r) < 2 ^ 63 \<and> rd_size r = word_of_nat (length (rd_data r))
     \<and> rd_offset r \<le> rd_size r"

definition rd_rest :: "SshWireReader \<Rightarrow> string" where
  "rd_rest r = drop (unat (rd_offset r)) (rd_data r)"

lemma unat_size: "n < 2 ^ 63 \<Longrightarrow> unat (word_of_nat n :: size_t) = n"
  by (simp add: unat_of_nat take_bit_nat_eq_self)

lemma rd_ok_new: "length blob < 2 ^ 63 \<Longrightarrow> rd_ok (new_SshWireReader blob)"
  by (simp add: rd_ok_def new_SshWireReader_def)

lemma rd_rest_new [simp]: "rd_rest (new_SshWireReader blob) = blob"
  by (simp add: rd_rest_def new_SshWireReader_def)

lemma unat_add_small: "unat (a :: size_t) + unat b < 2 ^ 64 \<Longrightarrow> unat (a + b) = unat a + unat b"
  by (simp add: unat_add_lem [THEN iffD1])

lemma rd_offset_le: "rd_ok r \<Longrightarrow> unat (rd_offset r) \<le> length (rd_data r)"
  using unat_size by (auto simp: rd_ok_def word_le_nat_alt)

lemma readString_step:
  assumes "rd_ok r"
  shows "case readString r of
           (Some v, r') \<Rightarrow> take_string (rd_rest r) = Some (v, rd_rest r') \<and> rd_ok r'
         | (None, r') \<Rightarrow> take_string (rd_rest r) = None \<and> rd_ok r'"
proof -
  let ?o = "unat (rd_offset r)" and ?n = "length (rd_data r)"
  note o = rd_offset_le [OF assms]
  have n: "?n < 2 ^ 63" "unat (rd_size r) = ?n" using assms unat_size by (auto simp: rd_ok_def)
  have o4: "unat (rd_offset r + 4) = ?o + 4" using o n by (subst unat_add_small) auto
  have c1: "rd_offset r + 4 > rd_size r \<longleftrightarrow> ?n < ?o + 4"
    using o4 n by (simp add: word_less_nat_alt)
  show ?thesis
  proof (cases "?n < ?o + 4")
    case True
    then have "readString r = (None, r)" "take_string (rd_rest r) = None"
      using c1 o by (auto simp: readString_def take_string_def rd_rest_def)
    then show ?thesis using assms by simp
  next
    case False
    let ?len = "readBe32 (drop ?o (rd_data r))"
    have l: "unat (ucast ?len :: size_t) = unat ?len" "unat ?len < 2 ^ 32"
    proof -
      have "unat ?len < 2 ^ LENGTH(32)" by (rule unsigned_less)
      then show "unat ?len < 2 ^ 32" by simp
      then show "unat (ucast ?len :: size_t) = unat ?len"
        by (simp add: unsigned_ucast_eq take_bit_nat_eq_self)
    qed
    have o4l: "unat (rd_offset r + 4 + ucast ?len) = ?o + 4 + unat ?len"
      using o o4 n l by (subst unat_add_small) auto
    have c2: "rd_offset r + 4 + ucast ?len > rd_size r \<longleftrightarrow> ?n < ?o + 4 + unat ?len"
      using o4l n by (simp add: word_less_nat_alt)
    have nlt: "\<not> rd_offset r + 4 > rd_size r" using c1 False by simp
    show ?thesis
    proof (cases "?n < ?o + 4 + unat ?len")
      case True
      then have "readString r = (None, r\<lparr>rd_offset := rd_offset r + 4\<rparr>)"
        using nlt c2 by (simp add: readString_def Let_def)
      moreover have "take_string (rd_rest r) = None"
        using True o False by (simp add: take_string_def rd_rest_def Let_def)
      ultimately show ?thesis using assms nlt by (simp add: rd_ok_def not_less)
    next
      case False': False
      then have "readString r = (Some (substr (rd_data r) (?o + 4) (unat ?len)),
          r\<lparr>rd_offset := rd_offset r + 4 + ucast ?len\<rparr>)"
        using nlt c2 o4 by (simp add: readString_def Let_def)
      moreover have "take_string (rd_rest r)
          = Some (substr (rd_data r) (?o + 4) (unat ?len), drop (?o + 4 + unat ?len) (rd_data r))"
        using False' o False by (auto simp: take_string_def rd_rest_def Let_def substr_def ac_simps)
      ultimately show ?thesis using assms c2 False' o4l by (simp add: rd_ok_def rd_rest_def not_less)
    qed
  qed
qed

text \<open>Reading a string the writer put there.\<close>

lemma readString_wire:
  assumes "rd_ok r" "rd_rest r = wire v @ s" "wire_ok v"
  obtains r' where "readString r = (Some v, r')" "rd_ok r'" "rd_rest r' = s"
  using readString_step [OF assms(1)] wire_string.get_put [OF assms(3), of s] assms(2)
  by (cases "readString r") (auto split: option.splits)

section \<open>Properties\<close>

text \<open>C25. The reader stays inside its buffer: with the offset inside a buffer of fewer than 2^63
  bytes, \<open>readString\<close> returns exactly what the list-level parser takes from the unread bytes (a
  four-byte big-endian length and that many bytes), fails exactly when they are not all there, and
  leaves the offset inside the buffer; the 64-bit offset arithmetic never wraps, whatever length
  the input claims.\<close>

theorem readString_refines:
  assumes "rd_ok r"
  shows "rd_ok (snd (readString r))
       \<and> fst (readString r) = map_option fst (take_string (rd_rest r))
       \<and> (\<forall>v s. take_string (rd_rest r) = Some (v, s) \<longrightarrow> rd_rest (snd (readString r)) = s)"
  using readString_step [OF assms] by (cases "readString r") (auto split: option.splits)

theorem readString_refines_witness:
  "let r = new_SshWireReader [CHR 0x00, CHR 0x00, CHR 0x00, CHR 0x02, CHR ''h'', CHR ''i'', CHR ''!'']
   in fst (readString r) = Some ''hi'' \<and> rd_rest (snd (readString r)) = ''!''"
proof -
  let ?b = "[CHR 0x00, CHR 0x00, CHR 0x00, CHR 0x02, CHR ''h'', CHR ''i'', CHR ''!'']"
  have "take_string ?b = Some (''hi'', ''!'')" by code_simp
  moreover have "rd_ok (new_SshWireReader ?b)" by (rule rd_ok_new) simp
  ultimately show ?thesis using readString_refines [of "new_SshWireReader ?b"] by (simp add: Let_def)
qed

text \<open>C39. The data an OpenSSH signature covers is unambiguous: two version-1 preimages are equal only
  if the namespace, the hash name and the digest agree, so a signature made for one namespace is
  never a signature over another one's data.\<close>

theorem signed_data_injective:
  assumes "buildOpenSshSignedDataV1 ssl ns h m = buildOpenSshSignedDataV1 ssl ns' h' m'"
    and "list_all wire_ok [ns, h, hashMessage ssl h m]" "list_all wire_ok [ns', h', hashMessage ssl h' m']"
  shows "ns = ns' \<and> h = h' \<and> hashMessage ssl h m = hashMessage ssl h' m'"
proof -
  have v: "buildOpenSshSignedDataV1 ssl n a x = kMagicV1 @ concat (map wire [n, [], a, hashMessage ssl a x])"
    for n a x
    unfolding buildOpenSshSignedDataV1_def
    by (simp only: append_wire append_assoc list.map concat.simps append_Nil2 append.simps)
  have "concat (map wire [ns, [], h, hashMessage ssl h m]) @ []
      = concat (map wire [ns', [], h', hashMessage ssl h' m']) @ []"
    using assms(1) by (simp only: v same_append_eq append_Nil2)
  from wire_string.put_many_unique [OF _ _ _ this] assms(2,3) show ?thesis
    by (auto simp: wire_ok_def)
qed

definition toy_ssl :: "string openssl" where
  "toy_ssl = \<lparr>bio_base64_decode = (\<lambda>s. s), bio_base64_encode = (\<lambda>s. s), rsa_pkey = (\<lambda>n e. Some n),
     ed25519_pkey = Some, ec_pkey = (\<lambda>_ q. Some q),
     evp_verify = (\<lambda>k m sig data. sig = k @ data \<and> (m = None \<or> m = Some SHA1)),
     sha_digest = (\<lambda>_ x. x), evp_sha256 = (\<lambda>x. Some (map char_byte x))\<rparr>"

theorem signed_data_injective_witness:
  "buildOpenSshSignedDataV1 toy_ssl ''file'' ''sha256'' ''x'' \<noteq> buildOpenSshSignedDataV1 toy_ssl ''fil'' ''esha256'' ''x''"
proof
  assume "buildOpenSshSignedDataV1 toy_ssl ''file'' ''sha256'' ''x''
        = buildOpenSshSignedDataV1 toy_ssl ''fil'' ''esha256'' ''x''"
  from signed_data_injective [OF this] show False
    by (simp add: wire_ok_def hashMessage_def toy_ssl_def)
qed

definition envelope_v1 :: "string \<Rightarrow> string \<Rightarrow> string \<Rightarrow> string \<Rightarrow> string \<Rightarrow> string" where
  "envelope_v1 embedded ns hash_alg sig_type sig_raw =
     kMagicV1 @ wire_bytes 1 @ wire embedded @ wire ns @ wire [] @ wire hash_alg
     @ wire (wire sig_type @ wire sig_raw)"

lemma wire_ok_shorter: "wire_ok v \<Longrightarrow> length v' \<le> length v \<Longrightarrow> wire_ok v'"
  by (simp add: wire_ok_def)

lemma length_wire [simp]: "length (wire v) = 4 + length v"
  by (simp add: wire_eq)

lemma parse_envelope_v1:
  assumes "length (envelope_v1 embedded ns hash_alg sig_type sig_raw) < 2 ^ 32"
  shows "parseSshSigEnvelope (envelope_v1 embedded ns hash_alg sig_type sig_raw)
           = Some (1, ns, hash_alg, sig_type, sig_raw)"
proof -
  let ?inner = "wire sig_type @ wire sig_raw"
  let ?body = "wire embedded @ wire ns @ wire [] @ wire hash_alg @ wire ?inner"
  let ?blob = "envelope_v1 embedded ns hash_alg sig_type sig_raw"
  have len: "length ?body < 2 ^ 32" using assms by (simp add: envelope_v1_def)
  have ok: "wire_ok embedded" "wire_ok ns" "wire_ok []" "wire_ok hash_alg" "wire_ok ?inner"
    "wire_ok sig_type" "wire_ok sig_raw" using len by (simp_all add: wire_ok_def)
  have r0: "rd_ok (new_SshWireReader ?body)" "rd_rest (new_SshWireReader ?body) = ?body"
    using len by (auto intro!: rd_ok_new)
  obtain r1 where r1: "readString (new_SshWireReader ?body) = (Some embedded, r1)" "rd_ok r1"
    "rd_rest r1 = wire ns @ wire [] @ wire hash_alg @ wire ?inner"
    by (rule readString_wire [OF r0(1) r0(2) ok(1)])
  obtain r2 where r2: "readString r1 = (Some ns, r2)" "rd_ok r2"
    "rd_rest r2 = wire [] @ wire hash_alg @ wire ?inner" by (rule readString_wire [OF r1(2,3) ok(2)])
  obtain r3 where r3: "readString r2 = (Some [], r3)" "rd_ok r3"
    "rd_rest r3 = wire hash_alg @ wire ?inner" by (rule readString_wire [OF r2(2,3) ok(3)])
  obtain r4 where r4: "readString r3 = (Some hash_alg, r4)" "rd_ok r4" "rd_rest r4 = wire ?inner @ []"
    by (rule readString_wire [OF r3(2) _ ok(4)]) (auto simp: r3(3))
  obtain r5 where r5: "readString r4 = (Some ?inner, r5)" by (rule readString_wire [OF r4(2,3) ok(5)])
  have i0: "rd_ok (new_SshWireReader ?inner)" "rd_rest (new_SshWireReader ?inner) = ?inner"
    using len by (auto intro!: rd_ok_new)
  obtain i1 where i1: "readString (new_SshWireReader ?inner) = (Some sig_type, i1)" "rd_ok i1"
    "rd_rest i1 = wire sig_raw @ []" by (rule readString_wire [OF i0(1) _ ok(6)]) auto
  obtain i2 where i2: "readString i1 = (Some sig_raw, i2)" by (rule readString_wire [OF i1(2,3) ok(7)])
  have h: "starts_with kMagicV1 ?blob" "\<not> length ?blob < length kMagicV1 + 4"
    "readBe32 (drop (length kMagicV1) ?blob) = 1" "drop (length kMagicV1 + 4) ?blob = ?body"
    by (simp_all add: envelope_v1_def starts_with_def)
  have one: "(1 :: uint32_t) \<le> 1" by simp
  show ?thesis
    unfolding parseSshSigEnvelope_def
    by (simp only: h r1(1) r2(1) r3(1) r4(1) r5 i1(1) i2 one if_True if_False Let_def prod.case fst_conv
        option.map bind.bind_lunit)
qed

text \<open>C40. What the verifier requires of an SSHSIG envelope: for a version-1 envelope with any embedded
  public key and any namespace, the answer is that of the inner signature over the preimage built
  from the envelope's own namespace and hash name.  The embedded key is not compared with the key
  on file, and the namespace is not compared with \<open>kDefaultNamespace\<close>: a signature the owner made
  for another application is accepted here.\<close>

theorem envelope_verification:
  assumes "base64Decode ssl (normalizeSignatureInput sig) = envelope_v1 embedded ns hash_alg sig_type sig_raw"
    and "length (envelope_v1 embedded ns hash_alg sig_type sig_raw) < 2 ^ 32"
    and "base64Decode ssl key_data \<noteq> []"
  shows "ssh_verify ssl key_type key_data data sig =
           (case fromSshBlob ssl (base64Decode ssl key_data) of
              None \<Rightarrow> False
            | Some pkey \<Rightarrow> verifyInnerSignature ssl pkey key_type sig_type sig_raw
                             (buildOpenSshSignedDataV1 ssl ns hash_alg data))"
proof -
  have m: "starts_with kMagicV1 (envelope_v1 embedded ns hash_alg sig_type sig_raw)"
    "envelope_v1 embedded ns hash_alg sig_type sig_raw \<noteq> []"
    by (simp_all add: envelope_v1_def starts_with_def)
  show ?thesis
    unfolding ssh_verify_def assms(1) Let_def parse_envelope_v1 [OF assms(2)]
    using m assms(3) by (simp split: option.split)
qed

text \<open>A key of the toy instance accepts the signature made under the namespace \<open>file\<close> with the key
  \<open>other\<close> embedded.\<close>

theorem envelope_verification_witness:
  "ssh_verify toy_ssl ''ssh-rsa'' (wire ''ssh-rsa'' @ wire ''e'' @ wire ''n'') ''challenge''
     (envelope_v1 ''other'' ''file'' ''none'' ''ssh-rsa''
        (''n'' @ buildOpenSshSignedDataV1 toy_ssl ''file'' ''none'' ''challenge''))"
proof -
  let ?raw = "''n'' @ buildOpenSshSignedDataV1 toy_ssl ''file'' ''none'' ''challenge''"
  let ?key = "wire ''ssh-rsa'' @ wire ''e'' @ wire ''n''"
  let ?env = "envelope_v1 ''other'' ''file'' ''none'' ''ssh-rsa'' ?raw"
  have d: "base64Decode toy_ssl (normalizeSignatureInput ?env) = ?env" by code_simp
  have d2: "base64Decode toy_ssl ?key \<noteq> []" by code_simp
  have "length (buildOpenSshSignedDataV1 toy_ssl ''file'' ''none'' ''challenge'') = 39" by code_simp
  then have d3: "length ?env < 2 ^ 32" by (simp add: envelope_v1_def)
  have k: "fromSshBlob toy_ssl (base64Decode toy_ssl ?key) = Some ''n''" by code_simp
  have v: "verifyInnerSignature toy_ssl ''n'' ''ssh-rsa'' ''ssh-rsa'' ?raw
             (buildOpenSshSignedDataV1 toy_ssl ''file'' ''none'' ''challenge'')" by code_simp
  show ?thesis using envelope_verification [OF d d3 d2, of "''ssh-rsa''" "''challenge''"] k v by simp
qed

text \<open>A signature with a SHA-2 algorithm name is also accepted as a SHA-1 signature: for an RSA key
  the verifier answers yes if either digest verifies.\<close>

theorem rsa_sha1_fallback:
  "verifyInnerSignature ssl pkey ''ssh-rsa'' ''rsa-sha2-512'' sig_raw signed_data
     \<longleftrightarrow> evp_verify ssl pkey (Some SHA512) sig_raw signed_data \<or> evp_verify ssl pkey (Some SHA1) sig_raw signed_data"
  by (simp add: verifyInnerSignature_def mdFromSshSigType_def digestVerify_def)

end
