(* ===== verification/Library_Calls.thy ===== *)
theory Library_Calls
  imports Main
begin

text \<open>
  Calls of a library whose code is not part of the program.  A history is the calls made so far with
  their results; the library is a function that answers a call after a history.  What a history
  leaves behind, or that it went wrong, is the replay of its events on a state.
\<close>

type_synonym 'c history = "('c \<times> int) list"

definition call :: "('c history \<Rightarrow> 'c \<Rightarrow> int) \<Rightarrow> 'c \<Rightarrow> 'c history \<Rightarrow> int \<times> 'c history" where
  "call answer c h = (let r = answer h c in (r, h @ [(c, r)]))"

definition run_call :: "('c history \<Rightarrow> 'c \<Rightarrow> int) \<Rightarrow> 'c \<Rightarrow> 'c history \<Rightarrow> 'c history" where
  "run_call answer c h = snd (call answer c h)"

definition replay :: "('c \<times> int \<Rightarrow> 's \<Rightarrow> 's option) \<Rightarrow> 's \<Rightarrow> 'c history \<Rightarrow> 's option" where
  "replay use s h = foldl (\<lambda>s ev. Option.bind s (use ev)) (Some s) h"

lemma replay_Nil [simp]: "replay use s [] = Some s"
  by (simp add: replay_def)

lemma replay_snoc [simp]: "replay use s (h @ [ev]) = Option.bind (replay use s h) (use ev)"
  by (simp add: replay_def)

lemma replay_call:
  "replay use s (snd (call answer c h)) = Option.bind (replay use s h) (use (c, fst (call answer c h)))"
  "replay use s (run_call answer c h) = Option.bind (replay use s h) (use (c, fst (call answer c h)))"
  by (simp_all add: call_def run_call_def Let_def)

end
