(* ===== verification/SshKey_Objects.thy ===== *)
theory SshKey_Objects
  imports SshKey Library_Calls "HOL-Library.Multiset"
begin

text \<open>
  The key objects of \<open>src/simple-rsyncd/security/ssh_key.cpp\<close>: which OpenSSL objects an import and a
  verification allocate, hand over and release.  The theory \<open>SshKey\<close> says what they compute.

  OpenSSL answers calls after a history of calls; 0 is the null pointer.  The version compiled
  against decides which of two calls attaches a key to its envelope: from 3.0 on
  \<open>EVP_PKEY_assign\<close>, before \<open>EVP_PKEY_set1_RSA\<close> and \<open>EVP_PKEY_set1_EC_KEY\<close>.
\<close>

section \<open>The calls\<close>

type_synonym pointer = int

datatype kind = Bignum | Rsa_key | Ec_key | Ec_point | Pkey | Md_ctx

datatype crypto_call =
    BN_new
  | BN_bin2bn string
  | BN_free pointer
  | RSA_new
  | RSA_set0_key pointer pointer pointer
  | RSA_free pointer
  | PKEY_new
  | PKEY_assign pointer kind pointer
  | PKEY_set1 pointer kind pointer
  | PKEY_free pointer
  | PKEY_new_raw_public_key string
  | EC_KEY_new_by_curve_name ec_nid
  | EC_POINT_new pointer
  | EC_POINT_oct2point pointer pointer string
  | EC_KEY_set_public_key pointer pointer
  | EC_POINT_free pointer
  | EC_KEY_free pointer
  | MD_CTX_new
  | DigestVerifyInit pointer "md option" pointer
  | DigestVerify pointer string string
  | MD_CTX_free pointer

record crypto =
  cr_answer :: "crypto_call history \<Rightarrow> crypto_call \<Rightarrow> int"
  cr_three :: bool
  cr_raw_keys :: bool

abbreviation ask :: "crypto \<Rightarrow> crypto_call \<Rightarrow> crypto_call history \<Rightarrow> int \<times> crypto_call history" where
  "ask cr \<equiv> call (cr_answer cr)"

abbreviation tell :: "crypto \<Rightarrow> crypto_call \<Rightarrow> crypto_call history \<Rightarrow> crypto_call history" where
  "tell cr \<equiv> run_call (cr_answer cr)"

section \<open>Importing a key\<close>

definition obj_readMpint :: "crypto \<Rightarrow> SshWireReader \<Rightarrow> crypto_call history \<Rightarrow>
    bool \<times> pointer \<times> SshWireReader \<times> crypto_call history" where
  "obj_readMpint cr r h =
     (case readString r of
        (None, r) \<Rightarrow> (False, 0, r, h)
      | (Some bytes, r) \<Rightarrow>
          (case ask cr (if bytes = [] then BN_new else BN_bin2bn bytes) h of (p, h) \<Rightarrow> (p \<noteq> 0, p, r, h)))"

text \<open>The end of both imports: wrap a key object in an \<open>EVP_PKEY\<close>.\<close>

definition free_key :: "kind \<Rightarrow> pointer \<Rightarrow> crypto_call" where
  "free_key k p = (if k = Rsa_key then RSA_free p else EC_KEY_free p)"

definition obj_wrap :: "crypto \<Rightarrow> kind \<Rightarrow> pointer \<Rightarrow> crypto_call history \<Rightarrow> pointer \<times> crypto_call history" where
  "obj_wrap cr k key h =
     (case ask cr PKEY_new h of
        (pkey, h) \<Rightarrow>
          if pkey = 0 then (0, tell cr (free_key k key) h)
          else case ask cr (if cr_three cr then PKEY_assign pkey k key else PKEY_set1 pkey k key) h of
            (ok, h) \<Rightarrow>
              if ok \<noteq> 1 then (0, tell cr (free_key k key) (tell cr (PKEY_free pkey) h))
              else (pkey, tell cr (free_key k key) h))"

definition obj_pkeyFromRsa :: "crypto \<Rightarrow> pointer \<Rightarrow> pointer \<Rightarrow> crypto_call history \<Rightarrow> pointer \<times> crypto_call history" where
  "obj_pkeyFromRsa cr n e h =
     (case ask cr RSA_new h of
        (rsa, h) \<Rightarrow>
          if rsa = 0 then (0, h)
          else case ask cr (RSA_set0_key rsa n e) h of
            (ok, h) \<Rightarrow>
              if ok \<noteq> 1 then (0, tell cr (RSA_free rsa) h) else obj_wrap cr Rsa_key rsa h)"

definition obj_pkeyFromEd25519 :: "crypto \<Rightarrow> string \<Rightarrow> crypto_call history \<Rightarrow> pointer \<times> crypto_call history" where
  "obj_pkeyFromEd25519 cr raw32 h =
     (if length raw32 \<noteq> 32 \<or> \<not> cr_raw_keys cr then (0, h) else ask cr (PKEY_new_raw_public_key raw32) h)"

definition obj_pkeyFromEc :: "crypto \<Rightarrow> string \<Rightarrow> string \<Rightarrow> string \<Rightarrow> crypto_call history \<Rightarrow>
    pointer \<times> crypto_call history" where
  "obj_pkeyFromEc cr key_type curve_id q_bytes h =
     (case ecNidFromSshType key_type of
        None \<Rightarrow> (0, h)
      | Some nid \<Rightarrow>
          (case ask cr (EC_KEY_new_by_curve_name nid) h of
             (ec, h) \<Rightarrow>
               if ec = 0 then (0, h)
               else case ask cr (EC_POINT_new ec) h of
                 (point, h) \<Rightarrow>
                   if point = 0 then (0, tell cr (EC_KEY_free ec) h)
                   else case ask cr (EC_POINT_oct2point ec point q_bytes) h of
                     (ok, h) \<Rightarrow>
                       if ok \<noteq> 1 then (0, tell cr (EC_KEY_free ec) (tell cr (EC_POINT_free point) h))
                       else case ask cr (EC_KEY_set_public_key ec point) h of
                         (ok, h) \<Rightarrow>
                           if ok \<noteq> 1 then (0, tell cr (EC_KEY_free ec) (tell cr (EC_POINT_free point) h))
                           else obj_wrap cr Ec_key ec (tell cr (EC_POINT_free point) h)))"

text \<open>The integers are read one after the other, the exponent first; \<open>BN_free\<close> takes null pointers.\<close>

definition obj_fromSshBlob :: "crypto \<Rightarrow> string \<Rightarrow> crypto_call history \<Rightarrow> pointer \<times> crypto_call history" where
  "obj_fromSshBlob cr decoded_blob h =
     (case readString (new_SshWireReader decoded_blob) of
        (None, _) \<Rightarrow> (0, h)
      | (Some key_type, r) \<Rightarrow>
          if key_type = ''ssh-rsa'' then
            (case obj_readMpint cr r h of
               (False, e, r, h) \<Rightarrow> (0, tell cr (BN_free 0) (tell cr (BN_free e) h))
             | (True, e, r, h) \<Rightarrow>
                 (case obj_readMpint cr r h of
                    (False, n, _, h) \<Rightarrow> (0, tell cr (BN_free n) (tell cr (BN_free e) h))
                  | (True, n, _, h) \<Rightarrow> obj_pkeyFromRsa cr n e h))
          else if key_type = ''ssh-ed25519'' then
            (case readString r of (None, _) \<Rightarrow> (0, h) | (Some raw, _) \<Rightarrow> obj_pkeyFromEd25519 cr raw h)
          else if starts_with ''ecdsa-sha2-'' key_type then
            (case readString r of
               (None, _) \<Rightarrow> (0, h)
             | (Some curve_id, r) \<Rightarrow>
                 (case readString r of
                    (None, _) \<Rightarrow> (0, h)
                  | (Some q_bytes, _) \<Rightarrow> obj_pkeyFromEc cr key_type curve_id q_bytes h))
          else (0, h))"

section \<open>Verifying\<close>

definition obj_verify :: "crypto \<Rightarrow> pointer \<Rightarrow> md option \<Rightarrow> string \<Rightarrow> string \<Rightarrow> crypto_call history \<Rightarrow>
    bool \<times> crypto_call history" where
  "obj_verify cr pkey m data sig_raw h =
     (case ask cr MD_CTX_new h of
        (ctx, h) \<Rightarrow>
          if ctx = 0 then (False, h)
          else case ask cr (DigestVerifyInit ctx m pkey) h of
            (init, h) \<Rightarrow>
              (case (if init = 1 then apfst (\<lambda>r. r = 1) (ask cr (DigestVerify ctx sig_raw data) h) else (False, h)) of
                 (ok, h) \<Rightarrow> (ok, tell cr (MD_CTX_free ctx) h)))"

definition obj_digestVerify :: "crypto \<Rightarrow> pointer \<Rightarrow> md \<Rightarrow> string \<Rightarrow> string \<Rightarrow> crypto_call history \<Rightarrow>
    bool \<times> crypto_call history" where
  "obj_digestVerify cr pkey m data sig_raw h = obj_verify cr pkey (Some m) data sig_raw h"

definition obj_ed25519Verify :: "crypto \<Rightarrow> pointer \<Rightarrow> string \<Rightarrow> string \<Rightarrow> crypto_call history \<Rightarrow>
    bool \<times> crypto_call history" where
  "obj_ed25519Verify cr pkey data sig_raw h = obj_verify cr pkey None data sig_raw h"

section \<open>What the program holds\<close>

text \<open>
  The references in the program's hands.  \<open>RSA_set0_key\<close> hands the integers over to the key and
  \<open>EVP_PKEY_assign\<close> the key to the envelope; \<open>EVP_PKEY_set1_*\<close> takes a reference of its own.
\<close>

type_synonym references = "(kind \<times> pointer) multiset"

definition gain :: "kind \<Rightarrow> pointer \<Rightarrow> references \<Rightarrow> references option" where
  "gain k p own = Some (if p = 0 then own else add_mset (k, p) own)"

definition needs :: "(kind \<times> pointer) list \<Rightarrow> references \<Rightarrow> references option" where
  "needs ps own = (if \<forall>p \<in> set ps. p \<in># own then Some own else None)"

definition lose :: "(kind \<times> pointer) list \<Rightarrow> references \<Rightarrow> references option" where
  "lose ps own = (if mset ps \<subseteq># own then Some (own - mset ps) else None)"

fun refer :: "crypto_call \<times> int \<Rightarrow> references \<Rightarrow> references option" where
  "refer (BN_new, r) own = gain Bignum r own"
| "refer (BN_bin2bn s, r) own = gain Bignum r own"
| "refer (BN_free p, r) own = (if p = 0 then Some own else lose [(Bignum, p)] own)"
| "refer (RSA_new, r) own = gain Rsa_key r own"
| "refer (RSA_set0_key k n e, r) own =
     (if (Rsa_key, k) \<in># own \<and> mset [(Bignum, n), (Bignum, e)] \<subseteq># own
      then if r = 1 then lose [(Bignum, n), (Bignum, e)] own else Some own else None)"
| "refer (RSA_free p, r) own = lose [(Rsa_key, p)] own"
| "refer (PKEY_new, r) own = gain Pkey r own"
| "refer (PKEY_assign p k q, r) own =
     (if (Pkey, p) \<in># own \<and> (k, q) \<in># own then if r = 1 then lose [(k, q)] own else Some own else None)"
| "refer (PKEY_set1 p k q, r) own = needs [(Pkey, p), (k, q)] own"
| "refer (PKEY_free p, r) own = (if p = 0 then Some own else lose [(Pkey, p)] own)"
| "refer (PKEY_new_raw_public_key s, r) own = gain Pkey r own"
| "refer (EC_KEY_new_by_curve_name nid, r) own = gain Ec_key r own"
| "refer (EC_POINT_new ec, r) own = Option.bind (needs [(Ec_key, ec)] own) (gain Ec_point r)"
| "refer (EC_POINT_oct2point ec pt s, r) own = needs [(Ec_key, ec), (Ec_point, pt)] own"
| "refer (EC_KEY_set_public_key ec pt, r) own = needs [(Ec_key, ec), (Ec_point, pt)] own"
| "refer (EC_POINT_free p, r) own = lose [(Ec_point, p)] own"
| "refer (EC_KEY_free p, r) own = lose [(Ec_key, p)] own"
| "refer (MD_CTX_new, r) own = gain Md_ctx r own"
| "refer (DigestVerifyInit c m p, r) own = needs [(Md_ctx, c), (Pkey, p)] own"
| "refer (DigestVerify c s d, r) own = needs [(Md_ctx, c)] own"
| "refer (MD_CTX_free c, r) own = lose [(Md_ctx, c)] own"

definition held :: "references \<Rightarrow> crypto_call history \<Rightarrow> references option" where
  "held own h = replay refer own h"

lemma held_call:
  "held own (snd (ask cr c h)) = Option.bind (held own h) (refer (c, fst (ask cr c h)))"
  "held own (tell cr c h) = Option.bind (held own h) (refer (c, fst (ask cr c h)))"
  by (simp_all add: held_def replay_call)

text \<open>A call whose result is known, as an equation.\<close>

lemma held_ask:
  "ask cr c h = (r, h') \<Longrightarrow> held own h = Some got \<Longrightarrow> held own h' = refer (c, r) got"
  using held_call(1) [of own cr c h] by simp

lemma held_tell: "held own h = Some got \<Longrightarrow> (\<And>r. refer (c, r) got = res) \<Longrightarrow> held own (tell cr c h) = res"
  using held_call(2) [of own cr c h] by simp

lemma lose_one: "lose [x] own = (if x \<in># own then Some (own - {#x#}) else None)"
  by (simp add: lose_def)

lemma refer_free_key:
  "k \<in> {Rsa_key, Ec_key} \<Longrightarrow> refer (free_key k q, r) own = lose [(k, q)] own"
  by (auto simp: free_key_def)

text \<open>From OpenSSL 3.0 on the key that has been handed over is released all the same.\<close>

lemma wrap_references:
  assumes w: "obj_wrap cr k key h = (p, h')" and h: "held own0 h = Some (add_mset (k, key) own)"
    and k: "k \<in> {Rsa_key, Ec_key}" "(k, key) \<notin># own"
  shows "held own0 h' = (if p = 0 then Some own else if cr_three cr then None else Some (add_mset (Pkey, p) own))"
proof -
  obtain pk h1 where n: "ask cr PKEY_new h = (pk, h1)" by fastforce
  have h1: "held own0 h1 = gain Pkey pk (add_mset (k, key) own)" using held_ask [OF n h] by simp
  show ?thesis
  proof (cases "pk = 0")
    case True
    with h1 have "held own0 (tell cr (free_key k key) h1) = Some own"
      by (intro held_tell [where got = "add_mset (k, key) own"]) (simp_all add: gain_def refer_free_key [OF k(1)] lose_one)
    with True w show ?thesis by (auto simp: obj_wrap_def n)
  next
    case pk: False
    let ?c = "if cr_three cr then PKEY_assign pk k key else PKEY_set1 pk k key"
    obtain ok h2 where a: "ask cr ?c h1 = (ok, h2)" by fastforce
    have h1': "held own0 h1 = Some (add_mset (Pkey, pk) (add_mset (k, key) own))" using h1 pk by (simp add: gain_def)
    have h2: "held own0 h2 = Some (if cr_three cr \<and> ok = 1 then add_mset (Pkey, pk) own
        else add_mset (Pkey, pk) (add_mset (k, key) own))"
      using held_ask [OF a h1'] k(1) by (auto simp: lose_one needs_def)
    show ?thesis
    proof (cases "ok = 1")
      case True
      have "held own0 (tell cr (free_key k key) h2)
          = (if cr_three cr then None else Some (add_mset (Pkey, pk) own))"
        using h2 k True by (intro held_tell [OF h2]) (auto simp: refer_free_key lose_one)
      with True pk w a show ?thesis by (auto simp: obj_wrap_def n)
    next
      case False
      have "held own0 (tell cr (PKEY_free pk) h2) = Some (add_mset (k, key) own)"
        using pk False by (intro held_tell [OF h2]) (simp add: lose_one)
      from held_tell [OF this] have "held own0 (tell cr (free_key k key) (tell cr (PKEY_free pk) h2)) = Some own"
        by (simp add: refer_free_key [OF k(1)] lose_one)
      with False pk w a show ?thesis by (auto simp: obj_wrap_def n)
    qed
  qed
qed

text \<open>The outcome of an import that started with nothing in hand.\<close>

definition imported :: "crypto \<Rightarrow> bool \<Rightarrow> pointer \<Rightarrow> references option \<Rightarrow> bool" where
  "imported cr rsa p own \<longleftrightarrow>
     (if p = 0 then own = Some {#} \<or> rsa \<and> (\<exists>n e. own = Some {#(Bignum, n), (Bignum, e)#})
      else own = (if cr_three cr then None else Some {#(Pkey, p)#}))"

lemma rsa_references:
  assumes r: "obj_pkeyFromRsa cr n e h = (p, h')" and h: "held {#} h = Some {#(Bignum, n), (Bignum, e)#}"
  shows "imported cr True p (held {#} h')"
proof -
  obtain rsa h1 where a: "ask cr RSA_new h = (rsa, h1)" by fastforce
  have h1: "held {#} h1 = gain Rsa_key rsa {#(Bignum, n), (Bignum, e)#}" using held_ask [OF a h] by simp
  show ?thesis
  proof (cases "rsa = 0")
    case True
    with r h1 show ?thesis by (auto simp: obj_pkeyFromRsa_def a imported_def gain_def)
  next
    case False
    obtain ok h2 where s: "ask cr (RSA_set0_key rsa n e) h1 = (ok, h2)" by fastforce
    have h1': "held {#} h1 = Some {#(Rsa_key, rsa), (Bignum, n), (Bignum, e)#}" using h1 False by (simp add: gain_def)
    have h2: "held {#} h2 = Some (if ok = 1 then {#(Rsa_key, rsa)#} else {#(Rsa_key, rsa), (Bignum, n), (Bignum, e)#})"
      using held_ask [OF s h1'] by (auto simp: lose_def)
    show ?thesis
    proof (cases "ok = 1")
      case True
      have "obj_wrap cr Rsa_key rsa h2 = (p, h')" using r False True by (simp add: obj_pkeyFromRsa_def a s)
      from wrap_references [OF this, of "{#}" "{#}"] h2 True show ?thesis by (auto simp: imported_def)
    next
      case no: False
      have "held {#} (tell cr (RSA_free rsa) h2) = Some {#(Bignum, n), (Bignum, e)#}"
        by (rule held_tell [OF h2]) (use no in \<open>simp add: lose_one\<close>)
      with no r False show ?thesis by (auto simp: obj_pkeyFromRsa_def a s imported_def)
    qed
  qed
qed

lemma ec_references:
  assumes r: "obj_pkeyFromEc cr t curve q h = (p, h')" and h: "held {#} h = Some {#}"
  shows "imported cr False p (held {#} h')"
proof (cases "ecNidFromSshType t")
  case None
  with r h show ?thesis by (auto simp: obj_pkeyFromEc_def imported_def)
next
  case (Some nid)
  obtain ec h1 where a: "ask cr (EC_KEY_new_by_curve_name nid) h = (ec, h1)" by fastforce
  have h1: "held {#} h1 = gain Ec_key ec {#}" using held_ask [OF a h] by simp
  show ?thesis
  proof (cases "ec = 0")
    case True
    with r h1 Some show ?thesis by (auto simp: obj_pkeyFromEc_def a imported_def gain_def)
  next
    case ec: False
    obtain pt h2 where b: "ask cr (EC_POINT_new ec) h1 = (pt, h2)" by fastforce
    have h1': "held {#} h1 = Some {#(Ec_key, ec)#}" using h1 ec by (simp add: gain_def)
    have h2: "held {#} h2 = gain Ec_point pt {#(Ec_key, ec)#}" using held_ask [OF b h1'] by (simp add: needs_def)
    show ?thesis
    proof (cases "pt = 0")
      case True
      have "held {#} (tell cr (EC_KEY_free ec) h2) = Some {#}"
        by (rule held_tell [where got = "{#(Ec_key, ec)#}"]) (use h2 True in \<open>simp_all add: gain_def lose_one\<close>)
      with True ec Some r show ?thesis by (auto simp: obj_pkeyFromEc_def a b imported_def)
    next
      case pt: False
      let ?both = "{#(Ec_point, pt), (Ec_key, ec)#}"
      obtain ok h3 where c: "ask cr (EC_POINT_oct2point ec pt q) h2 = (ok, h3)" by fastforce
      obtain ok' h4 where d: "ask cr (EC_KEY_set_public_key ec pt) h3 = (ok', h4)" by fastforce
      have h2': "held {#} h2 = Some ?both" using h2 pt by (simp add: gain_def)
      have h3: "held {#} h3 = Some ?both" using held_ask [OF c h2'] by (simp add: needs_def)
      have h4: "held {#} h4 = Some ?both" using held_ask [OF d h3] by (simp add: needs_def)
      have point: "held {#} (tell cr (EC_POINT_free pt) g) = Some {#(Ec_key, ec)#}" if "held {#} g = Some ?both" for g
        by (rule held_tell [OF that]) (simp add: lose_one)
      have both: "held {#} (tell cr (EC_KEY_free ec) (tell cr (EC_POINT_free pt) g)) = Some {#}" if "held {#} g = Some ?both" for g
        by (rule held_tell [OF point [OF that]]) (simp add: lose_one)
      show ?thesis
      proof (cases "ok = 1 \<and> ok' = 1")
        case True
        have "obj_wrap cr Ec_key ec (tell cr (EC_POINT_free pt) h4) = (p, h')"
          using r Some ec pt True by (simp add: obj_pkeyFromEc_def a b c d)
        from wrap_references [OF this, of "{#}" "{#}"] point [OF h4] show ?thesis by (auto simp: imported_def)
      next
        case False
        with r Some ec pt both [OF h3] both [OF h4] show ?thesis
          by (auto simp: obj_pkeyFromEc_def a b c d imported_def split: if_split_asm)
      qed
    qed
  qed
qed

lemma mpint_references:
  assumes "obj_readMpint cr r h = (ok, p, r', h')" "held own0 h = Some own"
  shows "held own0 h' = Some (if p = 0 then own else add_mset (Bignum, p) own)" "ok \<longleftrightarrow> p \<noteq> 0"
proof -
  have "held own0 h' = Some (if p = 0 then own else add_mset (Bignum, p) own) \<and> (ok \<longleftrightarrow> p \<noteq> 0)"
  proof (cases "readString r")
    case (Pair v r1)
    show ?thesis
    proof (cases v)
      case None
      with assms Pair show ?thesis by (auto simp: obj_readMpint_def)
    next
      case (Some bytes)
      obtain q h1 where a: "ask cr (if bytes = [] then BN_new else BN_bin2bn bytes) h = (q, h1)" by fastforce
      have "held own0 h1 = gain Bignum q own" using held_ask [OF a assms(2)] by (cases "bytes = []") simp_all
      with assms(1) Pair Some a show ?thesis by (auto simp: obj_readMpint_def gain_def)
    qed
  qed
  then show "held own0 h' = Some (if p = 0 then own else add_mset (Bignum, p) own)" "ok \<longleftrightarrow> p \<noteq> 0" by blast+
qed

lemma ed25519_references:
  assumes "obj_pkeyFromEd25519 cr raw h = (p, h')" "held {#} h = Some {#}"
  shows "held {#} h' = Some (if p = 0 then {#} else {#(Pkey, p)#})"
proof (cases "length raw \<noteq> 32 \<or> \<not> cr_raw_keys cr")
  case True
  with assms show ?thesis by (auto simp: obj_pkeyFromEd25519_def)
next
  case False
  with assms(1) have "ask cr (PKEY_new_raw_public_key raw) h = (p, h')" by (simp add: obj_pkeyFromEd25519_def)
  from held_ask [OF this assms(2)] show ?thesis by (simp add: gain_def)
qed


text \<open>OpenSSL where every call succeeds and a new object's address is the number of calls made so far.\<close>

definition willing :: "bool \<Rightarrow> crypto" where
  "willing three = \<lparr>cr_answer = (\<lambda>h c. case c of
       BN_bin2bn _ \<Rightarrow> 10 + int (length h) | RSA_new \<Rightarrow> 10 + int (length h) | PKEY_new \<Rightarrow> 10 + int (length h) | _ \<Rightarrow> 1),
     cr_three = three, cr_raw_keys = True\<rparr>"

definition rsa_blob :: string where
  "rsa_blob = appendWireString (appendWireString (appendWireString [] ''ssh-rsa'') ''e'') ''n''"


text \<open>A verification holds its digest context for its own time only, and answers yes exactly if both calls do.\<close>

lemma verify_references:
  assumes "obj_verify cr pkey m data sig_raw h = (ok, h')" "held own0 h = Some own" "(Pkey, pkey) \<in># own"
  shows "held own0 h' = Some own"
proof -
  obtain ctx h1 where a: "ask cr MD_CTX_new h = (ctx, h1)" by fastforce
  have h1: "held own0 h1 = gain Md_ctx ctx own" using held_ask [OF a assms(2)] by simp
  show ?thesis
  proof (cases "ctx = 0")
    case True
    with assms h1 show ?thesis by (auto simp: obj_verify_def a gain_def)
  next
    case False
    obtain i h2 where b: "ask cr (DigestVerifyInit ctx m pkey) h1 = (i, h2)" by fastforce
    obtain j h3 where c: "ask cr (DigestVerify ctx sig_raw data) h2 = (j, h3)" by fastforce
    have h1': "held own0 h1 = Some (add_mset (Md_ctx, ctx) own)" using h1 False by (simp add: gain_def)
    have h2: "held own0 h2 = Some (add_mset (Md_ctx, ctx) own)" using held_ask [OF b h1'] assms(3) by (simp add: needs_def)
    have h3: "held own0 h3 = Some (add_mset (Md_ctx, ctx) own)" using held_ask [OF c h2] by (simp add: needs_def)
    have free: "held own0 (tell cr (MD_CTX_free ctx) g) = Some own" if "held own0 g = Some (add_mset (Md_ctx, ctx) own)" for g
      by (rule held_tell [OF that]) (simp add: lose_one)
    show ?thesis
      using assms(1) False free [OF h2] free [OF h3] by (auto simp: obj_verify_def a b c split: if_split_asm)
  qed
qed

end
