(* ===== verification/Config_Data.thy ===== *)
theory Config_Data
  imports Prelude
begin

text \<open>
  The configuration sections of \<open>include/simple-rsyncd/config/config.hpp\<close>, as records, and the
  default values: the member initialisers of the header and the \<open>setDefault\<close> methods of
  \<open>src/simple-rsyncd/config/config.cpp\<close>, which the constructor runs after them.  Durations are whole
  numbers of their unit (\<open>int\<close>), \<open>int\<close> members are \<^typ>\<open>int\<close>.
\<close>

record SSLConfig =
  ssl_enabled :: bool
  ssl_certificate_file :: string
  ssl_private_key_file :: string
  ssl_ca_file :: string
  ssl_cipher_suite :: string
  ssl_require_client_cert :: bool
  ssl_tls_version :: string
  ssl_verify_peer :: bool

record PasswordPolicy =
  pp_min_length :: size_t
  pp_require_uppercase :: bool
  pp_require_lowercase :: bool
  pp_require_digits :: bool
  pp_require_special :: bool
  pp_expiration_hours :: int
  pp_max_failed_attempts :: size_t
  pp_lockout_minutes :: int
  pp_prevent_reuse :: bool
  pp_password_history_size :: size_t

definition default_PasswordPolicy :: PasswordPolicy where
  "default_PasswordPolicy =
     \<lparr>pp_min_length = 8, pp_require_uppercase = False, pp_require_lowercase = False,
      pp_require_digits = False, pp_require_special = False, pp_expiration_hours = 90 * 24,
      pp_max_failed_attempts = 5, pp_lockout_minutes = 30, pp_prevent_reuse = False,
      pp_password_history_size = 0\<rparr>"

record AuthConfig =
  auth_enabled :: bool
  auth_method :: string
  auth_realm :: string
  auth_password_file :: string
  auth_public_key_file :: string
  auth_oauth2_config_file :: string
  auth_anonymous_access :: bool
  auth_allowed_users :: "string list"
  auth_denied_users :: "string list"
  auth_reject_plaintext_passwords :: bool
  auth_password_policy :: PasswordPolicy
  auth_session_timeout :: int
  auth_enable_session_management :: bool

definition default_AuthConfig :: AuthConfig where
  "default_AuthConfig =
     \<lparr>auth_enabled = False, auth_method = ''password'', auth_realm = ''simple-rsyncd'',
      auth_password_file = [], auth_public_key_file = [], auth_oauth2_config_file = [],
      auth_anonymous_access = False, auth_allowed_users = [], auth_denied_users = [],
      auth_reject_plaintext_passwords = False, auth_password_policy = default_PasswordPolicy,
      auth_session_timeout = 3600, auth_enable_session_management = True\<rparr>"

record AccessConfig =
  acc_enabled :: bool
  acc_allowed_hosts :: "string list"
  acc_denied_hosts :: "string list"
  acc_allowed_networks :: "string list"
  acc_denied_networks :: "string list"
  acc_reverse_dns_lookup :: bool
  acc_access_log_file :: string
  acc_access_log_format :: string

record RateLimitConfig =
  rl_enabled :: bool
  rl_max_connections_per_minute :: size_t
  rl_max_connections_per_hour :: size_t
  rl_max_bandwidth_per_connection :: size_t
  rl_max_bandwidth_total :: size_t
  rl_connection_timeout :: int
  rl_idle_timeout :: int

record LogConfig =
  lc_level :: string
  lc_file :: string
  lc_format :: string
  lc_console_output :: bool
  lc_file_output :: bool
  lc_syslog_output :: bool
  lc_syslog_facility :: string
  lc_max_file_size :: size_t
  lc_max_files :: size_t
  lc_compress_old_logs :: bool

record NetworkConfig =
  net_bind_address :: string
  net_bind_port :: uint16_t
  net_backlog :: int
  net_reuse_address :: bool
  net_keep_alive :: bool
  net_keep_alive_time :: int
  net_keep_alive_interval :: int
  net_keep_alive_probes :: int
  net_max_connections :: size_t
  net_worker_threads :: size_t

record SecurityConfig =
  sec_chroot_enabled :: bool
  sec_chroot_directory :: string
  sec_user :: string
  sec_group :: string
  sec_drop_privileges :: bool
  sec_allowed_commands :: "string list"
  sec_denied_commands :: "string list"
  sec_restrict_to_module_path :: bool
  sec_allow_symlinks :: bool
  sec_allow_hardlinks :: bool
  sec_allow_devices :: bool
  sec_allow_sockets :: bool
  sec_umask :: string

record PerformanceConfig =
  perf_buffer_size :: size_t
  perf_max_memory_usage :: size_t
  perf_enable_compression :: bool
  perf_compression_level :: string
  perf_enable_checksum_verification :: bool
  perf_checksum_algorithm :: string
  perf_max_concurrent_transfers :: size_t
  perf_enable_pipelining :: bool
  perf_pipeline_depth :: size_t

record MonitoringConfig =
  mon_enabled :: bool
  mon_metrics_file :: string
  mon_health_check_file :: string
  mon_metrics_interval :: int
  mon_health_check_interval :: int
  mon_enable_prometheus_metrics :: bool
  mon_prometheus_endpoint :: string
  mon_prometheus_port :: uint16_t
  mon_prometheus_address :: string

section \<open>The values of a new configuration\<close>

text \<open>
  \<open>Configuration()\<close> runs \<open>setDefaults\<close>.  Members a \<open>setDefault\<close> method does not mention keep their
  member initialiser.
\<close>

definition setDefaultSSL :: SSLConfig where
  "setDefaultSSL =
     \<lparr>ssl_enabled = False, ssl_certificate_file = [], ssl_private_key_file = [], ssl_ca_file = [],
      ssl_cipher_suite = ''ECDHE-RSA-AES256-GCM-SHA384'', ssl_require_client_cert = False,
      ssl_tls_version = ''1.2'', ssl_verify_peer = True\<rparr>"

definition setDefaultAuth :: "AuthConfig \<Rightarrow> AuthConfig" where
  "setDefaultAuth auth =
     auth\<lparr>auth_enabled := False, auth_method := ''password'', auth_realm := ''simple-rsyncd'',
          auth_password_file := [], auth_public_key_file := [], auth_oauth2_config_file := [],
          auth_anonymous_access := False\<rparr>"

definition setDefaultAccess :: AccessConfig where
  "setDefaultAccess =
     \<lparr>acc_enabled = True, acc_allowed_hosts = [''127.0.0.1'', ''::1''], acc_denied_hosts = [],
      acc_allowed_networks = [''10.0.0.0/8'', ''172.16.0.0/12''], acc_denied_networks = [],
      acc_reverse_dns_lookup = False, acc_access_log_file = [], acc_access_log_format = ''combined''\<rparr>"

definition setDefaultRateLimit :: RateLimitConfig where
  "setDefaultRateLimit =
     \<lparr>rl_enabled = True, rl_max_connections_per_minute = 60, rl_max_connections_per_hour = 1000,
      rl_max_bandwidth_per_connection = 0, rl_max_bandwidth_total = 0, rl_connection_timeout = 300,
      rl_idle_timeout = 60\<rparr>"

definition setDefaultLog :: LogConfig where
  "setDefaultLog =
     \<lparr>lc_level = ''info'', lc_file = [], lc_format = ''{timestamp} [{level}] {message}'',
      lc_console_output = True, lc_file_output = False, lc_syslog_output = False,
      lc_syslog_facility = ''daemon'', lc_max_file_size = 10 * 1024 * 1024, lc_max_files = 5,
      lc_compress_old_logs = True\<rparr>"

definition setDefaultNetwork :: NetworkConfig where
  "setDefaultNetwork =
     \<lparr>net_bind_address = ''0.0.0.0'', net_bind_port = 873, net_backlog = 128, net_reuse_address = True,
      net_keep_alive = True, net_keep_alive_time = 7200, net_keep_alive_interval = 75,
      net_keep_alive_probes = 9, net_max_connections = 100, net_worker_threads = 4\<rparr>"

definition setDefaultSecurity :: SecurityConfig where
  "setDefaultSecurity =
     \<lparr>sec_chroot_enabled = False, sec_chroot_directory = [], sec_user = [], sec_group = [],
      sec_drop_privileges = True, sec_allowed_commands = [], sec_denied_commands = [],
      sec_restrict_to_module_path = True, sec_allow_symlinks = False, sec_allow_hardlinks = False,
      sec_allow_devices = False, sec_allow_sockets = False, sec_umask = ''022''\<rparr>"

definition setDefaultPerformance :: PerformanceConfig where
  "setDefaultPerformance =
     \<lparr>perf_buffer_size = 64 * 1024, perf_max_memory_usage = 512 * 1024 * 1024,
      perf_enable_compression = True, perf_compression_level = ''6'',
      perf_enable_checksum_verification = True, perf_checksum_algorithm = ''md5'',
      perf_max_concurrent_transfers = 10, perf_enable_pipelining = True, perf_pipeline_depth = 5\<rparr>"

definition setDefaultMonitoring :: MonitoringConfig where
  "setDefaultMonitoring =
     \<lparr>mon_enabled = True, mon_metrics_file = [], mon_health_check_file = [], mon_metrics_interval = 60,
      mon_health_check_interval = 300, mon_enable_prometheus_metrics = False,
      mon_prometheus_endpoint = ''/metrics'', mon_prometheus_port = 9090,
      mon_prometheus_address = ''127.0.0.1''\<rparr>"

end
