(* ===== verification/Auth.thy ===== *)
theory Auth
  imports Filesystem SshKey Config_Data "HOL-Library.Monad_Syntax"
begin

text \<open>
  Passwords and users, from \<open>include/simple-rsyncd/core/auth.hpp\<close> and
  \<open>src/simple-rsyncd/core/auth.cpp\<close>: password hashing, the password policy, the password file and
  the user database.

  OpenSSL is the parameter \<open>ssl\<close>; \<open>RAND_bytes\<close> (or its fallback generator) is an argument, the
  bytes it yields.  \<open>system_clock::now()\<close> is an argument too, in nanoseconds;
  \<open>time_point::max()\<close> is \<open>time_max\<close>.  Files are read and written in the file system of theory
  Filesystem; a write of an open stream is assumed to succeed.
\<close>

type_synonym time_point = int

definition time_max :: time_point where
  "time_max = 2 ^ 63 - 1"

section \<open>Passwords\<close>

definition generateSalt :: "uint8_t list \<Rightarrow> string" where
  "generateSalt salt_bytes = hex_string salt_bytes"

definition hashPassword :: "'k openssl \<Rightarrow> uint8_t list \<Rightarrow> string \<Rightarrow> string \<Rightarrow> string" where
  "hashPassword ssl rnd password salt =
     (let actual_salt = (if salt = [] then generateSalt rnd else salt)
      in case evp_sha256 ssl (actual_salt @ password) of
           None \<Rightarrow> []
         | Some hash \<Rightarrow> ''sha256:'' @ actual_salt @ '':'' @ hex_string hash)"

definition isHashed :: "string \<Rightarrow> bool" where
  "isHashed hash \<longleftrightarrow> starts_with ''sha256:'' hash"

text \<open>\<open>npos + 1\<close> is 0: a hash without a second colon is its own hash part.\<close>

definition verifyPassword :: "'k openssl \<Rightarrow> uint8_t list \<Rightarrow> string \<Rightarrow> string \<Rightarrow> bool" where
  "verifyPassword ssl rnd password hash =
     (if \<not> isHashed hash then password = hash
      else case find_char (CHR '':'') hash of
        None \<Rightarrow> False
      | Some colon1 \<Rightarrow>
          (case find_char_from (CHR '':'') hash (colon1 + 1) of
             None \<Rightarrow> False
           | Some colon2 \<Rightarrow>
               (let algorithm = take colon1 hash;
                    salt = substr hash (colon1 + 1) (colon2 - colon1 - 1);
                    stored_hash = drop (colon2 + 1) hash
                in if algorithm \<noteq> ''sha256'' then False
                   else let computed_hash = hashPassword ssl rnd password salt;
                            first_colon = find_char (CHR '':'') computed_hash;
                            computed_colon = find_char_from (CHR '':'') computed_hash
                              (case first_colon of None \<Rightarrow> 0 | Some i \<Rightarrow> i + 1);
                            computed_hash_part = drop (case computed_colon of None \<Rightarrow> 0 | Some i \<Rightarrow> i + 1)
                                                   computed_hash
                        in stored_hash = computed_hash_part)))"

definition meetsComplexityRequirements :: "string \<Rightarrow> PasswordPolicy \<Rightarrow> bool" where
  "meetsComplexityRequirements password policy =
     (let (has_uppercase, has_lowercase, has_digit, has_special) =
            foldl (\<lambda>(u, l, d, sp) c.
               if isupper c then (True, l, d, sp)
               else if islower c then (u, True, d, sp)
               else if isdigit c then (u, l, True, sp)
               else if \<not> isalnum c then (u, l, d, True)
               else (u, l, d, sp)) (False, False, False, False) password
      in if pp_require_uppercase policy \<and> \<not> has_uppercase then False
         else if pp_require_lowercase policy \<and> \<not> has_lowercase then False
         else if pp_require_digits policy \<and> \<not> has_digit then False
         else if pp_require_special policy \<and> \<not> has_special then False
         else True)"

definition validatePassword :: "string \<Rightarrow> PasswordPolicy \<Rightarrow> bool \<times> string" where
  "validatePassword password policy =
     (if word_of_nat (length password) < pp_min_length policy then
        (False, ''Password must be at least '' @ show_nat (unat (pp_min_length policy)) @ '' characters long'')
      else if \<not> meetsComplexityRequirements password policy then
        (let requirements =
               (if pp_require_uppercase policy then ''uppercase letter, '' else [])
               @ (if pp_require_lowercase policy then ''lowercase letter, '' else [])
               @ (if pp_require_digits policy then ''digit, '' else [])
               @ (if pp_require_special policy then ''special character, '' else [])
         in if requirements \<noteq> [] then
              (False, ''Password must contain: '' @ take (length requirements - 2) requirements)
            else (True, []))
      else (True, []))"

section \<open>Users\<close>

record UserInfo =
  ui_username :: string
  ui_password_hash :: string
  ui_password_hashed :: bool
  ui_password_expires :: time_point
  ui_account_expires :: time_point
  ui_account_locked :: bool
  ui_failed_login_attempts :: size_t
  ui_last_login :: time_point
  ui_permissions :: "string list"
  ui_metadata :: "(string, string) std_map"

text \<open>The fields that every creation of a user sets alike.\<close>

definition new_user :: "string \<Rightarrow> string \<Rightarrow> bool \<Rightarrow> time_point \<Rightarrow> string list \<Rightarrow> UserInfo" where
  "new_user username hash hashed expires permissions =
     \<lparr>ui_username = username, ui_password_hash = hash, ui_password_hashed = hashed,
      ui_password_expires = expires, ui_account_expires = time_max, ui_account_locked = False,
      ui_failed_login_attempts = 0, ui_last_login = 0, ui_permissions = permissions,
      ui_metadata = []\<rparr>"

section \<open>The password file\<close>

record PasswordFile =
  pf_filename :: string
  pf_reject_plaintext :: bool
  pf_users :: "(string, string) std_map"
  pf_user_info :: "(string, UserInfo) std_map"
  pf_loaded :: bool

text \<open>One line of the file, for the two maps.\<close>

definition pf_line :: "bool \<Rightarrow> (string, string) std_map \<times> (string, UserInfo) std_map \<Rightarrow> string \<Rightarrow>
    (string, string) std_map \<times> (string, UserInfo) std_map" where
  "pf_line reject_plaintext maps raw_line =
     (case maps of (users, user_info) \<Rightarrow>
       let line = trim raw_line
       in if line = [] \<or> hd line = CHR ''#'' \<or> hd line = CHR '';'' then (users, user_info)
          else case find_char (CHR '':'') line of
            None \<Rightarrow> (users, user_info)
          | Some colon_pos \<Rightarrow>
              if colon_pos = 0 then (users, user_info)
              else
                let username = trim (take colon_pos line);
                    password = drop (colon_pos + 1) line
                in if reject_plaintext \<and> \<not> isHashed password then (users, user_info)
                   else (std_insert username password users,
                         std_insert username
                           (new_user username password (isHashed password) time_max []) user_info))"

definition pf_load :: "fs \<Rightarrow> PasswordFile \<Rightarrow> bool \<times> PasswordFile" where
  "pf_load s p =
     (let p0 = p\<lparr>pf_users := [], pf_loaded := False\<rparr>
      in if pf_filename p = [] then (False, p0)
         else case open_in s (pf_filename p) of
           None \<Rightarrow> (False, p0)
         | Some (_, content) \<Rightarrow>
             (let (users, user_info) = foldl (pf_line (pf_reject_plaintext p))
                                         ([], pf_user_info p) (getlines newline content)
              in (True, p0\<lparr>pf_users := users, pf_user_info := user_info, pf_loaded := True\<rparr>)))"

definition new_PasswordFile :: "fs \<Rightarrow> string \<Rightarrow> bool \<Rightarrow> PasswordFile" where
  "new_PasswordFile s fname reject_plaintext =
     snd (pf_load s \<lparr>pf_filename = fname, pf_reject_plaintext = reject_plaintext, pf_users = [],
                     pf_user_info = [], pf_loaded = False\<rparr>)"

definition pf_authenticate ::
  "'k openssl \<Rightarrow> uint8_t list \<Rightarrow> PasswordFile \<Rightarrow> string \<Rightarrow> string \<Rightarrow> bool" where
  "pf_authenticate ssl rnd p username password =
     (if \<not> pf_loaded p then False
      else case std_find (pf_users p) username of
        None \<Rightarrow> False
      | Some stored \<Rightarrow> verifyPassword ssl rnd password stored)"

definition pf_getUserInfo :: "PasswordFile \<Rightarrow> string \<Rightarrow> UserInfo option" where
  "pf_getUserInfo p username = (if \<not> pf_loaded p then None else std_find (pf_user_info p) username)"

definition pf_userExists :: "PasswordFile \<Rightarrow> string \<Rightarrow> bool" where
  "pf_userExists p username = (if \<not> pf_loaded p then False else std_find (pf_users p) username \<noteq> None)"

definition pf_getUsers :: "PasswordFile \<Rightarrow> string list" where
  "pf_getUsers p = std_keys (pf_users p)"

definition pf_getUserCount :: "PasswordFile \<Rightarrow> size_t" where
  "pf_getUserCount p = word_of_nat (length (pf_users p))"

definition pf_reload :: "fs \<Rightarrow> PasswordFile \<Rightarrow> bool \<times> PasswordFile" where
  "pf_reload s p = pf_load s p"

section \<open>The user database\<close>

record UserDatabase =
  ud_file :: string
  ud_users :: "(string, UserInfo) std_map"

definition ud_line :: "string \<times> UserInfo \<Rightarrow> string" where
  "ud_line = (\<lambda>(username, info).
     username @ '':'' @ ui_password_hash info
     @ (if ui_permissions info = [] then []
        else '':'' @ hd (ui_permissions info) @ concat (map (\<lambda>p. '','' @ p) (tl (ui_permissions info))))
     @ [newline])"

definition ud_content :: "UserDatabase \<Rightarrow> string" where
  "ud_content db =
     ''# User database file'' @ [newline]
     @ ''# Format: username:password_hash:permissions:metadata'' @ [newline]
     @ concat (map ud_line (ud_users db))"

definition ud_save :: "fs \<Rightarrow> UserDatabase \<Rightarrow> bool \<times> fs" where
  "ud_save s db =
     (if ud_file db = [] then (False, s)
      else case open_out s (ud_file db) of
        (None, s') \<Rightarrow> (False, s')
      | (Some q, s') \<Rightarrow> (True, append_file q (ud_content db) s'))"

definition ud_parse_line :: "(string, UserInfo) std_map \<Rightarrow> string \<Rightarrow> (string, UserInfo) std_map" where
  "ud_parse_line users line =
     (if line = [] \<or> hd line = CHR ''#'' \<or> hd line = CHR '';'' then users
      else case find_char (CHR '':'') line of
        None \<Rightarrow> users
      | Some colon1 \<Rightarrow>
          (case find_char_from (CHR '':'') line (colon1 + 1) of
             None \<Rightarrow> users
           | Some colon2 \<Rightarrow>
               (let username = take colon1 line;
                    password_hash = substr line (colon1 + 1) (colon2 - colon1 - 1);
                    permissions_str = drop (colon2 + 1) line
                in std_insert username
                     (new_user username password_hash (isHashed password_hash) time_max
                        (getlines (CHR '','') permissions_str)) users)))"

definition ud_load :: "fs \<Rightarrow> UserDatabase \<Rightarrow> bool \<times> UserDatabase" where
  "ud_load s db =
     (if ud_file db = [] then (False, db)
      else case open_in s (ud_file db) of
        None \<Rightarrow> (False, db\<lparr>ud_users := []\<rparr>)
      | Some (_, content) \<Rightarrow>
          (True, db\<lparr>ud_users := foldl ud_parse_line [] (getlines newline content)\<rparr>))"

definition new_UserDatabase :: "fs \<Rightarrow> string \<Rightarrow> UserDatabase" where
  "new_UserDatabase s database_file =
     (let db = \<lparr>ud_file = database_file, ud_users = []\<rparr>
      in if database_file = [] then db else snd (ud_load s db))"

definition ud_userExists :: "UserDatabase \<Rightarrow> string \<Rightarrow> bool" where
  "ud_userExists db username \<longleftrightarrow> std_find (ud_users db) username \<noteq> None"

definition ud_getUserInfo :: "UserDatabase \<Rightarrow> string \<Rightarrow> UserInfo option" where
  "ud_getUserInfo db username = std_find (ud_users db) username"

definition ud_getUsers :: "UserDatabase \<Rightarrow> string list" where
  "ud_getUsers db = std_keys (ud_users db)"

text \<open>Every change is saved when the database has a file; the result of saving is ignored.\<close>

definition ud_store :: "fs \<Rightarrow> UserDatabase \<Rightarrow> bool \<times> UserDatabase \<times> fs" where
  "ud_store s db = (True, db, if ud_file db \<noteq> [] then snd (ud_save s db) else s)"

definition createUser :: "'k openssl \<Rightarrow> uint8_t list \<Rightarrow> fs \<Rightarrow> UserDatabase \<Rightarrow> string \<Rightarrow> string \<Rightarrow>
    string list \<Rightarrow> bool \<times> UserDatabase \<times> fs" where
  "createUser ssl rnd s db username password permissions =
     (if ud_userExists db username then (False, db, s)
      else
        let user_info = new_user username (hashPassword ssl rnd password []) True time_max permissions
        in ud_store s (db\<lparr>ud_users := std_insert username user_info (ud_users db)\<rparr>))"

definition createUserWithPolicy :: "'k openssl \<Rightarrow> uint8_t list \<Rightarrow> time_point \<Rightarrow> fs \<Rightarrow> UserDatabase \<Rightarrow>
    string \<Rightarrow> string \<Rightarrow> string list \<Rightarrow> PasswordPolicy \<Rightarrow> bool \<times> UserDatabase \<times> fs" where
  "createUserWithPolicy ssl rnd now s db username password permissions policy =
     (if ud_userExists db username then (False, db, s)
      else if \<not> fst (validatePassword password policy) then (False, db, s)
      else
        let expires = (if pp_expiration_hours policy > 0
                       then now + pp_expiration_hours policy * 3600000000000 else time_max);
            user_info = new_user username (hashPassword ssl rnd password []) True expires permissions
        in ud_store s (db\<lparr>ud_users := std_insert username user_info (ud_users db)\<rparr>))"

definition updatePassword :: "'k openssl \<Rightarrow> uint8_t list \<Rightarrow> fs \<Rightarrow> UserDatabase \<Rightarrow> string \<Rightarrow> string \<Rightarrow>
    bool \<times> UserDatabase \<times> fs" where
  "updatePassword ssl rnd s db username new_password =
     (case std_find (ud_users db) username of
        None \<Rightarrow> (False, db, s)
      | Some info \<Rightarrow>
          let info' = info\<lparr>ui_password_hash := hashPassword ssl rnd new_password [],
                           ui_password_hashed := True, ui_failed_login_attempts := 0\<rparr>
          in ud_store s (db\<lparr>ud_users := std_insert username info' (ud_users db)\<rparr>))"

definition deleteUser :: "fs \<Rightarrow> UserDatabase \<Rightarrow> string \<Rightarrow> bool \<times> UserDatabase \<times> fs" where
  "deleteUser s db username =
     (case std_find (ud_users db) username of
        None \<Rightarrow> (False, db, s)
      | Some _ \<Rightarrow> ud_store s (db\<lparr>ud_users := std_erase username (ud_users db)\<rparr>))"

end
