(* ===== verification/Auth_Facts.thy ===== *)
theory Auth_Facts
  imports Auth SshKey_Facts
begin

text \<open>
  Passwords and users: what a stored hash accepts, what the policy demands, what the password file
  keeps, and what survives saving and loading the user database.
\<close>

section \<open>Hexadecimal\<close>

lemma hex_digit_code: "k < 16 \<Longrightarrow> (of_char (hex_digit k) :: nat) = (if k < 10 then 48 + k else 87 + k)"
  by (simp add: hex_digit_def)

lemma hex_digit_inj:
  assumes "m < 16" "n < 16" "hex_digit m = hex_digit n"
  shows "m = n"
proof -
  have "(of_char (hex_digit m) :: nat) = of_char (hex_digit n)" by (simp only: assms(3))
  then show ?thesis unfolding hex_digit_code [OF assms(1)] hex_digit_code [OF assms(2)]
    using assms(1,2) by (simp split: if_split_asm)
qed

lemma hex_digit_no_colon: "n < 16 \<Longrightarrow> hex_digit n \<noteq> CHR '':''"
proof
  assume a: "n < 16" "hex_digit n = CHR '':''"
  have "(of_char (hex_digit n) :: nat) = 58" by (simp only: a(2)) simp
  then show False unfolding hex_digit_code [OF a(1)] using a(1) by (simp split: if_split_asm)
qed

lemma hex_digit_no_newline: "n < 16 \<Longrightarrow> hex_digit n \<noteq> newline"
proof
  assume a: "n < 16" "hex_digit n = newline"
  have "(of_char (hex_digit n) :: nat) = 10" by (simp only: a(2)) simp
  then show False unfolding hex_digit_code [OF a(1)] using a(1) by (simp split: if_split_asm)
qed

lemma unat8: "unat (b :: uint8_t) < 256"
proof -
  have "unat b < 2 ^ LENGTH(8)" by (rule unsigned_less)
  then show ?thesis by simp
qed

lemma hex_byte_inj: "hex_byte a = hex_byte b \<Longrightarrow> a = b"
proof -
  assume h: "hex_byte a = hex_byte b"
  have "unat a div 16 = unat b div 16" "unat a mod 16 = unat b mod 16"
    using h unat8 [of a] unat8 [of b] by (auto simp: hex_byte_def intro!: hex_digit_inj)
  then have "unat a = unat b" by (metis div_mult_mod_eq)
  then show ?thesis by (simp add: word_unat_eq_iff)
qed

lemma hex_string_Cons: "hex_string (b # bs) = hex_byte b @ hex_string bs"
  by (simp add: hex_string_def)

lemma hex_string_inj: "hex_string as = hex_string bs \<longleftrightarrow> as = bs"
proof
  show "hex_string as = hex_string bs \<Longrightarrow> as = bs"
  proof (induction as arbitrary: bs)
    case Nil
    then show ?case by (cases bs) (auto simp: hex_string_def hex_byte_def)
  next
    case (Cons a as)
    then obtain b bs' where bs: "bs = b # bs'" by (cases bs) (auto simp: hex_string_def hex_byte_def)
    with Cons.prems have "hex_byte a = hex_byte b" "hex_string as = hex_string bs'"
      by (auto simp: hex_string_Cons hex_byte_def)
    with Cons.IH bs show ?case by (auto dest: hex_byte_inj)
  qed
qed simp

lemma hex_string_no_colon: "CHR '':'' \<notin> set (hex_string bs)"
proof (induction bs)
  case (Cons b bs)
  have "hex_digit (unat b div 16) \<noteq> CHR '':''" "hex_digit (unat b mod 16) \<noteq> CHR '':''"
    using unat8 [of b] by (intro hex_digit_no_colon; simp)+
  with Cons show ?case by (auto simp: hex_string_Cons hex_byte_def)
qed (simp add: hex_string_def)

lemma hex_no_newline: "newline \<notin> set (hex_string bs)"
proof (induction bs)
  case (Cons b bs)
  have "hex_digit (unat b div 16) \<noteq> newline" "hex_digit (unat b mod 16) \<noteq> newline"
    using unat8 [of b] by (intro hex_digit_no_newline; simp)+
  with Cons show ?case by (auto simp: hex_string_Cons hex_byte_def)
qed (simp add: hex_string_def)

section \<open>Hashes\<close>

lemma find_char_from_append:
  "c \<notin> set q \<Longrightarrow> find_char_from c (p @ q @ c # r) (length p) = Some (length p + length q)"
  by (simp add: find_char_from_def find_char_append)

lemma hash_colons:
  assumes "CHR '':'' \<notin> set salt"
  shows "find_char (CHR '':'') (''sha256:'' @ salt @ CHR '':'' # h) = Some 6"
    and "find_char_from (CHR '':'') (''sha256:'' @ salt @ CHR '':'' # h) 7 = Some (7 + length salt)"
    and "find_char_from (CHR '':'') (''sha256:'' @ salt @ CHR '':'' # h) (Suc 6) = Some (7 + length salt)"
  using find_char_append [of "CHR '':''" "''sha256''" "salt @ CHR '':'' # h"]
    find_char_from_append [OF assms, of "''sha256:''" h]
  by (simp_all add: eval_nat_numeral)

lemma verify_hashed:
  assumes "CHR '':'' \<notin> set salt" "salt \<noteq> []"
  shows "verifyPassword ssl rnd password (''sha256:'' @ salt @ CHR '':'' # h)
           \<longleftrightarrow> (case evp_sha256 ssl (salt @ password) of None \<Rightarrow> h = [] | Some d \<Rightarrow> h = hex_string d)"
proof -
  let ?hash = "''sha256:'' @ salt @ CHR '':'' # h"
  note c = hash_colons [OF assms(1)]
  have i: "isHashed ?hash" by (simp only: isHashed_def starts_with_append)
  have parts: "take 6 ?hash = ''sha256''" "substr ?hash (6 + 1) (7 + length salt - 6 - 1) = salt"
    "drop (7 + length salt + 1) ?hash = h"
    by (simp_all add: substr_def eval_nat_numeral)
  show ?thesis
  proof (cases "evp_sha256 ssl (salt @ password)")
    case None
    have "hashPassword ssl rnd password salt = []" using assms(2) None by (simp add: hashPassword_def)
    then show ?thesis
      unfolding verifyPassword_def Let_def
      using i c parts None by (simp only: if_not_P not_not option.case Suc_eq_plus1) 
        (simp add: find_char_from_def)
  next
    case (Some d)
    have hp: "hashPassword ssl rnd password salt = ''sha256:'' @ salt @ CHR '':'' # hex_string d"
      using assms(2) Some by (simp add: hashPassword_def)
    have "drop (7 + length salt + 1) (''sha256:'' @ salt @ CHR '':'' # hex_string d) = hex_string d"
      by (simp add: eval_nat_numeral)
    then show ?thesis
      unfolding verifyPassword_def Let_def
      using i c hash_colons [OF assms(1), of "hex_string d"] parts Some hp
      by (simp only: if_not_P not_not option.case Suc_eq_plus1)
  qed
qed

definition sha256_total :: "'k openssl \<Rightarrow> bool" where
  "sha256_total ssl \<longleftrightarrow> (\<forall>x. \<exists>d. evp_sha256 ssl x = Some d)"

lemma hash_shape:
  assumes "evp_sha256 ssl (generateSalt rnd @ p) = Some d"
  shows "hashPassword ssl rnd p [] = ''sha256:'' @ generateSalt rnd @ CHR '':'' # hex_string d"
  using assms by (simp add: hashPassword_def)

lemma salt_ok: "rnd \<noteq> [] \<Longrightarrow> CHR '':'' \<notin> set (generateSalt rnd) \<and> generateSalt rnd \<noteq> []"
  using hex_string_no_colon by (auto simp: generateSalt_def neq_Nil_conv hex_string_Cons hex_byte_def)

lemma verify_hash:
  assumes "sha256_total ssl" "rnd \<noteq> []"
  shows "verifyPassword ssl rnd' p (hashPassword ssl rnd p [])"
proof -
  obtain d where d: "evp_sha256 ssl (generateSalt rnd @ p) = Some d"
    using assms(1) by (auto simp: sha256_total_def)
  note s = salt_ok [OF assms(2)]
  show ?thesis unfolding hash_shape [OF d] verify_hashed [OF conjunct1 [OF s] conjunct2 [OF s]] d by simp
qed

section \<open>The policy\<close>

lemma complexity_flags:
  "foldl (\<lambda>(u, l, d, sp) c.
       if isupper c then (True, l, d, sp)
       else if islower c then (u, True, d, sp)
       else if isdigit c then (u, l, True, sp)
       else if \<not> isalnum c then (u, l, d, True)
       else (u, l, d, sp)) (u, l, d, sp) p
   = (u \<or> list_ex isupper p, l \<or> list_ex islower p, d \<or> list_ex isdigit p,
      sp \<or> list_ex (\<lambda>c. \<not> isalnum c) p)"
proof (induction p arbitrary: u l d sp)
  case (Cons c p)
  have "\<not> (isupper c \<and> islower c)" "\<not> (isupper c \<and> isdigit c)" "\<not> (islower c \<and> isdigit c)"
    by (auto simp: isupper_def islower_def isdigit_def Let_def)
  with Cons show ?case by (auto simp: isalnum_def)
qed simp

lemma complexity_iff:
  "meetsComplexityRequirements p policy \<longleftrightarrow>
     (pp_require_uppercase policy \<longrightarrow> list_ex isupper p)
     \<and> (pp_require_lowercase policy \<longrightarrow> list_ex islower p)
     \<and> (pp_require_digits policy \<longrightarrow> list_ex isdigit p)
     \<and> (pp_require_special policy \<longrightarrow> list_ex (\<lambda>c. \<not> isalnum c) p)"
  unfolding meetsComplexityRequirements_def complexity_flags by auto

section \<open>Properties\<close>

text \<open>C23. What a stored hash accepts: \<open>verifyPassword\<close> on the result of \<open>hashPassword\<close> answers yes
  exactly for the passwords whose salted SHA-256 digest is that of the original one, whatever the
  random source yields; in particular the password itself is accepted.  The salt may be given
  (without a colon) or generated.\<close>

theorem verify_hashPassword_iff:
  fixes salt :: string
  assumes "sha256_total ssl" "CHR '':'' \<notin> set salt" "salt \<noteq> [] \<or> rnd \<noteq> []"
  defines "used \<equiv> (if salt = [] then generateSalt rnd else salt)"
  shows "verifyPassword ssl rnd' p' (hashPassword ssl rnd p salt)
           \<longleftrightarrow> evp_sha256 ssl (used @ p') = evp_sha256 ssl (used @ p)"
proof -
  obtain d where d: "evp_sha256 ssl (used @ p) = Some d" using assms(1) by (auto simp: sha256_total_def)
  obtain d' where d': "evp_sha256 ssl (used @ p') = Some d'" using assms(1) by (auto simp: sha256_total_def)
  have u: "CHR '':'' \<notin> set used" "used \<noteq> []"
    using assms(2,3) hex_string_no_colon
    by (auto simp: used_def generateSalt_def neq_Nil_conv hex_string_Cons hex_byte_def)
  have h: "hashPassword ssl rnd p salt = ''sha256:'' @ used @ CHR '':'' # hex_string d"
    using d by (simp add: hashPassword_def used_def)
  show ?thesis unfolding h verify_hashed [OF u] d d' by (auto simp: hex_string_inj)
qed

theorem verify_hashPassword_iff_witness:
  "verifyPassword toy_ssl [] ''secret'' (hashPassword toy_ssl [0xAB] ''secret'' [])
   \<and> \<not> verifyPassword toy_ssl [] ''guess'' (hashPassword toy_ssl [0xAB] ''secret'' [])"
proof -
  have t: "sha256_total toy_ssl" by (simp add: sha256_total_def toy_ssl_def)
  have "evp_sha256 toy_ssl (generateSalt [0xAB] @ ''guess'') \<noteq> evp_sha256 toy_ssl (generateSalt [0xAB] @ ''secret'')"
    by code_simp
  with verify_hashPassword_iff [OF t, of "[]" "[0xAB]" "[]"] show ?thesis by simp
qed

text \<open>A password satisfies the policy exactly when it has the required length and a character of
  every required class, a special character being one that is neither letter nor digit.\<close>

theorem validatePassword_iff:
  assumes "length p < 2 ^ 64"
  shows "fst (validatePassword p policy) \<longleftrightarrow>
     unat (pp_min_length policy) \<le> length p
     \<and> (pp_require_uppercase policy \<longrightarrow> (\<exists>c \<in> set p. isupper c))
     \<and> (pp_require_lowercase policy \<longrightarrow> (\<exists>c \<in> set p. islower c))
     \<and> (pp_require_digits policy \<longrightarrow> (\<exists>c \<in> set p. isdigit c))
     \<and> (pp_require_special policy \<longrightarrow> (\<exists>c \<in> set p. \<not> isalnum c))"
proof -
  have "unat (word_of_nat (length p) :: size_t) = length p"
    using assms by (simp add: unat_of_nat take_bit_nat_eq_self)
  then have l: "word_of_nat (length p) < pp_min_length policy \<longleftrightarrow> length p < unat (pp_min_length policy)"
    by (simp add: word_less_nat_alt)
  show ?thesis
    unfolding validatePassword_def l complexity_iff
    by (auto simp: Let_def list_ex_iff)
qed

theorem validatePassword_iff_witness:
  "\<not> fst (validatePassword ''longenough'' (default_PasswordPolicy\<lparr>pp_require_digits := True\<rparr>))"
proof -
  have "length ''longenough'' < 2 ^ 64" by simp
  moreover have "\<not> (\<exists>c \<in> set ''longenough''. isdigit c)" by code_simp
  ultimately show ?thesis by (subst validatePassword_iff) (auto simp: default_PasswordPolicy_def)
qed

lemma std_insert_all: "list_all P m \<Longrightarrow> P (k, v) \<Longrightarrow> list_all P (std_insert k v m)"
  by (induction m) auto

abbreviation hashed_entry :: "string \<times> string \<Rightarrow> bool" where
  "hashed_entry e \<equiv> isHashed (snd e)"

lemma pf_lines_hashed:
  "list_all hashed_entry (fst m) \<Longrightarrow> list_all hashed_entry (fst (foldl (pf_line True) m lines))"
proof (induction lines arbitrary: m)
  case (Cons line lines)
  have "list_all hashed_entry (fst (pf_line True m line))"
    using Cons.prems by (auto simp: pf_line_def Let_def intro: std_insert_all split: prod.splits option.splits)
  with Cons show ?case by simp
qed simp

text \<open>With \<open>reject_plaintext_passwords\<close> set, loading a password file keeps hashed entries only,
  whatever the file holds: a user whose line is in clear text does not exist afterwards, and no
  login can succeed by comparing with a clear-text password.\<close>

theorem pf_load_rejects_plaintext:
  assumes "pf_reject_plaintext p" and "std_find (pf_users (snd (pf_load s p))) username = Some stored"
  shows "isHashed stored"
proof -
  have "list_all hashed_entry (pf_users (snd (pf_load s p)))"
  proof (cases "pf_filename p = [] \<or> open_in s (pf_filename p) = None")
    case True
    then show ?thesis by (auto simp: pf_load_def Let_def)
  next
    case False
    then obtain q content where "open_in s (pf_filename p) = Some (q, content)" by auto
    moreover have "list_all hashed_entry
        (fst (foldl (pf_line True) ([], pf_user_info p) (getlines newline content)))"
      by (rule pf_lines_hashed) simp
    ultimately show ?thesis
      using False assms(1) by (auto simp: pf_load_def Let_def split: prod.splits)
  qed
  with assms(2) show ?thesis by (force simp: list_all_iff dest: map_of_SomeD)
qed

definition passwd_fs :: "string \<Rightarrow> fs" where
  "passwd_fs content = \<lparr>entries = [([''pw''], File content)], cwd = [], can_search = (\<lambda>_. True),
     can_read = (\<lambda>_. True), can_write = (\<lambda>_. True), links = (\<lambda>_. 1), what_text = []\<rparr>"

theorem pf_load_rejects_plaintext_witness:
  "let p = new_PasswordFile (passwd_fs (''ann:clear'' @ [newline] @ ''bob: sha256:s:00'' @ [newline]
             @ ''cid:sha256:s:00'' @ [newline])) ''/pw'' True
   in pf_getUsers p = [''cid''] \<and> isHashed (the (std_find (pf_users p) ''cid''))"
proof -
  let ?s = "passwd_fs (''ann:clear'' @ [newline] @ ''bob: sha256:s:00'' @ [newline]
             @ ''cid:sha256:s:00'' @ [newline])"
  let ?p = "\<lparr>pf_filename = ''/pw'', pf_reject_plaintext = True, pf_users = [], pf_user_info = [], pf_loaded = False\<rparr>"
  have f: "std_find (pf_users (snd (pf_load ?s ?p))) ''cid'' = Some ''sha256:s:00''" by code_simp
  moreover have "pf_getUsers (snd (pf_load ?s ?p)) = [''cid'']" by code_simp
  moreover have "pf_reject_plaintext ?p" by simp
  ultimately show ?thesis using pf_load_rejects_plaintext [of ?p ?s, OF _ f]
    by (simp add: new_PasswordFile_def Let_def)
qed

section \<open>The user database\<close>

text \<open>The map of users as a keyed store.\<close>

interpretation users: key_store "\<lambda>db. std_find (ud_users db)"
    "\<lambda>k v db. db\<lparr>ud_users := std_insert k v (ud_users db)\<rparr>"
    "\<lambda>k db. db\<lparr>ud_users := std_erase k (ud_users db)\<rparr>" "\<lambda>db. std_wf (ud_users db)"
  by unfold_locales auto

text \<open>\<open>createUser\<close> and \<open>updatePassword\<close> do what a login needs: creating never overwrites an existing
  user and otherwise adds exactly one, updating changes exactly one existing user, and afterwards
  the stored hash of the user accepts the password just set (and only passwords with the same
  digest).\<close>

theorem createUser_updatePassword:
  assumes "sha256_total ssl" "rnd \<noteq> []" "std_wf (ud_users db)"
  shows "(case createUser ssl rnd s db u p perms of (ok, db', s') \<Rightarrow>
            (ok \<longleftrightarrow> \<not> ud_userExists db u)
            \<and> (if ok then \<exists>info. ud_getUserInfo db' = (ud_getUserInfo db)(u \<mapsto> info)
                        \<and> ui_permissions info = perms
                        \<and> verifyPassword ssl rnd' p (ui_password_hash info)
               else db' = db \<and> s' = s))
       \<and> (case updatePassword ssl rnd s db u p of (ok, db', s') \<Rightarrow>
            (ok \<longleftrightarrow> ud_userExists db u)
            \<and> (if ok then \<exists>info. ud_getUserInfo db' = (ud_getUserInfo db)(u \<mapsto> info)
                        \<and> ui_failed_login_attempts info = 0
                        \<and> verifyPassword ssl rnd' p (ui_password_hash info)
               else db' = db \<and> s' = s))"
proof -
  have v: "verifyPassword ssl rnd' p (hashPassword ssl rnd p [])"
    using verify_hash [OF assms(1,2)] .
  show ?thesis
    using v users.lookup_assign [OF assms(3)]
    by (auto simp: createUser_def updatePassword_def ud_userExists_def ud_getUserInfo_def ud_store_def
        new_user_def Let_def fun_eq_iff split: option.split)
qed

theorem createUser_updatePassword_witness:
  "let (ok, db', s') = createUser toy_ssl [1] (passwd_fs []) (new_UserDatabase (passwd_fs []) []) ''ann'' ''pw'' [''read'']
   in ok \<and> verifyPassword toy_ssl [] ''pw'' (ui_password_hash (the (ud_getUserInfo db' ''ann'')))"
proof -
  let ?db = "new_UserDatabase (passwd_fs []) []"
  have h: "sha256_total toy_ssl" "[1 :: uint8_t] \<noteq> []" "std_wf (ud_users ?db)" "\<not> ud_userExists ?db ''ann''"
    by (simp_all add: sha256_total_def toy_ssl_def new_UserDatabase_def ud_userExists_def Let_def)
  from createUser_updatePassword [OF h(1-3), where s = "passwd_fs []" and u = "''ann''" and p = "''pw''"
        and perms = "[''read'']" and rnd' = "[]"] h(4)
  show ?thesis by (auto simp: Let_def split: prod.splits)
qed

text \<open>A line of the database file, read back.\<close>

definition name_ok :: "string \<Rightarrow> bool" where
  "name_ok u \<longleftrightarrow> u \<noteq> [] \<and> hd u \<noteq> CHR ''#'' \<and> hd u \<noteq> CHR '';'' \<and> CHR '':'' \<notin> set u \<and> newline \<notin> set u"

lemma parse_user_line:
  assumes "name_ok u" "CHR '':'' \<notin> set h"
  shows "ud_parse_line users (u @ CHR '':'' # h @ CHR '':'' # rest)
           = std_insert u (new_user u h (isHashed h) time_max (getlines (CHR '','') rest)) users"
proof -
  let ?line = "u @ CHR '':'' # h @ CHR '':'' # rest"
  have c1: "find_char (CHR '':'') ?line = Some (length u)"
    using assms(1) by (intro find_char_append) (simp add: name_ok_def)
  have c2: "find_char_from (CHR '':'') ?line (length u + 1) = Some (length u + 1 + length h)"
    using find_char_from_append [OF assms(2), of "u @ '':''" rest] by simp
  have parts: "take (length u) ?line = u" "substr ?line (length u + 1) (length u + 1 + length h - length u - 1) = h"
    "drop (length u + 1 + length h + 1) ?line = rest" by (simp_all add: substr_def)
  have s: "\<not> (?line = [] \<or> hd ?line = CHR ''#'' \<or> hd ?line = CHR '';'')"
    using assms(1) by (auto simp: name_ok_def)
  show ?thesis
    unfolding ud_parse_line_def if_not_P [OF s] c1 option.case c2 Let_def parts by simp
qed

text \<open>A line with one colon is skipped.\<close>

lemma skip_user_line:
  assumes "name_ok u" "CHR '':'' \<notin> set h"
  shows "ud_parse_line users (u @ CHR '':'' # h) = users"
proof -
  have "find_char (CHR '':'') (u @ CHR '':'' # h) = Some (length u)"
    using assms(1) by (intro find_char_append) (simp add: name_ok_def)
  moreover have "find_char_from (CHR '':'') (u @ CHR '':'' # h) (length u + 1) = None"
    using assms(2) by (simp add: find_char_from_def find_char_None)
  ultimately show ?thesis by (simp add: ud_parse_line_def)
qed

definition perms_ok :: "string list \<Rightarrow> bool" where
  "perms_ok ps \<longleftrightarrow> ps \<noteq> [] \<and> last ps \<noteq> [] \<and> list_all (\<lambda>p. CHR '','' \<notin> set p \<and> newline \<notin> set p) ps"

definition plain_entry :: "string \<times> UserInfo \<Rightarrow> bool" where
  "plain_entry e \<longleftrightarrow> name_ok (fst e) \<and> (ui_permissions (snd e) = [] \<or> perms_ok (ui_permissions (snd e)))
     \<and> CHR '':'' \<notin> set (ui_password_hash (snd e)) \<and> newline \<notin> set (ui_password_hash (snd e))"

text \<open>What a user's line brings back: everything but the name, the stored secret and the permissions
  is reset.\<close>

definition reloaded :: "UserInfo \<Rightarrow> string \<Rightarrow> UserInfo" where
  "reloaded info u = new_user u (ui_password_hash info) (isHashed (ui_password_hash info)) time_max
                       (ui_permissions info)"

definition perms_text :: "string list \<Rightarrow> string" where
  "perms_text ps = hd ps @ concat (map (\<lambda>p. '','' @ p) (tl ps))"

lemma comma_Cons: "(@) '','' = (#) CHR '',''"
  by (rule ext) simp

lemma perms_text_lines:
  assumes "perms_ok ps"
  shows "getlines (CHR '','') (perms_text ps) = ps" "newline \<notin> set (perms_text ps)"
proof -
  obtain p qs where ps: "ps = p # qs" using assms by (cases ps) (auto simp: perms_ok_def)
  show "getlines (CHR '','') (perms_text ps) = ps"
    using assms getlines_join [of "CHR '',''" p qs]
    by (auto simp: ps perms_ok_def perms_text_def list_all_iff comma_Cons)
  show "newline \<notin> set (perms_text ps)"
    using assms by (auto simp: ps perms_ok_def perms_text_def list_all_iff)
qed

lemma ud_line_eq:
  "ui_permissions info \<noteq> [] \<Longrightarrow>
     ud_line (u, info) = (u @ CHR '':'' # ui_password_hash info @ CHR '':'' # perms_text (ui_permissions info)) @ [newline]"
  by (simp add: ud_line_def perms_text_def comma_Cons)

lemma content_lines:
  assumes "\<forall>e \<in> set es. newline \<notin> set (f e)"
  shows "getlines newline (''# User database file'' @ [newline]
     @ ''# Format: username:password_hash:permissions:metadata'' @ [newline]
     @ concat (map (\<lambda>e. f e @ [newline]) es))
   = [''# User database file'', ''# Format: username:password_hash:permissions:metadata''] @ map f es"
proof -
  have "getlines newline (concat (map (\<lambda>l. l @ [newline]) ([''# User database file'',
          ''# Format: username:password_hash:permissions:metadata''] @ map f es)))
      = [''# User database file'', ''# Format: username:password_hash:permissions:metadata''] @ map f es"
    using assms by (intro getlines_concat) auto
  then show ?thesis by (simp add: comp_def)
qed

lemma parse_content:
  assumes "ud_content db = ''# User database file'' @ [newline]
     @ ''# Format: username:password_hash:permissions:metadata'' @ [newline]
     @ concat (map (\<lambda>e. f e @ [newline]) (ud_users db))"
    and "\<forall>e \<in> set (ud_users db). newline \<notin> set (f e)"
  shows "foldl ud_parse_line [] (getlines newline (ud_content db)) = foldl ud_parse_line [] (map f (ud_users db))"
  unfolding assms(1) content_lines [OF assms(2)] by (simp add: ud_parse_line_def)

text \<open>C24. What saving and loading the user database keeps.  If the names are not empty, do not begin like
  a comment and contain no colon or line end, the secrets contain neither, and each user has either
  no permissions or some without comma and line end of which the last is not empty, then exactly the
  users with permissions come back, in the same order, with their name, secret and permissions, the
  remaining fields reset.  A user without permissions is written with one colon and lost.\<close>

theorem user_database_roundtrip:
  assumes "std_wf (ud_users db)" "list_all plain_entry (ud_users db)"
  shows "foldl ud_parse_line [] (getlines newline (ud_content db))
           = map (\<lambda>(u, info). (u, reloaded info u)) (filter (\<lambda>(u, info). ui_permissions info \<noteq> []) (ud_users db))"
proof -
  let ?kept = "filter (\<lambda>(u, info). ui_permissions info \<noteq> [])"
  define f :: "string \<times> UserInfo \<Rightarrow> string" where "f = (\<lambda>(u, info). u @ CHR '':'' # ui_password_hash info
              @ (if ui_permissions info = [] then [] else CHR '':'' # perms_text (ui_permissions info)))"
  have ok: "plain_entry e" if "e \<in> set (ud_users db)" for e using assms(2) that by (simp add: list_all_iff)
  have c: "ud_line e = f e @ [newline]" for e
    using ud_line_eq by (cases e) (simp add: ud_line_def f_def)
  have n: "newline \<notin> set (f e)" if "e \<in> set (ud_users db)" for e
    using ok [OF that] perms_text_lines(2) by (cases e) (auto simp: plain_entry_def name_ok_def f_def)
  have "map ud_line (ud_users db) = map (\<lambda>e. f e @ [newline]) (ud_users db)" using c by simp
  then have "ud_content db = ''# User database file'' @ [newline]
     @ ''# Format: username:password_hash:permissions:metadata'' @ [newline]
     @ concat (map (\<lambda>e. f e @ [newline]) (ud_users db))" by (simp only: ud_content_def)
  from parse_content [OF this] n
  have p: "foldl ud_parse_line [] (getlines newline (ud_content db)) = foldl ud_parse_line [] (map f (ud_users db))"
    by blast
  have l: "ud_parse_line m (f (u, info)) = (if ui_permissions info = [] then m else std_insert u (reloaded info u) m)"
    if "plain_entry (u, info)" for m u info
    using that parse_user_line skip_user_line perms_text_lines(1) by (auto simp: plain_entry_def reloaded_def f_def)
  have "foldl ud_parse_line m (map f es) = foldl (\<lambda>m (k, v). std_insert k v m) m
      (map (\<lambda>(u, info). (u, reloaded info u)) (?kept es))" if "list_all plain_entry es" for m es
    using that by (induction es arbitrary: m) (auto simp: l)
  moreover have "std_wf ([] @ map (\<lambda>(u, info). (u, reloaded info u)) (?kept (ud_users db)))"
    using wf_filter [OF assms(1)] by (simp add: std_wf_def std_keys_def comp_def split_def)
  ultimately show ?thesis using p assms(2) foldl_insert_sorted by fastforce
qed

theorem user_database_roundtrip_witness:
  "foldl ud_parse_line [] (getlines newline (ud_content
      \<lparr>ud_file = ''/pw'', ud_users = [(''ann'', new_user ''ann'' ''secret'' False 7 [''read'', ''write'']),
         (''bob'', new_user ''bob'' ''secret'' False 7 [])]\<rparr>))
    = [(''ann'', new_user ''ann'' ''secret'' False time_max [''read'', ''write''])]"
proof -
  let ?db = "\<lparr>ud_file = ''/pw'', ud_users = [(''ann'', new_user ''ann'' ''secret'' False 7 [''read'', ''write'']),
       (''bob'', new_user ''bob'' ''secret'' False 7 [])]\<rparr>"
  have "std_wf (ud_users ?db)" "list_all plain_entry (ud_users ?db)" by code_simp+
  note user_database_roundtrip [OF this]
  moreover have "\<not> isHashed ''secret''" by code_simp
  ultimately show ?thesis by (simp add: reloaded_def new_user_def)
qed

text \<open>A hashed password does not survive: after a user made by \<open>createUser\<close> has been saved and
  loaded, the stored secret is the word \<open>sha256\<close> in clear text, because the file's separator is
  the separator inside the hash.  The user's own password is refused, and anyone who offers the
  word \<open>sha256\<close> is accepted.\<close>

theorem saved_hash_lost:
  assumes "sha256_total ssl" "rnd \<noteq> []" "name_ok u" "list_all (\<lambda>p. newline \<notin> set p) perms"
  shows "\<exists>info. foldl ud_parse_line [] (getlines newline (ud_content
             \<lparr>ud_file = f, ud_users = [(u, new_user u (hashPassword ssl rnd p []) True e perms)]\<rparr>))
           = [(u, info)] \<and> ui_password_hash info = ''sha256''
         \<and> (\<forall>pw. verifyPassword ssl rnd' pw (ui_password_hash info) \<longleftrightarrow> pw = ''sha256'')"
proof -
  obtain d where d: "evp_sha256 ssl (generateSalt rnd @ p) = Some d"
    using assms(1) by (auto simp: sha256_total_def)
  note h = hash_shape [OF d]
  let ?info = "new_user u (hashPassword ssl rnd p []) True e perms"
  let ?db = "\<lparr>ud_file = f, ud_users = [(u, ?info)]\<rparr>"
  let ?rest = "generateSalt rnd @ CHR '':'' # hex_string d @ (if perms = [] then [] else CHR '':'' # perms_text perms)"
  let ?f = "\<lambda>e :: string \<times> UserInfo. u @ CHR '':'' # ''sha256'' @ CHR '':'' # ?rest"
  have hex: "newline \<notin> set (hex_string bs)" for bs
    using hex_no_newline .
  have n: "newline \<notin> set (perms_text perms)" if "perms \<noteq> []"
    using assms(4) that by (cases perms) (auto simp: perms_text_def list_all_iff)
  have "ud_line (u, ?info) = ?f (u, ?info) @ [newline]"
    by (simp add: ud_line_def new_user_def h perms_text_def comma_Cons)
  then have c: "ud_content ?db = ''# User database file'' @ [newline]
     @ ''# Format: username:password_hash:permissions:metadata'' @ [newline]
     @ concat (map (\<lambda>e. ?f e @ [newline]) (ud_users ?db))" by (simp add: ud_content_def)
  have nl: "\<forall>e \<in> set (ud_users ?db). newline \<notin> set (?f e)"
    using assms(3) n hex by (auto simp: name_ok_def generateSalt_def)
  have "foldl ud_parse_line [] (getlines newline (ud_content ?db))
      = [(u, new_user u ''sha256'' (isHashed ''sha256'') time_max (getlines (CHR '','') ?rest))]"
    unfolding parse_content [OF c nl] using parse_user_line [OF assms(3), of "''sha256''" "[]" ?rest] by simp
  moreover have "\<not> isHashed ''sha256''" by code_simp
  ultimately show ?thesis by (simp add: new_user_def verifyPassword_def)
qed

theorem saved_hash_lost_witness:
  "\<exists>info. foldl ud_parse_line [] (getlines newline (ud_content
       \<lparr>ud_file = ''/pw'', ud_users = [(''ann'', new_user ''ann'' (hashPassword toy_ssl [1] ''pw'' []) True 7 [''read''])]\<rparr>))
     = [(''ann'', info)] \<and> \<not> verifyPassword toy_ssl [] ''pw'' (ui_password_hash info)
     \<and> verifyPassword toy_ssl [] ''sha256'' (ui_password_hash info)"
proof -
  have "sha256_total toy_ssl" "[1 :: uint8_t] \<noteq> []" by (simp_all add: sha256_total_def toy_ssl_def)
  moreover have "name_ok ''ann''" "list_all (\<lambda>p. newline \<notin> set p) [''read'']" by code_simp+
  ultimately obtain info where "foldl ud_parse_line [] (getlines newline (ud_content
       \<lparr>ud_file = ''/pw'', ud_users = [(''ann'', new_user ''ann'' (hashPassword toy_ssl [1] ''pw'' []) True 7 [''read''])]\<rparr>))
     = [(''ann'', info)]" "\<forall>pw. verifyPassword toy_ssl [] pw (ui_password_hash info) \<longleftrightarrow> pw = ''sha256''"
    using saved_hash_lost [where u = "''ann''" and perms = "[''read'']" and f = "''/pw''" and p = "''pw''"
        and e = 7 and rnd = "[1]" and ssl = toy_ssl and rnd' = "[]"] by blast
  then show ?thesis by (intro exI [of _ info]) simp
qed

end
