(* ===== verification/Sessions.thy ===== *)
theory Sessions
  imports Std_Map Auth
begin

text \<open>
  The session manager of \<open>src/simple-rsyncd/core/auth.cpp\<close>: sessions by random identifier, their
  activity and their expiry.  Clock readings (nanoseconds) and the 16 random bytes of an
  identifier are arguments; the mutex makes each operation atomic.
\<close>

record SessionInfo =
  si_session_id :: string
  si_username :: string
  si_client_address :: string
  si_created_at :: time_point
  si_last_activity :: time_point
  si_timeout :: int
  si_active :: bool

record SessionManager =
  sm_default_timeout :: int
  sm_sessions :: "(string, SessionInfo) std_map"

definition new_SessionManager :: "int \<Rightarrow> SessionManager" where
  "new_SessionManager default_timeout = \<lparr>sm_default_timeout = default_timeout, sm_sessions = []\<rparr>"

definition generateSessionId :: "uint8_t list \<Rightarrow> string" where
  "generateSessionId bytes = hex_string bytes"

text \<open>\<open>duration_cast<seconds>\<close> truncates towards zero.\<close>

definition whole_seconds :: "int \<Rightarrow> int" where
  "whole_seconds ns = (if ns < 0 then - ((- ns) div 1000000000) else ns div 1000000000)"

definition createSession :: "uint8_t list \<Rightarrow> time_point \<Rightarrow> SessionManager \<Rightarrow> string \<Rightarrow> string \<Rightarrow> int \<Rightarrow>
    string \<times> SessionManager" where
  "createSession bytes now m username client_address timeout =
     (let timeout = (if timeout = 0 then sm_default_timeout m else timeout);
          session_id = generateSessionId bytes;
          session = \<lparr>si_session_id = session_id, si_username = username,
            si_client_address = client_address, si_created_at = now, si_last_activity = now,
            si_timeout = timeout, si_active = True\<rparr>
      in (session_id, m\<lparr>sm_sessions := std_insert session_id session (sm_sessions m)\<rparr>))"

definition getSession :: "SessionManager \<Rightarrow> string \<Rightarrow> SessionInfo option" where
  "getSession m session_id = std_find (sm_sessions m) session_id"

definition updateActivity :: "time_point \<Rightarrow> SessionManager \<Rightarrow> string \<Rightarrow> bool \<times> SessionManager" where
  "updateActivity now m session_id =
     (case std_find (sm_sessions m) session_id of
        None \<Rightarrow> (False, m)
      | Some session \<Rightarrow>
          (True, m\<lparr>sm_sessions := std_insert session_id (session\<lparr>si_last_activity := now\<rparr>) (sm_sessions m)\<rparr>))"

definition isValidSession :: "time_point \<Rightarrow> SessionManager \<Rightarrow> string \<Rightarrow> bool" where
  "isValidSession now m session_id =
     (case std_find (sm_sessions m) session_id of
        None \<Rightarrow> False
      | Some session \<Rightarrow>
          if \<not> si_active session then False
          else if whole_seconds (now - si_last_activity session) > si_timeout session then False
          else True)"

definition deleteSession :: "SessionManager \<Rightarrow> string \<Rightarrow> bool \<times> SessionManager" where
  "deleteSession m session_id =
     (case std_find (sm_sessions m) session_id of
        None \<Rightarrow> (False, m)
      | Some _ \<Rightarrow> (True, m\<lparr>sm_sessions := std_erase session_id (sm_sessions m)\<rparr>))"

fun cleanup_loop :: "time_point \<Rightarrow> (string, SessionInfo) std_map \<Rightarrow> size_t \<Rightarrow>
    (string, SessionInfo) std_map \<times> size_t" where
  "cleanup_loop now [] cleaned = ([], cleaned)"
| "cleanup_loop now ((k, session) # rest) cleaned =
     (if whole_seconds (now - si_last_activity session) > si_timeout session \<or> \<not> si_active session
      then cleanup_loop now rest (cleaned + 1)
      else (let (kept, n) = cleanup_loop now rest cleaned in ((k, session) # kept, n)))"

definition cleanupExpiredSessions :: "time_point \<Rightarrow> SessionManager \<Rightarrow> size_t \<times> SessionManager" where
  "cleanupExpiredSessions now m =
     (let (kept, cleaned) = cleanup_loop now (sm_sessions m) 0
      in (cleaned, m\<lparr>sm_sessions := kept\<rparr>))"

definition getActiveSessions :: "time_point \<Rightarrow> SessionManager \<Rightarrow> string list" where
  "getActiveSessions now m =
     map fst (filter (\<lambda>(_, session). si_active session
        \<and> whole_seconds (now - si_last_activity session) \<le> si_timeout session) (sm_sessions m))"

definition getSessionCount :: "SessionManager \<Rightarrow> size_t" where
  "getSessionCount m = word_of_nat (length (sm_sessions m))"

end
