(* ===== verification/PublicKeys.thy ===== *)
theory PublicKeys
  imports Std_Map Filesystem SshKey
begin

text \<open>
  Public keys and their database, from \<open>src/simple-rsyncd/core/auth.cpp\<close> (\<open>PublicKey\<close>,
  \<open>PublicKeyDatabase\<close>).  A database is a file of lines \<open>user: key-type key-data [comment]\<close>.
\<close>

record PublicKeyInfo =
  pk_key_type :: string
  pk_key_data :: string
  pk_comment :: string
  pk_username :: string

section \<open>One key\<close>

definition isSupportedKeyType :: "string \<Rightarrow> bool" where
  "isSupportedKeyType key_type \<longleftrightarrow>
     key_type = ''ssh-rsa'' \<or> key_type = ''ssh-dss'' \<or> starts_with ''ecdsa-sha2-'' key_type
     \<or> key_type = ''ssh-ed25519''"

definition getSupportedKeyTypes :: "string list" where
  "getSupportedKeyTypes =
     [''ssh-rsa'', ''ssh-dss'', ''ecdsa-sha2-nistp256'', ''ecdsa-sha2-nistp384'',
      ''ecdsa-sha2-nistp521'', ''ssh-ed25519'']"

text \<open>Two words, then the rest of the first line without its first character.\<close>

definition pk_parse :: "string \<Rightarrow> PublicKeyInfo option" where
  "pk_parse key_string =
     (if key_string = [] then None
      else case extract_word key_string of
        None \<Rightarrow> None
      | Some (key_type, r) \<Rightarrow>
          (case extract_word r of
             None \<Rightarrow> None
           | Some (key_data, r') \<Rightarrow>
               (let rest = takeWhile (\<lambda>c. c \<noteq> newline) r';
                    comment = (if rest \<noteq> [] then drop 1 rest else [])
                in if \<not> isSupportedKeyType key_type then None
                   else Some \<lparr>pk_key_type = key_type, pk_key_data = key_data,
                              pk_comment = comment, pk_username = []\<rparr>)))"

definition pk_verifySignature :: "'k openssl \<Rightarrow> PublicKeyInfo \<Rightarrow> string \<Rightarrow> string \<Rightarrow> bool" where
  "pk_verifySignature ssl key data signature =
     (if pk_key_type key = ''ssh-rsa'' then ssh_verify ssl ''ssh-rsa'' (pk_key_data key) data signature
      else if starts_with ''ecdsa-sha2-'' (pk_key_type key) then
        ssh_verify ssl (pk_key_type key) (pk_key_data key) data signature
      else if pk_key_type key = ''ssh-ed25519'' then
        ssh_verify ssl ''ssh-ed25519'' (pk_key_data key) data signature
      else False)"

section \<open>The database\<close>

record PublicKeyDatabase =
  pkd_key_file :: string
  pkd_keys :: "(string, PublicKeyInfo list) std_map"
  pkd_loaded :: bool

definition extractKeyLine :: "string \<Rightarrow> string" where
  "extractKeyLine line =
     (case filter (\<lambda>t. find_sub t line \<noteq> None) getSupportedKeyTypes of
        [] \<Rightarrow> line
      | key_type # _ \<Rightarrow> drop (the (find_sub key_type line)) line)"

definition usernameFromComment :: "string \<Rightarrow> string" where
  "usernameFromComment comment =
     (if comment = [] then []
      else case find_char (CHR ''@'') comment of None \<Rightarrow> comment | Some at \<Rightarrow> take at comment)"

text \<open>\<open>keys[username].push_back(key)\<close>.\<close>

definition push_key :: "string \<Rightarrow> PublicKeyInfo \<Rightarrow> (string, PublicKeyInfo list) std_map \<Rightarrow>
    (string, PublicKeyInfo list) std_map" where
  "push_key username key keys =
     std_insert username ((case std_find keys username of None \<Rightarrow> [] | Some ks \<Rightarrow> ks) @ [key]) keys"

definition pkd_line :: "(string, PublicKeyInfo list) std_map \<Rightarrow> string \<Rightarrow>
    (string, PublicKeyInfo list) std_map" where
  "pkd_line keys raw_line =
     (if raw_line = [] \<or> hd raw_line = CHR ''#'' then keys
      else let line = trim raw_line
      in if line = [] then keys
         else
           let (username, key_line) =
                 (case find_char (CHR '':'') line of
                    None \<Rightarrow> ([], line)
                  | Some colon \<Rightarrow>
                      if (case find_sub ''ssh-'' line of None \<Rightarrow> True | Some i \<Rightarrow> colon < i) then
                        (take colon line, ltrim (drop (colon + 1) line))
                      else ([], line))
           in case pk_parse (extractKeyLine key_line) of
                None \<Rightarrow> keys
              | Some key \<Rightarrow>
                  (let username = (if username = [] then usernameFromComment (pk_comment key) else username)
                   in if username = [] then keys
                      else push_key username (key\<lparr>pk_username := username\<rparr>) keys))"

definition pkd_load :: "fs \<Rightarrow> PublicKeyDatabase \<Rightarrow> bool \<times> PublicKeyDatabase" where
  "pkd_load s db =
     (if pkd_key_file db = [] then (False, db)
      else case open_in s (pkd_key_file db) of
        None \<Rightarrow> (False, db\<lparr>pkd_keys := []\<rparr>)
      | Some (_, content) \<Rightarrow>
          (True, db\<lparr>pkd_keys := foldl pkd_line [] (getlines newline content), pkd_loaded := True\<rparr>))"

definition new_PublicKeyDatabase :: "fs \<Rightarrow> string \<Rightarrow> PublicKeyDatabase" where
  "new_PublicKeyDatabase s key_file =
     (let db = \<lparr>pkd_key_file = key_file, pkd_keys = [], pkd_loaded = False\<rparr>
      in if key_file = [] then db else snd (pkd_load s db))"

definition key_line :: "string \<Rightarrow> PublicKeyInfo \<Rightarrow> string" where
  "key_line username key =
     username @ '': '' @ pk_key_type key @ '' '' @ pk_key_data key
     @ (if pk_comment key \<noteq> [] then '' '' @ pk_comment key else [])"

definition pkd_content :: "PublicKeyDatabase \<Rightarrow> string" where
  "pkd_content db =
     ''# Public key database'' @ [newline]
     @ ''# Format: username: key-type key-data [comment]'' @ [newline]
     @ concat (map (\<lambda>(username, user_keys).
         concat (map (\<lambda>key. key_line username key @ [newline]) user_keys)) (pkd_keys db))"

definition pkd_save :: "fs \<Rightarrow> PublicKeyDatabase \<Rightarrow> bool \<times> fs" where
  "pkd_save s db =
     (if pkd_key_file db = [] then (False, s)
      else case open_out s (pkd_key_file db) of
        (None, s') \<Rightarrow> (False, s')
      | (Some q, s') \<Rightarrow> (True, append_file q (pkd_content db) s'))"

definition pkd_store :: "fs \<Rightarrow> PublicKeyDatabase \<Rightarrow> bool \<times> PublicKeyDatabase \<times> fs" where
  "pkd_store s db =
     (if pkd_key_file db \<noteq> [] then (case pkd_save s db of (ok, s') \<Rightarrow> (ok, db, s')) else (True, db, s))"

definition addKey :: "fs \<Rightarrow> PublicKeyDatabase \<Rightarrow> string \<Rightarrow> string \<Rightarrow> bool \<times> PublicKeyDatabase \<times> fs" where
  "addKey s db username key_string =
     (case pk_parse key_string of
        None \<Rightarrow> (False, db, s)
      | Some key \<Rightarrow>
          pkd_store s (db\<lparr>pkd_keys := push_key username (key\<lparr>pk_username := username\<rparr>) (pkd_keys db)\<rparr>))"

definition removeKey :: "fs \<Rightarrow> PublicKeyDatabase \<Rightarrow> string \<Rightarrow> string \<Rightarrow> bool \<times> PublicKeyDatabase \<times> fs" where
  "removeKey s db username key_data =
     (case std_find (pkd_keys db) username of
        None \<Rightarrow> (False, db, s)
      | Some user_keys \<Rightarrow>
          (let kept = filter (\<lambda>key. pk_key_data key \<noteq> key_data) user_keys
           in pkd_store s (db\<lparr>pkd_keys := (if kept = [] then std_erase username (pkd_keys db)
                                           else std_insert username kept (pkd_keys db))\<rparr>)))"

definition getUserKeys :: "PublicKeyDatabase \<Rightarrow> string \<Rightarrow> PublicKeyInfo list" where
  "getUserKeys db username = (case std_find (pkd_keys db) username of None \<Rightarrow> [] | Some ks \<Rightarrow> ks)"

definition userHasKeys :: "PublicKeyDatabase \<Rightarrow> string \<Rightarrow> bool" where
  "userHasKeys db username \<longleftrightarrow>
     (case std_find (pkd_keys db) username of None \<Rightarrow> False | Some ks \<Rightarrow> ks \<noteq> [])"

definition pkd_getUsers :: "PublicKeyDatabase \<Rightarrow> string list" where
  "pkd_getUsers db = std_keys (pkd_keys db)"

definition pkd_verifySignature :: "'k openssl \<Rightarrow> PublicKeyDatabase \<Rightarrow> string \<Rightarrow> string \<Rightarrow> string \<Rightarrow> bool" where
  "pkd_verifySignature ssl db username data signature =
     (case std_find (pkd_keys db) username of
        None \<Rightarrow> False
      | Some user_keys \<Rightarrow> list_ex (\<lambda>key. pk_verifySignature ssl key data signature) user_keys)"

definition pkd_reload :: "fs \<Rightarrow> PublicKeyDatabase \<Rightarrow> bool \<times> PublicKeyDatabase" where
  "pkd_reload s db = pkd_load s db"

end
