(* ===== verification/AuthManager.thy ===== *)
theory AuthManager
  imports Auth Sessions PublicKeys
begin

text \<open>
  The authentication manager of \<open>src/simple-rsyncd/core/auth.cpp\<close>: it owns the stores of the chosen
  method and turns an accepted login into a session identifier.  The empty identifier is the
  refusal.  \<open>salt\<close> and \<open>rnd\<close> are what the random source yields during the call for a salt and for the
  identifier, \<open>now\<close> is the clock.
\<close>

type_synonym random = "uint8_t list \<times> uint8_t list"

record AuthenticationManager =
  am_config :: AuthConfig
  am_password_file :: "PasswordFile option"
  am_user_database :: "UserDatabase option"
  am_public_key_database :: "PublicKeyDatabase option"
  am_session_manager :: SessionManager
  am_use_user_database :: bool

definition new_AuthenticationManager :: "fs \<Rightarrow> AuthConfig \<Rightarrow> AuthenticationManager" where
  "new_AuthenticationManager s config =
     \<lparr>am_config = config,
      am_password_file =
        (if auth_method config = ''password'' \<and> auth_password_file config \<noteq> [] then
           Some (new_PasswordFile s (auth_password_file config) (auth_reject_plaintext_passwords config))
         else None),
      am_user_database =
        (if auth_method config = ''password'' then Some (new_UserDatabase s []) else None),
      am_public_key_database =
        (if auth_method config \<noteq> ''password'' \<and> auth_method config = ''public_key''
            \<and> auth_public_key_file config \<noteq> [] then
           Some (new_PublicKeyDatabase s (auth_public_key_file config)) else None),
      am_session_manager = new_SessionManager 3600,
      am_use_user_database = False\<rparr>"

text \<open>Both methods consult the deny list, then the allow list.\<close>

definition user_permitted :: "AuthConfig \<Rightarrow> string \<Rightarrow> bool" where
  "user_permitted config username =
     (if username \<in> set (auth_denied_users config) then False
      else if auth_allowed_users config \<noteq> [] then username \<in> set (auth_allowed_users config)
      else True)"

definition start_session :: "uint8_t list \<Rightarrow> time_point \<Rightarrow> AuthenticationManager \<Rightarrow> string \<Rightarrow> string \<Rightarrow>
    string \<times> AuthenticationManager" where
  "start_session rnd now m username client_address =
     (case createSession rnd now (am_session_manager m) username client_address 0 of
        (session_id, sm) \<Rightarrow> (session_id, m\<lparr>am_session_manager := sm\<rparr>))"

definition authenticate :: "'k openssl \<Rightarrow> uint8_t list \<Rightarrow> uint8_t list \<Rightarrow> time_point \<Rightarrow> AuthenticationManager \<Rightarrow>
    string \<Rightarrow> string \<Rightarrow> string \<Rightarrow> string \<times> AuthenticationManager" where
  "authenticate ssl salt rnd now m username password client_address =
     (let config = am_config m
      in if \<not> auth_enabled config then
           (if auth_anonymous_access config then start_session rnd now m ''anonymous'' client_address
            else ([], m))
         else if auth_method config = ''password'' then
           (if \<not> user_permitted config username then ([], m)
            else
              let authenticated =
                    (case (am_use_user_database m, am_user_database m) of
                       (True, Some db) \<Rightarrow>
                         (case ud_getUserInfo db username of
                            None \<Rightarrow> False
                          | Some info \<Rightarrow> verifyPassword ssl salt password (ui_password_hash info))
                     | _ \<Rightarrow>
                         (case am_password_file m of
                            None \<Rightarrow> False
                          | Some p \<Rightarrow> pf_authenticate ssl salt p username password))
              in if authenticated then start_session rnd now m username client_address else ([], m))
         else ([], m))"

definition authenticateWithKey :: "'k openssl \<Rightarrow> uint8_t list \<Rightarrow> time_point \<Rightarrow> AuthenticationManager \<Rightarrow>
    string \<Rightarrow> string \<Rightarrow> string \<Rightarrow> string \<Rightarrow> string \<times> AuthenticationManager" where
  "authenticateWithKey ssl rnd now m username data signature client_address =
     (let config = am_config m
      in if \<not> auth_enabled config then
           (if auth_anonymous_access config then start_session rnd now m ''anonymous'' client_address
            else ([], m))
         else if auth_method config \<noteq> ''public_key'' then ([], m)
         else if \<not> user_permitted config username then ([], m)
         else case am_public_key_database m of
                None \<Rightarrow> ([], m)
              | Some db \<Rightarrow>
                  if pkd_verifySignature ssl db username data signature then
                    start_session rnd now m username client_address
                  else ([], m))"

definition authenticateUser :: "'k openssl \<Rightarrow> uint8_t list \<Rightarrow> uint8_t list \<Rightarrow> time_point \<Rightarrow> AuthenticationManager \<Rightarrow>
    string \<Rightarrow> string \<Rightarrow> bool \<times> AuthenticationManager" where
  "authenticateUser ssl salt rnd now m username password =
     (let (session_id, m') = authenticate ssl salt rnd now m username password [] in (session_id \<noteq> [], m'))"

definition authenticateUserWithKey :: "'k openssl \<Rightarrow> uint8_t list \<Rightarrow> time_point \<Rightarrow> AuthenticationManager \<Rightarrow>
    string \<Rightarrow> string \<Rightarrow> string \<Rightarrow> bool \<times> AuthenticationManager" where
  "authenticateUserWithKey ssl rnd now m username challenge signature_b64 =
     (let (session_id, m') = authenticateWithKey ssl rnd now m username challenge signature_b64 []
      in (session_id \<noteq> [], m'))"

definition am_isEnabled :: "AuthenticationManager \<Rightarrow> bool" where
  "am_isEnabled m = auth_enabled (am_config m)"

definition am_allowsAnonymous :: "AuthenticationManager \<Rightarrow> bool" where
  "am_allowsAnonymous m = auth_anonymous_access (am_config m)"

definition am_getRealm :: "AuthenticationManager \<Rightarrow> string" where
  "am_getRealm m = auth_realm (am_config m)"

definition am_reload :: "fs \<Rightarrow> AuthenticationManager \<Rightarrow> bool \<times> AuthenticationManager" where
  "am_reload s m =
     (case am_password_file m of
        Some p \<Rightarrow> (case pf_reload s p of (ok, p') \<Rightarrow> (ok, m\<lparr>am_password_file := Some p'\<rparr>))
      | None \<Rightarrow>
          (case am_user_database m of
             Some db \<Rightarrow>
               if \<not> am_use_user_database m then
                 (case ud_load s db of (ok, db') \<Rightarrow> (ok, m\<lparr>am_user_database := Some db'\<rparr>))
               else (case am_public_key_database m of
                       Some k \<Rightarrow> (case pkd_reload s k of (ok, k') \<Rightarrow> (ok, m\<lparr>am_public_key_database := Some k'\<rparr>))
                     | None \<Rightarrow> (True, m))
           | None \<Rightarrow>
               (case am_public_key_database m of
                  Some k \<Rightarrow> (case pkd_reload s k of (ok, k') \<Rightarrow> (ok, m\<lparr>am_public_key_database := Some k'\<rparr>))
                | None \<Rightarrow> (True, m))))"

definition getPublicKeyDatabase :: "fs \<Rightarrow> AuthenticationManager \<Rightarrow> PublicKeyDatabase \<times> AuthenticationManager" where
  "getPublicKeyDatabase s m =
     (case am_public_key_database m of
        Some db \<Rightarrow> (db, m)
      | None \<Rightarrow>
          (let db = new_PublicKeyDatabase s (auth_public_key_file (am_config m))
           in (db, m\<lparr>am_public_key_database := Some db\<rparr>)))"

end
