(* ===== verification/AuthManager_Facts.thy ===== *)
theory AuthManager_Facts
  imports AuthManager Auth_Facts
begin

text \<open>
  Sessions expire and are cleaned up as their validity test says; the authentication manager
  admits exactly the users its lists and its store admit; and a public-key login is not bound to
  a challenge of the daemon.
\<close>

section \<open>Sessions\<close>

interpretation sessions: key_store "\<lambda>m. std_find (sm_sessions m)"
    "\<lambda>k v m. m\<lparr>sm_sessions := std_insert k v (sm_sessions m)\<rparr>"
    "\<lambda>k m. m\<lparr>sm_sessions := std_erase k (sm_sessions m)\<rparr>" "\<lambda>m. std_wf (sm_sessions m)"
  by unfold_locales auto

definition live :: "time_point \<Rightarrow> SessionInfo \<Rightarrow> bool" where
  "live now session \<longleftrightarrow> si_active session
     \<and> whole_seconds (now - si_last_activity session) \<le> si_timeout session"

lemma isValidSession_live: "isValidSession now m i \<longleftrightarrow> pred_option (live now) (getSession m i) \<and> getSession m i \<noteq> None"
  by (auto simp: isValidSession_def getSession_def live_def split: option.splits)

lemma cleanup_loop_eq:
  "cleanup_loop now m c = (filter (\<lambda>(_, s). live now s) m,
      c + word_of_nat (length (filter (\<lambda>(_, s). \<not> live now s) m)))"
  by (induction now m c rule: cleanup_loop.induct) (auto simp: live_def ac_simps not_le)

lemma find_filter:
  "distinct (map fst m) \<Longrightarrow> std_find (filter (\<lambda>(_, s). P s) m) k
     = (case std_find m k of None \<Rightarrow> None | Some v \<Rightarrow> if P v then Some v else None)"
proof (induction m)
  case (Cons e m)
  have "std_find m (fst e) = None" using Cons.prems by (auto simp: map_of_eq_None_iff)
  with Cons show ?case by (cases e) (auto split: option.splits)
qed simp

text \<open>Cleaning up removes exactly the sessions that are not valid at that moment and reports their
  number: a lookup afterwards finds a session if and only if it was there and valid, unchanged,
  every remaining session is valid, and the remaining identifiers are the ones
  \<open>getActiveSessions\<close> lists.\<close>

theorem cleanup_removes_invalid:
  assumes "std_wf (sm_sessions m)"
  shows "case cleanupExpiredSessions now m of (n, m') \<Rightarrow>
           getSession m' i = (if isValidSession now m i then getSession m i else None)
           \<and> (isValidSession now m' i \<longleftrightarrow> isValidSession now m i)
           \<and> std_keys (sm_sessions m') = getActiveSessions now m
           \<and> n = word_of_nat (length (sm_sessions m) - length (sm_sessions m'))"
proof -
  have d: "distinct (map fst (sm_sessions m))" using wf_distinct [OF assms] by (simp add: std_keys_def)
  have f: "std_find (filter (\<lambda>(_, s). live now s) (sm_sessions m)) i
      = (if isValidSession now m i then getSession m i else None)"
    unfolding find_filter [OF d]
    by (auto simp: isValidSession_live getSession_def split: option.splits)
  have n: "length (filter (\<lambda>(_, s). \<not> live now s) (sm_sessions m))
      = length (sm_sessions m) - length (filter (\<lambda>(_, s). live now s) (sm_sessions m))"
    using sum_length_filter_compl [of "\<lambda>(_, s). live now s" "sm_sessions m"] by (simp add: split_def)
  show ?thesis
    using f n
    by (auto simp: cleanupExpiredSessions_def cleanup_loop_eq getSession_def isValidSession_live
        std_keys_def getActiveSessions_def live_def)
qed

definition two_sessions :: SessionManager where
  "two_sessions = snd (createSession [2] 90000000000 (snd (createSession [1] 0 (new_SessionManager 60)
     ''ann'' ''10.0.0.1'' 0)) ''bob'' ''10.0.0.2'' 30)"

theorem cleanup_removes_invalid_witness:
  "case cleanupExpiredSessions 100000000000 two_sessions of (n, m') \<Rightarrow>
     n = 1 \<and> getSession m' ''01'' = None \<and> getSession m' ''02'' = getSession two_sessions ''02''"
proof -
  have w: "std_wf (sm_sessions two_sessions)" by code_simp
  have v: "\<not> isValidSession 100000000000 two_sessions ''01''" "isValidSession 100000000000 two_sessions ''02''"
    by code_simp+
  have n: "fst (cleanupExpiredSessions 100000000000 two_sessions) = 1" by code_simp
  show ?thesis
    using cleanup_removes_invalid [OF w, where now = 100000000000 and i = "''01''"] v n
      cleanup_removes_invalid [OF w, where now = 100000000000 and i = "''02''"]
    by (simp split: prod.splits)
qed

section \<open>Logins\<close>

lemma session_id_ne: "rnd \<noteq> [] \<Longrightarrow> fst (start_session rnd now m u c) \<noteq> []"
  by (auto simp: start_session_def createSession_def generateSessionId_def Let_def neq_Nil_conv
      hex_string_Cons hex_byte_def)

text \<open>C29. With password authentication enabled, a login succeeds exactly when the user is not on the
  deny list, is on the allow list if there is one, and the loaded password file holds an entry
  that accepts the password; a success adds one session for that user, a refusal changes nothing.\<close>

theorem authenticateUser_iff:
  assumes "auth_enabled (am_config m)" "auth_method (am_config m) = ''password''"
    and "\<not> am_use_user_database m" "rnd \<noteq> []"
  shows "(fst (authenticateUser ssl salt rnd now m u p) \<longleftrightarrow>
            u \<notin> set (auth_denied_users (am_config m))
            \<and> (auth_allowed_users (am_config m) = [] \<or> u \<in> set (auth_allowed_users (am_config m)))
            \<and> (\<exists>f stored. am_password_file m = Some f \<and> pf_loaded f
                 \<and> std_find (pf_users f) u = Some stored \<and> verifyPassword ssl salt p stored))
       \<and> snd (authenticateUser ssl salt rnd now m u p)
           = (if fst (authenticateUser ssl salt rnd now m u p) then snd (start_session rnd now m u []) else m)"
proof -
  let ?auth = "case am_password_file m of None \<Rightarrow> False | Some f \<Rightarrow> pf_authenticate ssl salt f u p"
  have a: "?auth \<longleftrightarrow> (\<exists>f stored. am_password_file m = Some f \<and> pf_loaded f
                 \<and> std_find (pf_users f) u = Some stored \<and> verifyPassword ssl salt p stored)"
    by (auto simp: pf_authenticate_def split: option.splits)
  have e: "authenticate ssl salt rnd now m u p [] =
      (if user_permitted (am_config m) u \<and> ?auth then start_session rnd now m u [] else ([], m))"
    using assms(1-3) by (auto simp: authenticate_def Let_def)
  have pm: "user_permitted (am_config m) u \<longleftrightarrow> u \<notin> set (auth_denied_users (am_config m))
      \<and> (auth_allowed_users (am_config m) = [] \<or> u \<in> set (auth_allowed_users (am_config m)))"
    by (auto simp: user_permitted_def)
  show ?thesis
    unfolding a [symmetric] pm [symmetric]
    using session_id_ne [OF assms(4), of now m u "[]"] by (auto simp: authenticateUser_def e split_def pm)
qed

definition demo_manager :: AuthenticationManager where
  "demo_manager = new_AuthenticationManager (passwd_fs (''ann:pw'' @ [newline] @ ''bob:pw''))
     (default_AuthConfig\<lparr>auth_enabled := True, auth_password_file := ''/pw'', auth_denied_users := [''bob'']\<rparr>)"

theorem authenticateUser_iff_witness:
  "fst (authenticateUser toy_ssl [] [1] 0 demo_manager ''ann'' ''pw'')
   \<and> \<not> fst (authenticateUser toy_ssl [] [1] 0 demo_manager ''bob'' ''pw'')"
proof -
  have "auth_enabled (am_config demo_manager)" "auth_method (am_config demo_manager) = ''password''"
    "\<not> am_use_user_database demo_manager" "[1 :: uint8_t] \<noteq> []" by code_simp+
  note i = authenticateUser_iff [OF this, where ssl = toy_ssl and salt = "[]" and now = 0 and p = "''pw''"]
  have "am_password_file demo_manager = Some (the (am_password_file demo_manager))"
    "pf_loaded (the (am_password_file demo_manager))"
    "std_find (pf_users (the (am_password_file demo_manager))) ''ann'' = Some ''pw''"
    "verifyPassword toy_ssl [] ''pw'' ''pw''"
    "''bob'' \<in> set (auth_denied_users (am_config demo_manager))"
    "''ann'' \<notin> set (auth_denied_users (am_config demo_manager))"
    "auth_allowed_users (am_config demo_manager) = []" by code_simp+
  with i [of "''ann''"] i [of "''bob''"] show ?thesis by blast
qed

text \<open>A public-key login is not bound to anything the daemon has issued: once a user, a challenge
  and a signature have been accepted, the same three are accepted again at any later time, after
  any number of other logins, from any connection.\<close>

theorem key_login_replays:
  assumes "fst (authenticateUserWithKey ssl rnd now m u challenge sig)" "rnd' \<noteq> []"
    and "auth_enabled (am_config m)"
    and "am_config m' = am_config m" "am_public_key_database m' = am_public_key_database m"
  shows "fst (authenticateUserWithKey ssl rnd' now' m' u challenge sig)
       \<and> am_config (snd (authenticateUserWithKey ssl rnd' now' m' u challenge sig)) = am_config m
       \<and> am_public_key_database (snd (authenticateUserWithKey ssl rnd' now' m' u challenge sig))
           = am_public_key_database m"
proof -
  from assms(1,3) obtain db where db: "auth_method (am_config m) = ''public_key''"
    "user_permitted (am_config m) u" "am_public_key_database m = Some db"
    "pkd_verifySignature ssl db u challenge sig"
    by (auto simp: authenticateUserWithKey_def authenticateWithKey_def Let_def split: if_splits option.splits)
  have r: "authenticateWithKey ssl rnd' now' m' u challenge sig [] = start_session rnd' now' m' u []"
    using db assms(3-5) by (simp add: authenticateWithKey_def Let_def)
  show ?thesis
    using session_id_ne [OF assms(2), of now' m' u "[]"] assms(4,5)
    by (auto simp: authenticateUserWithKey_def r split_def start_session_def)
qed

definition key_manager :: AuthenticationManager where
  "key_manager = \<lparr>am_config = default_AuthConfig\<lparr>auth_enabled := True, auth_method := ''public_key''\<rparr>,
     am_password_file = None, am_user_database = None,
     am_public_key_database = Some \<lparr>pkd_key_file = [], pkd_keys = [(''ann'',
        [\<lparr>pk_key_type = ''ssh-rsa'', pk_key_data = wire ''ssh-rsa'' @ wire ''e'' @ wire ''n'',
          pk_comment = [], pk_username = ''ann''\<rparr>])], pkd_loaded = True\<rparr>,
     am_session_manager = new_SessionManager 3600, am_use_user_database = False\<rparr>"

theorem key_login_replays_witness:
  "let m' = snd (authenticateUserWithKey toy_ssl [1] 0 key_manager ''ann'' ''c1'' (wire ''ssh-rsa'' @ wire ''nc1''))
   in fst (authenticateUserWithKey toy_ssl [2] 999 m' ''ann'' ''c1'' (wire ''ssh-rsa'' @ wire ''nc1''))"
proof -
  let ?sig = "wire ''ssh-rsa'' @ wire ''nc1''"
  have a: "fst (authenticateUserWithKey toy_ssl [1] 0 key_manager ''ann'' ''c1'' ?sig)" by code_simp
  have en: "auth_enabled (am_config key_manager)" "[1 :: uint8_t] \<noteq> []" "[2 :: uint8_t] \<noteq> []" by code_simp+
  note first = key_login_replays [OF a en(2) en(1) refl refl, of 0]
  have "fst (authenticateUserWithKey toy_ssl [2] 999
      (snd (authenticateUserWithKey toy_ssl [1] 0 key_manager ''ann'' ''c1'' ?sig)) ''ann'' ''c1'' ?sig)"
    using key_login_replays [OF a en(3) en(1)] first by blast
  then show ?thesis by (simp add: Let_def)
qed

end
