(* ===== verification/Session.thy ===== *)
theory Session
  imports Protocol AuthManager
begin

text \<open>
  A client session, from \<open>include/simple-rsyncd/core/session.hpp\<close> and
  \<open>src/simple-rsyncd/core/session.cpp\<close>: the request loop, the authentication gate and the file
  transfer state machine.

  What lies outside a session is the record \<open>world\<close>: the file system, the daemon's authentication
  manager, the bytes the client has received (\<open>w_wire\<close>) and those of them that were sent outside TLS
  (\<open>w_clear\<close>).  \<open>sn_ssl\<close> is the session's TLS connection, if it has one: whether it is open.  The network is an argument: \<open>rx\<close> is what a
  read of this call yields, \<open>send k n\<close> what the \<open>k\<close>-th \<open>send\<close> of the run returns for \<open>n\<close> bytes.
  A method that may be left by a \<open>filesystem_error\<close> returns an optional result beside the state it
  leaves.  An open file is its physical path, with the read position for a download; the bytes are
  read from the file as it is at that moment.
\<close>

section \<open>State\<close>

datatype TransferState = IDLE | RECEIVING_FILE | SENDING_FILE

record RSyncSession =
  sn_socket_open :: bool
  sn_ssl :: "bool option"
  sn_client_address :: string
  sn_auth_config :: "AuthConfig option"
  sn_active :: bool
  sn_parser :: ProtocolVersion
  sn_current_module :: string
  sn_authenticated_user :: string
  sn_state :: TransferState
  sn_transfer_module :: string
  sn_transfer_path :: string
  sn_upload_file :: "phys option"
  sn_download_file :: "(phys \<times> nat) option"
  sn_bytes_remaining :: size_t
  sn_bytes_sent :: size_t

record world =
  w_fs :: fs
  w_auth :: "AuthenticationManager option"
  w_wire :: string
  w_clear :: string
  w_sends :: nat

text \<open>The fixed surroundings of a session.\<close>

record 'k env =
  e_ssl :: "'k openssl"
  e_modules :: modules
  e_indet :: size_t
  e_send :: "nat \<Rightarrow> nat \<Rightarrow> int"

datatype rx = Bytes string | Eof | ReadError

definition new_RSyncSession :: "string \<Rightarrow> AuthConfig option \<Rightarrow> bool option \<Rightarrow> RSyncSession" where
  "new_RSyncSession client_address config ssl_connection =
     \<lparr>sn_socket_open = True, sn_ssl = ssl_connection, sn_client_address = client_address,
      sn_auth_config = config, sn_active = True, sn_parser = new_ProtocolParser,
      sn_current_module = [], sn_authenticated_user = [], sn_state = IDLE,
      sn_transfer_module = [], sn_transfer_path = [], sn_upload_file = None,
      sn_download_file = None, sn_bytes_remaining = 0, sn_bytes_sent = 0\<rparr>"

section \<open>The connection\<close>

definition sn_close :: "RSyncSession \<Rightarrow> RSyncSession" where
  "sn_close sn =
     (case sn_ssl sn of
        Some _ \<Rightarrow> sn\<lparr>sn_ssl := Some False, sn_socket_open := False, sn_active := False\<rparr>
      | None \<Rightarrow>
          if sn_active sn \<and> sn_socket_open sn then sn\<lparr>sn_socket_open := False, sn_active := False\<rparr>
          else sn)"

text \<open>
  A read of at most \<open>n\<close> bytes; \<open>SSLConnection::read\<close> closes the TLS connection, not the socket, when
  the peer has ended it, and from then on the session reads from and writes to the socket.
\<close>

definition received :: "nat \<Rightarrow> rx \<Rightarrow> string option" where
  "received n r = (case r of Bytes d \<Rightarrow> Some (take n d) | Eof \<Rightarrow> Some [] | ReadError \<Rightarrow> None)"

definition readSocket :: "rx \<Rightarrow> nat \<Rightarrow> RSyncSession \<Rightarrow> string \<times> int \<times> RSyncSession" where
  "readSocket r n sn =
     (if sn_ssl sn \<noteq> Some True \<and> \<not> sn_socket_open sn then ([], -1, sn)
      else case received n r of
        None \<Rightarrow> ([], -1, sn)
      | Some data \<Rightarrow>
          (data, int (length data),
           if sn_ssl sn = Some True \<and> data = [] then sn\<lparr>sn_ssl := Some False\<rparr> else sn))"

definition writeSocket :: "'k env \<Rightarrow> string \<Rightarrow> RSyncSession \<Rightarrow> world \<Rightarrow> int \<times> world" where
  "writeSocket e data sn w =
     (if sn_ssl sn \<noteq> Some True \<and> \<not> sn_socket_open sn then (-1, w)
      else
        let n = e_send e (w_sends w) (length data);
            sent = take (nat n) data;
            w = w\<lparr>w_sends := Suc (w_sends w), w_wire := w_wire w @ sent\<rparr>
        in if sn_ssl sn = Some True then (if n > 0 then n else -1, w)
           else (n, w\<lparr>w_clear := w_clear w @ sent\<rparr>))"

definition writeResponse :: "'k env \<Rightarrow> string \<Rightarrow> RSyncSession \<Rightarrow> world \<Rightarrow> bool \<times> world" where
  "writeResponse e response sn w =
     (if \<not> sn_socket_open sn \<or> \<not> sn_active sn then (False, w)
      else case writeSocket e response sn w of (bytes_sent, w') \<Rightarrow> (bytes_sent > 0, w'))"

section \<open>Authentication\<close>

text \<open>The unused \<open>authenticate\<close> and \<open>authorize\<close> of the session.\<close>

definition sn_authenticate :: "RSyncSession \<Rightarrow> bool \<times> RSyncSession" where
  "sn_authenticate sn =
     (case sn_auth_config sn of
        None \<Rightarrow> (True, sn\<lparr>sn_authenticated_user := ''anonymous''\<rparr>)
      | Some auth \<Rightarrow>
          if \<not> auth_enabled auth then (True, sn\<lparr>sn_authenticated_user := ''anonymous''\<rparr>)
          else if auth_anonymous_access auth then (True, sn\<lparr>sn_authenticated_user := ''anonymous''\<rparr>)
          else (False, sn))"

definition sn_authorize :: "RSyncSession \<Rightarrow> string \<Rightarrow> string \<Rightarrow> bool" where
  "sn_authorize sn module_name operation = True"

definition handleAuthMessage :: "'k env \<Rightarrow> random \<Rightarrow> time_point \<Rightarrow> ProtocolMessage \<Rightarrow>
    RSyncSession \<Rightarrow> world \<Rightarrow> string \<times> RSyncSession \<times> world" where
  "handleAuthMessage e rnd now message sn w =
     (case sn_auth_config sn of
        None \<Rightarrow> (buildResponse True ''Authentication disabled'', sn\<lparr>sn_authenticated_user := ''anonymous''\<rparr>, w)
      | Some auth \<Rightarrow>
          if \<not> auth_enabled auth then
            (buildResponse True ''Authentication disabled'', sn\<lparr>sn_authenticated_user := ''anonymous''\<rparr>, w)
          else if auth_method auth = ''public_key'' then
            (case w_auth w of
               None \<Rightarrow> (buildErrorResponse 500 ''Authentication manager unavailable'', sn, w)
             | Some am \<Rightarrow>
                 (case std_find (pm_arguments message) ''signature'' of
                    None \<Rightarrow> (buildErrorResponse 400
                        ''AUTH requires: AUTH <user> <challenge> signature=<base64_ssh_sig>'', sn, w)
                  | Some signature \<Rightarrow>
                      if pm_module message = [] \<or> pm_path message = [] then
                        (buildErrorResponse 400
                           ''AUTH requires: AUTH <user> <challenge> signature=<base64_ssh_sig>'', sn, w)
                      else case authenticateUserWithKey (e_ssl e) (snd rnd) now am (pm_module message)
                                  (pm_path message) signature of
                        (ok, am') \<Rightarrow>
                          if ok then (buildResponse True (''Authenticated: '' @ pm_module message),
                                      sn\<lparr>sn_authenticated_user := pm_module message\<rparr>, w\<lparr>w_auth := Some am'\<rparr>)
                          else (buildErrorResponse 403 ''Public key authentication failed'', sn,
                                w\<lparr>w_auth := Some am'\<rparr>)))
          else if auth_method auth = ''password'' then
            (case std_find (pm_arguments message) ''password'' of
               None \<Rightarrow> (buildErrorResponse 400 ''AUTH requires: AUTH <user> _ password=<secret>'', sn, w)
             | Some password \<Rightarrow>
                 if pm_module message = [] then
                   (buildErrorResponse 400 ''AUTH requires: AUTH <user> _ password=<secret>'', sn, w)
                 else case w_auth w of
                   None \<Rightarrow> (buildErrorResponse 403 ''Password authentication failed'', sn, w)
                 | Some am \<Rightarrow>
                     (case authenticateUser (e_ssl e) (fst rnd) (snd rnd) now am (pm_module message) password of
                        (ok, am') \<Rightarrow>
                          if ok then (buildResponse True (''Authenticated: '' @ pm_module message),
                                      sn\<lparr>sn_authenticated_user := pm_module message\<rparr>, w\<lparr>w_auth := Some am'\<rparr>)
                          else (buildErrorResponse 403 ''Password authentication failed'', sn,
                                w\<lparr>w_auth := Some am'\<rparr>)))
          else (buildErrorResponse 501 ''Unsupported authentication method'', sn, w))"

definition handleProtocolMessage :: "'k env \<Rightarrow> random \<Rightarrow> time_point \<Rightarrow> ProtocolMessage \<Rightarrow>
    RSyncSession \<Rightarrow> world \<Rightarrow> string option \<times> RSyncSession \<times> world" where
  "handleProtocolMessage e rnd now message sn w =
     (let sn = (if pm_module message \<noteq> [] then sn\<lparr>sn_current_module := pm_module message\<rparr> else sn)
      in if (case sn_auth_config sn of
               None \<Rightarrow> False
             | Some auth \<Rightarrow> auth_enabled auth \<and> auth_method auth = ''public_key'')
            \<and> sn_authenticated_user sn = [] \<and> pm_command message \<noteq> AUTH then
           (Some (buildErrorResponse 401 ''Authentication required: send AUTH command''), sn, w)
         else if pm_command message = AUTH then
           (case handleAuthMessage e rnd now message sn w of (r, sn', w') \<Rightarrow> (Some r, sn', w'))
         else (case handle (e_indet e) (e_modules e) (sn_current_module sn) message (w_fs w) of
                 (r, s') \<Rightarrow> (r, sn, w\<lparr>w_fs := s'\<rparr>)))"

section \<open>File transfers\<close>

definition endFileTransfer :: "RSyncSession \<Rightarrow> RSyncSession" where
  "endFileTransfer sn =
     sn\<lparr>sn_upload_file := None, sn_download_file := None, sn_state := IDLE, sn_transfer_module := [],
        sn_transfer_path := [], sn_bytes_remaining := 0, sn_bytes_sent := 0\<rparr>"

definition transfer_module_name :: "string \<Rightarrow> RSyncSession \<Rightarrow> string" where
  "transfer_module_name module_name sn = (if module_name = [] then sn_current_module sn else module_name)"

text \<open>Where an upload of \<open>path\<close> is written: the normalised temporary path, unchecked.\<close>

definition upload_target :: "fs \<Rightarrow> ModuleConfig \<Rightarrow> string \<Rightarrow> string option" where
  "upload_target s cfg path =
     fs_absolute s (lexically_normal (path_append (mc_path cfg) (path @ ''.tmp'')))"

definition startFileUpload :: "'k env \<Rightarrow> string \<Rightarrow> string \<Rightarrow> RSyncSession \<Rightarrow> world \<Rightarrow>
    bool option \<times> RSyncSession \<times> world" where
  "startFileUpload e module_name path sn w =
     (let sn = sn\<lparr>sn_transfer_module := module_name, sn_transfer_path := path\<rparr>
      in case getModule (e_modules e) (transfer_module_name module_name sn) of
           None \<Rightarrow> (Some False, sn, w)
         | Some cfg \<Rightarrow>
             (case upload_target (w_fs w) cfg path of
                None \<Rightarrow> (None, sn, w)
              | Some full_path \<Rightarrow>
                  if full_path = [] then (Some False, sn, w)
                  else
                    let parent = parent_path full_path;
                        made = (if parent = [] then Some (w_fs w)
                                else case fs_exists (w_fs w) parent of
                                  None \<Rightarrow> None
                                | Some True \<Rightarrow> Some (w_fs w)
                                | Some False \<Rightarrow> map_option snd (create_directories (w_fs w) parent))
                    in case made of
                         None \<Rightarrow> (None, sn, w)
                       | Some s1 \<Rightarrow>
                           (case open_out s1 full_path of
                              (None, s2) \<Rightarrow> (Some False, sn, w\<lparr>w_fs := s2\<rparr>)
                            | (Some q, s2) \<Rightarrow>
                                (Some True, sn\<lparr>sn_upload_file := Some q, sn_state := RECEIVING_FILE,
                                               sn_bytes_remaining := 0\<rparr>, w\<lparr>w_fs := s2\<rparr>))))"

definition startFileDownload :: "'k env \<Rightarrow> string \<Rightarrow> string \<Rightarrow> RSyncSession \<Rightarrow> world \<Rightarrow>
    bool option \<times> RSyncSession" where
  "startFileDownload e module_name path sn w =
     (let sn = sn\<lparr>sn_transfer_module := module_name, sn_transfer_path := path\<rparr>
      in case getModule (e_modules e) (transfer_module_name module_name sn) of
           None \<Rightarrow> (Some False, sn)
         | Some cfg \<Rightarrow>
             (case getFileInfo (w_fs w) cfg path of
                None \<Rightarrow> (None, sn)
              | Some info \<Rightarrow>
                  if fi_path info = [] then (Some False, sn)
                  else case fileExists (w_fs w) cfg path of
                    None \<Rightarrow> (None, sn)
                  | Some False \<Rightarrow> (Some False, sn)
                  | Some True \<Rightarrow>
                      (case open_in (w_fs w) (fi_path info) of
                         None \<Rightarrow> (Some False, sn)
                       | Some (q, _) \<Rightarrow>
                           (Some True, sn\<lparr>sn_download_file := Some (q, 0), sn_state := SENDING_FILE,
                              sn_bytes_remaining := (case fi_size info of Some n \<Rightarrow> n | None \<Rightarrow> e_indet e),
                              sn_bytes_sent := 0\<rparr>))))"

definition file_bytes :: "fs \<Rightarrow> phys \<Rightarrow> string" where
  "file_bytes s q = (case node_at s q of Some (File c) \<Rightarrow> c | _ \<Rightarrow> [])"

definition sendChunk :: "'k env \<Rightarrow> RSyncSession \<Rightarrow> world \<Rightarrow> bool \<times> RSyncSession \<times> world" where
  "sendChunk e sn w =
     (case sn_download_file sn of
        None \<Rightarrow> (False, endFileTransfer sn, w)
      | Some (q, pos) \<Rightarrow>
          (let chunk_size = min 8192 (sn_bytes_remaining sn);
               data = take (unat chunk_size) (drop pos (file_bytes (w_fs w) q));
               sn = sn\<lparr>sn_download_file := Some (q, pos + length data)\<rparr>
           in if length data > 0 then
                (case writeSocket e data sn w of
                   (n, w) \<Rightarrow>
                     if n < 0 then (False, endFileTransfer sn, w)
                     else
                       let sn = sn\<lparr>sn_bytes_sent := sn_bytes_sent sn + word_of_int n,
                                   sn_bytes_remaining := sn_bytes_remaining sn - word_of_int n\<rparr>
                       in if sn_bytes_remaining sn = 0 then
                            let sn = endFileTransfer sn
                            in (True, sn, snd (writeResponse e (''@RSYNCD: OK'' @ endl @ ''Transfer complete'' @ endl) sn w))
                          else (True, sn, w))
              else (False, endFileTransfer sn, w)))"

definition receiveChunk :: "'k env \<Rightarrow> rx \<Rightarrow> RSyncSession \<Rightarrow> world \<Rightarrow>
    bool option \<times> RSyncSession \<times> world" where
  "receiveChunk e r sn w =
     (case readSocket r 8192 sn of
        (data, n, sn) \<Rightarrow>
          if n > 0 then
            (Some True, sn\<lparr>sn_bytes_sent := sn_bytes_sent sn + word_of_int n\<rparr>,
             w\<lparr>w_fs := (case sn_upload_file sn of None \<Rightarrow> w_fs w | Some q \<Rightarrow> append_file q data (w_fs w))\<rparr>)
          else if n = 0 then
            (let sn = endFileTransfer sn;
                 moved =
                   (if sn_transfer_module sn \<noteq> [] \<and> sn_transfer_path sn \<noteq> [] then
                      (case getModule (e_modules e) (sn_transfer_module sn) of
                         None \<Rightarrow> Some (w_fs w)
                       | Some cfg \<Rightarrow> do {
                           full_temp \<leftarrow> fs_absolute (w_fs w) (path_append (mc_path cfg) (sn_transfer_path sn @ ''.tmp''));
                           full_final \<leftarrow> fs_absolute (w_fs w) (path_append (mc_path cfg) (sn_transfer_path sn));
                           there \<leftarrow> fs_exists (w_fs w) full_temp;
                           if there then rename_file (w_fs w) full_temp full_final else Some (w_fs w)
                         })
                    else Some (w_fs w))
             in case moved of
                  None \<Rightarrow> (None, sn, w)
                | Some s \<Rightarrow>
                    let w = w\<lparr>w_fs := s\<rparr>
                    in (Some True, sn,
                        snd (writeResponse e (''@RSYNCD: OK'' @ endl @ ''File uploaded successfully'' @ endl) sn w)))
          else (Some False, endFileTransfer sn, w))"

definition continueFileTransfer :: "'k env \<Rightarrow> rx \<Rightarrow> RSyncSession \<Rightarrow> world \<Rightarrow>
    bool option \<times> RSyncSession \<times> world" where
  "continueFileTransfer e r sn w =
     (case sn_state sn of
        SENDING_FILE \<Rightarrow> (case sendChunk e sn w of (b, sn', w') \<Rightarrow> (Some b, sn', w'))
      | RECEIVING_FILE \<Rightarrow> receiveChunk e r sn w
      | IDLE \<Rightarrow> (Some False, sn, w))"

section \<open>The request loop\<close>

definition respond :: "'k env \<Rightarrow> string \<Rightarrow> RSyncSession \<Rightarrow> world \<Rightarrow> bool option \<times> RSyncSession \<times> world" where
  "respond e response sn w = (case writeResponse e response sn w of (b, w') \<Rightarrow> (Some b, sn, w'))"

text \<open>The end of \<open>processRequest\<close>: start the transfer the response announces, or send the response.\<close>

definition serveResponse :: "'k env \<Rightarrow> rx \<Rightarrow> ProtocolMessage \<Rightarrow> string \<Rightarrow> RSyncSession \<Rightarrow> world \<Rightarrow>
    bool option \<times> RSyncSession \<times> world" where
  "serveResponse e r message response sn w =
     (if contains_sub ''Ready for transfer'' response \<and> pm_command message = GET then
        (case startFileDownload e (pm_module message) (pm_path message) sn w of
           (None, sn) \<Rightarrow> (None, sn, w)
         | (Some True, sn) \<Rightarrow> continueFileTransfer e r sn w
         | (Some False, sn) \<Rightarrow> respond e response sn w)
      else if contains_sub ''Ready to receive file'' response \<and> pm_command message = PUT then
        (case startFileUpload e (pm_module message) (pm_path message) sn w of
           (None, sn, w) \<Rightarrow> (None, sn, w)
         | (Some True, sn, w) \<Rightarrow>
             (case writeResponse e response sn w of
                (True, w) \<Rightarrow> (Some True, sn\<lparr>sn_state := RECEIVING_FILE\<rparr>, w)
              | (False, w) \<Rightarrow> respond e response sn w)
         | (Some False, sn, w) \<Rightarrow> respond e response sn w)
      else respond e response sn w)"

definition processRequest :: "'k env \<Rightarrow> rx \<Rightarrow> random \<Rightarrow> time_point \<Rightarrow> RSyncSession \<Rightarrow> world \<Rightarrow>
    bool option \<times> RSyncSession \<times> world" where
  "processRequest e r rnd now sn w =
     (if \<not> sn_active sn then (Some False, sn, w)
      else if sn_state sn \<noteq> IDLE then continueFileTransfer e r sn w
      else case readSocket r 4095 sn of
        (request, n, sn) \<Rightarrow>
          if n \<le> 0 then (Some False, sn\<lparr>sn_active := False\<rparr>, w)
          else case parse (sn_parser sn) request of
            (message, version) \<Rightarrow>
              (let sn = sn\<lparr>sn_parser := version\<rparr>
               in if \<not> pm_valid message then
                    respond e (buildErrorResponse (-1)
                      (''Invalid protocol message: '' @ pm_error_message message)) sn w
                  else case handleProtocolMessage e rnd now message sn w of
                    (None, sn, w) \<Rightarrow> (None, sn, w)
                  | (Some response, sn, w) \<Rightarrow> serveResponse e r message response sn w))"

text \<open>
  What a worker of the daemon does with an active session: a request that returns false or throws
  closes the session.  The destructor ends a transfer and closes.
\<close>

definition worker_step :: "'k env \<Rightarrow> rx \<Rightarrow> random \<Rightarrow> time_point \<Rightarrow> RSyncSession \<times> world \<Rightarrow>
    RSyncSession \<times> world" where
  "worker_step e r rnd now st =
     (case st of (sn, w) \<Rightarrow>
        if \<not> sn_active sn then (sn, w)
        else case processRequest e r rnd now sn w of
          (Some True, sn', w') \<Rightarrow> (sn', w')
        | (_, sn', w') \<Rightarrow> (sn_close sn', w'))"

definition sn_destroy :: "RSyncSession \<Rightarrow> RSyncSession" where
  "sn_destroy sn = sn_close (endFileTransfer sn)"

end
