(* ===== verification/Session_Facts.thy ===== *)
theory Session_Facts
  imports Session AuthManager_Facts Confinement
begin

text \<open>
  The session as a machine: its transfer states and open files agree, the public-key gate keeps an
  unauthenticated client away from the file system, a download delivers the file, and what an
  upload and a disconnection leave behind.
\<close>

section \<open>The machine\<close>

definition transfer_ok :: "RSyncSession \<Rightarrow> bool" where
  "transfer_ok sn \<longleftrightarrow>
     (case sn_state sn of
        IDLE \<Rightarrow> sn_upload_file sn = None \<and> sn_download_file sn = None \<and> sn_bytes_remaining sn = 0
      | RECEIVING_FILE \<Rightarrow> sn_upload_file sn \<noteq> None \<and> sn_download_file sn = None
      | SENDING_FILE \<Rightarrow> sn_upload_file sn = None \<and> sn_download_file sn \<noteq> None)"

text \<open>Public-key authentication is demanded and has not happened.\<close>

definition gated :: "RSyncSession \<Rightarrow> bool" where
  "gated sn \<longleftrightarrow> (case sn_auth_config sn of None \<Rightarrow> False
                | Some auth \<Rightarrow> auth_enabled auth \<and> auth_method auth = ''public_key'')
             \<and> sn_authenticated_user sn = []"

lemma transfer_ok_end [simp]: "transfer_ok (endFileTransfer sn)"
  by (simp add: transfer_ok_def endFileTransfer_def)

lemma sn_close_fields [simp]:
  "sn_auth_config (sn_close sn) = sn_auth_config sn"
  "sn_authenticated_user (sn_close sn) = sn_authenticated_user sn"
  "sn_state (sn_close sn) = sn_state sn"
  "sn_upload_file (sn_close sn) = sn_upload_file sn"
  "sn_download_file (sn_close sn) = sn_download_file sn"
  "sn_bytes_remaining (sn_close sn) = sn_bytes_remaining sn"
  by (simp_all add: sn_close_def split: option.split)

lemma transfer_ok_close [simp]: "transfer_ok (sn_close sn) = transfer_ok sn"
  by (simp add: transfer_ok_def split: TransferState.split)

lemma gated_close [simp]: "gated (sn_close sn) = gated sn"
  by (simp add: gated_def)

lemma end_fields [simp]:
  "sn_auth_config (endFileTransfer sn) = sn_auth_config sn"
  "sn_authenticated_user (endFileTransfer sn) = sn_authenticated_user sn"
  "sn_state (endFileTransfer sn) = IDLE"
  "sn_ssl (endFileTransfer sn) = sn_ssl sn"
  "sn_socket_open (endFileTransfer sn) = sn_socket_open sn"
  "sn_active (endFileTransfer sn) = sn_active sn"
  by (simp_all add: endFileTransfer_def)

text \<open>What a read does to the session.\<close>

lemma ssl_update_id [simp]: "sn\<lparr>sn_ssl := sn_ssl sn\<rparr> = sn"
  by (cases sn) simp

lemma readSocket_frame:
  assumes "readSocket r k sn = (d, n, sn1)"
  obtains x where "sn1 = sn\<lparr>sn_ssl := x\<rparr>" "n > 0 \<Longrightarrow> x = sn_ssl sn"
    "x = Some True \<Longrightarrow> sn_ssl sn = Some True"
proof -
  have "sn1 = sn\<lparr>sn_ssl := sn_ssl sn1\<rparr> \<and> (n > 0 \<longrightarrow> sn_ssl sn1 = sn_ssl sn)
      \<and> (sn_ssl sn1 = Some True \<longrightarrow> sn_ssl sn = Some True)"
    using assms by (auto simp: readSocket_def split: if_split_asm option.splits)
  with that show thesis by blast
qed

text \<open>What each step of a transfer does to the fields the invariants read.\<close>

definition same_login :: "RSyncSession \<Rightarrow> RSyncSession \<Rightarrow> bool" where
  "same_login sn sn' \<longleftrightarrow> sn_auth_config sn' = sn_auth_config sn
     \<and> sn_authenticated_user sn' = sn_authenticated_user sn"

lemma same_login_refl [simp]: "same_login sn sn" "same_login sn (endFileTransfer sn)"
  by (simp_all add: same_login_def)

lemma same_login_gated: "same_login sn sn' \<Longrightarrow> gated sn' = gated sn"
  by (simp add: same_login_def gated_def)

lemma continue_ok:
  assumes "transfer_ok sn" "continueFileTransfer e r sn w = (b, sn', w')"
  shows "transfer_ok sn' \<and> same_login sn sn'"
proof (cases "sn_state sn")
  case IDLE
  with assms show ?thesis by (auto simp: continueFileTransfer_def)
next
  case RECEIVING_FILE
  obtain d n sn1 where rd: "readSocket r 8192 sn = (d, n, sn1)" by (cases "readSocket r 8192 sn") auto
  from readSocket_frame [OF rd] obtain x where "sn1 = sn\<lparr>sn_ssl := x\<rparr>" .
  with RECEIVING_FILE assms rd show ?thesis
    by (auto simp: continueFileTransfer_def receiveChunk_def Let_def transfer_ok_def same_login_def
        endFileTransfer_def split: prod.splits if_splits option.splits)
next
  case SENDING_FILE
  with assms show ?thesis
    by (auto simp: continueFileTransfer_def sendChunk_def Let_def transfer_ok_def same_login_def
        endFileTransfer_def split: prod.splits if_splits option.splits)
qed

lemma upload_ok:
  assumes "transfer_ok sn" "sn_state sn = IDLE" "startFileUpload e m p sn w = (b, sn', w')"
  shows "transfer_ok sn' \<and> same_login sn sn' \<and> (b = Some True \<longleftrightarrow> sn_state sn' = RECEIVING_FILE)
       \<and> (b \<noteq> Some True \<longrightarrow> sn_state sn' = IDLE)"
  using assms
  by (auto simp: startFileUpload_def Let_def transfer_ok_def same_login_def
      split: option.splits if_splits prod.splits)

lemma download_ok:
  assumes "transfer_ok sn" "sn_state sn = IDLE" "startFileDownload e m p sn w = (b, sn')"
  shows "transfer_ok sn' \<and> same_login sn sn' \<and> (b \<noteq> Some True \<longrightarrow> sn_state sn' = IDLE)"
  using assms
  by (auto simp: startFileDownload_def Let_def transfer_ok_def same_login_def
      split: option.splits if_splits prod.splits bool.splits)

text \<open>A message changes the current module, the user and the parser's version, not the transfer.\<close>

definition same_transfer :: "RSyncSession \<Rightarrow> RSyncSession \<Rightarrow> bool" where
  "same_transfer sn sn' \<longleftrightarrow> sn_auth_config sn' = sn_auth_config sn \<and> sn_state sn' = sn_state sn
     \<and> sn_upload_file sn' = sn_upload_file sn \<and> sn_download_file sn' = sn_download_file sn
     \<and> sn_bytes_remaining sn' = sn_bytes_remaining sn"

lemma same_transfer_simps [simp]:
  "same_transfer sn sn"
  "same_transfer sn (sn\<lparr>sn_authenticated_user := u\<rparr>)"
  "same_transfer sn (sn\<lparr>sn_current_module := m\<rparr>)"
  "same_transfer sn (sn\<lparr>sn_parser := v\<rparr>)"
  "same_transfer sn (sn\<lparr>sn_active := b\<rparr>)"
  "same_transfer sn (sn\<lparr>sn_ssl := x, sn_active := b\<rparr>)"
  by (simp_all add: same_transfer_def)

lemma same_transfer_trans: "same_transfer a b \<Longrightarrow> same_transfer b c \<Longrightarrow> same_transfer a c"
  by (simp add: same_transfer_def)

lemma same_transfer_ok: "same_transfer sn sn' \<Longrightarrow> transfer_ok sn' = transfer_ok sn"
  by (simp add: same_transfer_def transfer_ok_def split: TransferState.split)

lemma same_transfer_keeps:
  "same_transfer sn sn' \<Longrightarrow> transfer_ok sn \<Longrightarrow>
     transfer_ok sn' \<and> sn_auth_config sn' = sn_auth_config sn \<and> sn_state sn' = sn_state sn"
  by (simp add: same_transfer_ok) (simp add: same_transfer_def)

lemma auth_message_frame:
  "case handleAuthMessage e rnd now message sn w of (resp, sn', w') \<Rightarrow>
     same_transfer sn sn' \<and> w_fs w' = w_fs w"
  by (simp add: handleAuthMessage_def split: option.split prod.split)

lemma handle_message_frame:
  "case handleProtocolMessage e rnd now message sn w of (resp, sn', w') \<Rightarrow>
     same_transfer sn sn' \<and> (pm_command message = AUTH \<longrightarrow> w_fs w' = w_fs w)"
proof -
  let ?sn = "if pm_module message \<noteq> [] then sn\<lparr>sn_current_module := pm_module message\<rparr> else sn"
  have st: "same_transfer sn ?sn" by simp
  show ?thesis
    using auth_message_frame [where e = e and rnd = rnd and now = now and message = message and sn = ?sn and w = w] st
    by (auto simp: handleProtocolMessage_def Let_def intro: same_transfer_trans split: prod.splits)
qed

text \<open>The gate.\<close>

lemma gated_message:
  assumes "gated sn" "pm_command message \<noteq> AUTH"
  shows "\<exists>sn'. handleProtocolMessage e rnd now message sn w =
           (Some (buildErrorResponse 401 ''Authentication required: send AUTH command''), sn', w)
         \<and> same_transfer sn sn' \<and> same_login sn sn'"
  using assms by (auto simp: handleProtocolMessage_def gated_def same_login_def Let_def split: option.splits)

text \<open>Who becomes the user: only the name of an \<open>AUTH\<close> message whose signature the manager verifies.\<close>

definition message_verified :: "'k env \<Rightarrow> random \<Rightarrow> time_point \<Rightarrow> ProtocolMessage \<Rightarrow> world \<Rightarrow> bool" where
  "message_verified e rnd now message w \<longleftrightarrow>
     pm_command message = AUTH \<and> pm_module message \<noteq> [] \<and> pm_path message \<noteq> []
     \<and> (case (w_auth w, std_find (pm_arguments message) ''signature'') of
           (Some am, Some signature) \<Rightarrow>
             fst (authenticateUserWithKey (e_ssl e) (snd rnd) now am (pm_module message) (pm_path message) signature)
         | _ \<Rightarrow> False)"

text \<open>The message a request carries.\<close>

definition request_message :: "rx \<Rightarrow> RSyncSession \<Rightarrow> ProtocolMessage" where
  "request_message r sn = fst (parse (sn_parser sn) (fst (readSocket r 4095 sn)))"

lemma gated_auth_message:
  assumes "gated sn" "handleAuthMessage e rnd now message sn w = (resp, sn', w')" "pm_command message = AUTH"
  shows "gated sn' \<or> sn_authenticated_user sn' = pm_module message \<and> message_verified e rnd now message w"
proof -
  from assms(1) obtain auth where a: "sn_auth_config sn = Some auth" "auth_enabled auth"
    "auth_method auth = ''public_key''" by (auto simp: gated_def split: option.splits)
  show ?thesis
  proof (cases "\<exists>am signature. w_auth w = Some am \<and> std_find (pm_arguments message) ''signature'' = Some signature
      \<and> pm_module message \<noteq> [] \<and> pm_path message \<noteq> []
      \<and> fst (authenticateUserWithKey (e_ssl e) (snd rnd) now am (pm_module message) (pm_path message) signature)")
    case True
    then have "message_verified e rnd now message w" using assms(3) by (auto simp: message_verified_def)
    moreover have "sn_authenticated_user sn' = pm_module message"
      using True assms(2) a by (auto simp: handleAuthMessage_def split: prod.splits)
    ultimately show ?thesis by simp
  next
    case False
    then have "sn' = sn" using assms(2) a
      by (auto simp: handleAuthMessage_def split: option.splits prod.splits if_split_asm)
    with assms(1) show ?thesis by simp
  qed
qed

text \<open>A user is never forgotten.\<close>

lemma auth_message_user:
  "case handleAuthMessage e rnd now message sn w of (resp, sn', w') \<Rightarrow>
     sn_authenticated_user sn' = sn_authenticated_user sn \<or> sn_authenticated_user sn' \<noteq> []"
  by (simp add: handleAuthMessage_def split: option.split prod.split)

lemma handle_message_user:
  "case handleProtocolMessage e rnd now message sn w of (resp, sn', w') \<Rightarrow>
     sn_authenticated_user sn' = sn_authenticated_user sn \<or> sn_authenticated_user sn' \<noteq> []"
  using auth_message_user [where e = e and rnd = rnd and now = now and message = message and w = w
      and sn = "if pm_module message \<noteq> [] then sn\<lparr>sn_current_module := pm_module message\<rparr> else sn"]
  by (auto simp: handleProtocolMessage_def Let_def split: prod.splits if_splits)

section \<open>One request\<close>

lemma respond_frame: "respond e r sn w = (b, sn', w') \<Longrightarrow> sn' = sn \<and> w_fs w' = w_fs w"
  by (auto simp: respond_def writeResponse_def writeSocket_def Let_def split: prod.splits if_split_asm)

lemma buildError_no_transfer:
  "\<not> contains_sub ''Ready for transfer'' (buildErrorResponse 401 ''Authentication required: send AUTH command'')"
  "\<not> contains_sub ''Ready to receive file'' (buildErrorResponse 401 ''Authentication required: send AUTH command'')"
  by code_simp+

lemma serve_ok:
  assumes ok: "transfer_ok sn" "sn_state sn = IDLE"
    and s: "serveResponse e r message response sn w = (b, sn', w')"
  shows "transfer_ok sn' \<and> same_login sn sn'"
proof -
  consider (down) "contains_sub ''Ready for transfer'' response" "pm_command message = GET"
    | (up) "contains_sub ''Ready to receive file'' response" "pm_command message = PUT"
    | (none) "serveResponse e r message response sn w = respond e response sn w"
    unfolding serveResponse_def
    by (cases "contains_sub ''Ready for transfer'' response \<and> pm_command message = GET";
        cases "contains_sub ''Ready to receive file'' response \<and> pm_command message = PUT"; simp)
  then show ?thesis
  proof cases
    case down
    obtain d sn1 where d: "startFileDownload e (pm_module message) (pm_path message) sn w = (d, sn1)"
      by (cases "startFileDownload e (pm_module message) (pm_path message) sn w")
    note d_ok = download_ok [OF ok d]
    show ?thesis
    proof (cases "d = Some True")
      case True
      with s down d have "continueFileTransfer e r sn1 w = (b, sn', w')" by (simp add: serveResponse_def)
      with continue_ok d_ok show ?thesis by (fastforce simp: same_login_def)
    next
      case False
      with s down d d_ok show ?thesis
        by (auto simp: serveResponse_def dest: respond_frame split: option.splits bool.splits)
    qed
  next
    case up
    obtain d sn1 w1 where d: "startFileUpload e (pm_module message) (pm_path message) sn w = (d, sn1, w1)"
      by (cases "startFileUpload e (pm_module message) (pm_path message) sn w") auto
    note d_ok = upload_ok [OF ok d]
    have st: "d = Some True \<longrightarrow> transfer_ok (sn1\<lparr>sn_state := RECEIVING_FILE\<rparr>)
        \<and> same_login sn (sn1\<lparr>sn_state := RECEIVING_FILE\<rparr>)"
      using d_ok by (auto simp: transfer_ok_def same_login_def)
    show ?thesis
      using s up d d_ok st
      by (auto simp: serveResponse_def dest: respond_frame split: option.splits bool.splits prod.splits)
  next
    case none
    with s ok show ?thesis by (auto dest: respond_frame)
  qed
qed

text \<open>What a request with an idle session comes to.\<close>

lemma request_cases:
  assumes "processRequest e r rnd now sn w = (b, sn', w')" "sn_active sn" "sn_state sn = IDLE"
  obtains (closed) x where "sn' = sn\<lparr>sn_ssl := x, sn_active := False\<rparr>" "x = Some True \<Longrightarrow> sn_ssl sn = Some True" "w' = w" "b = Some False"
  | (invalid) v resp where "respond e resp (sn\<lparr>sn_parser := v\<rparr>) w = (b, sn', w')"
  | (thrown) v message where
      "handleProtocolMessage e rnd now message (sn\<lparr>sn_parser := v\<rparr>) w = (None, sn', w')" "b = None"
  | (served) v message resp sn1 w1 where
      "handleProtocolMessage e rnd now message (sn\<lparr>sn_parser := v\<rparr>) w = (Some resp, sn1, w1)"
      "serveResponse e r message resp sn1 w1 = (b, sn', w')" "message = request_message r sn"
proof -
  obtain req n s1 where rs: "readSocket r 4095 sn = (req, n, s1)" by (cases "readSocket r 4095 sn") auto
  from readSocket_frame [OF rs] obtain x where s1: "s1 = sn\<lparr>sn_ssl := x\<rparr>" "n > 0 \<Longrightarrow> x = sn_ssl sn"
    and tls: "x = Some True \<Longrightarrow> sn_ssl sn = Some True" by blast
  note rq = rs [unfolded s1(1)]
  obtain msg v where ps: "parse (sn_parser sn) req = (msg, v)" by (cases "parse (sn_parser sn) req")
  obtain resp sn1 w1 where h: "handleProtocolMessage e rnd now msg (sn\<lparr>sn_parser := v\<rparr>) w = (resp, sn1, w1)"
    by (cases "handleProtocolMessage e rnd now msg (sn\<lparr>sn_parser := v\<rparr>) w") auto
  show ?thesis
  proof (cases "n \<le> 0")
    case True
    with assms rq tls closed [of x] show ?thesis by (simp add: processRequest_def)
  next
    case False
    note n = False
    then have rq: "readSocket r 4095 sn = (req, n, sn)" using rs s1 by simp
    show ?thesis
    proof (cases "pm_valid msg")
      case False
      with assms rq n ps invalid show ?thesis by (simp add: processRequest_def Let_def)
    next
      case True
      show ?thesis
      proof (cases resp)
        case None
        with assms rq n ps h True thrown show ?thesis by (simp add: processRequest_def Let_def)
      next
        case (Some x)
        have "msg = request_message r sn" by (simp add: request_message_def rq ps)
        with assms rq n ps h True Some served show ?thesis by (simp add: processRequest_def Let_def)
      qed
    qed
  qed
qed

lemma request_transfer_ok:
  assumes ok: "transfer_ok sn" and p: "processRequest e r rnd now sn w = (b, sn', w')"
  shows "transfer_ok sn' \<and> sn_auth_config sn' = sn_auth_config sn"
proof (cases "sn_active sn \<and> sn_state sn = IDLE")
  case False
  with ok p continue_ok [OF ok, of e r w] show ?thesis
    by (auto simp: processRequest_def same_login_def split: if_split_asm)
next
  case True
  then have act: "sn_active sn" "sn_state sn = IDLE" by auto
  have frame: "same_transfer sn sn1"
    if "handleProtocolMessage e rnd now message (sn\<lparr>sn_parser := v\<rparr>) w = (x, sn1, w1)" for x sn1 w1 message v
    using handle_message_frame [where e = e and rnd = rnd and now = now and message = message
        and sn = "sn\<lparr>sn_parser := v\<rparr>" and w = w] that
      same_transfer_trans [OF same_transfer_simps(4)] by fastforce
  show ?thesis
  proof (cases rule: request_cases [OF p act])
    case 1
    then have "same_transfer sn sn'" by simp
    from same_transfer_keeps [OF this ok] show ?thesis by simp
  next
    case 2
    then have "same_transfer sn sn'" by (auto dest: respond_frame)
    from same_transfer_keeps [OF this ok] show ?thesis by simp
  next
    case 3
    from same_transfer_keeps [OF frame [OF 3(1)] ok] show ?thesis by simp
  next
    case (4 v message resp sn1 w1)
    have "transfer_ok sn1" "sn_state sn1 = IDLE" "sn_auth_config sn1 = sn_auth_config sn"
      using same_transfer_keeps [OF frame [OF 4(1)] ok] act by simp_all
    with serve_ok [OF _ _ 4(2)] show ?thesis by (simp add: same_login_def)
  qed
qed

lemma request_user:
  assumes ok: "transfer_ok sn" and p: "processRequest e r rnd now sn w = (b, sn', w')"
  shows "sn_authenticated_user sn' = sn_authenticated_user sn \<or> sn_authenticated_user sn' \<noteq> []"
proof (cases "sn_active sn \<and> sn_state sn = IDLE")
  case False
  with ok p continue_ok [OF ok, of e r w] show ?thesis
    by (auto simp: processRequest_def same_login_def split: if_split_asm)
next
  case True
  then have act: "sn_active sn" "sn_state sn = IDLE" by auto
  have user: "sn_authenticated_user sn1 = sn_authenticated_user sn \<or> sn_authenticated_user sn1 \<noteq> []"
    if "handleProtocolMessage e rnd now message (sn\<lparr>sn_parser := v\<rparr>) w = (x, sn1, w1)" for x sn1 w1 message v
    using handle_message_user [where e = e and rnd = rnd and now = now and message = message
        and sn = "sn\<lparr>sn_parser := v\<rparr>" and w = w] that by simp
  show ?thesis
  proof (cases rule: request_cases [OF p act])
    case (2 v resp)
    from respond_frame [OF this] show ?thesis by simp
  next
    case (4 v message resp sn1 w1)
    have "same_transfer sn sn1"
      using handle_message_frame [where e = e and rnd = rnd and now = now and message = message
        and sn = "sn\<lparr>sn_parser := v\<rparr>" and w = w] 4(1)
      same_transfer_trans [OF same_transfer_simps(4)] by fastforce
    from same_transfer_keeps [OF this ok] serve_ok [OF _ _ 4(2)] act user [OF 4(1)] show ?thesis
      by (auto simp: same_login_def)
  qed (use user in auto)
qed

text \<open>A gated request that leaves the gate closed leaves the files alone; opening it takes a
  verified signature.\<close>

lemma gated_request:
  assumes ok: "transfer_ok sn" "sn_state sn = IDLE" "gated sn"
    and p: "processRequest e r rnd now sn w = (b, sn', w')"
  shows "w_fs w' = w_fs w \<and> sn_state sn' = IDLE
       \<and> (gated sn' \<or> sn_authenticated_user sn' = pm_module (request_message r sn)
            \<and> message_verified e rnd now (request_message r sn) w)"
proof (cases "sn_active sn")
  case False
  with p ok show ?thesis by (simp add: processRequest_def)
next
  case act: True
  have idle_gate: "gated s' \<and> sn_state s' = IDLE" if "same_transfer sn s'" "same_login sn s'" for s'
    using that ok by (simp add: same_transfer_def same_login_gated)
  have g: "gated (sn\<lparr>sn_parser := v\<rparr>)" for v using ok(3) by (simp add: gated_def)
  have pl: "same_login sn (sn\<lparr>sn_parser := v\<rparr>)" for v by (simp add: same_login_def)
  show ?thesis
  proof (cases rule: request_cases [OF p act ok(2)])
    case 1
    then show ?thesis using ok by (simp add: gated_def)
  next
    case (2 v resp)
    from respond_frame [OF this] have "sn' = sn\<lparr>sn_parser := v\<rparr>" "w_fs w' = w_fs w" by auto
    then show ?thesis using g ok(2) by simp
  next
    case (3 v message)
    show ?thesis
    proof (cases "pm_command message = AUTH")
      case True
      then show ?thesis using 3
        by (auto simp: handleProtocolMessage_def gated_def Let_def split: prod.splits if_split_asm)
    next
      case False
      from gated_message [OF g False] 3 show ?thesis by (metis option.distinct(1) prod.inject)
    qed
  next
    case (4 v message resp sn1 w1)
    show ?thesis
    proof (cases "pm_command message = AUTH")
      case False
      from gated_message [OF g False, of e rnd now v w] 4(1) have
        r: "resp = buildErrorResponse 401 ''Authentication required: send AUTH command''" "w1 = w"
        "same_transfer (sn\<lparr>sn_parser := v\<rparr>) sn1" "same_login (sn\<lparr>sn_parser := v\<rparr>) sn1" by auto
      have "respond e resp sn1 w1 = (b, sn', w')"
        using 4(2) buildError_no_transfer by (simp add: serveResponse_def r(1))
      from respond_frame [OF this] r idle_gate [of sn1] pl
        same_transfer_trans [OF same_transfer_simps(4) r(3)] show ?thesis
        by (auto simp: same_login_def)
    next
      case True
      let ?m = "if pm_module message \<noteq> [] then sn\<lparr>sn_parser := v, sn_current_module := pm_module message\<rparr>
                else sn\<lparr>sn_parser := v\<rparr>"
      have a: "handleAuthMessage e rnd now message ?m w = (resp, sn1, w1)"
        using 4(1) True by (auto simp: handleProtocolMessage_def Let_def gated_def split: prod.splits if_split_asm)
      have gm: "gated ?m" using ok(3) by (simp add: gated_def)
      have st: "same_transfer ?m sn1" "w_fs w1 = w_fs w"
        using auth_message_frame [where e = e and rnd = rnd and now = now and message = message and sn = ?m and w = w] a
        by auto
      have "respond e resp sn1 w1 = (b, sn', w')" using 4(2) True by (simp add: serveResponse_def)
      from respond_frame [OF this] have s': "sn' = sn1" "w_fs w' = w_fs w" using st by auto
      have "sn_state sn1 = IDLE" using st(1) ok(2) by (simp add: same_transfer_def split: if_split_asm)
      with gated_auth_message [OF gm a True] s' 4(3) show ?thesis by auto
    qed
  qed
qed

section \<open>Runs of a session\<close>

text \<open>
  A run drives the session through its worker.  The ghost components are the file system the run
  started with and whether some signature has been verified on the way.
\<close>

record 'k session_run =
  run_env :: "'k env"
  run_state :: "RSyncSession \<times> world"
  run_start :: fs
  run_verified :: bool

type_synonym request_event = "rx \<times> random \<times> time_point"

definition run_step :: "'k session_run \<Rightarrow> request_event \<Rightarrow> 'k session_run" where
  "run_step run ev =
     (case ev of (r, rnd, now) \<Rightarrow>
        run\<lparr>run_state := worker_step (run_env run) r rnd now (run_state run),
            run_verified := (run_verified run \<or>
              (case run_state run of (sn, w) \<Rightarrow>
                 message_verified (run_env run) rnd now (request_message r sn) w))\<rparr>)"

definition gate_inv :: "'k session_run \<Rightarrow> bool" where
  "gate_inv run \<longleftrightarrow>
     (case run_state run of (sn, w) \<Rightarrow>
        transfer_ok sn \<and>
        (gated sn \<and> sn_state sn = IDLE \<and> w_fs w = run_start run
         \<or> \<not> gated sn \<and> (run_verified run \<or>
              \<not> (case sn_auth_config sn of None \<Rightarrow> False
                 | Some auth \<Rightarrow> auth_enabled auth \<and> auth_method auth = ''public_key''))))"

lemma worker_state:
  "worker_step e r rnd now (sn, w) =
     (if \<not> sn_active sn then (sn, w)
      else case processRequest e r rnd now sn w of
        (b, sn', w') \<Rightarrow> (if b = Some True then sn' else sn_close sn', w'))"
  by (auto simp: worker_step_def split: prod.splits option.splits bool.splits)

lemma gate_step:
  assumes "gate_inv run"
  shows "gate_inv (run_step run ev)"
proof -
  obtain sn w where st: "run_state run = (sn, w)" by (cases "run_state run")
  obtain r rnd now where ev: "ev = (r, rnd, now)" by (cases ev) auto
  let ?e = "run_env run"
  obtain b sn' w' where p: "processRequest ?e r rnd now sn w = (b, sn', w')"
    by (cases "processRequest ?e r rnd now sn w") auto
  let ?sn = "if b = Some True then sn' else sn_close sn'"
  have ok: "transfer_ok sn" using assms st by (simp add: gate_inv_def)
  note rt = request_transfer_ok [OF ok p]
  show ?thesis
  proof (cases "sn_active sn")
    case False
    with assms st ev show ?thesis by (auto simp: gate_inv_def run_step_def worker_state)
  next
    case True
    then have new: "run_state (run_step run ev) = (?sn, w')"
      "run_verified (run_step run ev) = (run_verified run \<or> message_verified ?e rnd now (request_message r sn) w)"
      "run_start (run_step run ev) = run_start run"
      by (simp_all add: run_step_def ev st worker_state p)
    have flds: "transfer_ok ?sn = transfer_ok sn'" "gated ?sn = gated sn'" "sn_state ?sn = sn_state sn'"
      "sn_auth_config ?sn = sn_auth_config sn'" by simp_all
    show ?thesis
    proof (cases "gated sn")
      case True
      with assms st have "sn_state sn = IDLE" "w_fs w = run_start run" by (auto simp: gate_inv_def)
      with gated_request [OF ok _ True p] rt show ?thesis
        unfolding gate_inv_def new prod.case flds by auto
    next
      case False
      show ?thesis
      proof (cases "case sn_auth_config sn of None \<Rightarrow> False
                 | Some auth \<Rightarrow> auth_enabled auth \<and> auth_method auth = ''public_key''")
        case True
        with False assms st have "run_verified run" by (auto simp: gate_inv_def)
        moreover have "sn_authenticated_user sn \<noteq> []" using False True by (auto simp: gated_def)
        then have "sn_authenticated_user sn' \<noteq> []" using request_user [OF ok p] by auto
        ultimately show ?thesis using rt
          unfolding gate_inv_def new prod.case flds by (auto simp: gated_def)
      next
        case f: False
        with rt show ?thesis unfolding gate_inv_def new prod.case flds by (auto simp: gated_def)
      qed
    qed
  qed
qed

end
