(* ===== verification/Session_Runs.thy ===== *)
theory Session_Runs
  imports Session_Facts
begin

text \<open>
  Properties of whole runs of a session: the public-key gate, downloads, uploads and disconnection.
\<close>

section \<open>The gate over a run\<close>

interpretation session: guarded_machine run_step "\<lambda>_ _. True" gate_inv
  by unfold_locales (rule gate_step)

lemma run_ok_always: "run_ok (\<lambda>_ _. True) step st es"
  by (induction es arbitrary: st) auto

definition start_session_run :: "'k env \<Rightarrow> string \<Rightarrow> AuthConfig \<Rightarrow> bool option \<Rightarrow> world \<Rightarrow> 'k session_run" where
  "start_session_run e address auth ssl w =
     \<lparr>run_env = e, run_state = (new_RSyncSession address (Some auth) ssl, w), run_start = w_fs w,
      run_verified = False\<rparr>"

text \<open>C1. With public-key authentication enabled, nothing a client sends before its signature has been
  verified reaches the files: after any sequence of requests, either some request was an \<open>AUTH\<close>
  message whose signature the authentication manager accepted, or the file system is the one the
  session started with, no transfer is going on and nobody is logged in.  In every case the open
  files agree with the transfer state.\<close>

theorem gate_holds:
  assumes "auth_enabled auth" "auth_method auth = ''public_key''"
  shows "let run = foldl run_step (start_session_run e address auth ssl w) es;
             (sn, w') = run_state run
         in transfer_ok sn
            \<and> (run_verified run
               \<or> w_fs w' = w_fs w \<and> sn_state sn = IDLE \<and> sn_authenticated_user sn = [])"
proof -
  let ?start = "start_session_run e address auth ssl w"
  have "gate_inv ?start"
    using assms by (simp add: gate_inv_def start_session_run_def new_RSyncSession_def gated_def transfer_ok_def)
  then have inv: "gate_inv (foldl run_step ?start es)" by (rule session.inv_run [OF _ run_ok_always])
  have start: "run_start (foldl run_step st es) = run_start st" for st :: "'a session_run"
    by (induction es arbitrary: st) (auto simp: run_step_def split: prod.splits)
  have cfg: "sn_auth_config (fst (run_state (foldl run_step st es))) = sn_auth_config (fst (run_state st))"
    if "gate_inv st" for st :: "'a session_run"
    using that
  proof (induction es arbitrary: st)
    case (Cons ev es)
    have "sn_auth_config (fst (run_state (run_step st ev))) = sn_auth_config (fst (run_state st))"
      using Cons.prems request_transfer_ok
      by (fastforce simp: run_step_def worker_state gate_inv_def split: prod.splits)
    with Cons.IH [OF gate_step [OF Cons.prems]] show ?case by simp
  qed simp
  have "sn_auth_config (fst (run_state (foldl run_step ?start es))) = Some auth"
    using cfg [OF \<open>gate_inv ?start\<close>] by (simp add: start_session_run_def new_RSyncSession_def)
  with inv assms show ?thesis
    by (auto simp: gate_inv_def gated_def start start_session_run_def Let_def split: prod.splits)
qed

definition demo_env :: "(nat \<Rightarrow> nat \<Rightarrow> int) \<Rightarrow> string env" where
  "demo_env sends = \<lparr>e_ssl = toy_ssl, e_modules = [(''m'', demo_module)], e_indet = 0, e_send = sends\<rparr>"

definition full :: "nat \<Rightarrow> nat \<Rightarrow> int" where
  "full k n = int n"

definition demo_world :: "fs \<Rightarrow> AuthenticationManager option \<Rightarrow> world" where
  "demo_world s am = \<lparr>w_fs = s, w_auth = am, w_wire = [], w_clear = [], w_sends = 0\<rparr>"

theorem gate_holds_witness:
  "let run = foldl run_step (start_session_run (demo_env full) ''10.0.0.1''
          (default_AuthConfig\<lparr>auth_enabled := True, auth_method := ''public_key''\<rparr>) None
          (demo_world demo_fs (Some key_manager)))
        [(Bytes (''PUT m evil'' @ endl), ([], [1]), 0), (Bytes (''GET m a.txt'' @ endl), ([], [2]), 1)]
   in w_fs (snd (run_state run)) = demo_fs"
proof -
  let ?auth = "default_AuthConfig\<lparr>auth_enabled := True, auth_method := ''public_key''\<rparr>"
  let ?es = "[(Bytes (''PUT m evil'' @ endl), ([], [1]), 0), (Bytes (''GET m a.txt'' @ endl), ([], [2]), 1)]"
  let ?run = "foldl run_step (start_session_run (demo_env full) ''10.0.0.1'' ?auth None
      (demo_world demo_fs (Some key_manager))) ?es"
  have "auth_enabled ?auth" "auth_method ?auth = ''public_key''" by simp_all
  note g = gate_holds [OF this, of "demo_env full" "''10.0.0.1''" None "demo_world demo_fs (Some key_manager)" ?es]
  have "\<not> run_verified ?run" by code_simp
  with g show ?thesis by (simp add: Let_def demo_world_def split: prod.splits)
qed

section \<open>Downloads\<close>

definition full_sends :: "'k env \<Rightarrow> bool" where
  "full_sends e \<longleftrightarrow> (\<forall>k n. e_send e k n = int n)"

abbreviation complete_msg :: string where
  "complete_msg \<equiv> ''@RSYNCD: OK'' @ endl @ ''Transfer complete'' @ endl"

text \<open>A session that is sending \<open>c\<close> from a position.\<close>

definition sending :: "RSyncSession \<Rightarrow> world \<Rightarrow> string \<Rightarrow> nat \<Rightarrow> bool" where
  "sending sn w c pos \<longleftrightarrow> sn_active sn \<and> sn_socket_open sn \<and> sn_state sn = SENDING_FILE
     \<and> pos < length c \<and> length c < 2 ^ 63 \<and> sn_bytes_remaining sn = word_of_nat (length c - pos)
     \<and> (\<exists>q. sn_download_file sn = Some (q, pos) \<and> file_bytes (w_fs w) q = c)"

definition written :: "RSyncSession \<Rightarrow> string \<Rightarrow> world \<Rightarrow> world" where
  "written sn data w = w\<lparr>w_sends := Suc (w_sends w), w_wire := w_wire w @ data,
     w_clear := w_clear w @ (if sn_ssl sn = Some True then [] else data)\<rparr>"

lemma written_fields [simp]:
  "w_wire (written sn data w) = w_wire w @ data" "w_fs (written sn data w) = w_fs w"
  "w_auth (written sn data w) = w_auth w" "w_sends (written sn data w) = Suc (w_sends w)"
  "w_clear (written sn data w) = w_clear w @ (if sn_ssl sn = Some True then [] else data)"
  by (simp_all add: written_def)

lemma full_write:
  "full_sends e \<Longrightarrow> sn_socket_open sn \<Longrightarrow> data \<noteq> [] \<Longrightarrow>
     writeSocket e data sn w = (int (length data), written sn data w)"
  by (cases w) (simp add: writeSocket_def full_sends_def written_def)

lemma sending_step:
  assumes f: "full_sends e" and s: "sending sn w c pos"
  defines "k \<equiv> min 8192 (length c - pos)"
  shows "case worker_step e r rnd now (sn, w) of (sn', w') \<Rightarrow>
     w_fs w' = w_fs w \<and> sn_active sn' \<and> sn_socket_open sn' \<and>
     (if pos + k < length c then
        w_wire w' = w_wire w @ take k (drop pos c) \<and> sending sn' w' c (pos + k)
      else w_wire w' = w_wire w @ drop pos c @ complete_msg \<and> sn_state sn' = IDLE)"
proof -
  from s obtain q where d: "sn_download_file sn = Some (q, pos)" "file_bytes (w_fs w) q = c"
    and st: "sn_active sn" "sn_socket_open sn" "sn_state sn = SENDING_FILE" "pos < length c" "length c < 2 ^ 63"
    and rem: "sn_bytes_remaining sn = word_of_nat (length c - pos)"
    by (auto simp: sending_def)
  have un: "unat (word_of_nat n :: size_t) = n" if "n < 2 ^ 63" for n using unat_size [OF that] .
  have k: "0 < k" "k \<le> length c - pos" "k < 2 ^ 63" using st by (auto simp: k_def)
  have rr: "unat (sn_bytes_remaining sn) = length c - pos" unfolding rem using st by (intro un) simp
  have m: "unat (min 8192 (sn_bytes_remaining sn)) = k"
    by (auto simp: rr k_def min_def word_le_nat_alt)
  let ?data = "take k (drop pos c)"
  have len: "length ?data = k" using k by simp
  have sub: "sn_bytes_remaining sn - word_of_int (int k) = word_of_nat (length c - (pos + k))"
    using k(2) by (simp add: rem of_nat_diff flip: diff_diff_left)
  have zero: "sn_bytes_remaining sn - word_of_int (int k) = 0 \<longleftrightarrow> \<not> pos + k < length c"
  proof -
    have "unat (word_of_nat (length c - (pos + k)) :: size_t) = length c - (pos + k)" using st by (intro un) simp
    then have "(word_of_nat (length c - (pos + k)) :: size_t) = 0 \<longleftrightarrow> length c - (pos + k) = 0"
      by (simp flip: unat_eq_0)
    then show ?thesis unfolding sub by (simp add: not_less)
  qed
  let ?sn = "sn\<lparr>sn_download_file := Some (q, pos + k), sn_bytes_sent := sn_bytes_sent sn + word_of_int (int k),
      sn_bytes_remaining := sn_bytes_remaining sn - word_of_int (int k)\<rparr>"
  let ?w = "written sn ?data w"
  have data: "?data \<noteq> []" using len k(1) by auto
  have ssl: "written (sn\<lparr>sn_download_file := x\<rparr>) = written sn" for x by (simp add: written_def fun_eq_iff)
  have chunk: "sendChunk e sn w = (if pos + k < length c then (True, ?sn, ?w)
      else (True, endFileTransfer ?sn, snd (writeResponse e complete_msg (endFileTransfer ?sn) ?w)))"
    unfolding sendChunk_def d option.case prod.case Let_def m d(2) len
    using k(1) st(2) f len zero data by (simp add: full_write ssl)
  have resp: "snd (writeResponse e complete_msg (endFileTransfer ?sn) ?w)
      = written (endFileTransfer ?sn) complete_msg ?w"
    unfolding writeResponse_def using st f by (simp add: full_write)
  have step: "worker_step e r rnd now (sn, w) = snd (sendChunk e sn w)"
    using st chunk by (simp add: worker_state processRequest_def continueFileTransfer_def split: prod.splits)
  show ?thesis
  proof (cases "pos + k < length c")
    case True
    then have "sending ?sn ?w c (pos + k)" using st d sub by (simp add: sending_def)
    with True st show ?thesis by (simp add: step chunk)
  next
    case False
    then have "?data = drop pos c" by simp
    with False st resp show ?thesis by (simp add: step chunk endFileTransfer_def)
  qed
qed

text \<open>From there, a finite number of steps sends the rest.\<close>

lemma download_runs:
  assumes "full_sends e" "sending sn w c pos"
  shows "\<exists>n sn' w'. ((worker_step e r rnd now) ^^ n) (sn, w) = (sn', w')
           \<and> w_wire w' = w_wire w @ drop pos c @ complete_msg
           \<and> sn_state sn' = IDLE \<and> sn_active sn' \<and> w_fs w' = w_fs w"
  using assms(2)
proof (induction "length c - pos" arbitrary: sn w pos rule: less_induct)
  case less
  let ?k = "min 8192 (length c - pos)"
  obtain sn1 w1 where one: "worker_step e r rnd now (sn, w) = (sn1, w1)" by (cases "worker_step e r rnd now (sn, w)")
  note s = sending_step [OF assms(1) less.prems, of r rnd now, unfolded one prod.case]
  show ?case
  proof (cases "pos + ?k < length c")
    case True
    from s have s1: "sending sn1 w1 c (pos + ?k)" "w_wire w1 = w_wire w @ take ?k (drop pos c)" "w_fs w1 = w_fs w"
      unfolding if_P [OF True] by blast+
    have "length c - (pos + ?k) < length c - pos" using less.prems by (auto simp: sending_def)
    from less.hyps [OF this s1(1)] obtain n sn' w' where
      n: "((worker_step e r rnd now) ^^ n) (sn1, w1) = (sn', w')"
        "w_wire w' = w_wire w1 @ drop (pos + ?k) c @ complete_msg" "sn_state sn' = IDLE" "sn_active sn'"
        "w_fs w' = w_fs w1" by blast
    have "take ?k (drop pos c) @ drop (pos + ?k) c = drop pos c"
      by (metis add.commute append_take_drop_id drop_drop)
    then have wire: "w_wire w' = w_wire w @ drop pos c @ complete_msg" using n(2) s1(2) by (metis append.assoc)
    have "((worker_step e r rnd now) ^^ Suc n) (sn, w) = (sn', w')"
      by (simp only: funpow_Suc_right comp_apply one n(1))
    then show ?thesis using wire n s1 by (intro exI [of _ "Suc n"]) auto
  next
    case False
    from s show ?thesis using one unfolding if_not_P [OF False] by (intro exI [of _ "1"]) auto
  qed
qed

text \<open>C17. A download ends and delivers the requested file: when a session has started the transfer of a
  relative path of a module without symbolic links (its root given by its physical path), the path
  names a regular file below the root, and if that is not empty (and shorter than 2^63 bytes), each
  \<open>send\<close> takes what it is given and the file does not change, then after finitely many worker steps
  exactly the file's bytes, in order and once each, and then the completion message have been
  sent, and the session is idle and open.\<close>

theorem download_delivers:
  assumes sends: "full_sends e" and open_session: "sn_active sn" "sn_socket_open sn"
    and cfg: "getModule (e_modules e) (transfer_module_name m sn) = Some cfg"
    and root: "root_at (w_fs w) cfg bs bs" "\<not> mc_allow_symlinks cfg" "\<not> is_absolute path"
    and start: "startFileDownload e m path sn w = (Some True, sn1)"
  shows "\<exists>c. node_at (w_fs w) (bs @ below path) = Some (File c)
     \<and> (c \<noteq> [] \<and> length c < 2 ^ 63 \<longrightarrow>
         (\<exists>n sn' w'. ((worker_step e r rnd now) ^^ n) (sn1, w) = (sn', w')
            \<and> w_wire w' = w_wire w @ c @ complete_msg
            \<and> sn_state sn' = IDLE \<and> sn_active sn' \<and> w_fs w' = w_fs w))"
proof -
  let ?t = "sn\<lparr>sn_transfer_module := m, sn_transfer_path := path\<rparr>"
  have name: "transfer_module_name m ?t = transfer_module_name m sn" by (simp add: transfer_module_name_def)
  from start cfg obtain info where info: "getFileInfo (w_fs w) cfg path = Some info" "fi_path info \<noteq> []"
    and ex: "fileExists (w_fs w) cfg path = Some True"
    unfolding startFileDownload_def Let_def name by (auto split: option.splits if_split_asm bool.splits)
  from fileExists_regular [OF root ex] obtain full c where
    full: "resolvePath (w_fs w) cfg path = Some full" "locate (w_fs w) Follow full = Found (bs @ below path)"
      "node_at (w_fs w) (bs @ below path) = Some (File c)" by blast
  have fi: "fi_path info = full" "fi_size info = Some (word_of_nat (length c))"
    using info full unfolding getFileInfo_def
    by (auto simp: bind_eq_Some_conv default_FileInfo_def Let_def size_of_node_def split: if_split_asm)
  have sn1: "sn1 = ?t\<lparr>sn_download_file := Some (bs @ below path, 0), sn_state := SENDING_FILE,
       sn_bytes_remaining := word_of_nat (length c), sn_bytes_sent := 0\<rparr>"
    using start cfg info ex full unfolding startFileDownload_def Let_def name fi
    by (auto simp: open_in_def fi split: if_split_asm)
  have "sending sn1 w c 0" if "c \<noteq> []" "length c < 2 ^ 63"
    using that open_session full(3) by (simp add: sending_def sn1 file_bytes_def)
  with download_runs [OF sends, of sn1 w c 0 r rnd now] full(3) show ?thesis by auto
qed

definition demo_session :: RSyncSession where
  "demo_session = new_RSyncSession ''10.0.0.1'' None None"

theorem download_delivers_witness:
  "\<exists>sn1. startFileDownload (demo_env full) ''m'' ''./a.txt'' demo_session (demo_world demo_fs None) = (Some True, sn1)
     \<and> (\<exists>n sn' w'. ((worker_step (demo_env full) Eof ([], []) 0) ^^ n) (sn1, demo_world demo_fs None) = (sn', w')
          \<and> w_wire w' = ''hello'' @ complete_msg \<and> sn_state sn' = IDLE)"
proof -
  let ?e = "demo_env full" and ?w = "demo_world demo_fs None"
  obtain sn1 where sn1: "startFileDownload ?e ''m'' ''./a.txt'' demo_session ?w = (Some True, sn1)"
  proof -
    have "fst (startFileDownload ?e ''m'' ''./a.txt'' demo_session ?w) = Some True" by code_simp
    with that show thesis by (metis prod.collapse)
  qed
  have "full_sends ?e" by (simp add: full_sends_def demo_env_def full_def)
  moreover have "sn_active demo_session" "sn_socket_open demo_session" by code_simp+
  moreover have "getModule (e_modules ?e) (transfer_module_name ''m'' demo_session) = Some demo_module" by code_simp
  moreover have "root_at (w_fs ?w) demo_module [''srv'', ''mod''] [''srv'', ''mod'']"
    using demo_root by (simp add: demo_world_def)
  moreover have "\<not> mc_allow_symlinks demo_module" "\<not> is_absolute ''./a.txt''" by code_simp+
  ultimately obtain c where c: "node_at (w_fs ?w) ([''srv'', ''mod''] @ below ''./a.txt'') = Some (File c)"
    "c \<noteq> [] \<and> length c < 2 ^ 63 \<longrightarrow> (\<exists>n sn' w'. ((worker_step ?e Eof ([], []) 0) ^^ n) (sn1, ?w) = (sn', w')
            \<and> w_wire w' = w_wire ?w @ c @ complete_msg
            \<and> sn_state sn' = IDLE \<and> sn_active sn' \<and> w_fs w' = w_fs ?w)"
    using download_delivers [of ?e demo_session "''m''" demo_module ?w "[''srv'', ''mod'']" "''./a.txt''" sn1 Eof "([], [])" 0]
      sn1 by blast
  have "node_at (w_fs ?w) ([''srv'', ''mod''] @ below ''./a.txt'') = Some (File ''hello'')" by code_simp
  with c sn1 show ?thesis by (fastforce simp: demo_world_def)
qed

text \<open>Where a download goes wrong: a client that fetches an empty file receives nothing, not even an
  answer, and its session is closed; when a \<open>send\<close> takes only part of a chunk, the rest of the chunk
  is lost, the transfer stops at the end of the file without its completion message, and the
  session is closed; and the answer to \<open>GET\<close> with the file's name and size, built for every
  download, is not sent.\<close>

theorem download_defects:
  "let w = demo_world (set_node [''srv'', ''mod'', ''empty''] (File []) demo_fs) None;
       get = (\<lambda>p. Bytes (''GET m '' @ p @ endl));
       e = demo_env full; short = demo_env (\<lambda>k n. if k = 0 then 3 else int n);
       (sn1, w1) = worker_step e (get ''empty'') ([], []) 0 (demo_session, w);
       (sn2, w2) = worker_step short Eof ([], []) 0 (worker_step short (get ''a.txt'') ([], []) 0 (demo_session, w));
       (sn3, w3) = worker_step e (get ''a.txt'') ([], []) 0 (demo_session, w)
   in \<not> sn_active sn1 \<and> w_wire w1 = []
      \<and> \<not> sn_active sn2 \<and> w_wire w2 = ''hel''
      \<and> sn_active sn3 \<and> w_wire w3 = ''hello'' @ complete_msg"
  by code_simp

section \<open>Uploads\<close>

definition receiving :: "RSyncSession \<Rightarrow> world \<Rightarrow> phys \<Rightarrow> string \<Rightarrow> bool" where
  "receiving sn w q c \<longleftrightarrow> sn_active sn \<and> sn_socket_open sn \<and> sn_state sn = RECEIVING_FILE
     \<and> sn_upload_file sn = Some q \<and> node_at (w_fs w) q = Some (File c)"

definition worker_run :: "'k env \<Rightarrow> request_event list \<Rightarrow> RSyncSession \<times> world \<Rightarrow> RSyncSession \<times> world" where
  "worker_run e evs st = foldl (\<lambda>st (r, rnd, now). worker_step e r rnd now st) st evs"

lemma receiving_step:
  assumes "receiving sn w q c" "d \<noteq> []" "length d \<le> 8192" "q \<noteq> []"
  shows "case worker_step e (Bytes d) rnd now (sn, w) of (sn', w') \<Rightarrow>
     receiving sn' w' q (c @ d) \<and> w_wire w' = w_wire w \<and> w_sends w' = w_sends w
     \<and> (\<forall>p. p \<noteq> q \<longrightarrow> node_at (w_fs w') p = node_at (w_fs w) p)"
  using assms
  by (auto simp: worker_state receiving_def processRequest_def continueFileTransfer_def receiveChunk_def
      readSocket_def received_def node_at_append_file split: option.splits if_splits)

abbreviation upload_msg :: string where
  "upload_msg \<equiv> ''@RSYNCD: OK'' @ endl @ ''File uploaded successfully'' @ endl"

lemma receiving_end:
  assumes "receiving sn w q c" "full_sends e"
  shows "case worker_step e Eof rnd now (sn, w) of (sn', w') \<Rightarrow>
     sn_state sn' = IDLE \<and> sn_active sn' \<and> sn_socket_open sn' \<and> w_fs w' = w_fs w
     \<and> sn_ssl sn' = map_option (\<lambda>_. False) (sn_ssl sn)
     \<and> sn_authenticated_user sn' = sn_authenticated_user sn
     \<and> w_wire w' = w_wire w @ upload_msg \<and> w_clear w' = w_clear w @ upload_msg"
  using assms
  by (cases "sn_ssl sn") (auto simp: worker_state receiving_def processRequest_def continueFileTransfer_def
      receiveChunk_def readSocket_def received_def endFileTransfer_def writeResponse_def full_write Let_def)

lemma receiving_run:
  assumes "receiving sn w q c" "\<forall>(r, _) \<in> set evs. \<exists>d. r = Bytes d \<and> d \<noteq> [] \<and> length d \<le> 8192" "q \<noteq> []"
  shows "case worker_run e evs (sn, w) of (sn', w') \<Rightarrow>
     receiving sn' w' q (c @ concat (map (\<lambda>(r, _). case r of Bytes d \<Rightarrow> d | _ \<Rightarrow> []) evs))
     \<and> w_wire w' = w_wire w \<and> (\<forall>p. p \<noteq> q \<longrightarrow> node_at (w_fs w') p = node_at (w_fs w) p)"
  using assms(1,2)
proof (induction evs arbitrary: sn w c)
  case Nil
  then show ?case by (simp add: worker_run_def)
next
  case (Cons ev evs)
  obtain d rnd now where ev: "ev = (Bytes d, rnd, now)" "d \<noteq> []" "length d \<le> 8192"
    using Cons.prems(2) by (cases ev) auto
  obtain sn1 w1 where st: "worker_step e (Bytes d) rnd now (sn, w) = (sn1, w1)"
    by (cases "worker_step e (Bytes d) rnd now (sn, w)")
  from receiving_step [OF Cons.prems(1) ev(2,3) assms(3), of e rnd now, unfolded st prod.case]
    Cons.IH [of sn1 w1 "c @ d"] Cons.prems(2) show ?case
    by (auto simp: worker_run_def ev st split: prod.splits)
qed

definition uploaded :: "request_event list \<Rightarrow> string" where
  "uploaded evs = concat (map (\<lambda>(r, _). case r of Bytes d \<Rightarrow> d | _ \<Rightarrow> []) evs)"

text \<open>C38. An upload stores what the client sends, but never under its name: once a session is receiving
  into an open file, and the client sends any number of packets and then ends the stream, the open
  file holds its old content followed by the packets in order, every other entry of the file system
  is as it was when the transfer started (the temporary file is not renamed, although the success
  message is sent), and the session is idle.\<close>

theorem upload_stays_temporary:
  assumes "receiving sn w q c" "q \<noteq> []" "full_sends e"
    and "\<forall>(r, _) \<in> set evs. \<exists>d. r = Bytes d \<and> d \<noteq> [] \<and> length d \<le> 8192"
  shows "case worker_run e (evs @ [(Eof, rnd, now)]) (sn, w) of (sn', w') \<Rightarrow>
     node_at (w_fs w') q = Some (File (c @ uploaded evs))
     \<and> (\<forall>p. p \<noteq> q \<longrightarrow> node_at (w_fs w') p = node_at (w_fs w) p)
     \<and> w_wire w' = w_wire w @ upload_msg \<and> sn_state sn' = IDLE"
proof -
  obtain sn1 w1 where st: "worker_run e evs (sn, w) = (sn1, w1)" by (cases "worker_run e evs (sn, w)")
  note r = receiving_run [OF assms(1,4,2), of e, unfolded st prod.case]
  have last: "worker_run e (evs @ [(Eof, rnd, now)]) (sn, w) = worker_step e Eof rnd now (sn1, w1)"
    using st by (simp add: worker_run_def)
  from r have "receiving sn1 w1 q (c @ uploaded evs)" by (simp add: uploaded_def)
  from receiving_end [OF this assms(3), of rnd now] this r show ?thesis
    unfolding last by (auto simp: receiving_def split: prod.splits)
qed

definition demo_receiving :: RSyncSession where
  "demo_receiving = demo_session\<lparr>sn_state := RECEIVING_FILE, sn_transfer_module := ''m'',
     sn_transfer_path := ''a.txt'', sn_upload_file := Some [''srv'', ''mod'', ''a.txt.tmp'']\<rparr>"

theorem upload_stays_temporary_witness:
  "let w' = snd (worker_run (demo_env full) [(Bytes ''ab'', ([], []), 0), (Bytes ''cd'', ([], []), 1), (Eof, ([], []), 2)]
        (demo_receiving, demo_world (set_node [''srv'', ''mod'', ''a.txt.tmp''] (File []) demo_fs) None))
   in node_at (w_fs w') [''srv'', ''mod'', ''a.txt.tmp''] = Some (File ''abcd'')
      \<and> node_at (w_fs w') [''srv'', ''mod'', ''a.txt''] = Some (File ''hello'') \<and> w_wire w' = upload_msg"
proof -
  let ?q = "[''srv'', ''mod'', ''a.txt.tmp'']"
  let ?w = "demo_world (set_node ?q (File []) demo_fs) None"
  let ?evs = "[(Bytes ''ab'', ([], []), 0), (Bytes ''cd'', ([], []), 1)] :: request_event list"
  have rec: "receiving demo_receiving ?w ?q []"
    by (simp add: receiving_def demo_receiving_def demo_session_def new_RSyncSession_def demo_world_def
        node_at_set_node)
  have sends: "full_sends (demo_env full)" by (simp add: full_sends_def demo_env_def full_def)
  have evs: "\<forall>(r, _) \<in> set ?evs. \<exists>d. r = Bytes d \<and> d \<noteq> [] \<and> length d \<le> 8192" by simp
  have u: "case worker_run (demo_env full) (?evs @ [(Eof, ([], []), 2)]) (demo_receiving, ?w) of (sn', w') \<Rightarrow>
     node_at (w_fs w') ?q = Some (File ([] @ uploaded ?evs))
     \<and> (\<forall>p. p \<noteq> ?q \<longrightarrow> node_at (w_fs w') p = node_at (w_fs ?w) p)
     \<and> w_wire w' = w_wire ?w @ upload_msg \<and> sn_state sn' = IDLE"
    by (rule upload_stays_temporary [OF rec _ sends evs]) simp
  have "node_at (w_fs ?w) [''srv'', ''mod'', ''a.txt''] = Some (File ''hello'')" by code_simp
  with u show ?thesis by (auto simp: Let_def uploaded_def demo_world_def split: prod.splits)
qed

definition demo_run :: "request_event list \<Rightarrow> RSyncSession \<times> world" where
  "demo_run evs = worker_run (demo_env full) evs (demo_session, demo_world demo_fs None)"

text \<open>An upload is not confined: the target path of \<open>PUT\<close> is not checked, so a client writes
  outside the module root with a climbing or an absolute path, although \<open>GET\<close> of the same path is
  refused; the directories on the way are created.\<close>

theorem upload_escape:
  "node_at (w_fs (snd (demo_run [(Bytes (''PUT m ../evil'' @ endl), ([], []), 0), (Bytes ''x'', ([], []), 1), (Eof, ([], []), 2)])))
      [''srv'', ''evil.tmp''] = Some (File ''x'')
   \<and> node_at (w_fs (snd (demo_run [(Bytes (''PUT m /etc/d/evil'' @ endl), ([], []), 0)])))
      [''etc'', ''d'', ''evil.tmp''] = Some (File [])
   \<and> w_wire (snd (demo_run [(Bytes (''GET m ../evil'' @ endl), ([], []), 0)]))
      = buildErrorResponse 4 ''File not found: ../evil''"
  by (intro conjI) code_simp+

section \<open>The end of a session\<close>

text \<open>A client that hangs up leaks a descriptor: when a session without TLS is idle and its read
  ends or fails, the session is no longer active, but its socket is still open, and stays open when
  the session is destroyed.  A session over TLS is closed.\<close>

theorem hangup_leaks_socket:
  assumes "sn_active sn" "sn_state sn = IDLE" "sn_socket_open sn" "r = Eof \<or> r = ReadError"
  shows "case worker_step e r rnd now (sn, w) of (sn', w') \<Rightarrow>
     \<not> sn_active sn' \<and> w' = w \<and> (sn_socket_open (sn_destroy sn') \<longleftrightarrow> sn_ssl sn = None)"
  using assms
  by (cases "sn_ssl sn"; elim disjE)
    (simp_all add: worker_state processRequest_def readSocket_def received_def sn_destroy_def sn_close_def endFileTransfer_def)

theorem hangup_leaks_socket_witness:
  "sn_socket_open (sn_destroy (fst (worker_step (demo_env full) Eof ([], []) 0 (demo_session, demo_world demo_fs None))))"
proof -
  have "sn_active demo_session" "sn_state demo_session = IDLE" "sn_socket_open demo_session" "sn_ssl demo_session = None"
    by code_simp+
  with hangup_leaks_socket [where sn = demo_session and r = Eof and e = "demo_env full" and rnd = "([], [])" and now = 0
      and w = "demo_world demo_fs None"] show ?thesis
    by (simp split: prod.splits)
qed

end
