(* ===== verification/Tls.thy ===== *)
theory Tls
  imports Prelude Config_Data Library_Calls
begin

text \<open>
  The TLS server context and the TLS connections of \<open>src/simple-rsyncd/security/ssl_context.cpp\<close>.

  OpenSSL is a parameter: a function that gives the result of a call from the calls made before it
  and their results, so that nothing is assumed of its state.  What the program does to it is the
  list of these events.  A pointer is an integer, null is 0.  \<open>accept\<close> and \<open>close\<close> of the operating
  system are events too.
\<close>

section \<open>OpenSSL\<close>

type_synonym pointer = int
type_synonym fd = int

datatype tls_version = SSL2 | SSL3 | TLS1_0 | TLS1_1 | TLS1_2 | TLS1_3

datatype tls_call =
    Library_init
  | CTX_new
  | CTX_free pointer
  | CTX_forbid pointer "tls_version list"
  | CTX_set_min_proto_version pointer tls_version
  | CTX_set_cipher_list pointer string
  | CTX_use_certificate_chain_file pointer string
  | CTX_use_PrivateKey_file pointer string
  | CTX_check_private_key pointer
  | CTX_load_verify_locations pointer string
  | CTX_set_verify pointer int
  | ERR_get
  | SSL_new pointer
  | SSL_set_fd pointer fd
  | SSL_accept pointer
  | SSL_read pointer "32 word"
  | SSL_write pointer string "32 word"
  | SSL_get_error pointer int
  | SSL_shutdown pointer
  | SSL_free pointer
  | Sys_accept
  | Sys_close fd

text \<open>
  Beside the results: the bytes a read yields, the text of the error \<open>ERR_get_error\<close> takes from the
  queue (none for 0), and whether the version compiled against is at least 1.1.0.
\<close>

record tls_lib =
  tl_result :: "tls_call history \<Rightarrow> tls_call \<Rightarrow> int"
  tl_data :: "tls_call history \<Rightarrow> string"
  tl_error :: "tls_call history \<Rightarrow> string option"
  tl_modern :: bool

definition sslErrorString :: "tls_lib \<Rightarrow> tls_call history \<Rightarrow> string \<times> tls_call history" where
  "sslErrorString lib h =
     (case tl_error lib h of
        None \<Rightarrow> (''unknown OpenSSL error'', run_call (tl_result lib) ERR_get h)
      | Some msg \<Rightarrow> (take 255 (c_str msg), run_call (tl_result lib) ERR_get h))"

section \<open>A connection\<close>

record SSLConnection =
  cx_ssl :: pointer
  cx_fd :: fd
  cx_open :: bool

definition new_SSLConnection :: "pointer \<Rightarrow> fd \<Rightarrow> SSLConnection" where
  "new_SSLConnection ssl fd = \<lparr>cx_ssl = ssl, cx_fd = fd, cx_open = (ssl \<noteq> 0 \<and> fd \<ge> 0)\<rparr>"

definition cx_isOpen :: "SSLConnection \<Rightarrow> bool" where
  "cx_isOpen c = cx_open c"

definition kZeroReturn :: int where
  "kZeroReturn = 6"

text \<open>The length is cast to \<open>int\<close>; the bytes read are the first \<open>result\<close> of those the library delivers.\<close>

definition cx_read :: "tls_lib \<Rightarrow> size_t \<Rightarrow> SSLConnection \<Rightarrow> tls_call history \<Rightarrow> string \<times> int \<times> SSLConnection \<times> tls_call history" where
  "cx_read lib len c h =
     (if \<not> cx_open c \<or> cx_ssl c = 0 then ([], -1, c, h)
      else case call (tl_result lib) (SSL_read (cx_ssl c) (ucast len)) h of
        (result, h1) \<Rightarrow>
          if result \<le> 0 then
            (case call (tl_result lib) (SSL_get_error (cx_ssl c) result) h1 of
               (err, h2) \<Rightarrow>
                 if err = kZeroReturn then ([], 0, c\<lparr>cx_open := False\<rparr>, h2) else ([], -1, c, h2))
          else (take (nat result) (tl_data lib h), result, c, h1))"

definition cx_write :: "tls_lib \<Rightarrow> string \<Rightarrow> SSLConnection \<Rightarrow> tls_call history \<Rightarrow> int \<times> tls_call history" where
  "cx_write lib buffer c h =
     (if \<not> cx_open c \<or> cx_ssl c = 0 then (-1, h)
      else case call (tl_result lib) (SSL_write (cx_ssl c) buffer (ucast (word_of_nat (length buffer) :: size_t))) h of
        (result, h) \<Rightarrow> (if result \<le> 0 then -1 else result, h))"

definition cx_shutdown :: "tls_lib \<Rightarrow> SSLConnection \<Rightarrow> tls_call history \<Rightarrow> tls_call history" where
  "cx_shutdown lib c h = (if cx_ssl c \<noteq> 0 then run_call (tl_result lib) (SSL_shutdown (cx_ssl c)) h else h)"

definition cx_close :: "tls_lib \<Rightarrow> SSLConnection \<Rightarrow> tls_call history \<Rightarrow> SSLConnection \<times> tls_call history" where
  "cx_close lib c h =
     (let h = (if cx_ssl c \<noteq> 0
               then run_call (tl_result lib) (SSL_free (cx_ssl c)) (run_call (tl_result lib) (SSL_shutdown (cx_ssl c)) h) else h);
          h = (if cx_fd c \<ge> 0 then run_call (tl_result lib) (Sys_close (cx_fd c)) h else h)
      in (\<lparr>cx_ssl = 0, cx_fd = (if cx_fd c \<ge> 0 then -1 else cx_fd c), cx_open = False\<rparr>, h))"

definition cx_destroy :: "tls_lib \<Rightarrow> SSLConnection \<Rightarrow> tls_call history \<Rightarrow> tls_call history" where
  "cx_destroy lib c h = snd (cx_close lib c h)"

text \<open>Moving empties the source; a move assignment closes the target first.  The results are target and source.\<close>

definition emptied :: SSLConnection where
  "emptied = \<lparr>cx_ssl = 0, cx_fd = -1, cx_open = False\<rparr>"

definition move_construct :: "SSLConnection \<Rightarrow> SSLConnection \<times> SSLConnection" where
  "move_construct other = (other, emptied)"

definition move_assign :: "tls_lib \<Rightarrow> SSLConnection \<Rightarrow> SSLConnection \<Rightarrow> tls_call history \<Rightarrow>
    SSLConnection \<times> SSLConnection \<times> tls_call history" where
  "move_assign lib this other h = (other, emptied, snd (cx_close lib this h))"

section \<open>The context\<close>

record SSLContext =
  sc_initialized :: bool
  sc_ctx :: pointer
  sc_last_error :: string

text \<open>The constructor; the flag says whether the library has been initialised by an earlier one.\<close>

definition new_SSLContext :: "tls_lib \<Rightarrow> bool \<Rightarrow> tls_call history \<Rightarrow> SSLContext \<times> bool \<times> tls_call history" where
  "new_SSLContext lib openssl_initialized h =
     (\<lparr>sc_initialized = False, sc_ctx = 0, sc_last_error = []\<rparr>, True,
      if openssl_initialized then h else run_call (tl_result lib) Library_init h)"

definition sc_cleanup :: "tls_lib \<Rightarrow> SSLContext \<Rightarrow> tls_call history \<Rightarrow> SSLContext \<times> tls_call history" where
  "sc_cleanup lib x h =
     (x\<lparr>sc_ctx := 0, sc_initialized := False\<rparr>,
      if sc_ctx x \<noteq> 0 then run_call (tl_result lib) (CTX_free (sc_ctx x)) h else h)"

definition configureMinTlsVersion :: "tls_lib \<Rightarrow> string \<Rightarrow> pointer \<Rightarrow> tls_call history \<Rightarrow> bool \<times> tls_call history" where
  "configureMinTlsVersion lib min_tls_version ctx h =
     (if tl_modern lib \<and> min_tls_version = ''1.3'' then
        (case call (tl_result lib) (CTX_set_min_proto_version ctx TLS1_3) h of (r, h) \<Rightarrow> (r = 1, h))
      else if tl_modern lib \<and> min_tls_version = ''1.2'' then
        (case call (tl_result lib) (CTX_set_min_proto_version ctx TLS1_2) h of (r, h) \<Rightarrow> (r = 1, h))
      else (True, run_call (tl_result lib) (CTX_forbid ctx [SSL2, SSL3, TLS1_0, TLS1_1]) h))"

text \<open>A step that fails with the result: it returns the message for \<open>last_error_\<close>.\<close>

type_synonym setup_step = "tls_call history \<Rightarrow> string option \<times> tls_call history"

definition check :: "tls_lib \<Rightarrow> tls_call \<Rightarrow> (tls_call history \<Rightarrow> string \<times> tls_call history) \<Rightarrow> setup_step" where
  "check lib c failure h =
     (case call (tl_result lib) c h of (r, h) \<Rightarrow> if r \<noteq> 1 then apfst Some (failure h) else (None, h))"

definition and_then :: "setup_step \<Rightarrow> setup_step \<Rightarrow> setup_step" where
  "and_then f g h = (case f h of (Some err, h) \<Rightarrow> (Some err, h) | (None, h) \<Rightarrow> g h)"

definition with_reason :: "tls_lib \<Rightarrow> string \<Rightarrow> tls_call history \<Rightarrow> string \<times> tls_call history" where
  "with_reason lib prefix h = apfst (\<lambda>e. prefix @ e) (sslErrorString lib h)"

definition loadCertificateChain :: "tls_lib \<Rightarrow> string \<Rightarrow> string \<Rightarrow> pointer \<Rightarrow> setup_step" where
  "loadCertificateChain lib cert_file key_file ctx =
     and_then (check lib (CTX_use_certificate_chain_file ctx (c_str cert_file)) (with_reason lib ''failed to load certificate: ''))
       (and_then (check lib (CTX_use_PrivateKey_file ctx (c_str key_file)) (with_reason lib ''failed to load private key: ''))
         (check lib (CTX_check_private_key ctx) (\<lambda>h. (''private key does not match certificate'', h))))"

definition loadCaFile :: "tls_lib \<Rightarrow> string \<Rightarrow> pointer \<Rightarrow> setup_step" where
  "loadCaFile lib ca_file ctx =
     (if ca_file = [] then (\<lambda>h. (None, h))
      else check lib (CTX_load_verify_locations ctx (c_str ca_file)) (with_reason lib ''failed to load CA file: ''))"

definition set_ciphers :: "tls_lib \<Rightarrow> string \<Rightarrow> pointer \<Rightarrow> setup_step" where
  "set_ciphers lib cipher_suite ctx =
     (if cipher_suite \<noteq> [] then
        check lib (CTX_set_cipher_list ctx (c_str cipher_suite)) (\<lambda>h. (''invalid cipher suite: '' @ cipher_suite, h))
      else check lib (CTX_set_cipher_list ctx ''HIGH:!aNULL:!MD5:!RC4'') (\<lambda>h. (''failed to set default cipher list'', h)))"

definition set_version :: "tls_lib \<Rightarrow> string \<Rightarrow> pointer \<Rightarrow> setup_step" where
  "set_version lib min_tls_version ctx h =
     (case configureMinTlsVersion lib min_tls_version ctx h of
        (ok, h) \<Rightarrow> (if ok then None else Some (''unsupported TLS version: '' @ min_tls_version), h))"

text \<open>\<open>initialize\<close>: every failure after the context exists frees it.\<close>

definition sc_initialize :: "tls_lib \<Rightarrow> string \<Rightarrow> string \<Rightarrow> string \<Rightarrow> string \<Rightarrow> string \<Rightarrow> SSLContext \<Rightarrow> tls_call history \<Rightarrow>
    bool \<times> SSLContext \<times> tls_call history" where
  "sc_initialize lib cert_file key_file ca_file min_tls_version cipher_suite x h =
     (case sc_cleanup lib x h of
        (x, h) \<Rightarrow>
          let x = x\<lparr>sc_last_error := []\<rparr>
          in case call (tl_result lib) CTX_new h of
            (ctx, h) \<Rightarrow>
              if ctx = 0 then
                (case with_reason lib ''SSL_CTX_new failed: '' h of (err, h) \<Rightarrow> (False, x\<lparr>sc_last_error := err\<rparr>, h))
              else
                let x = x\<lparr>sc_ctx := ctx\<rparr>
                in case and_then (set_version lib min_tls_version ctx)
                          (and_then (set_ciphers lib cipher_suite ctx)
                            (and_then (loadCertificateChain lib cert_file key_file ctx) (loadCaFile lib ca_file ctx)))
                          (run_call (tl_result lib) (CTX_forbid ctx [SSL2, SSL3]) h) of
                     (Some err, h) \<Rightarrow> (case sc_cleanup lib (x\<lparr>sc_last_error := err\<rparr>) h of (x, h) \<Rightarrow> (False, x, h))
                   | (None, h) \<Rightarrow> (True, x\<lparr>sc_initialized := True\<rparr>, h))"

definition sc_isInitialized :: "SSLContext \<Rightarrow> bool" where
  "sc_isInitialized x = sc_initialized x"

definition acceptConnection :: "tls_lib \<Rightarrow> fd \<Rightarrow> SSLContext \<Rightarrow> tls_call history \<Rightarrow>
    SSLConnection option \<times> SSLContext \<times> tls_call history" where
  "acceptConnection lib client_fd x h =
     (if \<not> sc_initialized x \<or> sc_ctx x = 0 \<or> client_fd < 0 then
        (None, x\<lparr>sc_last_error := ''SSL context not initialized''\<rparr>, h)
      else case call (tl_result lib) (SSL_new (sc_ctx x)) h of
        (ssl, h) \<Rightarrow>
          if ssl = 0 then
            (case with_reason lib ''SSL_new failed: '' h of (err, h) \<Rightarrow> (None, x\<lparr>sc_last_error := err\<rparr>, h))
          else
            case and_then (check lib (SSL_set_fd ssl client_fd) (with_reason lib ''SSL_set_fd failed: ''))
                   (check lib (SSL_accept ssl) (with_reason lib ''TLS handshake failed: '')) h of
              (Some err, h) \<Rightarrow> (None, x\<lparr>sc_last_error := err\<rparr>, run_call (tl_result lib) (SSL_free ssl) h)
            | (None, h) \<Rightarrow> (Some (new_SSLConnection ssl client_fd), x, h))"

section \<open>As the daemon uses it\<close>

text \<open>\<open>initializeSSL\<close> of the daemon hands these fields of its configuration to the context.\<close>

definition initialize_from :: "tls_lib \<Rightarrow> SSLConfig \<Rightarrow> SSLContext \<Rightarrow> tls_call history \<Rightarrow> bool \<times> SSLContext \<times> tls_call history" where
  "initialize_from lib cfg = sc_initialize lib (ssl_certificate_file cfg) (ssl_private_key_file cfg) (ssl_ca_file cfg)
     (ssl_tls_version cfg) (ssl_cipher_suite cfg)"

text \<open>The accept thread's part: a handshake on the socket it accepted, which it closes if that fails.\<close>

definition admit_tls :: "tls_lib \<Rightarrow> fd \<Rightarrow> SSLContext \<Rightarrow> tls_call history \<Rightarrow> SSLConnection option \<times> SSLContext \<times> tls_call history" where
  "admit_tls lib client_socket x h =
     (case acceptConnection lib client_socket x h of
        (None, x, h) \<Rightarrow> (None, x, run_call (tl_result lib) (Sys_close client_socket) h)
      | (Some c, x, h) \<Rightarrow> (Some c, x, h))"

end
