(* ===== verification/Tls_Facts.thy ===== *)
theory Tls_Facts
  imports Tls Std_Map "HOL-Library.Multiset"
begin

text \<open>
  What the TLS classes do with OpenSSL: every object they allocate is freed once and not used
  afterwards, and the context speaks no version below 1.2.
\<close>

section \<open>Ownership\<close>

text \<open>
  The objects and descriptors in the program's hands.  An event is a use: of nothing it does not
  hold, and an allocation that succeeds or a release changes what it holds.
\<close>

record owned =
  ow_ctx :: "pointer multiset"
  ow_ssl :: "pointer multiset"
  ow_fd :: "fd multiset"

definition nothing :: owned where
  "nothing = \<lparr>ow_ctx = {#}, ow_ssl = {#}, ow_fd = {#}\<rparr>"

definition with_ctx :: "pointer \<Rightarrow> owned \<Rightarrow> owned option" where
  "with_ctx p ow = (if p \<in># ow_ctx ow then Some ow else None)"

definition with_ssl :: "pointer \<Rightarrow> owned \<Rightarrow> owned option" where
  "with_ssl p ow = (if p \<in># ow_ssl ow then Some ow else None)"

fun use :: "tls_call \<times> int \<Rightarrow> owned \<Rightarrow> owned option" where
  "use (Library_init, r) ow = Some ow"
| "use (ERR_get, r) ow = Some ow"
| "use (CTX_new, p) ow = Some (if p = 0 then ow else ow\<lparr>ow_ctx := add_mset p (ow_ctx ow)\<rparr>)"
| "use (CTX_free p, r) ow = map_option (ow_ctx_update (\<lambda>m. m - {#p#})) (with_ctx p ow)"
| "use (CTX_forbid p vs, r) ow = with_ctx p ow"
| "use (CTX_set_min_proto_version p v, r) ow = with_ctx p ow"
| "use (CTX_set_cipher_list p s, r) ow = with_ctx p ow"
| "use (CTX_use_certificate_chain_file p s, r) ow = with_ctx p ow"
| "use (CTX_use_PrivateKey_file p s, r) ow = with_ctx p ow"
| "use (CTX_check_private_key p, r) ow = with_ctx p ow"
| "use (CTX_load_verify_locations p s, r) ow = with_ctx p ow"
| "use (CTX_set_verify p m, r) ow = with_ctx p ow"
| "use (SSL_new p, s) ow =
     map_option (\<lambda>ow. if s = 0 then ow else ow\<lparr>ow_ssl := add_mset s (ow_ssl ow)\<rparr>) (with_ctx p ow)"
| "use (SSL_set_fd s fd, r) ow = (if fd \<in># ow_fd ow then with_ssl s ow else None)"
| "use (SSL_accept s, r) ow = with_ssl s ow"
| "use (SSL_read s n, r) ow = with_ssl s ow"
| "use (SSL_write s d n, r) ow = with_ssl s ow"
| "use (SSL_get_error s n, r) ow = with_ssl s ow"
| "use (SSL_shutdown s, r) ow = with_ssl s ow"
| "use (SSL_free s, r) ow = map_option (ow_ssl_update (\<lambda>m. m - {#s#})) (with_ssl s ow)"
| "use (Sys_accept, fd) ow = Some (if fd < 0 then ow else ow\<lparr>ow_fd := add_mset fd (ow_fd ow)\<rparr>)"
| "use (Sys_close fd, r) ow = (if fd \<in># ow_fd ow then Some (ow\<lparr>ow_fd := ow_fd ow - {#fd#}\<rparr>) else None)"

text \<open>What a history leaves in the program's hands; none if it used what it did not hold.\<close>

definition uses :: "tls_call history \<Rightarrow> owned option" where
  "uses h = replay use nothing h"

lemma uses_snoc [simp]: "uses (h @ [ev]) = Option.bind (uses h) (use ev)"
  by (simp add: uses_def)

lemmas uses_call = replay_call [where use = use and s = nothing, folded uses_def]

text \<open>The steps that set up a context keep what is held, if the context is.\<close>

definition modest :: "pointer \<Rightarrow> setup_step \<Rightarrow> bool" where
  "modest p f \<longleftrightarrow> (\<forall>h ow. uses h = Some ow \<and> p \<in># ow_ctx ow \<longrightarrow> uses (snd (f h)) = Some ow)"

lemma reason_uses [simp]: "uses h = Some ow \<Longrightarrow> uses (snd (with_reason lib s h)) = Some ow"
  by (simp add: with_reason_def sslErrorString_def uses_call split: option.split)

lemma reason_uses' [dest]: "with_reason lib s h = (e, h') \<Longrightarrow> uses h = Some ow \<Longrightarrow> uses h' = Some ow"
  using reason_uses [of h ow lib s] by simp

lemma modest_check:
  assumes "\<And>r ow. p \<in># ow_ctx ow \<Longrightarrow> use (c, r) ow = Some ow"
    and "\<And>h ow. uses h = Some ow \<Longrightarrow> uses (snd (failure h)) = Some ow"
  shows "modest p (check lib c failure)"
proof -
  have "uses (snd (check lib c failure h)) = Some ow" if "uses h = Some ow" "p \<in># ow_ctx ow" for h ow
  proof -
    obtain r h' where c: "call (tl_result lib) c h = (r, h')" by (cases "call (tl_result lib) c h")
    have "uses h' = Some ow" using uses_call(1) [of "tl_result lib" c h] that assms(1) by (simp add: c)
    then show ?thesis using assms(2) by (simp add: check_def c)
  qed
  then show ?thesis by (simp add: modest_def)
qed

lemma modest_then: "modest p f \<Longrightarrow> modest p g \<Longrightarrow> modest p (and_then f g)"
proof -
  assume m: "modest p f" "modest p g"
  have "uses (snd (and_then f g h)) = Some ow" if "uses h = Some ow" "p \<in># ow_ctx ow" for h ow
  proof (cases "f h")
    case (Pair r h')
    with m(1) that have "uses h' = Some ow" by (force simp: modest_def)
    with m(2) that Pair show ?thesis by (auto simp: and_then_def modest_def split: option.split)
  qed
  then show ?thesis by (simp add: modest_def)
qed

lemma modest_setup:
  "modest p (set_version lib v p)" "modest p (set_ciphers lib s p)"
  "modest p (loadCertificateChain lib a b p)" "modest p (loadCaFile lib f p)"
proof -
  have w: "with_ctx p ow = Some ow" if "p \<in># ow_ctx ow" for ow using that by (simp add: with_ctx_def)
  show "modest p (set_version lib v p)"
    by (auto simp: modest_def set_version_def configureMinTlsVersion_def call_def run_call_def Let_def w)
  show "modest p (set_ciphers lib s p)"
    unfolding set_ciphers_def by (auto intro!: modest_check simp: w)
  show "modest p (loadCertificateChain lib a b p)"
    unfolding loadCertificateChain_def by (intro modest_then modest_check) (simp_all add: w)
  have "modest p (\<lambda>h. (None, h))" by (simp add: modest_def)
  then show "modest p (loadCaFile lib f p)"
    unfolding loadCaFile_def by (auto intro!: modest_check simp: w)
qed

definition ctx_token :: "SSLContext \<Rightarrow> pointer multiset" where
  "ctx_token x = (if sc_ctx x = 0 then {#} else {#sc_ctx x#})"

definition ssl_token :: "SSLConnection \<Rightarrow> pointer multiset" where
  "ssl_token c = (if cx_ssl c = 0 then {#} else {#cx_ssl c#})"

definition fd_token :: "SSLConnection \<Rightarrow> fd multiset" where
  "fd_token c = (if cx_fd c < 0 then {#} else {#cx_fd c#})"

lemma tokens_0: "sc_ctx x = 0 \<Longrightarrow> ctx_token x = {#}" "sc_ctx x \<noteq> 0 \<Longrightarrow> ctx_token x = {#sc_ctx x#}"
  "cx_ssl c = 0 \<Longrightarrow> ssl_token c = {#}" "cx_ssl c \<noteq> 0 \<Longrightarrow> ssl_token c = {#cx_ssl c#}"
  by (simp_all add: ctx_token_def ssl_token_def)

lemma cleanup_owned:
  assumes "uses h = Some ow" "ow_ctx ow = ctx_token x"
  shows "uses (snd (sc_cleanup lib x h)) = Some (ow\<lparr>ow_ctx := {#}\<rparr>)" "sc_ctx (fst (sc_cleanup lib x h)) = 0"
    "\<not> sc_initialized (fst (sc_cleanup lib x h))"
  using assms by (cases ow; auto simp: sc_cleanup_def uses_call with_ctx_def ctx_token_def)+

lemma initialize_owned:
  assumes "uses h = Some ow" "ow_ctx ow = ctx_token x"
    and "sc_initialize lib a b f v s x h = (ok, x', h')"
  shows "uses h' = Some (ow\<lparr>ow_ctx := ctx_token x'\<rparr>)" "ok \<longleftrightarrow> sc_initialized x'" "ok \<longleftrightarrow> sc_ctx x' \<noteq> 0"
proof -
  obtain x1 h1 where c: "sc_cleanup lib x h = (x1, h1)" by (cases "sc_cleanup lib x h")
  note cl = cleanup_owned [OF assms(1,2), of lib, unfolded c, simplified]
  obtain p h2 where n: "call (tl_result lib) CTX_new h1 = (p, h2)" by (cases "call (tl_result lib) CTX_new h1")
  let ?x = "x1\<lparr>sc_last_error := []\<rparr>"
  have new: "uses h2 = Some (ow\<lparr>ow_ctx := if p = 0 then {#} else {#p#}\<rparr>)"
    using uses_call(1) [of "tl_result lib" CTX_new h1] by (simp add: n cl)
  have "uses h' = Some (ow\<lparr>ow_ctx := ctx_token x'\<rparr>) \<and> (ok \<longleftrightarrow> sc_initialized x') \<and> (ok \<longleftrightarrow> sc_ctx x' \<noteq> 0)"
  proof (cases "p = 0")
    case True
    then have "uses h2 = Some (ow\<lparr>ow_ctx := {#}\<rparr>)" using new by simp
    with True assms(3) cl show ?thesis
      by (auto simp: sc_initialize_def c n Let_def ctx_token_def split: prod.splits)
  next
    case False
    let ?f = "and_then (set_version lib v p)
                (and_then (set_ciphers lib s p) (and_then (loadCertificateChain lib a b p) (loadCaFile lib f p)))"
    have "uses (run_call (tl_result lib) (CTX_forbid p [SSL2, SSL3]) h2) = Some (ow\<lparr>ow_ctx := {#p#}\<rparr>)"
      using new False by (simp add: uses_call with_ctx_def)
    moreover have "modest p ?f" by (intro modest_then modest_setup)
    ultimately have f: "uses (snd (?f (run_call (tl_result lib) (CTX_forbid p [SSL2, SSL3]) h2))) = Some (ow\<lparr>ow_ctx := {#p#}\<rparr>)"
      by (auto simp: modest_def)
    obtain r h3 where r: "?f (run_call (tl_result lib) (CTX_forbid p [SSL2, SSL3]) h2) = (r, h3)" by fastforce
    show ?thesis
    proof (cases r)
      case None
      with False assms(3) f show ?thesis by (auto simp: sc_initialize_def c n r Let_def ctx_token_def)
    next
      case (Some err)
      have "sc_cleanup lib (?x\<lparr>sc_ctx := p, sc_last_error := err\<rparr>) h3 = (x', h')" "\<not> ok"
        using False assms(3) Some by (auto simp: sc_initialize_def c n r Let_def split: prod.splits)
      with cleanup_owned [where h = h3 and ow = "ow\<lparr>ow_ctx := {#p#}\<rparr>" and x = "?x\<lparr>sc_ctx := p, sc_last_error := err\<rparr>"
          and lib = lib] f r False show ?thesis by (simp add: ctx_token_def)
    qed
  qed
  then show "uses h' = Some (ow\<lparr>ow_ctx := ctx_token x'\<rparr>)" "ok \<longleftrightarrow> sc_initialized x'" "ok \<longleftrightarrow> sc_ctx x' \<noteq> 0" by blast+
qed

text \<open>A handshake leaves the context as it was, and a connection that owns its objects, or nothing new.\<close>

lemma accept_owned:
  assumes "uses h = Some ow" "ow_ctx ow = ctx_token x" "fd \<in># ow_fd ow"
    and "acceptConnection lib fd x h = (r, x', h')"
  shows "sc_ctx x' = sc_ctx x \<and> sc_initialized x' = sc_initialized x \<and>
     (case r of None \<Rightarrow> uses h' = Some ow
      | Some c \<Rightarrow> cx_ssl c \<noteq> 0 \<and> cx_fd c = fd \<and> uses h' = Some (ow\<lparr>ow_ssl := add_mset (cx_ssl c) (ow_ssl ow)\<rparr>))"
proof (cases "\<not> sc_initialized x \<or> sc_ctx x = 0 \<or> fd < 0")
  case True
  with assms(1,4) show ?thesis by (auto simp: acceptConnection_def)
next
  case False
  then have ok: "sc_initialized x" "sc_ctx x \<noteq> 0" "fd \<ge> 0" by auto
  obtain s h1 where n: "call (tl_result lib) (SSL_new (sc_ctx x)) h = (s, h1)" by (cases "call (tl_result lib) (SSL_new (sc_ctx x)) h")
  have new: "uses h1 = Some (if s = 0 then ow else ow\<lparr>ow_ssl := add_mset s (ow_ssl ow)\<rparr>)"
    using uses_call(1) [of "tl_result lib" "SSL_new (sc_ctx x)" h] assms(1,2) ok by (simp add: n with_ctx_def ctx_token_def)
  show ?thesis
  proof (cases "s = 0")
    case True
    with new assms(4) ok show ?thesis
      by (auto simp: acceptConnection_def n split: prod.splits)
  next
    case False
    let ?ow = "ow\<lparr>ow_ssl := add_mset s (ow_ssl ow)\<rparr>"
    let ?f = "and_then (check lib (SSL_set_fd s fd) (with_reason lib ''SSL_set_fd failed: ''))
                (check lib (SSL_accept s) (with_reason lib ''TLS handshake failed: ''))"
    have keep: "uses g' = Some ?ow"
      if "check lib c (with_reason lib m) g = (e, g')" "uses g = Some ?ow" "\<And>r. use (c, r) ?ow = Some ?ow" for c m g e g'
    proof -
      obtain r g1 where g: "call (tl_result lib) c g = (r, g1)" by (cases "call (tl_result lib) c g")
      have "uses g1 = Some ?ow" using uses_call(1) [of "tl_result lib" c g] that by (simp add: g)
      then show ?thesis using that(1) by (auto simp: check_def g apfst_def map_prod_def split: if_split_asm prod.splits)
    qed
    obtain r1 h2 where f1: "check lib (SSL_set_fd s fd) (with_reason lib ''SSL_set_fd failed: '') h1 = (r1, h2)" by fastforce
    obtain r2 h3 where f2: "check lib (SSL_accept s) (with_reason lib ''TLS handshake failed: '') h2 = (r2, h3)" by fastforce
    have u2: "uses h2 = Some ?ow" using keep [OF f1] new False assms(3) by (simp add: with_ssl_def)
    have u3: "uses h3 = Some ?ow" using keep [OF f2 u2] by (simp add: with_ssl_def)
    have free: "uses (run_call (tl_result lib) (SSL_free s) g) = Some ow" if "uses g = Some ?ow" for g
      using that by (simp add: uses_call with_ssl_def)
    show ?thesis
      using assms(4) ok False u2 u3 free
      by (cases r1; cases r2) (auto simp: acceptConnection_def n and_then_def f1 f2 new_SSLConnection_def)
  qed
qed

lemma close_owned:
  assumes "uses h = Some ow" "ssl_token c \<subseteq># ow_ssl ow" "fd_token c \<subseteq># ow_fd ow"
  shows "uses (snd (cx_close lib c h)) = Some (ow\<lparr>ow_ssl := ow_ssl ow - ssl_token c, ow_fd := ow_fd ow - fd_token c\<rparr>)"
    "ssl_token (fst (cx_close lib c h)) = {#}" "fd_token (fst (cx_close lib c h)) = {#}"
  using assms
  by (cases ow; auto simp: cx_close_def uses_call ssl_token_def fd_token_def with_ssl_def Let_def split: if_split_asm)+

lemma io_owned:
  assumes "uses h = Some ow" "ssl_token c \<subseteq># ow_ssl ow"
  shows "case cx_read lib n c h of (d, k, c', h') \<Rightarrow>
      uses h' = Some ow \<and> ssl_token c' = ssl_token c \<and> fd_token c' = fd_token c"
    "uses (snd (cx_write lib b c h)) = Some ow" "uses (cx_shutdown lib c h) = Some ow"
proof -
  have s: "cx_ssl c \<noteq> 0 \<Longrightarrow> with_ssl (cx_ssl c) ow = Some ow" using assms(2) by (simp add: with_ssl_def tokens_0)
  have one: "uses (snd (call (tl_result lib) (SSL_read (cx_ssl c) m) g)) = Some ow" "uses (snd (call (tl_result lib) (SSL_get_error (cx_ssl c) r) g)) = Some ow"
    "uses (snd (call (tl_result lib) (SSL_write (cx_ssl c) b m) g)) = Some ow" "uses (run_call (tl_result lib) (SSL_shutdown (cx_ssl c)) g) = Some ow"
    if "uses g = Some ow" "cx_ssl c \<noteq> 0" for g r b m using that s by (simp_all add: uses_call)
  obtain k h1 where rd: "call (tl_result lib) (SSL_read (cx_ssl c) (ucast n)) h = (k, h1)" by fastforce
  obtain err h2 where ge: "call (tl_result lib) (SSL_get_error (cx_ssl c) k) h1 = (err, h2)" by fastforce
  show "case cx_read lib n c h of (d, k, c', h') \<Rightarrow>
      uses h' = Some ow \<and> ssl_token c' = ssl_token c \<and> fd_token c' = fd_token c"
    using assms(1) one(1) [OF assms(1), of "ucast n"] one(2) [of h1 k]
    by (auto simp: cx_read_def rd ge ssl_token_def fd_token_def)
  show "uses (snd (cx_write lib b c h)) = Some ow"
    using assms(1) one(3) [OF assms(1)] by (auto simp: cx_write_def split: prod.splits) (metis snd_conv)
  show "uses (cx_shutdown lib c h) = Some ow"
    using assms(1) one(4) by (auto simp: cx_shutdown_def)
qed

section \<open>The context and its connections as a machine\<close>

text \<open>A TLS server: one context and the connections it has accepted, each in the hands of a session.\<close>

record tls_state =
  ts_ctx :: SSLContext
  ts_conns :: "SSLConnection list"
  ts_history :: "tls_call history"

datatype tls_op = Initialize SSLConfig | Admit | Read nat size_t | Write nat string | Shutdown nat | Close nat
  | Drop nat | Move_assign nat nat | Cleanup

text \<open>The connection an operation works on.\<close>

fun op_ok :: "tls_state \<Rightarrow> tls_op \<Rightarrow> bool" where
  "op_ok st (Read i n) = (i < length (ts_conns st))"
| "op_ok st (Write i b) = (i < length (ts_conns st))"
| "op_ok st (Shutdown i) = (i < length (ts_conns st))"
| "op_ok st (Close i) = (i < length (ts_conns st))"
| "op_ok st (Drop i) = (i < length (ts_conns st))"
| "op_ok st (Move_assign i j) = (i < length (ts_conns st) \<and> j < length (ts_conns st))"
| "op_ok st _ = True"

fun tls_step :: "tls_lib \<Rightarrow> tls_state \<Rightarrow> tls_op \<Rightarrow> tls_state" where
  "tls_step lib st (Initialize cfg) =
     (case initialize_from lib cfg (ts_ctx st) (ts_history st) of
        (_, x, h) \<Rightarrow> st\<lparr>ts_ctx := x, ts_history := h\<rparr>)"
| "tls_step lib st Admit =
     (case call (tl_result lib) Sys_accept (ts_history st) of
        (fd, h) \<Rightarrow>
          if fd < 0 then st\<lparr>ts_history := h\<rparr>
          else case admit_tls lib fd (ts_ctx st) h of
            (None, x, h) \<Rightarrow> st\<lparr>ts_ctx := x, ts_history := h\<rparr>
          | (Some c, x, h) \<Rightarrow> \<lparr>ts_ctx = x, ts_conns = c # ts_conns st, ts_history = h\<rparr>)"
| "tls_step lib st (Read i n) =
     (case cx_read lib n (ts_conns st ! i) (ts_history st) of
        (_, _, c, h) \<Rightarrow> st\<lparr>ts_conns := (ts_conns st)[i := c], ts_history := h\<rparr>)"
| "tls_step lib st (Write i b) = st\<lparr>ts_history := snd (cx_write lib b (ts_conns st ! i) (ts_history st))\<rparr>"
| "tls_step lib st (Shutdown i) = st\<lparr>ts_history := cx_shutdown lib (ts_conns st ! i) (ts_history st)\<rparr>"
| "tls_step lib st (Close i) =
     (case cx_close lib (ts_conns st ! i) (ts_history st) of
        (c, h) \<Rightarrow> st\<lparr>ts_conns := (ts_conns st)[i := c], ts_history := h\<rparr>)"
| "tls_step lib st (Drop i) =
     st\<lparr>ts_conns := take i (ts_conns st) @ drop (Suc i) (ts_conns st),
        ts_history := cx_destroy lib (ts_conns st ! i) (ts_history st)\<rparr>"
| "tls_step lib st (Move_assign i j) =
     (if i = j then st
      else case move_assign lib (ts_conns st ! i) (ts_conns st ! j) (ts_history st) of
        (this, other, h) \<Rightarrow> st\<lparr>ts_conns := (ts_conns st)[i := this, j := other], ts_history := h\<rparr>)"
| "tls_step lib st Cleanup =
     (case sc_cleanup lib (ts_ctx st) (ts_history st) of (x, h) \<Rightarrow> st\<lparr>ts_ctx := x, ts_history := h\<rparr>)"

definition tls_start :: tls_state where
  "tls_start = \<lparr>ts_ctx = \<lparr>sc_initialized = False, sc_ctx = 0, sc_last_error = []\<rparr>, ts_conns = [], ts_history = []\<rparr>"

text \<open>What the objects of the program own.\<close>

definition tokens :: "(SSLConnection \<Rightarrow> int multiset) \<Rightarrow> SSLConnection list \<Rightarrow> int multiset" where
  "tokens f cs = sum_list (map f cs)"

definition holdings :: "tls_state \<Rightarrow> owned" where
  "holdings st = \<lparr>ow_ctx = ctx_token (ts_ctx st), ow_ssl = tokens ssl_token (ts_conns st),
                  ow_fd = tokens fd_token (ts_conns st)\<rparr>"

definition tls_inv :: "tls_state \<Rightarrow> bool" where
  "tls_inv st \<longleftrightarrow> uses (ts_history st) = Some (holdings st)"

lemma tokens_simps [simp]: "tokens f [] = {#}" "tokens f (c # cs) = f c + tokens f cs"
  "tokens f (cs @ cs') = tokens f cs + tokens f cs'"
  by (simp_all add: tokens_def)

lemma tokens_update: "i < length cs \<Longrightarrow> tokens f (cs[i := c]) + f (cs ! i) = tokens f cs + f c"
proof (induction cs arbitrary: i)
  case (Cons a cs)
  then show ?case by (cases i) (auto simp: ac_simps)
qed simp

lemma tokens_nth: "i < length cs \<Longrightarrow> f (cs ! i) \<subseteq># tokens f cs"
  using tokens_update [of i cs f "cs ! i"] by (metis list_update_id mset_subset_eq_add_right nth_mem tokens_def in_set_conv_nth
      set_map sum_list_map_remove1 mset_subset_eq_add_left)

lemma tokens_same: "i < length cs \<Longrightarrow> f c = f (cs ! i) \<Longrightarrow> tokens f (cs[i := c]) = tokens f cs"
  using tokens_update [of i cs f c] by simp

lemma tokens_drop_one: "i < length cs \<Longrightarrow> tokens f (take i cs @ drop (Suc i) cs) + f (cs ! i) = tokens f cs"
  by (subst (3) id_take_nth_drop [of i cs]) (simp_all add: ac_simps)

lemma tokens_emptied [simp]: "ssl_token emptied = {#}" "fd_token emptied = {#}"
  by (simp_all add: ssl_token_def fd_token_def emptied_def)

lemma tokens_emptying: "i < length cs \<Longrightarrow> f c = {#} \<Longrightarrow> tokens f (cs[i := c]) = tokens f cs - f (cs ! i)"
  using tokens_update [of i cs f c] by (metis add_diff_cancel_right' add.right_neutral)

lemma tokens_dropping: "i < length cs \<Longrightarrow> tokens f (take i cs @ drop (Suc i) cs) = tokens f cs - f (cs ! i)"
  using arg_cong [OF tokens_drop_one [of i cs f], of "\<lambda>m. m - f (cs ! i)"] by (simp del: tokens_simps)

lemma tokens_moving:
  assumes "i < length cs" "j < length cs" "i \<noteq> j" "f c = {#}"
  shows "tokens f (cs[i := cs ! j, j := c]) = tokens f cs - f (cs ! i)"
proof -
  have "tokens f (cs[i := cs ! j, j := c]) = tokens f (cs[i := cs ! j]) - f (cs ! j)"
    using assms tokens_emptying [of j "cs[i := cs ! j]" f c] by simp
  moreover have "tokens f (cs[i := cs ! j]) = tokens f cs + f (cs ! j) - f (cs ! i)"
    using tokens_update [OF assms(1), of f "cs ! j"] by (metis add_diff_cancel_right')
  moreover have "x + fj - fi - fj = x - fi" for x fi fj :: "int multiset"
    by (subst diff_right_commute) simp
  ultimately show ?thesis by (simp only:)
qed

lemmas tokens_rules = tokens_same tokens_emptying tokens_dropping

lemma holdings_fields [simp]:
  "ow_ctx (holdings st) = ctx_token (ts_ctx st)" "ow_ssl (holdings st) = tokens ssl_token (ts_conns st)"
  "ow_fd (holdings st) = tokens fd_token (ts_conns st)"
  by (simp_all add: holdings_def)

lemma inv_admit:
  assumes "tls_inv st"
  shows "tls_inv (tls_step lib st Admit)"
proof -
  obtain fd h1 where a: "call (tl_result lib) Sys_accept (ts_history st) = (fd, h1)" by fastforce
  have u1: "uses h1 = Some (if fd < 0 then holdings st else holdings st\<lparr>ow_fd := add_mset fd (ow_fd (holdings st))\<rparr>)"
    using uses_call(1) [of "tl_result lib" Sys_accept "ts_history st"] assms by (simp add: a tls_inv_def)
  show ?thesis
  proof (cases "fd < 0")
    case True
    with u1 show ?thesis by (simp add: tls_inv_def a holdings_def)
  next
    case False
    let ?ow = "holdings st\<lparr>ow_fd := add_mset fd (ow_fd (holdings st))\<rparr>"
    obtain r x' h2 where acc: "acceptConnection lib fd (ts_ctx st) h1 = (r, x', h2)"
      by (cases "acceptConnection lib fd (ts_ctx st) h1") auto
    have "uses h1 = Some ?ow" "ow_ctx ?ow = ctx_token (ts_ctx st)" "fd \<in># ow_fd ?ow" using u1 False by simp_all
    note acd = accept_owned [OF this acc]
    have ctx: "ctx_token x' = ctx_token (ts_ctx st)" using acd by (simp add: ctx_token_def)
    show ?thesis
    proof (cases r)
      case None
      with acd have "uses (run_call (tl_result lib) (Sys_close fd) h2) = Some (holdings st)" by (simp add: uses_call holdings_def)
      with None False ctx show ?thesis by (simp add: tls_inv_def a admit_tls_def acc holdings_def)
    next
      case (Some c)
      with acd False ctx show ?thesis
        by (simp add: tls_inv_def a admit_tls_def acc holdings_def ssl_token_def fd_token_def)
    qed
  qed
qed

lemma inv_close_conn:
  assumes "tls_inv st" "i < length (ts_conns st)"
  shows "tls_inv (tls_step lib st (Close i))" "tls_inv (tls_step lib st (Drop i))"
    "j < length (ts_conns st) \<Longrightarrow> tls_inv (tls_step lib st (Move_assign i j))"
proof -
  let ?c = "ts_conns st ! i"
  obtain c' h' where c: "cx_close lib ?c (ts_history st) = (c', h')" by fastforce
  have "ssl_token ?c \<subseteq># ow_ssl (holdings st)" "fd_token ?c \<subseteq># ow_fd (holdings st)"
    using assms(2) by (simp_all add: tokens_nth)
  note cl = close_owned [OF _ this, of "ts_history st" lib, unfolded c, simplified]
  from assms(1) have u: "uses (ts_history st) = Some (holdings st)" by (simp add: tls_inv_def)
  show "tls_inv (tls_step lib st (Close i))"
    using cl u assms(2) by (simp add: tls_inv_def c holdings_def tokens_rules)
  show "tls_inv (tls_step lib st (Drop i))"
    using cl u assms(2) by (simp add: tls_inv_def cx_destroy_def c holdings_def tokens_rules del: tokens_simps)
  show "tls_inv (tls_step lib st (Move_assign i j))" if "j < length (ts_conns st)"
    using cl u assms that by (simp add: tls_inv_def move_assign_def c holdings_def tokens_moving)
qed

lemma inv_io:
  assumes "tls_inv st" "i < length (ts_conns st)"
  shows "tls_inv (tls_step lib st (Read i n))" "tls_inv (tls_step lib st (Write i b))" "tls_inv (tls_step lib st (Shutdown i))"
proof -
  let ?c = "ts_conns st ! i"
  have "uses (ts_history st) = Some (holdings st)" "ssl_token ?c \<subseteq># ow_ssl (holdings st)"
    using assms by (simp_all add: tls_inv_def tokens_nth)
  note io = io_owned [OF this]
  show "tls_inv (tls_step lib st (Read i n))"
    using io(1) [of lib n] assms(2) by (auto simp: tls_inv_def holdings_def tokens_rules split: prod.splits)
  show "tls_inv (tls_step lib st (Write i b))" "tls_inv (tls_step lib st (Shutdown i))"
    using io(2,3) [of lib] by (simp_all add: tls_inv_def holdings_def)
qed

interpretation tls: guarded_machine "tls_step lib" op_ok tls_inv for lib
proof
  fix st op
  assume a: "tls_inv st" "op_ok st op"
  from a(1) have u: "uses (ts_history st) = Some (holdings st)" by (simp add: tls_inv_def)
  show "tls_inv (tls_step lib st op)"
  proof (cases op)
    case (Initialize cfg)
    obtain ok x h where i: "initialize_from lib cfg (ts_ctx st) (ts_history st) = (ok, x, h)"
      by (cases "initialize_from lib cfg (ts_ctx st) (ts_history st)") auto
    from initialize_owned [OF u _ i [unfolded initialize_from_def]] Initialize i show ?thesis
      by (simp add: tls_inv_def holdings_def)
  next
    case Cleanup
    with cleanup_owned [OF u, of "ts_ctx st" lib] show ?thesis
      by (auto simp: tls_inv_def holdings_def ctx_token_def split: prod.splits)
  qed (use a inv_admit inv_close_conn inv_io in auto)
qed

text \<open>C8. Every OpenSSL object and every accepted socket is released exactly once and never used
  afterwards: whatever a TLS server does (load a configuration again and again, accept connections,
  read, write, shut down, close, move and destroy them in any order, free the context), and whatever
  OpenSSL answers to each call, its calls use only what it holds, and what it holds are the context
  and the connections its objects point to; so when all connections are destroyed and the context is
  freed, nothing is left.\<close>

theorem tls_ownership:
  assumes "run_ok op_ok (tls_step lib) tls_start ops"
  shows "let st = foldl (tls_step lib) tls_start ops
     in uses (ts_history st) = Some (holdings st)
        \<and> (ts_conns st = [] \<longrightarrow> uses (ts_history (tls_step lib st Cleanup)) = Some nothing)"
proof -
  let ?st = "foldl (tls_step lib) tls_start ops"
  have "tls_inv tls_start" by (simp add: tls_inv_def tls_start_def uses_def holdings_def nothing_def ctx_token_def)
  from tls.inv_run [OF this assms] have i: "tls_inv ?st" .
  have "tls_inv (tls_step lib ?st Cleanup)" by (rule tls.inv_step [OF i]) simp
  moreover have "holdings (tls_step lib ?st Cleanup) = nothing" if "ts_conns ?st = []"
    using that by (auto simp: holdings_def nothing_def ctx_token_def sc_cleanup_def)
  ultimately show ?thesis using i by (simp add: tls_inv_def Let_def)
qed

text \<open>A library that always answers yes, and hands out the number of calls made so far.\<close>

definition yes_lib :: tls_lib where
  "yes_lib = \<lparr>tl_result = (\<lambda>h c. case c of CTX_new \<Rightarrow> 10 + int (length h) | SSL_new _ \<Rightarrow> 10 + int (length h)
       | Sys_accept \<Rightarrow> 10 + int (length h) | SSL_read _ _ \<Rightarrow> 0 | SSL_get_error _ _ \<Rightarrow> kZeroReturn | _ \<Rightarrow> 1),
     tl_data = (\<lambda>_. []), tl_error = (\<lambda>_. None), tl_modern = True\<rparr>"

theorem tls_ownership_witness:
  "let st = foldl (tls_step yes_lib) tls_start
       [Initialize setDefaultSSL, Admit, Admit, Read 0 4095, Write 1 ''x'', Close 0, Close 0, Move_assign 0 1,
        Initialize setDefaultSSL, Drop 1, Drop 0]
   in length (ts_history st) = 32 \<and> uses (ts_history (tls_step yes_lib st Cleanup)) = Some nothing"
proof -
  let ?ops = "[Initialize setDefaultSSL, Admit, Admit, Read 0 4095, Write 1 ''x'', Close 0, Close 0, Move_assign 0 1,
        Initialize setDefaultSSL, Drop 1, Drop 0]"
  let ?st = "foldl (tls_step yes_lib) tls_start ?ops"
  have "run_ok op_ok (tls_step yes_lib) tls_start ?ops" by code_simp
  note owned = tls_ownership [OF this, unfolded Let_def]
  have "ts_conns ?st = []" "length (ts_history ?st) = 32" by code_simp+
  with owned show ?thesis unfolding Let_def by blast
qed

section \<open>What a client can negotiate\<close>

instantiation tls_version :: linorder
begin

fun version_rank :: "tls_version \<Rightarrow> nat" where
  "version_rank SSL2 = 0"
| "version_rank SSL3 = 1"
| "version_rank TLS1_0 = 2"
| "version_rank TLS1_1 = 3"
| "version_rank TLS1_2 = 4"
| "version_rank TLS1_3 = 5"

definition less_eq_tls_version :: "tls_version \<Rightarrow> tls_version \<Rightarrow> bool" where
  "less_eq_tls_version a b = (version_rank a \<le> version_rank b)"

definition less_tls_version :: "tls_version \<Rightarrow> tls_version \<Rightarrow> bool" where
  "less_tls_version a b = (version_rank a < version_rank b)"

instance
proof
  fix a b :: tls_version
  show "a \<le> b \<Longrightarrow> b \<le> a \<Longrightarrow> a = b"
    by (cases a; cases b) (simp_all add: less_eq_tls_version_def)
qed (auto simp: less_eq_tls_version_def less_tls_version_def)

end

text \<open>
  The settings of a context, by the documented meaning of the calls that make them: a new context
  allows every version and demands no certificate of the client.
\<close>

record settings =
  se_min :: tls_version
  se_forbidden :: "tls_version list"
  se_verify :: int

definition fresh_settings :: settings where
  "fresh_settings = \<lparr>se_min = SSL2, se_forbidden = [], se_verify = 0\<rparr>"

fun setting :: "pointer \<Rightarrow> tls_call \<times> int \<Rightarrow> settings \<Rightarrow> settings" where
  "setting p (CTX_new, r) s = (if r = p then fresh_settings else s)"
| "setting p (CTX_forbid q vs, r) s = (if q = p then s\<lparr>se_forbidden := vs @ se_forbidden s\<rparr> else s)"
| "setting p (CTX_set_min_proto_version q v, r) s = (if q = p \<and> r = 1 then s\<lparr>se_min := v\<rparr> else s)"
| "setting p (CTX_set_verify q m, r) s = (if q = p then s\<lparr>se_verify := m\<rparr> else s)"
| "setting p (c, r) s = s"

definition settings_of :: "pointer \<Rightarrow> tls_call history \<Rightarrow> settings" where
  "settings_of p h = foldl (\<lambda>s ev. setting p ev s) fresh_settings h"

definition speaks :: "pointer \<Rightarrow> tls_call history \<Rightarrow> tls_version \<Rightarrow> bool" where
  "speaks p h v \<longleftrightarrow> se_min (settings_of p h) \<le> v \<and> v \<notin> set (se_forbidden (settings_of p h))"

lemma check_None: "check lib c f h = (None, h') \<Longrightarrow> h' = h @ [(c, 1)]"
  by (auto simp: check_def call_def Let_def apfst_def map_prod_def split: if_split_asm prod.splits)

lemma and_then_None: "and_then f g h = (None, h') \<Longrightarrow> \<exists>h1. f h = (None, h1) \<and> g h1 = (None, h')"
  by (auto simp: and_then_def split: prod.splits option.splits)

text \<open>C14. The floor of the protocol version: a context that was initialised successfully speaks TLS 1.2
  and 1.3 and nothing older, whatever version the configuration names; it insists on TLS 1.3 exactly
  when the text is "1.3" (and OpenSSL is recent), so any other text, such as "TLSv1.3" or "1.4", is
  accepted silently as 1.2.  And it never asks a client for a certificate: the settings that require
  one or verify the peer reach no call.\<close>

theorem tls_version_floor:
  assumes "initialize_from lib cfg x h = (True, x', h')"
  shows "(speaks (sc_ctx x') h' v \<longleftrightarrow> v = TLS1_3 \<or> v = TLS1_2 \<and> \<not> (tl_modern lib \<and> ssl_tls_version cfg = ''1.3''))
     \<and> se_verify (settings_of (sc_ctx x') h') = 0
     \<and> initialize_from lib (cfg\<lparr>ssl_require_client_cert := b, ssl_verify_peer := b'\<rparr>) x h = (True, x', h')"
proof -
  let ?v = "ssl_tls_version cfg"
  obtain x1 h1 where c: "sc_cleanup lib x h = (x1, h1)" by fastforce
  obtain p h2 where n: "call (tl_result lib) CTX_new h1 = (p, h2)" by (cases "call (tl_result lib) CTX_new h1")
  let ?h3 = "run_call (tl_result lib) (CTX_forbid p [SSL2, SSL3]) h2"
  let ?f = "and_then (set_version lib ?v p) (and_then (set_ciphers lib (ssl_cipher_suite cfg) p)
      (and_then (loadCertificateChain lib (ssl_certificate_file cfg) (ssl_private_key_file cfg) p)
        (loadCaFile lib (ssl_ca_file cfg) p)))"
  have r: "?f ?h3 = (None, h')" and p: "sc_ctx x' = p"
    using assms by (auto simp: initialize_from_def sc_initialize_def c n Let_def split: if_split_asm prod.splits option.splits)
  from and_then_None [OF r] obtain h4 where v: "set_version lib ?v p ?h3 = (None, h4)"
    and r4: "and_then (set_ciphers lib (ssl_cipher_suite cfg) p)
      (and_then (loadCertificateChain lib (ssl_certificate_file cfg) (ssl_private_key_file cfg) p)
        (loadCaFile lib (ssl_ca_file cfg) p)) h4 = (None, h')" by blast
  have later: "settings_of p h' = settings_of p h4"
    using r4 unfolding set_ciphers_def loadCertificateChain_def loadCaFile_def
    by (auto dest!: and_then_None check_None simp: settings_of_def split: if_split_asm)
  have h2: "h2 = h1 @ [(CTX_new, p)]" using n by (auto simp: call_def Let_def)
  define s where "s = fresh_settings\<lparr>se_forbidden := [SSL2, SSL3]\<rparr>"
  have s3: "settings_of p ?h3 = s" by (simp add: settings_of_def run_call_def call_def Let_def h2 s_def fresh_settings_def)
  have "settings_of p h4 = (if tl_modern lib \<and> ?v = ''1.3'' then s\<lparr>se_min := TLS1_3\<rparr>
      else if tl_modern lib \<and> ?v = ''1.2'' then s\<lparr>se_min := TLS1_2\<rparr>
      else s\<lparr>se_forbidden := [SSL2, SSL3, TLS1_0, TLS1_1, SSL2, SSL3]\<rparr>)"
    using v s3 by (auto simp: set_version_def configureMinTlsVersion_def call_def run_call_def Let_def settings_of_def s_def
        split: if_split_asm)
  with later have "settings_of p h' = (if tl_modern lib \<and> ?v = ''1.3'' then s\<lparr>se_min := TLS1_3\<rparr>
      else if tl_modern lib \<and> ?v = ''1.2'' then s\<lparr>se_min := TLS1_2\<rparr>
      else s\<lparr>se_forbidden := [SSL2, SSL3, TLS1_0, TLS1_1, SSL2, SSL3]\<rparr>)" by simp
  moreover have "initialize_from lib (cfg\<lparr>ssl_require_client_cert := b, ssl_verify_peer := b'\<rparr>) = initialize_from lib cfg"
    by (simp add: initialize_from_def fun_eq_iff)
  ultimately show ?thesis
    using assms by (cases v) (simp_all add: speaks_def p s_def fresh_settings_def less_eq_tls_version_def)
qed

theorem tls_version_floor_witness:
  "let st = tls_step yes_lib tls_start (Initialize (setDefaultSSL\<lparr>ssl_tls_version := ''TLSv1.3'', ssl_require_client_cert := True\<rparr>))
   in sc_initialized (ts_ctx st) \<and> speaks (sc_ctx (ts_ctx st)) (ts_history st) TLS1_2
      \<and> \<not> speaks (sc_ctx (ts_ctx st)) (ts_history st) TLS1_1"
proof -
  let ?cfg = "setDefaultSSL\<lparr>ssl_tls_version := ''TLSv1.3'', ssl_require_client_cert := True\<rparr>"
  obtain x' h' where "initialize_from yes_lib ?cfg (ts_ctx tls_start) [] = (True, x', h')"
  proof -
    have "fst (initialize_from yes_lib ?cfg (ts_ctx tls_start) [])" by code_simp
    with that show thesis by (metis prod.collapse)
  qed
  note i = this tls_version_floor [OF this, of TLS1_2] tls_version_floor [OF this, of TLS1_1]
  have "sc_initialized x'" using arg_cong [OF i(1), of "\<lambda>r. sc_initialized (fst (snd r))"] by (simp add: eq_commute) code_simp
  with i show ?thesis by (simp add: tls_start_def Let_def)
qed

end
