(* ===== verification/Session_Tls.thy ===== *)
theory Session_Tls
  imports Session_Runs
begin

text \<open>
  A session over TLS: on which channel its bytes travel.  Until the peer ends the TLS connection
  everything is sent through it; a session that outlives the end goes on in the clear.
\<close>

section \<open>The channel of a step\<close>

text \<open>What is sent goes to the wire, and past TLS exactly if the TLS connection is not open.\<close>

definition carries :: "bool option \<Rightarrow> world \<Rightarrow> world \<Rightarrow> bool" where
  "carries tls w w' \<longleftrightarrow> (\<exists>s. w_wire w' = w_wire w @ s \<and> w_clear w' = w_clear w @ (if tls = Some True then [] else s))"

definition channel :: "RSyncSession \<times> world \<Rightarrow> RSyncSession \<times> world \<Rightarrow> bool" where
  "channel st st' \<longleftrightarrow> sn_ssl (fst st') = sn_ssl (fst st) \<and> carries (sn_ssl (fst st)) (snd st) (snd st')"

lemma carries_refl [simp, intro]: "carries tls w w"
  by (simp add: carries_def)

lemma carries_same [simp]:
  "carries tls w (w\<lparr>w_fs := s\<rparr>)" "carries tls w (w\<lparr>w_auth := a\<rparr>)"
  "carries tls (w\<lparr>w_fs := s\<rparr>) w' = carries tls w w'"
  by (simp_all add: carries_def)

lemma carries_trans: "carries tls a b \<Longrightarrow> carries tls b c \<Longrightarrow> carries tls a c"
  by (auto simp: carries_def)

lemma channel_refl [simp, intro]: "channel st st"
  by (simp add: channel_def)

lemma channel_trans: "channel a b \<Longrightarrow> channel b c \<Longrightarrow> channel a c"
  by (auto simp: channel_def intro: carries_trans)

lemma write_channel: "writeSocket e data sn w = (n, w') \<Longrightarrow> carries (sn_ssl sn) w w'"
  by (auto simp: writeSocket_def carries_def Let_def split: if_split_asm)

lemma response_channel: "writeResponse e response sn w = (b, w') \<Longrightarrow> carries (sn_ssl sn) w w'"
  by (auto simp: writeResponse_def dest: write_channel split: if_split_asm prod.splits)

lemma respond_channel: "respond e response sn w = (b, sn', w') \<Longrightarrow> channel (sn, w) (sn', w')"
  by (auto simp: respond_def channel_def dest: response_channel split: prod.splits)

lemma message_channel:
  assumes "handleProtocolMessage e rnd now message sn w = (r, sn', w')"
  shows "channel (sn, w) (sn', w')"
proof -
  have auth: "channel (s, w) (s', v)" if "handleAuthMessage e rnd now message s w = (x, s', v)" for s s' v x
    using that by (auto simp: handleAuthMessage_def channel_def split: option.splits if_split_asm prod.splits)
  have start: "channel (sn, w) st \<longleftrightarrow> channel (sn\<lparr>sn_current_module := m\<rparr>, w) st" for m st
    by (simp add: channel_def)
  show ?thesis using assms
    by (auto simp: handleProtocolMessage_def Let_def start [of _ "pm_module message"] split: if_split_asm prod.splits
        dest: auth) (simp_all add: channel_def)
qed

lemma upload_channel: "startFileUpload e m p sn w = (b, sn', w') \<Longrightarrow> channel (sn, w) (sn', w')"
  by (auto simp: startFileUpload_def channel_def Let_def split: option.splits if_split_asm prod.splits)

lemma download_channel: "startFileDownload e m p sn w = (b, sn') \<Longrightarrow> sn_ssl sn' = sn_ssl sn"
  by (auto simp: startFileDownload_def Let_def split: option.splits if_split_asm prod.splits bool.splits)

lemma carries_response: "carries t w v \<Longrightarrow> sn_ssl s = t \<Longrightarrow> carries t w (snd (writeResponse e r s v))"
  using response_channel [of e r s v] by (metis carries_trans prod.collapse)

lemma chunk_channel: "sendChunk e sn w = (b, sn', w') \<Longrightarrow> channel (sn, w) (sn', w')"
  by (auto simp: sendChunk_def Let_def channel_def split: option.splits if_split_asm prod.splits
      dest!: write_channel intro!: carries_response)

text \<open>The one event that ends TLS under a session that goes on: the end of the stream during an upload.\<close>

definition upload_ends :: "RSyncSession \<Rightarrow> rx \<Rightarrow> bool" where
  "upload_ends sn r \<longleftrightarrow> sn_state sn = RECEIVING_FILE \<and> received 8192 r = Some []"

lemma read_keeps:
  assumes "readSocket r k sn = (d, n, sn1)" "\<not> (sn_ssl sn = Some True \<and> received k r = Some [])"
  shows "sn1 = sn"
  using assms by (auto simp: readSocket_def split: if_split_asm option.splits)

lemma receive_channel:
  assumes r: "receiveChunk e r sn w = (b, sn', w')" and s: "\<not> (sn_ssl sn = Some True \<and> received 8192 r = Some [])"
  shows "channel (sn, w) (sn', w')"
proof -
  obtain d n sn1 where rd: "readSocket r 8192 sn = (d, n, sn1)" by (cases "readSocket r 8192 sn") auto
  have "sn1 = sn" by (rule read_keeps [OF rd s])
  then show ?thesis
    using r rd by (auto simp: receiveChunk_def Let_def channel_def split: if_split_asm option.splits intro!: carries_response)
qed

lemma serve_channel:
  assumes s: "serveResponse e r message resp sn w = (b, sn', w')"
  shows "channel (sn, w) (sn', w')"
proof -
  have go: "channel (sn, w) (sn', w')" if "channel (sn, w) (sn1, w1)" "sn_state sn1 = SENDING_FILE"
    "continueFileTransfer e r sn1 w1 = (b, sn', w')" for sn1 w1
    using that by (auto simp: continueFileTransfer_def split: prod.splits dest!: chunk_channel intro: channel_trans)
  have up: "channel (sn, w) (sn1, w2) \<and> channel (sn, w) (sn1\<lparr>sn_state := x\<rparr>, w2)"
    if "channel (sn, w) (sn1, w1)" "writeResponse e resp sn1 w1 = (c, w2)" for sn1 w1 w2 c x
    using that carries_response [of _ w w1 sn1 e resp] by (auto simp: channel_def)
  show ?thesis
  proof (cases "contains_sub ''Ready for transfer'' resp \<and> pm_command message = GET")
    case True
    obtain x sn1 where d: "startFileDownload e (pm_module message) (pm_path message) sn w = (x, sn1)" by fastforce
    from download_channel [OF d] have c: "channel (sn, w) (sn1, w)" by (simp add: channel_def)
    have "sn_state sn1 = SENDING_FILE" if "x = Some True"
      using d that by (auto simp: startFileDownload_def Let_def split: option.splits if_split_asm prod.splits bool.splits)
    with s True d c show ?thesis
      by (auto simp: serveResponse_def split: option.splits bool.splits intro: channel_trans go dest: respond_channel)
  next
    case False
    show ?thesis
      using s False
      by (auto simp: serveResponse_def split: option.splits bool.splits if_split_asm prod.splits
          dest!: upload_channel respond_channel intro: channel_trans dest: up)
  qed
qed

text \<open>A step of a worker: the bytes go where the TLS connection's state says, and that state does not change while the session is active.\<close>

lemma worker_channel:
  assumes s: "worker_step e r rnd now (sn, w) = (sn', w')" and t: "\<not> (sn_ssl sn = Some True \<and> upload_ends sn r)"
  shows "carries (sn_ssl sn) w w' \<and> (sn_active sn' \<longrightarrow> sn_ssl sn' = sn_ssl sn)
       \<and> (sn_ssl sn' = Some True \<longrightarrow> sn_ssl sn = Some True)"
proof (cases "sn_active sn")
  case False
  with s show ?thesis by (simp add: worker_state)
next
  case act: True
  obtain b sn1 where p: "processRequest e r rnd now sn w = (b, sn1, w')" and sn': "sn' = (if b = Some True then sn1 else sn_close sn1)"
    using s act by (auto simp: worker_state split: prod.splits)
  have close: "sn_active (sn_close sn1) \<Longrightarrow> sn_ssl (sn_close sn1) = sn_ssl sn1"
    "sn_ssl (sn_close sn1) = Some True \<Longrightarrow> sn_ssl sn1 = Some True"
    "sn_active (sn_close sn1) \<Longrightarrow> sn_active sn1"
    by (auto simp: sn_close_def split: option.splits if_split_asm)
  have "channel (sn, w) (sn1, w') \<or> w' = w \<and> \<not> sn_active sn1 \<and> (sn_ssl sn1 = Some True \<longrightarrow> sn_ssl sn = Some True)"
  proof (cases "sn_state sn = IDLE")
    case False
    with p act have "continueFileTransfer e r sn w = (b, sn1, w')" by (simp add: processRequest_def)
    with t show ?thesis
      by (auto simp: continueFileTransfer_def upload_ends_def split: TransferState.splits prod.splits
          dest: chunk_channel receive_channel)
  next
    case True
    have start: "channel (sn\<lparr>sn_parser := v\<rparr>, w) st \<Longrightarrow> channel (sn, w) st" for v st by (simp add: channel_def)
    show ?thesis
    proof (cases rule: request_cases [OF p act True])
      case (2 v resp)
      then show ?thesis by (auto dest: respond_channel start)
    next
      case (3 v message)
      then show ?thesis by (auto dest: message_channel start)
    next
      case (4 v message resp sn2 w2)
      then show ?thesis by (auto dest!: message_channel serve_channel start intro: channel_trans)
    qed auto
  qed
  then show ?thesis
  proof
    assume "channel (sn, w) (sn1, w')"
    with close show ?thesis unfolding sn' channel_def by (cases "b = Some True") simp_all
  next
    assume "w' = w \<and> \<not> sn_active sn1 \<and> (sn_ssl sn1 = Some True \<longrightarrow> sn_ssl sn = Some True)"
    with close show ?thesis unfolding sn' by (cases "b = Some True") auto
  qed
qed

section \<open>Runs\<close>

definition worker_event :: "'k env \<Rightarrow> RSyncSession \<times> world \<Rightarrow> request_event \<Rightarrow> RSyncSession \<times> world" where
  "worker_event e st ev = (case ev of (r, rnd, now) \<Rightarrow> worker_step e r rnd now st)"

definition keeps_stream :: "RSyncSession \<times> world \<Rightarrow> request_event \<Rightarrow> bool" where
  "keeps_stream st ev \<longleftrightarrow> \<not> upload_ends (fst st) (fst ev)"

definition encrypted :: "string \<Rightarrow> RSyncSession \<times> world \<Rightarrow> bool" where
  "encrypted c st \<longleftrightarrow> (sn_active (fst st) \<longrightarrow> sn_ssl (fst st) = Some True) \<and> w_clear (snd st) = c"

definition unencrypted :: "world \<Rightarrow> RSyncSession \<times> world \<Rightarrow> bool" where
  "unencrypted w0 st \<longleftrightarrow> sn_ssl (fst st) \<noteq> Some True \<and> carries None w0 (snd st)"

lemma worker_run_event: "worker_run e evs st = foldl (worker_event e) st evs"
proof -
  have "(\<lambda>st (r, rnd, now). worker_step e r rnd now st) = worker_event e"
    by (simp add: worker_event_def fun_eq_iff)
  then show ?thesis by (simp add: worker_run_def)
qed

interpretation over_tls: guarded_machine "worker_event e" keeps_stream "encrypted c" for e c
proof
  fix st ev
  assume a: "encrypted c st" "keeps_stream st ev"
  obtain r rnd now where ev: "ev = (r, rnd, now)" by (cases ev) auto
  obtain sn w where st: "st = (sn, w)" by (cases st)
  obtain sn' w' where s: "worker_step e r rnd now (sn, w) = (sn', w')" by (cases "worker_step e r rnd now (sn, w)")
  show "encrypted c (worker_event e st ev)"
  proof (cases "sn_active sn")
    case False
    with a show ?thesis by (simp add: worker_event_def ev st worker_state)
  next
    case True
    with a have t: "sn_ssl sn = Some True" "w_clear w = c" "\<not> upload_ends sn r"
      by (simp_all add: encrypted_def keeps_stream_def st ev)
    with worker_channel [OF s] have "w_clear w' = c" "sn_active sn' \<longrightarrow> sn_ssl sn' = Some True"
      by (auto simp: carries_def)
    then show ?thesis by (simp add: worker_event_def ev st s encrypted_def)
  qed
qed

interpretation past_tls: guarded_machine "worker_event e" "\<lambda>_ _. True" "unencrypted w0" for e w0
proof
  fix st and ev :: request_event
  assume a: "unencrypted w0 st"
  obtain r rnd now where ev: "ev = (r, rnd, now)" by (cases ev) auto
  obtain sn w where st: "st = (sn, w)" by (cases st)
  obtain sn' w' where s: "worker_step e r rnd now (sn, w) = (sn', w')" by (cases "worker_step e r rnd now (sn, w)")
  from a have t: "sn_ssl sn \<noteq> Some True" and c: "carries None w0 w" by (simp_all add: unencrypted_def st)
  have other: "carries (sn_ssl sn) w w' = carries None w w'" using t by (simp add: carries_def)
  have "carries (sn_ssl sn) w w'" "sn_ssl sn' \<noteq> Some True" using t worker_channel [OF s] by blast+
  then have "sn_ssl sn' \<noteq> Some True" "carries None w w'" unfolding other by blast+
  with carries_trans [OF c] show "unencrypted w0 (worker_event e st ev)"
    by (simp add: worker_event_def ev st s unencrypted_def)
qed

text \<open>C3. Over TLS nothing is sent in the clear as long as no upload ends: in every run of a session whose
  TLS connection is open at the start and in which the client does not end the stream during an
  upload, the bytes sent outside TLS stay what they were, and if the session is still active its TLS
  connection is open.\<close>

theorem tls_keeps_secrets:
  assumes "sn_ssl sn = Some True" "run_ok keeps_stream (worker_event e) (sn, w) evs"
  shows "case worker_run e evs (sn, w) of (sn', w') \<Rightarrow>
     w_clear w' = w_clear w \<and> (sn_active sn' \<longrightarrow> sn_ssl sn' = Some True)"
  using over_tls.inv_run [where c = "w_clear w", OF _ assms(2)] assms(1)
  by (simp add: worker_run_event encrypted_def case_prod_unfold)

definition tls_session :: RSyncSession where
  "tls_session = new_RSyncSession ''10.0.0.1'' None (Some True)"

theorem tls_keeps_secrets_witness:
  "let (sn', w') = worker_run (demo_env full)
         [(Bytes (''GET m a.txt'' @ endl), ([], []), 0), (Bytes (''PUT m b'' @ endl), ([], []), 1), (Bytes ''xy'', ([], []), 2)]
         (tls_session, demo_world demo_fs None)
   in w_clear w' = [] \<and> w_wire w' \<noteq> [] \<and> sn_state sn' = RECEIVING_FILE"
proof -
  let ?evs = "[(Bytes (''GET m a.txt'' @ endl), ([], []), 0), (Bytes (''PUT m b'' @ endl), ([], []), 1), (Bytes ''xy'', ([], []), 2)]"
  let ?st = "(tls_session, demo_world demo_fs None)"
  have "sn_ssl tls_session = Some True" "run_ok keeps_stream (worker_event (demo_env full)) ?st ?evs" by code_simp+
  note k = tls_keeps_secrets [OF this]
  have "w_wire (snd (worker_run (demo_env full) ?evs ?st)) \<noteq> []
    \<and> sn_state (fst (worker_run (demo_env full) ?evs ?st)) = RECEIVING_FILE" by code_simp
  with k show ?thesis by (simp add: demo_world_def split: prod.splits)
qed

text \<open>C4. The end of an upload turns TLS off: when the client ends the stream of an upload over TLS, the
  confirmation is sent in the clear, and the session stays active, logged in as before, on the bare
  socket: every later request is read from it and everything the session ever sends again is sent in
  the clear.  Whoever can write to the connection can go on in the client's name.\<close>

theorem upload_end_drops_tls:
  assumes "receiving sn w q c" "full_sends e"
  shows "case worker_step e Eof rnd now (sn, w) of (sn1, w1) \<Rightarrow>
     w_clear w1 = w_clear w @ upload_msg \<and> sn_active sn1 \<and> sn_socket_open sn1 \<and> sn_state sn1 = IDLE
     \<and> sn_ssl sn1 \<noteq> Some True \<and> sn_authenticated_user sn1 = sn_authenticated_user sn
     \<and> (\<forall>evs. case worker_run e evs (sn1, w1) of (sn2, w2) \<Rightarrow>
           sn_ssl sn2 \<noteq> Some True \<and> (\<exists>s. w_wire w2 = w_wire w1 @ s \<and> w_clear w2 = w_clear w1 @ s))"
proof -
  obtain sn1 w1 where st: "worker_step e Eof rnd now (sn, w) = (sn1, w1)" by (cases "worker_step e Eof rnd now (sn, w)")
  note last = receiving_end [OF assms, of rnd now, unfolded st prod.case]
  then have u: "unencrypted w1 (sn1, w1)" by (auto simp: unencrypted_def)
  have "unencrypted w1 (worker_run e evs (sn1, w1))" for evs
    unfolding worker_run_event by (rule past_tls.inv_run [OF u run_ok_always])
  then have "sn_ssl (fst (worker_run e evs (sn1, w1))) \<noteq> Some True
      \<and> (\<exists>s. w_wire (snd (worker_run e evs (sn1, w1))) = w_wire w1 @ s \<and> w_clear (snd (worker_run e evs (sn1, w1))) = w_clear w1 @ s)" for evs
    by (simp add: unencrypted_def carries_def)
  with last u show ?thesis by (simp add: st case_prod_unfold unencrypted_def)
qed

definition alice :: RSyncSession where
  "alice = demo_receiving\<lparr>sn_ssl := Some True, sn_authenticated_user := ''alice''\<rparr>"

theorem upload_end_drops_tls_witness:
  "let w = demo_world (set_node [''srv'', ''mod'', ''a.txt.tmp''] (File []) demo_fs) None;
       (sn1, w1) = worker_step (demo_env full) Eof ([], []) 0 (alice, w);
       (sn2, w2) = worker_step (demo_env full) (Bytes (''GET m a.txt'' @ endl)) ([], []) 1 (sn1, w1)
   in w_clear w1 = upload_msg \<and> sn_authenticated_user sn1 = ''alice''
      \<and> w_clear w2 = upload_msg @ ''hello'' @ complete_msg"
proof -
  let ?w = "demo_world (set_node [''srv'', ''mod'', ''a.txt.tmp''] (File []) demo_fs) None"
  have rec: "receiving alice ?w [''srv'', ''mod'', ''a.txt.tmp''] []"
    by (simp add: receiving_def alice_def demo_receiving_def demo_session_def new_RSyncSession_def demo_world_def
        node_at_set_node)
  have "full_sends (demo_env full)" by (simp add: full_sends_def demo_env_def full_def)
  note u = upload_end_drops_tls [OF rec this, of "([], [])" 0]
  have "sn_authenticated_user alice = ''alice''" "w_clear ?w = []" by code_simp+
  moreover have "w_clear (snd (worker_step (demo_env full) (Bytes (''GET m a.txt'' @ endl)) ([], []) 1
      (worker_step (demo_env full) Eof ([], []) 0 (alice, ?w)))) = upload_msg @ ''hello'' @ complete_msg" by code_simp
  ultimately show ?thesis using u by (simp add: Let_def case_prod_unfold)
qed

end
