(* ===== verification/Tls_Session.thy ===== *)
theory Tls_Session
  imports Tls_Facts Session_Tls
begin

text \<open>
  The session's model of its TLS connection, which is one bit and an event per read, is an
  abstraction of the class \<open>SSLConnection\<close> over OpenSSL.
\<close>

text \<open>The session holds the connection: both agree on whether TLS and the socket are open.\<close>

definition abstracts :: "RSyncSession \<Rightarrow> SSLConnection \<Rightarrow> bool" where
  "abstracts sn c \<longleftrightarrow> sn_ssl sn = Some (cx_open c) \<and> (sn_socket_open sn \<longleftrightarrow> cx_fd c \<ge> 0) \<and> (cx_open c \<longrightarrow> cx_ssl c \<noteq> 0)"

text \<open>The event of the session's model that a read of the connection amounts to.\<close>

definition read_event :: "tls_lib \<Rightarrow> size_t \<Rightarrow> SSLConnection \<Rightarrow> tls_call history \<Rightarrow> rx" where
  "read_event lib n c h =
     (case cx_read lib n c h of
        (d, k, c', h') \<Rightarrow> if k > 0 then Bytes d else if k = 0 then Eof else ReadError)"

text \<open>As documented, \<open>SSL_read\<close> yields at most as many bytes as it is asked for.\<close>

definition reads_fit :: "tls_lib \<Rightarrow> bool" where
  "reads_fit lib \<longleftrightarrow> (\<forall>h s m. tl_result lib h (SSL_read s m) \<le> max 0 (sint m)
      \<and> nat (tl_result lib h (SSL_read s m)) \<le> length (tl_data lib h))"

lemma sint_length: "unat (n :: size_t) < 2 ^ 31 \<Longrightarrow> sint (ucast n :: 32 word) = int (unat n)"
proof -
  assume "unat n < 2 ^ 31"
  then have "int (unat n) < int (2 ^ 31)" by (simp only: of_nat_less_iff)
  then have "uint n < 2 ^ 31" by simp
  moreover have "sint (ucast n :: 32 word) = signed_take_bit 31 (uint n)" by (simp add: signed_ucast_eq)
  moreover have "- (2 ^ 31) \<le> uint n" by (rule order_trans [OF _ uint_ge_0]) simp
  ultimately show ?thesis using signed_take_bit_int_eq_self [of 31 "uint n"] by simp
qed

text \<open>C26. The session's model of TLS is faithful to the class: while a session holds a connection, a read
  of the session is a read of the connection (the same bytes, the same result, and afterwards both
  hold TLS open or both have seen its end), a write sends what \<open>SSL_write\<close> accepts, outside the clear,
  and returns what the connection returns, and closing the session closes the connection and its
  socket.\<close>

theorem tls_session_refines:
  assumes "abstracts sn c" "cx_open c"
  shows "(reads_fit lib \<and> unat n < 2 ^ 31 \<and> cx_read lib n c h = (d, k, c', h') \<longrightarrow>
      (\<exists>sn'. readSocket (read_event lib n c h) (unat n) sn = (d, k, sn') \<and> abstracts sn' c'))
    \<and> (e_send e (w_sends w) (length data)
           = tl_result lib h (SSL_write (cx_ssl c) data (ucast (word_of_nat (length data) :: size_t))) \<longrightarrow>
      fst (writeSocket e data sn w) = fst (cx_write lib data c h) \<and> w_clear (snd (writeSocket e data sn w)) = w_clear w)
    \<and> abstracts (sn_close sn) (fst (cx_close lib c h))"
proof -
  have c: "cx_ssl c \<noteq> 0" "sn_ssl sn = Some True" using assms by (auto simp: abstracts_def)
  have "\<exists>sn'. readSocket (read_event lib n c h) (unat n) sn = (d, k, sn') \<and> abstracts sn' c'"
    if fit: "reads_fit lib" and n: "unat n < 2 ^ 31" and r: "cx_read lib n c h = (d, k, c', h')"
  proof -
    let ?r = "tl_result lib h (SSL_read (cx_ssl c) (ucast n))"
    have b: "?r \<le> int (unat n)" "nat ?r \<le> length (tl_data lib h)"
      using fit sint_length [OF n] unfolding reads_fit_def by (metis max_def of_nat_0_le_iff) (use fit in \<open>simp add: reads_fit_def\<close>)
    then have fits: "nat ?r \<le> unat n" by linarith
    show ?thesis
    proof (cases "?r > 0")
      case True
      then have "d = take (nat ?r) (tl_data lib h)" "k = ?r" "c' = c"
        using r assms(2) c by (auto simp: cx_read_def call_def Let_def)
      moreover from this have "length d = nat ?r" "d \<noteq> []" "take (unat n) d = d" using True b(2) fits by (auto simp: min_absorb2)
      ultimately show ?thesis
        using True c assms r by (simp add: readSocket_def read_event_def received_def)
    next
      case False
      then have "d = []" "k = 0 \<and> c' = c\<lparr>cx_open := False\<rparr> \<or> k = -1 \<and> c' = c"
        using r assms(2) c by (auto simp: cx_read_def call_def Let_def split: if_split_asm)
      then show ?thesis
        using c assms r by (auto simp: readSocket_def read_event_def received_def abstracts_def)
    qed
  qed
  moreover have "fst (writeSocket e data sn w) = fst (cx_write lib data c h) \<and> w_clear (snd (writeSocket e data sn w)) = w_clear w"
    if "e_send e (w_sends w) (length data)
           = tl_result lib h (SSL_write (cx_ssl c) data (ucast (word_of_nat (length data) :: size_t)))"
    using that c assms(2) by (auto simp: writeSocket_def cx_write_def call_def Let_def)
  moreover have "abstracts (sn_close sn) (fst (cx_close lib c h))"
    using c by (simp add: abstracts_def sn_close_def cx_close_def Let_def)
  ultimately show ?thesis by blast
qed

definition hello_lib :: tls_lib where
  "hello_lib = yes_lib\<lparr>tl_result := (\<lambda>h c. case c of SSL_read _ m \<Rightarrow> min 5 (max 0 (sint m)) | _ \<Rightarrow> 1),
     tl_data := (\<lambda>_. ''hello'')\<rparr>"

theorem tls_session_refines_witness:
  "\<exists>sn'. readSocket (read_event hello_lib 4 (new_SSLConnection 7 5) []) 4 tls_session = (''hell'', 4, sn')
     \<and> abstracts sn' (new_SSLConnection 7 5)"
proof -
  let ?c = "new_SSLConnection 7 5"
  have a: "abstracts tls_session ?c" "cx_open ?c" by code_simp+
  have fit: "reads_fit hello_lib" by (auto simp: reads_fit_def hello_lib_def)
  have n: "unat (4 :: size_t) = 4" by simp
  obtain h' where r: "cx_read hello_lib 4 ?c [] = (''hell'', 4, ?c, h')"
  proof -
    have "case cx_read hello_lib 4 ?c [] of (d, k, c', h') \<Rightarrow> d = ''hell'' \<and> k = 4 \<and> c' = ?c" by code_simp
    with that show thesis by (auto split: prod.splits)
  qed
  note t = tls_session_refines [where sn = tls_session and c = ?c and lib = hello_lib and n = 4 and h = "[]"
      and d = "''hell''" and k = 4 and c' = ?c and h' = h', OF a]
  have "reads_fit hello_lib \<and> unat (4 :: size_t) < 2 ^ 31 \<and> cx_read hello_lib 4 ?c [] = (''hell'', 4, ?c, h')"
    using fit r by simp
  from mp [OF conjunct1 [OF t] this] show ?thesis unfolding n .
qed

end
