(* ===== verification/Config.thy ===== *)
theory Config
  imports Config_Data Module
begin

text \<open>
  The configuration and its INI loader, from \<open>src/simple-rsyncd/config/config.cpp\<close>: defaults,
  environment variables in values, lines and sections, validation, reloading.

  \<open>env\<close> is \<open>getenv\<close>.  A method that a \<open>filesystem_error\<close> may leave returns an optional result
  beside the configuration it leaves.  \<open>last_modified\<close>, a clock reading nothing reads, is not kept.
\<close>

record Configuration =
  c_ssl :: SSLConfig
  c_auth :: AuthConfig
  c_access :: AccessConfig
  c_rate_limit :: RateLimitConfig
  c_log :: LogConfig
  c_network :: NetworkConfig
  c_security :: SecurityConfig
  c_performance :: PerformanceConfig
  c_monitoring :: MonitoringConfig
  c_modules :: "(string, ModuleConfig) std_map"
  c_pid_file :: string
  c_state_file :: string
  c_config_file :: string
  c_working_directory :: string
  c_daemonize :: bool
  c_user :: string
  c_group :: string
  c_umask :: string
  c_verbose :: bool
  c_debug :: bool
  c_version :: string
  c_config_file_path :: string
  c_auto_reload :: bool
  c_reload_interval :: int
  c_errors :: "string list"
  c_is_valid :: bool
  c_has_changed :: bool

definition new_Configuration :: Configuration where
  "new_Configuration =
     \<lparr>c_ssl = setDefaultSSL, c_auth = setDefaultAuth default_AuthConfig, c_access = setDefaultAccess,
      c_rate_limit = setDefaultRateLimit, c_log = setDefaultLog, c_network = setDefaultNetwork,
      c_security = setDefaultSecurity, c_performance = setDefaultPerformance,
      c_monitoring = setDefaultMonitoring, c_modules = [], c_pid_file = [], c_state_file = [],
      c_config_file = [], c_working_directory = [], c_daemonize = False, c_user = [], c_group = [],
      c_umask = [], c_verbose = False, c_debug = False, c_version = ''0.3.0'', c_config_file_path = [],
      c_auto_reload = False, c_reload_interval = 30, c_errors = [], c_is_valid = False,
      c_has_changed = False\<rparr>"

section \<open>Environment variables\<close>

definition find_sub_from :: "string \<Rightarrow> string \<Rightarrow> nat \<Rightarrow> nat option" where
  "find_sub_from pat s pos = map_option ((+) pos) (find_sub pat (drop pos s))"

text \<open>\<open>s.replace(pos, n, by)\<close>.\<close>

definition replace_at :: "string \<Rightarrow> nat \<Rightarrow> nat \<Rightarrow> string \<Rightarrow> string" where
  "replace_at s pos n by = take pos s @ by @ drop (pos + n) s"

text \<open>What stands between the braces: a name, or a name and a default.\<close>

definition split_default :: "string \<Rightarrow> string \<times> string" where
  "split_default var_name =
     (case find_char (CHR '':'') var_name of
        None \<Rightarrow> (var_name, [])
      | Some colon_pos \<Rightarrow> (take colon_pos var_name, drop (colon_pos + 1) var_name))"

definition brace_value :: "(string \<Rightarrow> string option) \<Rightarrow> string \<Rightarrow> string option" where
  "brace_value env reference =
     (let (var_name, default_value) = split_default reference
      in case env (c_str var_name) of
           Some env_value \<Rightarrow> Some (c_str env_value)
         | None \<Rightarrow> if default_value \<noteq> [] then Some default_value else None)"

lemma find_sub_bound: "find_sub pat s = Some i \<Longrightarrow> i + length pat \<le> length s"
proof (induction s arbitrary: i)
  case (Cons x xs)
  then show ?case
    by (auto simp: starts_with_iff split: if_splits dest!: arg_cong [of _ "_ @ _" length])
qed (auto split: if_splits)

lemma find_sub_from_bound: "find_sub_from pat s pos = Some i \<Longrightarrow> pos \<le> i \<and> (pat \<noteq> [] \<longrightarrow> i + length pat \<le> length s)"
  unfolding find_sub_from_def by (cases "pos \<le> length s") (auto dest!: find_sub_bound split: if_splits)

lemma find_char_from_bound: "find_char_from c s pos = Some i \<Longrightarrow> pos \<le> i \<and> i < length s"
  by (auto simp: find_char_from_def dest: find_char_SomeD)

text \<open>The loop over \<open>${NAME}\<close> and \<open>${NAME:default}\<close>.\<close>

function brace_loop :: "(string \<Rightarrow> string option) \<Rightarrow> string \<Rightarrow> nat \<Rightarrow> string" where
  "brace_loop env result start_pos =
     (case find_sub_from ''${'' result start_pos of
        None \<Rightarrow> result
      | Some start_pos \<Rightarrow>
          (case find_char_from (CHR ''}'') result (start_pos + 2) of
             None \<Rightarrow> result
           | Some end_pos \<Rightarrow>
               (case brace_value env (substr result (start_pos + 2) (end_pos - start_pos - 2)) of
                  None \<Rightarrow> brace_loop env result (end_pos + 1)
                | Some var_value \<Rightarrow>
                    brace_loop env (replace_at result start_pos (end_pos - start_pos + 1) var_value)
                      (start_pos + length var_value))))"
  by pat_completeness auto
termination
  by (relation "measure (\<lambda>(env, result, start_pos). length result - start_pos)")
     (auto simp: replace_at_def dest!: find_sub_from_bound find_char_from_bound)

declare brace_loop.simps [simp del]

text \<open>The loop over \<open>$NAME\<close>.\<close>

definition name_char :: "char \<Rightarrow> bool" where
  "name_char c \<longleftrightarrow> isalnum c \<or> c = CHR ''_''"

function dollar_loop :: "(string \<Rightarrow> string option) \<Rightarrow> string \<Rightarrow> nat \<Rightarrow> string" where
  "dollar_loop env result start_pos =
     (case find_char_from (CHR ''$'') result start_pos of
        None \<Rightarrow> result
      | Some start_pos \<Rightarrow>
          if start_pos + 1 \<ge> length result then result
          else if result ! (start_pos + 1) = CHR ''{'' then dollar_loop env result (start_pos + 2)
          else
            let var_name = takeWhile name_char (drop (start_pos + 1) result);
                var_end = start_pos + 1 + length var_name
            in if var_name \<noteq> [] then
                 (case env var_name of
                    Some env_value \<Rightarrow>
                      dollar_loop env (replace_at result start_pos (var_end - start_pos) (c_str env_value))
                        (start_pos + length (c_str env_value))
                  | None \<Rightarrow> dollar_loop env result var_end)
               else dollar_loop env result (start_pos + 1))"
  by pat_completeness auto
termination
  by (relation "measure (\<lambda>(env, result, start_pos). length result - start_pos)")
     (auto simp: replace_at_def dest!: find_char_from_bound)

declare dollar_loop.simps [simp del]

definition substituteEnvironmentVariables :: "(string \<Rightarrow> string option) \<Rightarrow> string \<Rightarrow> string" where
  "substituteEnvironmentVariables env v = dollar_loop env (brace_loop env v 0) 0"

section \<open>Numbers\<close>

text \<open>
  \<open>std::stoul\<close>: like \<^const>\<open>stoi\<close> for 64-bit unsigned values; a minus sign negates modulo 2^64.
\<close>

definition stoul :: "string \<Rightarrow> size_t option" where
  "stoul s = (case scan_int s of None \<Rightarrow> None
              | Some i \<Rightarrow> if \<bar>i\<bar> < 2 ^ 64 then Some (word_of_int i) else None)"

definition truth_value :: "string \<Rightarrow> bool" where
  "truth_value value \<longleftrightarrow> value = ''true'' \<or> value = ''1'' \<or> value = ''yes''"

section \<open>Keys\<close>

definition push_error :: "string \<Rightarrow> Configuration \<Rightarrow> Configuration" where
  "push_error message cfg = cfg\<lparr>c_errors := c_errors cfg @ [message]\<rparr>"

definition parseGlobalConfig :: "string \<Rightarrow> string \<Rightarrow> Configuration \<Rightarrow> Configuration" where
  "parseGlobalConfig key value cfg =
     (let ssl = c_ssl cfg; auth = c_auth cfg; net = c_network cfg; log = c_log cfg; sec = c_security cfg
      in if key = ''bind_address'' \<or> key = ''address'' then cfg\<lparr>c_network := net\<lparr>net_bind_address := value\<rparr>\<rparr>
      else if key = ''bind_port'' \<or> key = ''port'' then
        (case stoul value of
           None \<Rightarrow> push_error (''Invalid port value: '' @ value) cfg
         | Some n \<Rightarrow> cfg\<lparr>c_network := net\<lparr>net_bind_port := ucast n\<rparr>\<rparr>)
      else if key = ''max_connections'' then
        (case stoul value of
           None \<Rightarrow> push_error (''Invalid max_connections value: '' @ value) cfg
         | Some n \<Rightarrow> cfg\<lparr>c_network := net\<lparr>net_max_connections := n\<rparr>\<rparr>)
      else if key = ''ssl_enabled'' then cfg\<lparr>c_ssl := ssl\<lparr>ssl_enabled := truth_value value\<rparr>\<rparr>
      else if key = ''ssl_certificate_file'' \<or> key = ''ssl_cert'' then
        cfg\<lparr>c_ssl := ssl\<lparr>ssl_certificate_file := value\<rparr>\<rparr>
      else if key = ''ssl_private_key_file'' \<or> key = ''ssl_key'' then
        cfg\<lparr>c_ssl := ssl\<lparr>ssl_private_key_file := value\<rparr>\<rparr>
      else if key = ''ssl_ca_file'' \<or> key = ''ssl_ca'' then cfg\<lparr>c_ssl := ssl\<lparr>ssl_ca_file := value\<rparr>\<rparr>
      else if key = ''auth_enabled'' then cfg\<lparr>c_auth := auth\<lparr>auth_enabled := truth_value value\<rparr>\<rparr>
      else if key = ''auth_method'' then cfg\<lparr>c_auth := auth\<lparr>auth_method := value\<rparr>\<rparr>
      else if key = ''auth_password_file'' \<or> key = ''password_file'' then
        cfg\<lparr>c_auth := auth\<lparr>auth_password_file := value\<rparr>\<rparr>
      else if key = ''auth_public_key_file'' \<or> key = ''public_key_file'' then
        cfg\<lparr>c_auth := auth\<lparr>auth_public_key_file := value\<rparr>\<rparr>
      else if key = ''auth_realm'' then cfg\<lparr>c_auth := auth\<lparr>auth_realm := value\<rparr>\<rparr>
      else if key = ''auth_anonymous_access'' \<or> key = ''anonymous_access'' then
        cfg\<lparr>c_auth := auth\<lparr>auth_anonymous_access := truth_value value\<rparr>\<rparr>
      else if key = ''reject_plaintext_passwords'' then
        cfg\<lparr>c_auth := auth\<lparr>auth_reject_plaintext_passwords := truth_value value\<rparr>\<rparr>
      else if key = ''log_level'' \<or> key = ''log'' then cfg\<lparr>c_log := log\<lparr>lc_level := value\<rparr>\<rparr>
      else if key = ''log_file'' then cfg\<lparr>c_log := log\<lparr>lc_file := value, lc_file_output := True\<rparr>\<rparr>
      else if key = ''pid_file'' then cfg\<lparr>c_pid_file := value\<rparr>
      else if key = ''user'' then cfg\<lparr>c_user := value, c_security := sec\<lparr>sec_user := value\<rparr>\<rparr>
      else if key = ''group'' then cfg\<lparr>c_group := value, c_security := sec\<lparr>sec_group := value\<rparr>\<rparr>
      else cfg)"

definition module_key :: "string \<Rightarrow> string \<Rightarrow> ModuleConfig \<Rightarrow> ModuleConfig" where
  "module_key key value module =
     (if key = ''path'' then module\<lparr>mc_path := value\<rparr>
      else if key = ''comment'' then module\<lparr>mc_comment := value\<rparr>
      else if key = ''read_only'' \<or> key = ''read only'' then module\<lparr>mc_read_only := truth_value value\<rparr>
      else if key = ''list'' then module\<lparr>mc_list := truth_value value\<rparr>
      else if key = ''delete'' then module\<lparr>mc_allow_delete := truth_value value\<rparr>
      else if key = ''overwrite'' then module\<lparr>mc_overwrite := truth_value value\<rparr>
      else if key = ''exclude'' then module\<lparr>mc_exclude_patterns := mc_exclude_patterns module @ [value]\<rparr>
      else if key = ''include'' then module\<lparr>mc_include_patterns := mc_include_patterns module @ [value]\<rparr>
      else if key = ''pre_transfer_script'' \<or> key = ''pre-transfer-script'' then
        module\<lparr>mc_pre_transfer_script := value\<rparr>
      else if key = ''post_transfer_script'' \<or> key = ''post-transfer-script'' then
        module\<lparr>mc_post_transfer_script := value\<rparr>
      else if key = ''pre_delete_script'' \<or> key = ''pre-delete-script'' then
        module\<lparr>mc_pre_delete_script := value\<rparr>
      else if key = ''post_delete_script'' \<or> key = ''post-delete-script'' then
        module\<lparr>mc_post_delete_script := value\<rparr>
      else if key = ''pre_list_script'' \<or> key = ''pre-list-script'' then
        module\<lparr>mc_pre_list_script := value\<rparr>
      else if key = ''post_list_script'' \<or> key = ''post-list-script'' then
        module\<lparr>mc_post_list_script := value\<rparr>
      else module\<lparr>mc_custom_options := std_insert key value (mc_custom_options module)\<rparr>)"

text \<open>\<open>modules[name]\<close>, created when it does not exist.\<close>

definition ensure_module :: "string \<Rightarrow> (string, ModuleConfig) std_map \<Rightarrow> (string, ModuleConfig) std_map" where
  "ensure_module name modules =
     (if std_find modules name = None then std_insert name default_ModuleConfig modules else modules)"

definition parseModuleConfig :: "string \<Rightarrow> string \<Rightarrow> string \<Rightarrow> Configuration \<Rightarrow> Configuration" where
  "parseModuleConfig module_name key value cfg =
     (let modules = ensure_module module_name (c_modules cfg)
      in cfg\<lparr>c_modules := std_insert module_name
               (module_key key value (the (std_find modules module_name))) modules\<rparr>)"

section \<open>Lines\<close>

text \<open>The loop variables of \<open>loadFromFile\<close>.\<close>

record ini_state =
  ini_cfg :: Configuration
  ini_section :: string
  ini_in_module :: bool
  ini_module :: string
  ini_line_number :: int

definition unquote :: "string \<Rightarrow> string" where
  "unquote value =
     (if value \<noteq> [] \<and> (hd value = CHR 0x22 \<and> last value = CHR 0x22
                       \<or> hd value = CHR 0x27 \<and> last value = CHR 0x27)
      then take (length value - 2) (drop 1 value) else value)"

definition ini_header :: "string \<Rightarrow> ini_state \<Rightarrow> ini_state" where
  "ini_header section st =
     (if section = ''global'' then st\<lparr>ini_section := ''global'', ini_in_module := False\<rparr>
      else if starts_with ''module:'' section then
        st\<lparr>ini_module := drop 7 section, ini_section := ''module'', ini_in_module := True,
           ini_cfg := (ini_cfg st)\<lparr>c_modules := ensure_module (drop 7 section) (c_modules (ini_cfg st))\<rparr>\<rparr>
      else st\<lparr>ini_section := section, ini_in_module := False\<rparr>)"

definition ini_assign :: "string \<Rightarrow> string \<Rightarrow> ini_state \<Rightarrow> ini_state" where
  "ini_assign key value st =
     (if ini_section st = ''global'' \<or> ini_section st = [] then
        st\<lparr>ini_cfg := parseGlobalConfig key value (ini_cfg st)\<rparr>
      else if ini_in_module st \<and> ini_section st = ''module'' then
        st\<lparr>ini_cfg := parseModuleConfig (ini_module st) key value (ini_cfg st)\<rparr>
      else st)"

definition ini_line :: "(string \<Rightarrow> string option) \<Rightarrow> ini_state \<Rightarrow> string \<Rightarrow> ini_state" where
  "ini_line env st raw_line =
     (let st = st\<lparr>ini_line_number := ini_line_number st + 1\<rparr>;
          line = trim raw_line
      in if line = [] \<or> hd line = CHR ''#'' \<or> hd line = CHR '';'' then st
         else if hd line = CHR ''['' \<and> last line = CHR '']'' then
           ini_header (trim (take (length line - 2) (drop 1 line))) st
         else case find_char (CHR ''='') line of
           None \<Rightarrow> st\<lparr>ini_cfg := push_error
                     (''Invalid line '' @ show_int (ini_line_number st) @ '': '' @ line) (ini_cfg st)\<rparr>
         | Some eq_pos \<Rightarrow>
             ini_assign (trim (take eq_pos line))
               (substituteEnvironmentVariables env (unquote (trim (drop (eq_pos + 1) line)))) st)"

definition ini_start :: "Configuration \<Rightarrow> ini_state" where
  "ini_start cfg = \<lparr>ini_cfg = cfg, ini_section = [], ini_in_module = False, ini_module = [],
                    ini_line_number = 0\<rparr>"

definition parse_ini :: "(string \<Rightarrow> string option) \<Rightarrow> string \<Rightarrow> Configuration \<Rightarrow> Configuration" where
  "parse_ini env content cfg = ini_cfg (foldl (ini_line env) (ini_start cfg) (getlines newline content))"

section \<open>Validation\<close>

text \<open>A validator extends the error list; it has no result when \<open>exists\<close> throws.\<close>

type_synonym validator = "string list \<Rightarrow> bool option \<times> string list"

definition validateNetwork :: "NetworkConfig \<Rightarrow> validator" where
  "validateNetwork net errors =
     (let port = net_bind_port net = 0; connections = net_max_connections net = 0
      in (Some (\<not> port \<and> \<not> connections),
          errors @ (if port then [''Invalid bind_port: 0''] else [])
                 @ (if connections then [''max_connections must be greater than 0''] else [])))"

text \<open>A required file: a message when no name is given, another when the file does not exist.\<close>

definition check_file :: "fs \<Rightarrow> string \<Rightarrow> string \<Rightarrow> string \<Rightarrow> validator" where
  "check_file s file unset missing errors =
     (if file = [] then (Some False, errors @ [unset])
      else case fs_exists s file of
        None \<Rightarrow> (None, errors)
      | Some True \<Rightarrow> (Some True, errors)
      | Some False \<Rightarrow> (Some False, errors @ [missing @ file]))"

text \<open>Validators run one after another; all of them run.\<close>

fun run_validators :: "validator list \<Rightarrow> bool \<Rightarrow> validator" where
  "run_validators [] valid errors = (Some valid, errors)"
| "run_validators (v # vs) valid errors =
     (case v errors of
        (None, errors) \<Rightarrow> (None, errors)
      | (Some ok, errors) \<Rightarrow> run_validators vs (valid \<and> ok) errors)"

definition validateSSL :: "fs \<Rightarrow> SSLConfig \<Rightarrow> validator" where
  "validateSSL s ssl = run_validators
     [check_file s (ssl_certificate_file ssl) ''SSL enabled but certificate_file not specified''
        ''SSL certificate file does not exist: '',
      check_file s (ssl_private_key_file ssl) ''SSL enabled but private_key_file not specified''
        ''SSL private key file does not exist: ''] True"

definition validateAuth :: "fs \<Rightarrow> AuthConfig \<Rightarrow> validator" where
  "validateAuth s auth =
     (if auth_method auth = ''password'' then
        check_file s (auth_password_file auth)
          ''Password authentication enabled but password_file not specified'' ''Password file does not exist: ''
      else (\<lambda>errors. (Some True, errors)))"

definition quote :: "string \<Rightarrow> string" where
  "quote name = CHR 0x27 # name @ [CHR 0x27]"

definition validate_module :: "fs \<Rightarrow> string \<times> ModuleConfig \<Rightarrow> validator" where
  "validate_module s entry errors =
     (case entry of (name, module) \<Rightarrow>
        if mc_path module = [] then (Some False, errors @ [''Module '' @ quote name @ '' has no path specified''])
        else case fs_exists s (mc_path module) of
          None \<Rightarrow> (None, errors)
        | Some False \<Rightarrow> (Some True, errors @ [''Module '' @ quote name @ '' path does not exist: '' @ mc_path module])
        | Some True \<Rightarrow>
            (case is_directory s (mc_path module) of
               None \<Rightarrow> (None, errors)
             | Some True \<Rightarrow> (Some True, errors)
             | Some False \<Rightarrow>
                 (Some False, errors @ [''Module '' @ quote name @ '' path is not a directory: '' @ mc_path module])))"

definition validateModules :: "fs \<Rightarrow> (string, ModuleConfig) std_map \<Rightarrow> validator" where
  "validateModules s modules = run_validators (map (validate_module s) modules) True"

definition validate :: "fs \<Rightarrow> Configuration \<Rightarrow> bool option \<times> Configuration" where
  "validate s cfg =
     (case run_validators
             ([validateNetwork (c_network cfg)]
              @ (if ssl_enabled (c_ssl cfg) then [validateSSL s (c_ssl cfg)] else [])
              @ (if auth_enabled (c_auth cfg) then [validateAuth s (c_auth cfg)] else [])
              @ [validateModules s (c_modules cfg)]) True [] of
        (result, errors) \<Rightarrow> (result, cfg\<lparr>c_errors := errors\<rparr>))"

end
