(* ===== verification/Config_Docs.thy ===== *)
theory Config_Docs
  imports Config
begin

text \<open>
  The JSON and YAML loaders of \<open>src/simple-rsyncd/config/config.cpp\<close> and the choice of the loader
  by the file's extension.

  jsoncpp and yaml-cpp are not part of the repository: each is a record of the functions the loader
  calls, of which nothing is assumed.  A function that may throw returns the message of the exception
  or a value; a parse reports its errors as a message, or ends (\<^const>\<open>None\<close>) by an exception the loader
  does not catch: one of jsoncpp's, or one that is not yaml-cpp's.  A reader is a piece of the loader: it returns the message of an exception that left
  it (or \<^const>\<open>None\<close>) beside the configuration it leaves, partly filled.  A build may lack either
  library; the empty classes \<open>config.cpp\<close> then declares in its place are called by nothing.
\<close>

record 'd document =
  d_parse :: "string \<Rightarrow> (string + 'd) option"
  d_has :: "'d \<Rightarrow> string \<Rightarrow> string + bool"
  d_get :: "'d \<Rightarrow> string \<Rightarrow> string + 'd"
  d_string :: "'d \<Rightarrow> string + string"
  d_bool :: "'d \<Rightarrow> string + bool"
  d_uint :: "'d \<Rightarrow> string + uint32_t"
  d_size :: "'d \<Rightarrow> string + size_t"
  d_is_null :: "'d \<Rightarrow> bool"
  d_is_list :: "'d \<Rightarrow> bool"
  d_items :: "'d \<Rightarrow> 'd list"
  d_is_map :: "'d \<Rightarrow> bool"
  d_entries :: "'d \<Rightarrow> ((string + string) \<times> 'd) list"

type_synonym reader = "Configuration \<Rightarrow> string option \<times> Configuration"

fun run_readers :: "reader list \<Rightarrow> reader" where
  "run_readers [] cfg = (None, cfg)"
| "run_readers (r # rs) cfg =
     (case r cfg of
        (Some message, cfg) \<Rightarrow> (Some message, cfg)
      | (None, cfg) \<Rightarrow> run_readers rs cfg)"

text \<open>\<open>if (obj.isMember(key)) ... obj[key] ...\<close>\<close>

definition member :: "'d document \<Rightarrow> 'd \<Rightarrow> string \<Rightarrow> ('d \<Rightarrow> reader) \<Rightarrow> reader" where
  "member doc obj key body cfg =
     (case d_has doc obj key of
        Inl message \<Rightarrow> (Some message, cfg)
      | Inr False \<Rightarrow> (None, cfg)
      | Inr True \<Rightarrow>
          (case d_get doc obj key of
             Inl message \<Rightarrow> (Some message, cfg)
           | Inr v \<Rightarrow> body v cfg))"

text \<open>The same with a second name, used when the first is absent.\<close>

definition member_or :: "'d document \<Rightarrow> 'd \<Rightarrow> string \<Rightarrow> string \<Rightarrow> ('d \<Rightarrow> reader) \<Rightarrow> reader" where
  "member_or doc obj key other body cfg =
     (case d_has doc obj key of
        Inl message \<Rightarrow> (Some message, cfg)
      | Inr True \<Rightarrow> member doc obj key body cfg
      | Inr False \<Rightarrow> member doc obj other body cfg)"

definition convert :: "('d \<Rightarrow> string + 'a) \<Rightarrow> ('a \<Rightarrow> Configuration \<Rightarrow> Configuration) \<Rightarrow> 'd \<Rightarrow> reader" where
  "convert conv store v cfg =
     (case conv v of Inl message \<Rightarrow> (Some message, cfg) | Inr x \<Rightarrow> (None, store x cfg))"

text \<open>A list of strings, appended one by one; anything but a list is ignored.\<close>

definition strings :: "'d document \<Rightarrow> (string \<Rightarrow> Configuration \<Rightarrow> Configuration) \<Rightarrow> 'd \<Rightarrow> reader" where
  "strings doc store v =
     (if d_is_list doc v then run_readers (map (convert (d_string doc) store) (d_items doc v))
      else (\<lambda>cfg. (None, cfg)))"

section \<open>Where the values go\<close>

definition set_network :: "(NetworkConfig \<Rightarrow> NetworkConfig) \<Rightarrow> Configuration \<Rightarrow> Configuration" where
  "set_network f cfg = cfg\<lparr>c_network := f (c_network cfg)\<rparr>"

definition set_ssl :: "(SSLConfig \<Rightarrow> SSLConfig) \<Rightarrow> Configuration \<Rightarrow> Configuration" where
  "set_ssl f cfg = cfg\<lparr>c_ssl := f (c_ssl cfg)\<rparr>"

definition set_auth :: "(AuthConfig \<Rightarrow> AuthConfig) \<Rightarrow> Configuration \<Rightarrow> Configuration" where
  "set_auth f cfg = cfg\<lparr>c_auth := f (c_auth cfg)\<rparr>"

definition set_log :: "(LogConfig \<Rightarrow> LogConfig) \<Rightarrow> Configuration \<Rightarrow> Configuration" where
  "set_log f cfg = cfg\<lparr>c_log := f (c_log cfg)\<rparr>"

definition set_module :: "string \<Rightarrow> (ModuleConfig \<Rightarrow> ModuleConfig) \<Rightarrow> Configuration \<Rightarrow> Configuration" where
  "set_module name f cfg =
     (case std_find (c_modules cfg) name of
        None \<Rightarrow> cfg
      | Some module \<Rightarrow> cfg\<lparr>c_modules := std_insert name (f module) (c_modules cfg)\<rparr>)"

section \<open>JSON\<close>

definition parseJSONGlobal :: "'d document \<Rightarrow> 'd \<Rightarrow> reader" where
  "parseJSONGlobal doc g = run_readers
     [member_or doc g ''bind_address'' ''address''
        (convert (d_string doc) (\<lambda>v. set_network (\<lambda>n. n\<lparr>net_bind_address := v\<rparr>))),
      member_or doc g ''bind_port'' ''port''
        (convert (d_uint doc) (\<lambda>v. set_network (\<lambda>n. n\<lparr>net_bind_port := ucast v\<rparr>))),
      member doc g ''max_connections''
        (convert (d_uint doc) (\<lambda>v. set_network (\<lambda>n. n\<lparr>net_max_connections := ucast v\<rparr>))),
      member doc g ''pid_file'' (convert (d_string doc) (\<lambda>v cfg. cfg\<lparr>c_pid_file := v\<rparr>)),
      member doc g ''user''
        (convert (d_string doc) (\<lambda>v cfg. cfg\<lparr>c_user := v, c_security := (c_security cfg)\<lparr>sec_user := v\<rparr>\<rparr>)),
      member doc g ''group''
        (convert (d_string doc) (\<lambda>v cfg. cfg\<lparr>c_group := v, c_security := (c_security cfg)\<lparr>sec_group := v\<rparr>\<rparr>))]"

text \<open>\<open>backlog\<close> is an \<open>int\<close>: a 32-bit value from 2^31 on becomes negative.\<close>

definition json_network :: "'d document \<Rightarrow> 'd \<Rightarrow> reader" where
  "json_network doc net = run_readers
     [member doc net ''bind_address''
        (convert (d_string doc) (\<lambda>v. set_network (\<lambda>n. n\<lparr>net_bind_address := v\<rparr>))),
      member doc net ''bind_port''
        (convert (d_uint doc) (\<lambda>v. set_network (\<lambda>n. n\<lparr>net_bind_port := ucast v\<rparr>))),
      member doc net ''max_connections''
        (convert (d_uint doc) (\<lambda>v. set_network (\<lambda>n. n\<lparr>net_max_connections := ucast v\<rparr>))),
      member doc net ''backlog''
        (convert (d_uint doc) (\<lambda>v. set_network (\<lambda>n. n\<lparr>net_backlog := sint v\<rparr>))),
      member doc net ''worker_threads''
        (convert (d_uint doc) (\<lambda>v. set_network (\<lambda>n. n\<lparr>net_worker_threads := ucast v\<rparr>)))]"

definition json_ssl :: "'d document \<Rightarrow> 'd \<Rightarrow> reader" where
  "json_ssl doc sslc = run_readers
     [member doc sslc ''enabled'' (convert (d_bool doc) (\<lambda>v. set_ssl (\<lambda>n. n\<lparr>ssl_enabled := v\<rparr>))),
      member doc sslc ''certificate_file''
        (convert (d_string doc) (\<lambda>v. set_ssl (\<lambda>n. n\<lparr>ssl_certificate_file := v\<rparr>))),
      member doc sslc ''private_key_file''
        (convert (d_string doc) (\<lambda>v. set_ssl (\<lambda>n. n\<lparr>ssl_private_key_file := v\<rparr>))),
      member doc sslc ''ca_file'' (convert (d_string doc) (\<lambda>v. set_ssl (\<lambda>n. n\<lparr>ssl_ca_file := v\<rparr>)))]"

definition json_auth :: "'d document \<Rightarrow> 'd \<Rightarrow> reader" where
  "json_auth doc a = run_readers
     [member doc a ''enabled'' (convert (d_bool doc) (\<lambda>v. set_auth (\<lambda>n. n\<lparr>auth_enabled := v\<rparr>))),
      member doc a ''method'' (convert (d_string doc) (\<lambda>v. set_auth (\<lambda>n. n\<lparr>auth_method := v\<rparr>))),
      member doc a ''password_file''
        (convert (d_string doc) (\<lambda>v. set_auth (\<lambda>n. n\<lparr>auth_password_file := v\<rparr>))),
      member doc a ''public_key_file''
        (convert (d_string doc) (\<lambda>v. set_auth (\<lambda>n. n\<lparr>auth_public_key_file := v\<rparr>))),
      member doc a ''realm'' (convert (d_string doc) (\<lambda>v. set_auth (\<lambda>n. n\<lparr>auth_realm := v\<rparr>))),
      member doc a ''anonymous_access''
        (convert (d_bool doc) (\<lambda>v. set_auth (\<lambda>n. n\<lparr>auth_anonymous_access := v\<rparr>))),
      member doc a ''allowed_users''
        (strings doc (\<lambda>v. set_auth (\<lambda>n. n\<lparr>auth_allowed_users := auth_allowed_users n @ [v]\<rparr>))),
      member doc a ''denied_users''
        (strings doc (\<lambda>v. set_auth (\<lambda>n. n\<lparr>auth_denied_users := auth_denied_users n @ [v]\<rparr>)))]"

definition module_fields :: "'d document \<Rightarrow> string \<Rightarrow> 'd \<Rightarrow> (string \<times> (string \<Rightarrow> ModuleConfig \<Rightarrow> ModuleConfig)) list \<Rightarrow>
    reader list" where
  "module_fields doc name m specs =
     map (\<lambda>(key, store). member doc m key (convert (d_string doc) (\<lambda>v. set_module name (store v)))) specs"

definition parseJSONModule :: "'d document \<Rightarrow> string \<Rightarrow> 'd \<Rightarrow> reader" where
  "parseJSONModule doc name m = run_readers
     ((\<lambda>cfg. (None, cfg\<lparr>c_modules := ensure_module name (c_modules cfg)\<rparr>))
      # (\<lambda>cfg. (None, set_module name (\<lambda>x. x\<lparr>mc_name := name\<rparr>) cfg))
      # module_fields doc name m [(''path'', \<lambda>v x. x\<lparr>mc_path := v\<rparr>), (''comment'', \<lambda>v x. x\<lparr>mc_comment := v\<rparr>)]
      @ [member doc m ''read_only'' (convert (d_bool doc) (\<lambda>v. set_module name (\<lambda>x. x\<lparr>mc_read_only := v\<rparr>))),
         member doc m ''list'' (convert (d_bool doc) (\<lambda>v. set_module name (\<lambda>x. x\<lparr>mc_list := v\<rparr>))),
         member doc m ''allow_delete'' (convert (d_bool doc) (\<lambda>v. set_module name (\<lambda>x. x\<lparr>mc_allow_delete := v\<rparr>))),
         member doc m ''overwrite'' (convert (d_bool doc) (\<lambda>v. set_module name (\<lambda>x. x\<lparr>mc_overwrite := v\<rparr>))),
         member doc m ''exclude'' (strings doc (\<lambda>v. set_module name
           (\<lambda>x. x\<lparr>mc_exclude_patterns := mc_exclude_patterns x @ [v]\<rparr>))),
         member doc m ''include'' (strings doc (\<lambda>v. set_module name
           (\<lambda>x. x\<lparr>mc_include_patterns := mc_include_patterns x @ [v]\<rparr>)))])"

text \<open>The modules of a document, in the order the library lists them.\<close>

definition doc_modules :: "'d document \<Rightarrow> (string \<Rightarrow> 'd \<Rightarrow> reader) \<Rightarrow> 'd \<Rightarrow> reader" where
  "doc_modules doc parse_module v =
     (if d_is_map doc v then
        run_readers (map (\<lambda>(key, m) cfg. case key of Inl message \<Rightarrow> (Some message, cfg)
                                              | Inr name \<Rightarrow> parse_module name m cfg) (d_entries doc v))
      else (\<lambda>cfg. (None, cfg)))"

definition doc_global :: "'d document \<Rightarrow> ('d \<Rightarrow> reader) \<Rightarrow> 'd \<Rightarrow> reader" where
  "doc_global doc parse_global root cfg =
     (case d_has doc root ''global'' of
        Inl message \<Rightarrow> (Some message, cfg)
      | Inr True \<Rightarrow> member doc root ''global'' parse_global cfg
      | Inr False \<Rightarrow> parse_global root cfg)"

text \<open>The time stamp itself is not kept.\<close>

definition updateLastModified :: "Configuration \<Rightarrow> Configuration" where
  "updateLastModified cfg = cfg\<lparr>c_has_changed := False\<rparr>"

definition finish_load :: "fs \<Rightarrow> Configuration \<Rightarrow> bool option \<times> Configuration" where
  "finish_load s cfg =
     (case validate s (updateLastModified cfg) of
        (Some True, cfg) \<Rightarrow> (Some True, cfg\<lparr>c_is_valid := True, c_has_changed := False\<rparr>)
      | (result, cfg) \<Rightarrow> (result, cfg))"

definition begin_load :: "Configuration \<Rightarrow> Configuration" where
  "begin_load cfg = cfg\<lparr>c_errors := [], c_is_valid := False\<rparr>"

definition json_root :: "'d document \<Rightarrow> 'd \<Rightarrow> reader" where
  "json_root doc root = run_readers
     [doc_global doc (parseJSONGlobal doc) root,
      member doc root ''network'' (json_network doc),
      member doc root ''ssl'' (json_ssl doc),
      member doc root ''auth'' (json_auth doc),
      member doc root ''modules'' (doc_modules doc (parseJSONModule doc))]"

text \<open>Without jsoncpp at build time the library is \<^const>\<open>None\<close> and every text is refused.\<close>

definition loadFromJSON :: "fs \<Rightarrow> 'd document option \<Rightarrow> string \<Rightarrow> Configuration \<Rightarrow> bool option \<times> Configuration" where
  "loadFromJSON s available json cfg =
     (let cfg = begin_load cfg
      in if json = [] then (Some False, push_error ''Empty JSON configuration'' cfg)
         else case available of
           None \<Rightarrow> (Some False, push_error ''JSON parsing not available - jsoncpp library not found'' cfg)
         | Some doc \<Rightarrow>
             (case d_parse doc json of
                None \<Rightarrow> (None, cfg)
              | Some (Inl message) \<Rightarrow> (Some False, push_error (''Failed to parse JSON: '' @ message) cfg)
              | Some (Inr root) \<Rightarrow>
                  (case json_root doc root cfg of
                     (Some _, cfg) \<Rightarrow> (None, cfg)
                   | (None, cfg) \<Rightarrow> finish_load s cfg)))"

section \<open>YAML\<close>

definition parseYAMLGlobal :: "'d document \<Rightarrow> 'd \<Rightarrow> reader" where
  "parseYAMLGlobal doc g = run_readers
     [member_or doc g ''bind_address'' ''address''
        (convert (d_string doc) (\<lambda>v. set_network (\<lambda>n. n\<lparr>net_bind_address := v\<rparr>))),
      member_or doc g ''bind_port'' ''port''
        (convert (d_uint doc) (\<lambda>v. set_network (\<lambda>n. n\<lparr>net_bind_port := ucast v\<rparr>))),
      member doc g ''max_connections''
        (convert (d_uint doc) (\<lambda>v. set_network (\<lambda>n. n\<lparr>net_max_connections := ucast v\<rparr>))),
      member doc g ''pid_file'' (convert (d_string doc) (\<lambda>v cfg. cfg\<lparr>c_pid_file := v\<rparr>)),
      member doc g ''user''
        (convert (d_string doc) (\<lambda>v cfg. cfg\<lparr>c_user := v, c_security := (c_security cfg)\<lparr>sec_user := v\<rparr>\<rparr>)),
      member doc g ''group''
        (convert (d_string doc) (\<lambda>v cfg. cfg\<lparr>c_group := v, c_security := (c_security cfg)\<lparr>sec_group := v\<rparr>\<rparr>))]"

text \<open>The YAML loader reads the \<open>network\<close> and \<open>ssl\<close> sections as the JSON loader does.\<close>

definition yaml_policy :: "'d document \<Rightarrow> 'd \<Rightarrow> reader" where
  "yaml_policy doc p =
     (let set_policy = (\<lambda>f. set_auth (\<lambda>n. n\<lparr>auth_password_policy := f (auth_password_policy n)\<rparr>))
      in run_readers
     [member doc p ''min_length'' (convert (d_size doc) (\<lambda>v. set_policy (\<lambda>n. n\<lparr>pp_min_length := v\<rparr>))),
      member doc p ''require_uppercase'' (convert (d_bool doc) (\<lambda>v. set_policy (\<lambda>n. n\<lparr>pp_require_uppercase := v\<rparr>))),
      member doc p ''require_lowercase'' (convert (d_bool doc) (\<lambda>v. set_policy (\<lambda>n. n\<lparr>pp_require_lowercase := v\<rparr>))),
      member doc p ''require_digits'' (convert (d_bool doc) (\<lambda>v. set_policy (\<lambda>n. n\<lparr>pp_require_digits := v\<rparr>))),
      member doc p ''require_special'' (convert (d_bool doc) (\<lambda>v. set_policy (\<lambda>n. n\<lparr>pp_require_special := v\<rparr>))),
      member doc p ''expiration_hours''
        (convert (d_uint doc) (\<lambda>v. set_policy (\<lambda>n. n\<lparr>pp_expiration_hours := uint v\<rparr>)))])"

definition yaml_auth :: "'d document \<Rightarrow> 'd \<Rightarrow> reader" where
  "yaml_auth doc a = run_readers
     [json_auth doc a,
      member doc a ''password_policy'' (yaml_policy doc),
      member doc a ''session'' (\<lambda>session. member doc session ''timeout''
        (convert (d_uint doc) (\<lambda>v. set_auth (\<lambda>n. n\<lparr>auth_session_timeout := uint v\<rparr>))))]"

definition yaml_log :: "'d document \<Rightarrow> 'd \<Rightarrow> reader" where
  "yaml_log doc l = run_readers
     [member doc l ''level'' (convert (d_string doc) (\<lambda>v. set_log (\<lambda>n. n\<lparr>lc_level := v\<rparr>))),
      member doc l ''file''
        (convert (d_string doc) (\<lambda>v. set_log (\<lambda>n. n\<lparr>lc_file := v, lc_file_output := True\<rparr>))),
      member doc l ''format''
        (convert (d_string doc) (\<lambda>v. set_log (\<lambda>n. n\<lparr>lc_format := (if v = ''json'' then ''json'' else ''text'')\<rparr>))),
      member doc l ''max_file_size'' (convert (d_size doc) (\<lambda>v. set_log (\<lambda>n. n\<lparr>lc_max_file_size := v\<rparr>))),
      member doc l ''max_files'' (convert (d_size doc) (\<lambda>v. set_log (\<lambda>n. n\<lparr>lc_max_files := v\<rparr>))),
      member doc l ''compress_old_logs''
        (convert (d_bool doc) (\<lambda>v. set_log (\<lambda>n. n\<lparr>lc_compress_old_logs := v\<rparr>)))]"

definition yaml_config :: "'d document \<Rightarrow> 'd \<Rightarrow> reader" where
  "yaml_config doc c = run_readers
     [member doc c ''auto_reload'' (convert (d_bool doc) (\<lambda>v cfg. cfg\<lparr>c_auto_reload := v\<rparr>)),
      member doc c ''reload_interval'' (convert (d_uint doc) (\<lambda>v cfg. cfg\<lparr>c_reload_interval := uint v\<rparr>))]"

definition parseYAMLModule :: "'d document \<Rightarrow> string \<Rightarrow> 'd \<Rightarrow> reader" where
  "parseYAMLModule doc name m = run_readers
     ((\<lambda>cfg. (None, cfg\<lparr>c_modules := ensure_module name (c_modules cfg)\<rparr>))
      # (\<lambda>cfg. (None, set_module name (\<lambda>x. x\<lparr>mc_name := name\<rparr>) cfg))
      # module_fields doc name m [(''path'', \<lambda>v x. x\<lparr>mc_path := v\<rparr>), (''comment'', \<lambda>v x. x\<lparr>mc_comment := v\<rparr>)]
      @ [member doc m ''read_only'' (convert (d_bool doc) (\<lambda>v. set_module name (\<lambda>x. x\<lparr>mc_read_only := v\<rparr>))),
         member doc m ''list'' (convert (d_bool doc) (\<lambda>v. set_module name (\<lambda>x. x\<lparr>mc_list := v\<rparr>))),
         member_or doc m ''allow_delete'' ''delete''
           (convert (d_bool doc) (\<lambda>v. set_module name (\<lambda>x. x\<lparr>mc_allow_delete := v\<rparr>))),
         member doc m ''overwrite'' (convert (d_bool doc) (\<lambda>v. set_module name (\<lambda>x. x\<lparr>mc_overwrite := v\<rparr>))),
         member_or doc m ''exclude'' ''exclude_patterns'' (strings doc (\<lambda>v. set_module name
           (\<lambda>x. x\<lparr>mc_exclude_patterns := mc_exclude_patterns x @ [v]\<rparr>))),
         member_or doc m ''include'' ''include_patterns'' (strings doc (\<lambda>v. set_module name
           (\<lambda>x. x\<lparr>mc_include_patterns := mc_include_patterns x @ [v]\<rparr>)))]
      @ module_fields doc name m
        [(''pre_transfer_script'', \<lambda>v x. x\<lparr>mc_pre_transfer_script := v\<rparr>),
         (''post_transfer_script'', \<lambda>v x. x\<lparr>mc_post_transfer_script := v\<rparr>),
         (''pre_delete_script'', \<lambda>v x. x\<lparr>mc_pre_delete_script := v\<rparr>),
         (''post_delete_script'', \<lambda>v x. x\<lparr>mc_post_delete_script := v\<rparr>),
         (''pre_list_script'', \<lambda>v x. x\<lparr>mc_pre_list_script := v\<rparr>),
         (''post_list_script'', \<lambda>v x. x\<lparr>mc_post_list_script := v\<rparr>)])"

definition yaml_root :: "'d document \<Rightarrow> 'd \<Rightarrow> reader" where
  "yaml_root doc root = run_readers
     [doc_global doc (parseYAMLGlobal doc) root,
      member doc root ''network'' (json_network doc),
      member doc root ''ssl'' (json_ssl doc),
      member doc root ''auth'' (yaml_auth doc),
      member doc root ''log'' (yaml_log doc),
      member doc root ''config'' (yaml_config doc),
      member doc root ''modules'' (doc_modules doc (parseYAMLModule doc))]"

text \<open>
  Every exception of yaml-cpp, and no other, is caught and becomes an error message.  Without yaml-cpp at build time
  the library is \<^const>\<open>None\<close>.
\<close>

definition loadFromYAML :: "fs \<Rightarrow> 'd document option \<Rightarrow> string \<Rightarrow> Configuration \<Rightarrow> bool option \<times> Configuration" where
  "loadFromYAML s available yaml cfg =
     (let cfg = begin_load cfg;
          failed = (\<lambda>message. push_error (''Failed to parse YAML: '' @ message))
      in if yaml = [] then (Some False, push_error ''Empty YAML configuration'' cfg)
         else case available of
           None \<Rightarrow> (Some False, push_error ''YAML parsing not available - yaml-cpp library not found'' cfg)
         | Some doc \<Rightarrow>
             (case d_parse doc yaml of
                None \<Rightarrow> (None, cfg)
              | Some (Inl message) \<Rightarrow> (Some False, failed message cfg)
              | Some (Inr root) \<Rightarrow>
                  if d_is_null doc root then (Some False, push_error ''Invalid YAML configuration'' cfg)
                  else (case yaml_root doc root cfg of
                     (Some message, cfg) \<Rightarrow> (Some False, failed message cfg)
                   | (None, cfg) \<Rightarrow> finish_load s cfg)))"

section \<open>Files\<close>

text \<open>
  The surroundings of a load.  A directory opens as a file does; reading it through the iterator of
  the JSON and YAML branches throws, while \<open>getline\<close> in the INI branch finds no line.
\<close>

record ('j, 'y) loader =
  l_fs :: fs
  l_env :: "string \<Rightarrow> string option"
  l_json :: "'j document option"
  l_yaml :: "'y document option"

definition loadFromFile :: "('j, 'y) loader \<Rightarrow> string \<Rightarrow> Configuration \<Rightarrow> bool option \<times> Configuration" where
  "loadFromFile l file cfg =
     (let s = l_fs l; cfg = begin_load cfg
      in case fs_exists s file of
           None \<Rightarrow> (None, cfg)
         | Some False \<Rightarrow> (Some False, push_error (''Configuration file does not exist: '' @ file) cfg)
         | Some True \<Rightarrow>
             (let cfg = cfg\<lparr>c_config_file_path := file\<rparr>;
                  ext = map tolower (extension file)
              in case open_in s file of
                   None \<Rightarrow> (Some False, push_error (''Failed to open configuration file: '' @ file) cfg)
                 | Some (q, content) \<Rightarrow>
                     if ext \<in> {''.json'', ''.yml'', ''.yaml''} \<and> node_at s q = Some Dir then (None, cfg)
                     else if ext = ''.json'' then loadFromJSON s (l_json l) content cfg
                     else if ext = ''.yml'' \<or> ext = ''.yaml'' then loadFromYAML s (l_yaml l) content cfg
                     else finish_load s (parse_ini (l_env l) content cfg)))"

definition conf_reload :: "('j, 'y) loader \<Rightarrow> Configuration \<Rightarrow> bool option \<times> Configuration" where
  "conf_reload l cfg =
     (if c_config_file_path cfg = [] then (Some False, cfg) else loadFromFile l (c_config_file_path cfg) cfg)"

definition hasChanged :: "Configuration \<Rightarrow> bool" where
  "hasChanged cfg = c_has_changed cfg"

definition conf_getErrors :: "Configuration \<Rightarrow> string list" where
  "conf_getErrors cfg = c_errors cfg"

text \<open>\<open>merge\<close> ignores its arguments; saving writes a fixed text.\<close>

definition merge :: "Configuration \<Rightarrow> bool \<Rightarrow> Configuration \<Rightarrow> Configuration" where
  "merge other overwrite cfg = cfg"

definition saveToFile :: "fs \<Rightarrow> Configuration \<Rightarrow> string \<Rightarrow> bool \<times> fs" where
  "saveToFile s cfg file =
     (case open_out s file of
        (None, s') \<Rightarrow> (False, s')
      | (Some q, s') \<Rightarrow>
          (True, append_file q (''# simple-rsyncd Configuration'' @ [newline]
                                @ ''# Generated configuration file'' @ [newline]) s'))"

definition saveToJSON :: "Configuration \<Rightarrow> string" where
  "saveToJSON cfg = CHR ''{'' # CHR 0x22 # ''version'' @ CHR 0x22 # '': '' @ CHR 0x22 # ''0.3.0'' @ [CHR 0x22, CHR ''}'']"

end
