(* ===== verification/Config_Facts.thy ===== *)
theory Config_Facts
  imports Config_Docs
begin

text \<open>
  Properties of the configuration: substitution is one left-to-right pass per syntax, INI text is
  read back as the assignments it prints, validation accepts exactly the stated configurations, and
  what no configuration file can change.
\<close>

section \<open>Substitution\<close>

text \<open>The reference: what has been replaced is never looked at again.\<close>

function brace_expand :: "(string \<Rightarrow> string option) \<Rightarrow> string \<Rightarrow> string" where
  "brace_expand env s =
     (case find_sub ''${'' s of
        None \<Rightarrow> s
      | Some i \<Rightarrow>
          (case find_char (CHR ''}'') (drop (i + 2) s) of
             None \<Rightarrow> s
           | Some j \<Rightarrow>
               take i s
               @ (case brace_value env (take j (drop (i + 2) s)) of
                    Some v \<Rightarrow> v
                  | None \<Rightarrow> take (j + 3) (drop i s))
               @ brace_expand env (drop (i + j + 3) s)))"
  by pat_completeness auto
termination
  by (relation "measure (\<lambda>(env, s). length s)") (auto dest!: find_sub_bound find_char_SomeD)

declare brace_expand.simps [simp del]

function dollar_expand :: "(string \<Rightarrow> string option) \<Rightarrow> string \<Rightarrow> string" where
  "dollar_expand env s =
     (case find_char (CHR ''$'') s of
        None \<Rightarrow> s
      | Some i \<Rightarrow>
          if i + 1 \<ge> length s then s
          else if s ! (i + 1) = CHR ''{'' then take (i + 2) s @ dollar_expand env (drop (i + 2) s)
          else
            let name = takeWhile name_char (drop (i + 1) s);
                n = i + 1 + length name
            in take i s
               @ (case (name, env name) of
                    (_ # _, Some v) \<Rightarrow> c_str v
                  | _ \<Rightarrow> take (n - i) (drop i s))
               @ dollar_expand env (drop n s))"
  by pat_completeness auto
termination
  by (relation "measure (\<lambda>(env, s). length s)") (auto dest!: find_char_SomeD)

declare dollar_expand.simps [simp del]

lemma find_sub_from_append: "find_sub_from pat (pre @ s) (length pre) = map_option ((+) (length pre)) (find_sub pat s)"
  by (simp add: find_sub_from_def)

lemma find_char_from_shift:
  "find_char_from c (pre @ s) (length pre + n) = map_option (\<lambda>j. length pre + n + j) (find_char c (drop n s))"
  by (simp add: find_char_from_def fun_eq_iff)

lemma brace_loop_expand: "brace_loop env (pre @ s) (length pre) = pre @ brace_expand env s"
proof (induction env s arbitrary: pre rule: brace_expand.induct)
  case (1 env s)
  show ?case
  proof (cases "find_sub ''${'' s")
    case None
    then show ?thesis by (simp add: brace_loop.simps [of env "pre @ s"] brace_expand.simps [of env s] find_sub_from_append)
  next
    case i: (Some i)
    show ?thesis
    proof (cases "find_char (CHR ''}'') (drop (i + 2) s)")
      case None
      then show ?thesis using i find_char_from_shift [of _ pre s "i + 2"]
        by (simp add: brace_loop.simps [of env "pre @ s"] brace_expand.simps [of env s] find_sub_from_append add.assoc)
    next
      case j: (Some j)
      have b: "i + j + 3 \<le> length s" using find_sub_bound [OF i] find_char_SomeD [OF j] by simp linarith
      let ?ref = "take j (drop (i + 2) s)"
      have l: "brace_loop env (pre @ s) (length pre) =
        (case brace_value env ?ref of
           None \<Rightarrow> brace_loop env (pre @ s) (length pre + i + j + 3)
         | Some v \<Rightarrow> brace_loop env (replace_at (pre @ s) (length pre + i) (j + 3) v) (length pre + i + length v))"
      proof -
        have "Suc (Suc (length pre + (i + j))) - (length pre + i) = Suc (Suc j)" by simp
        then show ?thesis
          using i j find_char_from_shift [of "CHR ''}''" pre s "i + 2"]
          by (subst brace_loop.simps) (simp add: find_sub_from_append substr_def add.assoc eval_nat_numeral split: option.split)
      qed
      have e: "brace_expand env s = take i s @ (case brace_value env ?ref of Some v \<Rightarrow> v | None \<Rightarrow> take (j + 3) (drop i s))
               @ brace_expand env (drop (i + j + 3) s)"
        using i j by (subst brace_expand.simps) simp
      show ?thesis
      proof (cases "brace_value env ?ref")
        case None
        have "pre @ s = (pre @ take i s @ take (j + 3) (drop i s)) @ drop (i + j + 3) s"
          by simp (metis add.assoc append_take_drop_id drop_drop add.commute)
        moreover have "length (pre @ take i s @ take (j + 3) (drop i s)) = length pre + i + j + 3" using b by simp
        ultimately show ?thesis
          using "1" [OF i j, of "pre @ take i s @ take (j + 3) (drop i s)"] None by (simp add: l e add.assoc)
      next
        case (Some v)
        have "replace_at (pre @ s) (length pre + i) (j + 3) v = (pre @ take i s @ v) @ drop (i + j + 3) s"
          by (simp add: replace_at_def add.assoc)
        moreover have "length (pre @ take i s @ v) = length pre + i + length v" using b by simp
        ultimately show ?thesis using "1" [OF i j, of "pre @ take i s @ v"] Some by (simp add: l e add.assoc)
      qed
    qed
  qed
qed

lemma dollar_loop_expand: "dollar_loop env (pre @ s) (length pre) = pre @ dollar_expand env s"
proof (induction env s arbitrary: pre rule: dollar_expand.induct)
  case (1 env s)
  have f0: "find_char_from (CHR ''$'') (pre @ s) (length pre) = map_option ((+) (length pre)) (find_char (CHR ''$'') s)"
    by (simp add: find_char_from_def)
  show ?case
  proof (cases "find_char (CHR ''$'') s")
    case None
    then show ?thesis by (simp add: dollar_loop.simps [of env "pre @ s"] dollar_expand.simps [of env s] f0)
  next
    case i: (Some i)
    note il = find_char_SomeD [OF i]
    show ?thesis
    proof (cases "i + 1 \<ge> length s")
      case True
      then show ?thesis using i by (simp add: dollar_loop.simps [of env "pre @ s"] dollar_expand.simps [of env s] f0)
    next
      case lt: False
      have nth: "(pre @ s) ! (length pre + i + 1) = s ! (i + 1)" by (simp add: nth_append)
      show ?thesis
      proof (cases "s ! (i + 1) = CHR ''{''")
        case True
        have "dollar_loop env (pre @ s) (length pre) = dollar_loop env ((pre @ take (i + 2) s) @ drop (i + 2) s) (length (pre @ take (i + 2) s))"
          using i lt True nth by (subst dollar_loop.simps) (simp add: f0)
        also have "\<dots> = (pre @ take (i + 2) s) @ dollar_expand env (drop (i + 2) s)" by (rule "1"(1) [OF i lt True])
        finally show ?thesis using i lt True by (simp add: dollar_expand.simps [of env s])
      next
        case nb: False
        define name where "name = takeWhile name_char (drop (i + 1) s)"
        have nm: "takeWhile name_char (drop (Suc i) s) = name" by (simp add: name_def)
        define n where "n = i + 1 + length name"
        have b: "n \<le> length s" using length_takeWhile_le [of name_char "drop (i + 1) s"] lt by (simp add: n_def name_def)
        have IH: "dollar_loop env (q @ drop n s) (length q) = q @ dollar_expand env (drop n s)" for q
          using "1"(2) [OF i lt nb name_def n_def] .
        have l: "dollar_loop env (pre @ s) (length pre) =
           (case (name, env name) of
              (_ # _, Some v) \<Rightarrow> dollar_loop env (replace_at (pre @ s) (length pre + i) (n - i) (c_str v)) (length pre + i + length (c_str v))
            | _ \<Rightarrow> dollar_loop env (pre @ s) (length pre + n))"
          using i lt nb nth
          by (subst dollar_loop.simps) (auto simp: f0 Let_def nm n_def add.assoc split: list.split option.split)
        have e: "dollar_expand env s = take i s @ (case (name, env name) of (_ # _, Some v) \<Rightarrow> c_str v
              | _ \<Rightarrow> take (n - i) (drop i s)) @ dollar_expand env (drop n s)"
          using i lt nb by (subst dollar_expand.simps) (simp add: Let_def nm n_def split: list.split option.split)
        have keep: "dollar_loop env (pre @ s) (length pre + n) = pre @ take i s @ take (n - i) (drop i s) @ dollar_expand env (drop n s)"
        proof -
          have "take i s @ take (n - i) (drop i s) = take n s" using take_add [of i "n - i" s] by (simp add: n_def)
          moreover have "dollar_loop env (pre @ s) (length pre + n) = dollar_loop env ((pre @ take n s) @ drop n s) (length (pre @ take n s))"
            using b by simp
          ultimately show ?thesis using IH [of "pre @ take n s"] by (metis append.assoc)
        qed
        have sub: "dollar_loop env (replace_at (pre @ s) (length pre + i) (n - i) v) (length pre + i + length v)
            = pre @ take i s @ v @ dollar_expand env (drop n s)" for v
        proof -
          have "replace_at (pre @ s) (length pre + i) (n - i) v = (pre @ take i s @ v) @ drop n s"
            by (simp add: replace_at_def n_def)
          moreover have "length (pre @ take i s @ v) = length pre + i + length v" using il by simp
          ultimately show ?thesis using IH [of "pre @ take i s @ v"] by (metis append.assoc)
        qed
        show ?thesis unfolding l e by (auto simp: keep sub split: list.split option.split)
      qed
    qed
  qed
qed

text \<open>C30. Substitution is two passes from left to right: \<open>substituteEnvironmentVariables\<close> replaces every
  reference \<open>${NAME}\<close> or \<open>${NAME:default}\<close> of the value in one pass that never looks at what it has
  inserted, and then every \<open>$NAME\<close> of the outcome in a second such pass.  It ends for every value and
  environment.  (A value of a variable that itself contains \<open>$NAME\<close> is therefore expanded again.)\<close>

theorem substitute_two_passes:
  "substituteEnvironmentVariables env v = dollar_expand env (brace_expand env v)"
  using brace_loop_expand [of env "[]" v] dollar_loop_expand [of env "[]" "brace_expand env v"]
  by (simp add: substituteEnvironmentVariables_def)

lemma find_sub_absent: "c \<notin> set s \<Longrightarrow> find_sub (c # p) s = None"
  by (induction s) (auto simp: starts_with_def)

lemma substitute_plain [simp]: "CHR ''$'' \<notin> set v \<Longrightarrow> substituteEnvironmentVariables env v = v"
  using find_char_None [of "CHR ''$''" v]
  by (simp add: substituteEnvironmentVariables_def find_char_from_def find_sub_from_def find_sub_absent
      brace_loop.simps dollar_loop.simps)

section \<open>What loading leaves alone\<close>

text \<open>The sections no loader writes, and the members of the security section but user and group.\<close>

definition fixed_part :: "Configuration \<Rightarrow>
    AccessConfig \<times> RateLimitConfig \<times> PerformanceConfig \<times> MonitoringConfig \<times> SecurityConfig" where
  "fixed_part cfg = (c_access cfg, c_rate_limit cfg, c_performance cfg, c_monitoring cfg,
                     (c_security cfg)\<lparr>sec_user := [], sec_group := []\<rparr>)"

definition stable :: "Configuration \<Rightarrow> Configuration \<Rightarrow> bool" where
  "stable cfg cfg' \<longleftrightarrow> fixed_part cfg' = fixed_part cfg
     \<and> set (std_keys (c_modules cfg)) \<subseteq> set (std_keys (c_modules cfg'))
     \<and> (std_wf (c_modules cfg) \<longrightarrow> std_wf (c_modules cfg'))"

lemma stable_refl [simp, intro]: "stable cfg cfg"
  by (simp add: stable_def)

lemma stable_trans: "stable a b \<Longrightarrow> stable b c \<Longrightarrow> stable a c"
  by (auto simp: stable_def)

named_theorems stable_intros \<open>the pieces of the loaders keep what is fixed\<close>

lemma stable_errors [stable_intros]: "stable cfg (push_error e cfg)" "stable cfg (begin_load cfg)"
  by (simp_all add: stable_def fixed_part_def push_error_def begin_load_def)

lemma keys_ensure [simp]: "set (std_keys (ensure_module n ms)) = insert n (set (std_keys ms))"
  by (auto simp: ensure_module_def keys_dom split: if_splits)

lemma stable_if: "stable cfg a \<Longrightarrow> stable cfg b \<Longrightarrow> stable cfg (if P then a else b)"
  by simp

lemma stable_option: "stable cfg a \<Longrightarrow> (\<And>x. stable cfg (f x)) \<Longrightarrow> stable cfg (case v of None \<Rightarrow> a | Some x \<Rightarrow> f x)"
  by (cases v) auto

lemma stable_global [stable_intros]: "stable cfg (parseGlobalConfig key value cfg)"
  unfolding parseGlobalConfig_def Let_def
  by (intro stable_if stable_option) (simp_all add: stable_def fixed_part_def push_error_def)

lemma wf_ensure [simp]: "std_wf ms \<Longrightarrow> std_wf (ensure_module n ms)"
  by (simp add: ensure_module_def split: option.split)

lemma stable_module [stable_intros]: "stable cfg (parseModuleConfig name key value cfg)"
  by (auto simp: parseModuleConfig_def Let_def stable_def fixed_part_def)

lemma stable_ensure [stable_intros]: "stable cfg (cfg\<lparr>c_modules := ensure_module n (c_modules cfg)\<rparr>)"
  by (auto simp: stable_def fixed_part_def)

lemma stable_setters [stable_intros]:
  "stable cfg (set_network f cfg)" "stable cfg (set_ssl g cfg)" "stable cfg (set_auth h cfg)"
  "stable cfg (set_log k cfg)" "stable cfg (set_module name m cfg)"
  by (auto simp: stable_def fixed_part_def set_network_def set_ssl_def set_auth_def set_log_def set_module_def
      split: option.split)

lemma stable_members [stable_intros]:
  "stable cfg (cfg\<lparr>c_pid_file := v\<rparr>)" "stable cfg (cfg\<lparr>c_auto_reload := b\<rparr>)"
  "stable cfg (cfg\<lparr>c_reload_interval := i\<rparr>)" "stable cfg (cfg\<lparr>c_config_file_path := v\<rparr>)"
  "stable cfg (cfg\<lparr>c_user := v, c_security := (c_security cfg)\<lparr>sec_user := v\<rparr>\<rparr>)"
  "stable cfg (cfg\<lparr>c_group := v, c_security := (c_security cfg)\<lparr>sec_group := v\<rparr>\<rparr>)"
  by (simp_all add: stable_def fixed_part_def)

text \<open>INI.\<close>

lemma stable_ini_line [stable_intros]: "stable (ini_cfg st) (ini_cfg (ini_line env st l))"
  by (simp add: ini_line_def Let_def ini_header_def ini_assign_def stable_intros split: option.split)

lemma stable_parse_ini [stable_intros]: "stable cfg (parse_ini env content cfg)"
proof -
  have "stable (ini_cfg st) (ini_cfg (foldl (ini_line env) st ls))" for st ls
    by (induction ls arbitrary: st) (auto intro: stable_trans stable_ini_line)
  from this [of "ini_start cfg"] show ?thesis by (simp add: parse_ini_def ini_start_def)
qed

text \<open>Readers.\<close>

definition calm :: "reader \<Rightarrow> bool" where
  "calm r \<longleftrightarrow> (\<forall>cfg. stable cfg (snd (r cfg)))"

lemma calmD: "calm r \<Longrightarrow> r cfg = (x, cfg') \<Longrightarrow> stable cfg cfg'"
  by (metis calm_def snd_conv)

named_theorems calm_intros \<open>readers built from readers that keep what is fixed\<close>

lemma calm_run [calm_intros]: "(\<And>r. r \<in> set rs \<Longrightarrow> calm r) \<Longrightarrow> calm (run_readers rs)"
proof (induction rs)
  case (Cons r rs)
  then have r: "calm r" "calm (run_readers rs)" by auto
  show ?case unfolding calm_def
  proof
    fix cfg
    obtain x c where x: "r cfg = (x, c)" by (cases "r cfg")
    from calmD [OF r(1) x] have "stable cfg c" .
    moreover have "stable c (snd (run_readers rs c))" using r(2) by (simp add: calm_def)
    ultimately show "stable cfg (snd (run_readers (r # rs) cfg))"
      by (auto simp: x split: option.split intro: stable_trans)
  qed
qed (simp add: calm_def)

lemma calm_done [calm_intros]: "calm (\<lambda>cfg. (None, cfg))"
  by (simp add: calm_def)

lemma calm_store [calm_intros]: "(\<And>cfg. stable cfg (f cfg)) \<Longrightarrow> calm (\<lambda>cfg. (None, f cfg))"
  by (simp add: calm_def)

lemma calm_member [calm_intros]: "(\<And>v. calm (body v)) \<Longrightarrow> calm (member doc obj key body)"
  by (simp add: calm_def member_def split: sum.split bool.split)

lemma calm_member_or [calm_intros]: "(\<And>v. calm (body v)) \<Longrightarrow> calm (member_or doc obj key other body)"
  using calm_member [of body doc obj] by (simp add: calm_def member_or_def split: sum.split bool.split)

lemma calm_convert [calm_intros]: "(\<And>x cfg. stable cfg (store x cfg)) \<Longrightarrow> calm (convert conv store v)"
  by (simp add: calm_def convert_def split: sum.split)

lemma calm_strings [calm_intros]: "(\<And>x cfg. stable cfg (store x cfg)) \<Longrightarrow> calm (strings doc store v)"
  by (auto simp: strings_def intro!: calm_intros)

lemma calm_fields: "r \<in> set (module_fields doc name m specs) \<Longrightarrow> calm r"
  by (auto simp: module_fields_def intro!: calm_intros stable_intros)

lemma calm_global: "(\<And>v. calm (g v)) \<Longrightarrow> calm (doc_global doc g root)"
  using calm_member [of g doc root] by (simp add: calm_def doc_global_def split: sum.split bool.split)

lemma calm_modules: "(\<And>n m. calm (g n m)) \<Longrightarrow> calm (doc_modules doc g v)"
proof -
  assume g: "\<And>n m. calm (g n m)"
  have "calm (\<lambda>cfg. case key of Inl message \<Rightarrow> (Some message, cfg) | Inr name \<Rightarrow> g name m cfg)" for key m
    using g by (cases key) (auto simp: calm_def)
  then show ?thesis by (auto simp: doc_modules_def split_def intro!: calm_run calm_done)
qed

lemma calm_json [calm_intros]:
  "calm (parseJSONGlobal doc g)" "calm (json_network doc n)" "calm (json_ssl doc s)" "calm (json_auth doc a)"
  "calm (parseJSONModule doc name m)"
  unfolding parseJSONGlobal_def json_network_def json_ssl_def json_auth_def parseJSONModule_def
  by (auto intro!: calm_intros stable_intros elim: calm_fields)

lemma calm_yaml [calm_intros]:
  "calm (parseYAMLGlobal doc g)" "calm (yaml_policy doc p)" "calm (yaml_auth doc a)" "calm (yaml_log doc l)"
  "calm (yaml_config doc c)" "calm (parseYAMLModule doc name m)"
  unfolding parseYAMLGlobal_def yaml_policy_def yaml_auth_def yaml_log_def yaml_config_def parseYAMLModule_def Let_def
  by (auto intro!: calm_intros stable_intros elim: calm_fields)

lemma stable_validate: "validate s cfg = (x, cfg') \<Longrightarrow> stable cfg cfg'"
  by (auto simp: validate_def stable_def fixed_part_def split: prod.splits)

lemma stable_finish [stable_intros]: "stable cfg (snd (finish_load s cfg))"
proof -
  obtain x c where v: "validate s (updateLastModified cfg) = (x, c)"
    by (cases "validate s (updateLastModified cfg)")
  from stable_validate [OF v] have "stable cfg c" by (simp add: updateLastModified_def stable_def fixed_part_def)
  then show ?thesis
    by (auto simp: finish_load_def v stable_def fixed_part_def split: option.split bool.split)
qed

lemma calm_load:
  assumes "calm r" "r cfg = (x, cfg')"
  shows "stable cfg cfg'" "stable cfg (snd (finish_load s cfg'))" "stable cfg (push_error m cfg')"
proof -
  show s: "stable cfg cfg'" using calmD [OF assms] .
  show "stable cfg (snd (finish_load s cfg'))" by (rule stable_trans [OF s stable_finish])
  show "stable cfg (push_error m cfg')" by (rule stable_trans [OF s stable_errors(1)])
qed

lemma calm_roots: "calm (json_root doc root)" "calm (yaml_root doc root)"
  unfolding json_root_def yaml_root_def by (auto intro!: calm_intros calm_global calm_modules)

lemma stable_json: "stable cfg (snd (loadFromJSON s doc json cfg))"
proof (rule stable_trans)
  show "stable cfg (begin_load cfg)" by (rule stable_intros)
  show "stable (begin_load cfg) (snd (loadFromJSON s doc json cfg))"
    using calm_load [OF calm_roots(1)]
    by (auto simp: loadFromJSON_def Let_def stable_intros split: sum.split prod.split option.split)
qed

lemma stable_yaml: "stable cfg (snd (loadFromYAML s doc yaml cfg))"
proof (rule stable_trans)
  show "stable cfg (begin_load cfg)" by (rule stable_intros)
  show "stable (begin_load cfg) (snd (loadFromYAML s doc yaml cfg))"
    using calm_load [OF calm_roots(2)]
    by (auto simp: loadFromYAML_def Let_def stable_intros split: sum.split prod.split option.split)
qed

lemma stable_file: "stable cfg (snd (loadFromFile l fname cfg))"
proof -
  let ?c = "(begin_load cfg)\<lparr>c_config_file_path := fname\<rparr>"
  have b: "stable cfg (begin_load cfg)" by (rule stable_intros)
  have c: "stable cfg ?c" by (rule stable_trans [OF b]) (rule stable_intros)
  note rest = stable_json [of ?c] stable_yaml [of ?c] stable_intros(1) [of ?c]
    stable_trans [OF stable_parse_ini [of ?c] stable_finish]
  show ?thesis
    using b c stable_trans [OF b stable_errors(1)] rest [THEN stable_trans [OF c]]
    by (auto simp: loadFromFile_def Let_def split: option.split bool.split)
qed

text \<open>No configuration file reaches the access lists, the rate limits, the performance and
  monitoring sections, nor any security setting but user and group: whatever the file, its format,
  the environment and the two document libraries do, and whether loading succeeds, fails or
  throws, those sections are afterwards what they were.\<close>

theorem load_keeps_sections:
  "fixed_part (snd (loadFromFile l fname cfg)) = fixed_part cfg"
  using stable_file [where cfg = cfg and l = l and fname = fname] by (simp add: stable_def)

lemma stable_reload: "stable cfg (snd (conf_reload l cfg))"
  using stable_file [where cfg = cfg and l = l and fname = "c_config_file_path cfg"] by (auto simp: conf_reload_def)

text \<open>The configuration a sequence of loads and reloads leaves, in files of any format and content.\<close>

datatype ('j, 'y) loading = Load_file "('j, 'y) loader" string | Reload_file "('j, 'y) loader"

fun load_step :: "Configuration \<Rightarrow> ('j, 'y) loading \<Rightarrow> Configuration" where
  "load_step cfg (Load_file l fname) = snd (loadFromFile l fname cfg)"
| "load_step cfg (Reload_file l) = snd (conf_reload l cfg)"

lemma stable_steps: "stable cfg (foldl load_step cfg steps)"
proof (induction steps arbitrary: cfg)
  case (Cons x steps)
  have "stable cfg (load_step cfg x)" by (cases x) (simp_all add: stable_file stable_reload)
  then show ?case using stable_trans [OF _ Cons] by simp
qed simp

text \<open>C33. The module table stays well formed and only grows: after any sequence of loads and reloads of a
  new configuration, successful or not, the table is ordered by name with every name once, and it
  has every module it had after any earlier part of the sequence, even if no file mentions it any
  more or none can be read.\<close>

theorem module_table_wf:
  "std_wf (c_modules (foldl load_step new_Configuration steps))
   \<and> set (std_keys (c_modules (foldl load_step new_Configuration steps)))
       \<subseteq> set (std_keys (c_modules (foldl load_step new_Configuration (steps @ later))))"
  using stable_steps [of new_Configuration steps] stable_steps [of "foldl load_step new_Configuration steps" later]
  by (simp add: stable_def new_Configuration_def)

end
