(* ===== verification/Config_Valid.thy ===== *)
theory Config_Valid
  imports Config_Facts
begin

text \<open>
  What validation accepts, and INI text: printed sections are read back, malformed lines are not
  noticed, and a second load adds to the first.
\<close>

section \<open>Validation\<close>

text \<open>Validators whose verdict does not depend on the messages so far.\<close>

definition steady :: "validator \<Rightarrow> bool" where
  "steady v \<longleftrightarrow> (\<forall>e. fst (v e) = fst (v []))"

lemma steadyD: "steady v \<Longrightarrow> \<exists>x. \<forall>e. \<exists>e'. v e = (x, e')"
  unfolding steady_def by (metis prod.collapse)

lemma steady_step:
  assumes "steady v"
  obtains x where "fst (v []) = x" "\<And>vs b e. fst (run_validators (v # vs) b e) =
      (case x of None \<Rightarrow> None | Some ok \<Rightarrow> fst (run_validators vs (b \<and> ok) (snd (v e))))"
proof
  show "fst (v []) = fst (v [])" ..
  fix vs b e
  obtain x y where v: "v e = (x, y)" by (cases "v e")
  then have "fst (v []) = x" using assms unfolding steady_def by (metis fst_conv)
  then show "fst (run_validators (v # vs) b e) =
      (case fst (v []) of None \<Rightarrow> None | Some ok \<Rightarrow> fst (run_validators vs (b \<and> ok) (snd (v e))))"
    by (simp add: v split: option.split)
qed

lemma run_validators_True:
  assumes "\<forall>v \<in> set vs. steady v"
  shows "fst (run_validators vs b e) = Some True \<longleftrightarrow> b \<and> (\<forall>v \<in> set vs. fst (v []) = Some True)"
  using assms
proof (induction vs arbitrary: b e)
  case (Cons v vs)
  then have v: "steady v" and IH: "\<And>b e. fst (run_validators vs b e) = Some True \<longleftrightarrow> b \<and> (\<forall>v \<in> set vs. fst (v []) = Some True)"
    by simp_all
  from steady_step [OF v] obtain x where "fst (v []) = x" "\<And>b e. fst (run_validators (v # vs) b e) =
      (case x of None \<Rightarrow> None | Some ok \<Rightarrow> fst (run_validators vs (b \<and> ok) (snd (v e))))" by metis
  then show ?case by (cases x) (auto simp del: run_validators.simps simp: IH)
qed simp

lemma steady_run: "\<forall>v \<in> set vs. steady v \<Longrightarrow> steady (run_validators vs b)"
proof (induction vs arbitrary: b)
  case (Cons v vs)
  then have v: "steady v" and IH: "\<And>b. steady (run_validators vs b)" by simp_all
  from steady_step [OF v] obtain x where x: "\<And>b e. fst (run_validators (v # vs) b e) =
      (case x of None \<Rightarrow> None | Some ok \<Rightarrow> fst (run_validators vs (b \<and> ok) (snd (v e))))" by metis
  have "fst (run_validators vs b e) = fst (run_validators vs b e')" for b e e'
    using IH [of b] unfolding steady_def by metis
  then show ?case unfolding steady_def x by (metis (mono_tags, lifting) option.case_eq_if)
qed (simp add: steady_def)

lemma steady_basic [simp]:
  "steady (validateNetwork net)" "steady (check_file s f a b)" "steady (validate_module s m)"
  "steady (\<lambda>e. (Some True, e))"
  by (auto simp: steady_def validateNetwork_def Let_def check_file_def validate_module_def
      split: option.split bool.split prod.split)

lemma steady_sections [simp]: "steady (validateSSL s ssl)" "steady (validateAuth s auth)" "steady (validateModules s ms)"
  by (auto simp: validateSSL_def validateAuth_def validateModules_def intro!: steady_run)

definition file_there :: "fs \<Rightarrow> string \<Rightarrow> bool" where
  "file_there s f \<longleftrightarrow> f \<noteq> [] \<and> fs_exists s f = Some True"

lemma check_file_ok: "fst (check_file s f a b e) = Some True \<longleftrightarrow> file_there s f"
  by (auto simp: check_file_def file_there_def split: option.split bool.split)

lemma module_ok: "fst (validate_module s (n, m) e) = Some True \<longleftrightarrow>
    mc_path m \<noteq> [] \<and> (fs_exists s (mc_path m) = Some False
       \<or> fs_exists s (mc_path m) = Some True \<and> is_directory s (mc_path m) = Some True)"
  by (auto simp: validate_module_def split: option.split bool.split)

text \<open>C21. What validation accepts: a configuration is valid exactly when the port and the connection
  limit are not zero, TLS (if enabled) names two existing files, password authentication (if
  enabled) names an existing password file, and every module has a path which, if it exists, is a
  directory.  Nothing else is checked, and whatever errors had been recorded before are forgotten.\<close>

theorem validate_iff:
  "(fst (validate s cfg) = Some True \<longleftrightarrow>
      net_bind_port (c_network cfg) \<noteq> 0 \<and> net_max_connections (c_network cfg) \<noteq> 0
      \<and> (ssl_enabled (c_ssl cfg) \<longrightarrow> file_there s (ssl_certificate_file (c_ssl cfg))
            \<and> file_there s (ssl_private_key_file (c_ssl cfg)))
      \<and> (auth_enabled (c_auth cfg) \<and> auth_method (c_auth cfg) = ''password''
           \<longrightarrow> file_there s (auth_password_file (c_auth cfg)))
      \<and> (\<forall>(name, m) \<in> set (c_modules cfg). mc_path m \<noteq> []
           \<and> (fs_exists s (mc_path m) = Some False
              \<or> fs_exists s (mc_path m) = Some True \<and> is_directory s (mc_path m) = Some True)))
   \<and> validate s (cfg\<lparr>c_errors := errors\<rparr>) = validate s cfg"
proof -
  have net: "fst (validateNetwork n []) = Some True \<longleftrightarrow> net_bind_port n \<noteq> 0 \<and> net_max_connections n \<noteq> 0" for n
    by (auto simp: validateNetwork_def)
  have ssl: "fst (validateSSL s x []) = Some True \<longleftrightarrow> file_there s (ssl_certificate_file x) \<and> file_there s (ssl_private_key_file x)" for x
    unfolding validateSSL_def by (subst run_validators_True) (auto simp: check_file_ok)
  have auth: "fst (validateAuth s x []) = Some True \<longleftrightarrow> (auth_method x = ''password'' \<longrightarrow> file_there s (auth_password_file x))" for x
    by (simp add: validateAuth_def check_file_ok)
  have mods: "fst (validateModules s ms []) = Some True \<longleftrightarrow> (\<forall>e \<in> set ms. fst (validate_module s e []) = Some True)" for ms
    unfolding validateModules_def by (subst run_validators_True) auto
  define vs where "vs = [validateNetwork (c_network cfg)]
      @ (if ssl_enabled (c_ssl cfg) then [validateSSL s (c_ssl cfg)] else [])
      @ (if auth_enabled (c_auth cfg) then [validateAuth s (c_auth cfg)] else [])
      @ [validateModules s (c_modules cfg)]"
  have "fst (validate s cfg) = fst (run_validators vs True [])"
    by (simp add: validate_def vs_def split: prod.split)
  moreover have "\<forall>v \<in> set vs. steady v" by (auto simp: vs_def)
  ultimately have "fst (validate s cfg) = Some True \<longleftrightarrow> (\<forall>v \<in> set vs. fst (v []) = Some True)"
    by (simp add: run_validators_True)
  moreover have "validate s (cfg\<lparr>c_errors := errors\<rparr>) = validate s cfg"
    by (simp add: validate_def del: run_validators.simps split: prod.split if_split)
  moreover have "(\<forall>e \<in> set (c_modules cfg). fst (validate_module s e []) = Some True) \<longleftrightarrow>
      (\<forall>(name, m) \<in> set (c_modules cfg). mc_path m \<noteq> []
           \<and> (fs_exists s (mc_path m) = Some False
              \<or> fs_exists s (mc_path m) = Some True \<and> is_directory s (mc_path m) = Some True))"
    by (intro ball_cong) (auto simp: module_ok)
  ultimately show ?thesis by (simp add: vs_def net ssl auth mods ball_Un) argo
qed

section \<open>INI text\<close>

datatype ini_sec = Global "(string \<times> string) list" | Mod string "(string \<times> string) list"

text \<open>How a section is printed.\<close>

definition ini_entry :: "string \<times> string \<Rightarrow> string" where
  "ini_entry kv = fst kv @ '' = '' @ snd kv"

fun ini_lines :: "ini_sec \<Rightarrow> string list" where
  "ini_lines (Global kvs) = ''[global]'' # map ini_entry kvs"
| "ini_lines (Mod m kvs) = (''[module:'' @ m @ '']'') # map ini_entry kvs"

definition ini_doc :: "ini_sec list \<Rightarrow> string" where
  "ini_doc secs = concat (map (\<lambda>l. l @ [newline]) (concat (map ini_lines secs)))"

text \<open>What it stands for.\<close>

fun apply_sec :: "Configuration \<Rightarrow> ini_sec \<Rightarrow> Configuration" where
  "apply_sec cfg (Global kvs) = foldl (\<lambda>c (k, v). parseGlobalConfig k v c) cfg kvs"
| "apply_sec cfg (Mod m kvs) =
     foldl (\<lambda>c (k, v). parseModuleConfig m k v c)
       (cfg\<lparr>c_modules := ensure_module m (c_modules cfg)\<rparr>) kvs"

text \<open>Text without blanks at its ends.\<close>

definition tight :: "string \<Rightarrow> bool" where
  "tight s \<longleftrightarrow> newline \<notin> set s \<and> (s = [] \<or> \<not> is_blank (hd s) \<and> \<not> is_blank (last s))"

definition key_ok :: "string \<Rightarrow> bool" where
  "key_ok k \<longleftrightarrow> k \<noteq> [] \<and> tight k \<and> CHR ''='' \<notin> set k \<and> hd k \<notin> set ''#;[''"

definition value_ok :: "string \<Rightarrow> bool" where
  "value_ok v \<longleftrightarrow> tight v \<and> CHR ''$'' \<notin> set v \<and> (v \<noteq> [] \<longrightarrow> hd v \<notin> {CHR 0x22, CHR 0x27})"

fun sec_ok :: "ini_sec \<Rightarrow> bool" where
  "sec_ok (Global kvs) \<longleftrightarrow> list_all (\<lambda>(k, v). key_ok k \<and> value_ok v) kvs"
| "sec_ok (Mod m kvs) \<longleftrightarrow> m \<noteq> [] \<and> newline \<notin> set m \<and> \<not> is_blank (last m)
     \<and> list_all (\<lambda>(k, v). key_ok k \<and> value_ok v) kvs"

lemma tight_trim [simp]: "tight s \<Longrightarrow> trim s = s"
  by (auto simp: tight_def intro: trim_id)

lemma trim_left: "is_blank c \<Longrightarrow> trim (c # s) = trim s"
  by (simp add: trim_def ltrim_def)

lemma trim_right: "is_blank c \<Longrightarrow> trim (s @ [c]) = trim s"
  by (induction s) (auto simp: trim_def ltrim_def rtrim_def dropWhile_append)

lemma ini_entry_line:
  assumes "key_ok k" "value_ok v"
  shows "ini_line env st (ini_entry (k, v)) = ini_assign k v (st\<lparr>ini_line_number := ini_line_number st + 1\<rparr>)"
    and "newline \<notin> set (ini_entry (k, v))"
proof -
  let ?l = "if v = [] then k @ '' ='' else k @ '' = '' @ v"
  have k: "k \<noteq> []" "\<not> is_blank (hd k)" "hd k \<notin> set ''#;[''" "CHR ''='' \<notin> set k" "trim k = k" "newline \<notin> set k"
    using assms(1) tight_trim [of k] by (auto simp: key_ok_def tight_def)
  have v: "tight v" "trim v = v" "newline \<notin> set v" using assms(2) by (auto simp: value_ok_def tight_def trim_id)
  show "newline \<notin> set (ini_entry (k, v))" using k v by (simp add: ini_entry_def)
  have blank: "is_blank (CHR '' '')" by (simp add: is_blank_def)
  have t: "trim (ini_entry (k, v)) = ?l"
  proof (cases "v = []")
    case True
    have "trim ((k @ '' ='') @ [CHR '' '']) = trim (k @ '' ='')" by (rule trim_right [OF blank])
    moreover have "trim (k @ '' ='') = k @ '' =''" using k by (intro trim_id) (simp add: is_blank_def)
    ultimately show ?thesis using True by (simp add: ini_entry_def)
  next
    case False
    with v(1) have "\<not> is_blank (last v)" by (simp add: tight_def)
    with False k show ?thesis unfolding ini_entry_def by (simp add: trim_id)
  qed
  have h: "?l \<noteq> []" "hd ?l = hd k" using k by auto
  have eq: "find_char (CHR ''='') ?l = Some (Suc (length k))"
  proof -
    have "?l = (k @ '' '') @ CHR ''='' # (if v = [] then [] else CHR '' '' # v)" by simp
    then show ?thesis using find_char_append [of "CHR ''=''" "k @ '' ''" "if v = [] then [] else CHR '' '' # v"] k(4) by simp
  qed
  have key: "trim (take (Suc (length k)) ?l) = k"
    using trim_right [OF blank, of k] k(5) by simp
  have val: "trim (drop (Suc (length k) + 1) ?l) = v"
    using trim_left [OF blank, of v] v(2) by simp
  have u: "unquote v = v" using assms(2) by (auto simp: unquote_def value_ok_def)
  have s: "substituteEnvironmentVariables env v = v" using assms(2) by (auto simp: value_ok_def)
  show "ini_line env st (ini_entry (k, v)) = ini_assign k v (st\<lparr>ini_line_number := ini_line_number st + 1\<rparr>)"
    unfolding ini_line_def Let_def t
    using k(3) h by (simp only: h eq key val u s option.case) simp
qed

lemma header_line:
  "ini_line env st ''[global]'' = ini_header ''global'' (st\<lparr>ini_line_number := ini_line_number st + 1\<rparr>)"
  "m \<noteq> [] \<Longrightarrow> \<not> is_blank (last m) \<Longrightarrow> ini_line env st (''[module:'' @ m @ '']'')
     = ini_header (''module:'' @ m) (st\<lparr>ini_line_number := ini_line_number st + 1\<rparr>)"
proof -
  have t: "trim ''[global]'' = ''[global]''" "trim ''global'' = ''global''" by code_simp+
  then show "ini_line env st ''[global]'' = ini_header ''global'' (st\<lparr>ini_line_number := ini_line_number st + 1\<rparr>)"
    by (simp add: ini_line_def Let_def t)
  assume m: "m \<noteq> []" "\<not> is_blank (last m)"
  have b: "\<not> is_blank (CHR ''['')" "\<not> is_blank (CHR '']'')" "\<not> is_blank (CHR ''m'')" by (simp_all add: is_blank_def)
  have "trim (''[module:'' @ m @ '']'') = ''[module:'' @ m @ '']''" using b by (intro trim_id) simp
  moreover have "trim (''module:'' @ m) = ''module:'' @ m" using b m by (intro trim_id) simp
  ultimately show "ini_line env st (''[module:'' @ m @ '']'')
     = ini_header (''module:'' @ m) (st\<lparr>ini_line_number := ini_line_number st + 1\<rparr>)"
    by (simp add: ini_line_def Let_def)
qed

lemma ini_entries_global:
  "list_all (\<lambda>(k, v). key_ok k \<and> value_ok v) kvs \<Longrightarrow> ini_section st = ''global'' \<Longrightarrow>
     ini_cfg (foldl (ini_line env) st (map ini_entry kvs))
       = foldl (\<lambda>c (k, v). parseGlobalConfig k v c) (ini_cfg st) kvs"
proof (induction kvs arbitrary: st)
  case (Cons kv kvs)
  obtain k v where kv: "kv = (k, v)" by (cases kv)
  with Cons.prems have ok: "key_ok k" "value_ok v" by auto
  show ?case using Cons.IH Cons.prems by (simp add: kv ini_entry_line(1) [OF ok] ini_assign_def)
qed simp

lemma ini_entries_module:
  "list_all (\<lambda>(k, v). key_ok k \<and> value_ok v) kvs \<Longrightarrow> ini_section st = ''module'' \<Longrightarrow> ini_in_module st \<Longrightarrow>
     ini_cfg (foldl (ini_line env) st (map ini_entry kvs))
       = foldl (\<lambda>c (k, v). parseModuleConfig (ini_module st) k v c) (ini_cfg st) kvs"
proof (induction kvs arbitrary: st)
  case (Cons kv kvs)
  obtain k v where kv: "kv = (k, v)" by (cases kv)
  with Cons.prems have ok: "key_ok k" "value_ok v" by auto
  show ?case using Cons.IH Cons.prems by (simp add: kv ini_entry_line(1) [OF ok] ini_assign_def)
qed simp

lemma ini_section_lines:
  assumes "sec_ok sec"
  shows "ini_cfg (foldl (ini_line env) st (ini_lines sec)) = apply_sec (ini_cfg st) sec"
proof (cases sec)
  case (Global kvs)
  with assms show ?thesis by (simp add: header_line(1) ini_header_def ini_entries_global)
next
  case (Mod m kvs)
  with assms have m: "m \<noteq> []" "\<not> is_blank (last m)" by auto
  have "ini_header (''module:'' @ m) st' = st'\<lparr>ini_module := m, ini_section := ''module'', ini_in_module := True,
      ini_cfg := (ini_cfg st')\<lparr>c_modules := ensure_module m (c_modules (ini_cfg st'))\<rparr>\<rparr>" for st'
    by (simp add: ini_header_def starts_with_def)
  then show ?thesis using assms unfolding Mod ini_lines.simps foldl.simps header_line(2) [OF m]
    by (simp add: ini_entries_module)
qed

lemma ini_line_newline: "sec_ok sec \<Longrightarrow> l \<in> set (ini_lines sec) \<Longrightarrow> newline \<notin> set l"
  by (cases sec) (auto simp: list_all_iff ini_entry_line(2))

text \<open>C20. INI text is read back: a file of \<open>[global]\<close> and \<open>[module:m]\<close> sections, one \<open>key = value\<close> per
  line, with keys and values that survive trimming (no quotes around a value, no dollar sign in it),
  does to a configuration exactly what assigning its pairs in order does, in every environment.\<close>

theorem ini_roundtrip:
  assumes "list_all sec_ok secs"
  shows "parse_ini env (ini_doc secs) cfg = foldl apply_sec cfg secs"
proof -
  have lines: "getlines newline (ini_doc secs) = concat (map ini_lines secs)"
    unfolding ini_doc_def using assms by (intro getlines_concat) (auto simp: list_all_iff dest: ini_line_newline)
  have "ini_cfg (foldl (ini_line env) st (concat (map ini_lines secs))) = foldl apply_sec (ini_cfg st) secs" for st
    using assms by (induction secs arbitrary: st) (auto simp: ini_section_lines)
  from this [of "ini_start cfg"] show ?thesis by (simp add: parse_ini_def lines ini_start_def)
qed

definition demo_secs :: "ini_sec list" where
  "demo_secs = [Global [(''port'', ''8873''), (''user'', ''nobody'')],
                Mod ''pub'' [(''path'', ''/srv/mod''), (''read only'', ''yes''), (''exclude'', ''*.tmp'')]]"

theorem ini_roundtrip_witness:
  "let cfg = parse_ini (\<lambda>_. None) (ini_doc demo_secs) new_Configuration
   in net_bind_port (c_network cfg) = 8873
      \<and> std_find (c_modules cfg) ''pub'' = Some (default_ModuleConfig\<lparr>mc_path := ''/srv/mod'',
           mc_read_only := True, mc_exclude_patterns := [''*.tmp'']\<rparr>)"
proof -
  have "list_all sec_ok demo_secs" by code_simp
  then have "parse_ini (\<lambda>_. None) (ini_doc demo_secs) new_Configuration = foldl apply_sec new_Configuration demo_secs"
    by (rule ini_roundtrip)
  moreover have "net_bind_port (c_network (foldl apply_sec new_Configuration demo_secs)) = 8873" by code_simp
  moreover have "std_find (c_modules (foldl apply_sec new_Configuration demo_secs)) ''pub''
      = Some (default_ModuleConfig\<lparr>mc_path := ''/srv/mod'', mc_read_only := True, mc_exclude_patterns := [''*.tmp'']\<rparr>)"
    by code_simp
  ultimately show ?thesis by (simp add: Let_def)
qed

section \<open>What loading does not notice\<close>

definition ini_loader :: "string \<Rightarrow> (unit, unit) loader" where
  "ini_loader content =
     (let none = \<lparr>d_parse = (\<lambda>_. Some (Inl [])), d_has = (\<lambda>_ _. Inl []), d_get = (\<lambda>_ _. Inl []),
            d_string = (\<lambda>_. Inl []), d_bool = (\<lambda>_. Inl []), d_uint = (\<lambda>_. Inl []), d_size = (\<lambda>_. Inl []),
            d_is_null = (\<lambda>_. True), d_is_list = (\<lambda>_. False), d_items = (\<lambda>_. []), d_is_map = (\<lambda>_. False),
            d_entries = (\<lambda>_. [])\<rparr>
      in \<lparr>l_fs = \<lparr>entries = [([''srv''], Dir), ([''r.conf''], File content)], cwd = [], can_search = (\<lambda>_. True),
                  can_read = (\<lambda>_. True), can_write = (\<lambda>_. True), links = (\<lambda>_. 1), what_text = ''error''\<rparr>,
          l_env = (\<lambda>_. None), l_json = Some none, l_yaml = Some none\<rparr>)"

definition bad_lines :: string where
  "bad_lines = ''port = http'' @ [newline] @ ''nonsense'' @ [newline]"

definition one_module :: string where
  "one_module = ''[module:m]'' @ [newline] @ ''path = /srv'' @ [newline] @ ''exclude = *.o'' @ [newline]"

text \<open>A configuration with TLS, a password file and one module is valid; with a file for the module's path it is not.\<close>

definition valid_demo :: "string \<Rightarrow> Configuration" where
  "valid_demo path = new_Configuration
     \<lparr>c_ssl := setDefaultSSL\<lparr>ssl_enabled := True, ssl_certificate_file := ''/r.conf'', ssl_private_key_file := ''/r.conf''\<rparr>,
      c_auth := (c_auth new_Configuration)\<lparr>auth_enabled := True, auth_method := ''password'', auth_password_file := ''/r.conf''\<rparr>,
      c_modules := [(''m'', default_ModuleConfig\<lparr>mc_path := path\<rparr>)]\<rparr>"

theorem validate_iff_witness:
  "fst (validate (l_fs (ini_loader [])) (valid_demo ''/srv'')) = Some True
   \<and> fst (validate (l_fs (ini_loader [])) (valid_demo ''/r.conf'')) \<noteq> Some True"
proof -
  let ?s = "l_fs (ini_loader [])"
  have f: "net_bind_port (c_network (valid_demo p)) \<noteq> 0" "net_max_connections (c_network (valid_demo p)) \<noteq> 0"
    "file_there ?s (ssl_certificate_file (c_ssl (valid_demo p)))" "file_there ?s (ssl_private_key_file (c_ssl (valid_demo p)))"
    "file_there ?s (auth_password_file (c_auth (valid_demo p)))"
    "c_modules (valid_demo p) = [(''m'', default_ModuleConfig\<lparr>mc_path := p\<rparr>)]" for p
    by code_simp+
  have d: "fs_exists ?s ''/srv'' = Some True" "is_directory ?s ''/srv'' = Some True"
    "fs_exists ?s ''/r.conf'' = Some True" "is_directory ?s ''/r.conf'' = Some False" by code_simp+
  from f d show ?thesis
    using validate_iff [of ?s "valid_demo ''/srv''" "[]"] validate_iff [of ?s "valid_demo ''/r.conf''" "[]"] by simp
qed

text \<open>Loading reports neither malformed lines nor bad numbers, because validation clears the messages:
  a file with a port that is no number and a line without an equals sign loads with success, no
  error and the default port; and a port of -1 is taken for 65535.  Loading the same file a
  second time lists its exclusion patterns twice.\<close>

theorem load_unnoticed:
  "fst (loadFromFile (ini_loader bad_lines) ''/r.conf'' new_Configuration) = Some True
   \<and> c_errors (snd (loadFromFile (ini_loader bad_lines) ''/r.conf'' new_Configuration)) = []
   \<and> net_bind_port (c_network (snd (loadFromFile (ini_loader bad_lines) ''/r.conf'' new_Configuration))) = 873
   \<and> net_bind_port (c_network (parse_ini (\<lambda>_. None) ''port = -1'' new_Configuration)) = 65535
   \<and> map_option mc_exclude_patterns (std_find (c_modules (snd (conf_reload (ini_loader one_module)
        (snd (loadFromFile (ini_loader one_module) ''/r.conf'' new_Configuration))))) ''m'') = Some [''*.o'', ''*.o'']"
  by (intro conjI) code_simp+

text \<open>A port out of range is reduced, not refused: 66409 is read as 873.\<close>

lemma port_wraps:
  "net_bind_port (c_network (parseGlobalConfig ''port'' ''66409'' cfg)) = 873
   \<and> c_errors (parseGlobalConfig ''port'' ''66409'' cfg) = c_errors cfg"
proof -
  have "scan_int ''66409'' = Some 66409"
    by (simp add: scan_int_def isspace_def isdigit_def nat_of_digits_def digit_val_def Let_def)
  then have "stoul ''66409'' = Some 66409" by (simp add: stoul_def)
  then show ?thesis by (simp add: parseGlobalConfig_def Let_def)
qed

end
