(* ===== verification/Privileges.thy ===== *)
theory Privileges
  imports Prelude
begin

text \<open>
  Dropping privileges and entering a chroot, from \<open>src/simple-rsyncd/security/privileges.cpp\<close>.

  The process is its credentials and its root directory.  The name services and the verdicts of the
  system calls are the record \<open>kernel\<close>: a call the code makes as root may still fail, and does
  nothing when it does.
\<close>

record process =
  p_euid :: nat
  p_egid :: nat
  p_groups :: "nat list"
  p_root :: string
  p_cwd :: string

record kernel =
  k_getgrnam :: "string \<Rightarrow> nat option"
  k_getpwnam :: "string \<Rightarrow> nat option"
  k_setgid :: bool
  k_setgroups :: bool
  k_setuid :: bool
  k_chroot :: "string \<Rightarrow> bool"
  k_chdir :: bool

definition drop_group :: "kernel \<Rightarrow> string \<Rightarrow> process \<Rightarrow> bool \<times> process" where
  "drop_group k group_name p =
     (if group_name = [] then (True, p)
      else case k_getgrnam k (c_str group_name) of
        None \<Rightarrow> (False, p)
      | Some gid \<Rightarrow> if k_setgid k then (True, p\<lparr>p_egid := gid\<rparr>) else (False, p))"

definition drop_user :: "kernel \<Rightarrow> string \<Rightarrow> process \<Rightarrow> bool \<times> process" where
  "drop_user k user p =
     (if user = [] then (True, p)
      else case k_getpwnam k (c_str user) of
        None \<Rightarrow> (False, p)
      | Some uid \<Rightarrow>
          if \<not> k_setgroups k then (False, p)
          else let p = p\<lparr>p_groups := []\<rparr>
               in if k_setuid k then (True, p\<lparr>p_euid := uid\<rparr>) else (False, p))"

definition dropProcessPrivileges :: "kernel \<Rightarrow> string \<Rightarrow> string \<Rightarrow> process \<Rightarrow> bool \<times> process" where
  "dropProcessPrivileges k user group_name p =
     (if user = [] \<and> group_name = [] then (True, p)
      else if p_euid p \<noteq> 0 then (True, p)
      else case drop_group k group_name p of
        (False, p) \<Rightarrow> (False, p)
      | (True, p) \<Rightarrow> drop_user k user p)"

definition enterChroot :: "kernel \<Rightarrow> string \<Rightarrow> process \<Rightarrow> bool \<times> process" where
  "enterChroot k path p =
     (if path = [] then (True, p)
      else if p_euid p \<noteq> 0 then (False, p)
      else if \<not> k_chroot k (c_str path) then (False, p)
      else let p = p\<lparr>p_root := c_str path\<rparr>
           in if k_chdir k then (True, p\<lparr>p_cwd := ''/''\<rparr>) else (False, p))"

section \<open>What is given up\<close>

text \<open>C34. Dropping privileges with a user name gives them up: if the call succeeds for a process running
  as root, the process has the user's id and no supplementary group, and the group's id when a group
  was named (otherwise root's group stays).  With a group name only, the process still runs as root
  with all its supplementary groups.  Failing half-way, it has the new group but is still root.\<close>

theorem drop_effect:
  assumes "p_euid p = 0"
  shows "case dropProcessPrivileges k user group_name p of (ok, p') \<Rightarrow>
     (ok \<and> user \<noteq> [] \<longrightarrow>
        k_getpwnam k (c_str user) = Some (p_euid p') \<and> p_groups p' = []
        \<and> (if group_name = [] then p_egid p' = p_egid p else k_getgrnam k (c_str group_name) = Some (p_egid p')))
     \<and> (user = [] \<longrightarrow> p_euid p' = 0 \<and> p_groups p' = p_groups p)
     \<and> (\<not> ok \<longrightarrow> p_euid p' = 0)
     \<and> p_root p' = p_root p"
  using assms
  by (auto simp: dropProcessPrivileges_def drop_group_def drop_user_def Let_def
      split: option.splits prod.splits bool.splits if_splits)

definition demo_kernel :: kernel where
  "demo_kernel = \<lparr>k_getgrnam = (\<lambda>g. if g = ''rsync'' then Some 50 else None),
     k_getpwnam = (\<lambda>u. if u = ''nobody'' then Some 99 else None), k_setgid = True, k_setgroups = True,
     k_setuid = True, k_chroot = (\<lambda>_. True), k_chdir = True\<rparr>"

definition root_process :: process where
  "root_process = \<lparr>p_euid = 0, p_egid = 0, p_groups = [0, 4], p_root = ''/'', p_cwd = ''/root''\<rparr>"

theorem drop_effect_witness:
  "p_euid (snd (dropProcessPrivileges demo_kernel [] ''rsync'' root_process)) = 0
   \<and> p_groups (snd (dropProcessPrivileges demo_kernel [] ''rsync'' root_process)) = [0, 4]"
  using drop_effect [where p = root_process and k = demo_kernel and user = "[]" and group_name = "''rsync''"] by (simp add: root_process_def split: prod.splits)

end
