(* ===== verification/Logger.thy ===== *)
theory Logger
  imports Std_Map Filesystem
begin

text \<open>
  The logger of \<open>src/simple-rsyncd/utils/logger.cpp\<close>: levels, filters, formats, the log file and its
  rotation.

  A method takes \<open>log_mutex_\<close> for its whole duration.  The mutex is not recursive, so a method called
  while its own thread holds it never returns: \<open>Stuck\<close>.  A \<open>filesystem_error\<close> leaves a method
  through its \<open>lock_guard\<close>, which releases the mutex: \<open>Threw\<close>.  The time stamp's formatting
  (\<open>localtime\<close>, \<open>put_time\<close>) and \<open>std::regex\<close> are arguments; a pattern that is no regular
  expression gives \<^const>\<open>None\<close>.  What the process prints is a string.
\<close>

section \<open>Entries\<close>

datatype LogLevel = DEBUG | INFO | WARN | ERROR | FATAL

fun level_value :: "LogLevel \<Rightarrow> nat" where
  "level_value DEBUG = 0"
| "level_value INFO = 1"
| "level_value WARN = 2"
| "level_value ERROR = 3"
| "level_value FATAL = 4"

instantiation LogLevel :: linorder
begin

definition less_eq_LogLevel :: "LogLevel \<Rightarrow> LogLevel \<Rightarrow> bool" where
  "less_eq_LogLevel a b \<longleftrightarrow> level_value a \<le> level_value b"

definition less_LogLevel :: "LogLevel \<Rightarrow> LogLevel \<Rightarrow> bool" where
  "less_LogLevel a b \<longleftrightarrow> level_value a < level_value b"

instance
proof
  fix a b c :: LogLevel
  show "a < b \<longleftrightarrow> a \<le> b \<and> \<not> b \<le> a" by (auto simp: less_LogLevel_def less_eq_LogLevel_def)
  show "a \<le> a" by (simp add: less_eq_LogLevel_def)
  show "a \<le> b \<Longrightarrow> b \<le> c \<Longrightarrow> a \<le> c" by (simp add: less_eq_LogLevel_def)
  show "a \<le> b \<Longrightarrow> b \<le> a \<Longrightarrow> a = b" by (cases a; cases b) (simp_all add: less_eq_LogLevel_def)
  show "a \<le> b \<or> b \<le> a" by (auto simp: less_eq_LogLevel_def)
qed

end

datatype LogFormat = TEXT | JSON

record LogEntry =
  le_timestamp :: string
  le_level :: LogLevel
  le_message :: string
  le_component :: string
  le_fields :: "(string, string) std_map"

fun level_str :: "LogLevel \<Rightarrow> string" where
  "level_str DEBUG = ''DEBUG''"
| "level_str INFO = ''INFO''"
| "level_str WARN = ''WARN''"
| "level_str ERROR = ''ERROR''"
| "level_str FATAL = ''FATAL''"

definition dq :: string where "dq = [CHR 0x22]"

text \<open>The pieces of a loop that puts a separator before all but the first.\<close>

fun separated :: "string \<Rightarrow> string list \<Rightarrow> string" where
  "separated d [] = []"
| "separated d [x] = x"
| "separated d (x # y # xs) = x @ d @ separated d (y # xs)"

definition toJSON :: "LogEntry \<Rightarrow> string" where
  "toJSON e =
     ''{'' @ dq @ ''timestamp'' @ dq @ '':'' @ dq @ le_timestamp e @ dq @ '',''
     @ dq @ ''level'' @ dq @ '':'' @ dq @ level_str (le_level e) @ dq @ '',''
     @ dq @ ''message'' @ dq @ '':'' @ dq @ le_message e @ dq
     @ (if le_component e \<noteq> [] then '','' @ dq @ ''component'' @ dq @ '':'' @ dq @ le_component e @ dq else [])
     @ (if le_fields e \<noteq> [] then
          '','' @ dq @ ''fields'' @ dq @ '':{''
          @ separated '','' (map (\<lambda>(key, v). dq @ key @ dq @ '':'' @ dq @ v @ dq) (le_fields e)) @ ''}''
        else [])
     @ ''}''"

definition toText :: "LogEntry \<Rightarrow> string" where
  "toText e =
     ''['' @ le_timestamp e @ '']'' @ '' ['' @ level_str (le_level e) @ '']''
     @ (if le_component e \<noteq> [] then '' ['' @ le_component e @ '']'' else [])
     @ '' '' @ le_message e
     @ (if le_fields e \<noteq> [] then
          '' {'' @ separated '', '' (map (\<lambda>(key, v). key @ ''='' @ v) (le_fields e)) @ ''}''
        else [])"

section \<open>State\<close>

record Logger =
  lg_level :: LogLevel
  lg_format :: LogFormat
  lg_file :: string
  lg_stream :: "phys option"
  lg_max_file_size :: size_t
  lg_max_files :: size_t
  lg_compress :: bool
  lg_current_size :: size_t
  lg_filters :: "string list"
  lg_console :: bool
  lg_locked :: bool

definition new_Logger :: Logger where
  "new_Logger = \<lparr>lg_level = INFO, lg_format = TEXT, lg_file = [], lg_stream = None,
     lg_max_file_size = 10 * 1024 * 1024, lg_max_files = 5, lg_compress = True, lg_current_size = 0,
     lg_filters = [], lg_console = True, lg_locked = False\<rparr>"

record log_world =
  lw_fs :: fs
  lw_out :: string

datatype result = Done Logger log_world | Threw Logger log_world | Stuck

text \<open>\<open>std::lock_guard<std::mutex> lock(log_mutex_)\<close> around a body.\<close>

definition locked :: "(Logger \<Rightarrow> log_world \<Rightarrow> result) \<Rightarrow> Logger \<Rightarrow> log_world \<Rightarrow> result" where
  "locked body l w =
     (if lg_locked l then Stuck
      else case body (l\<lparr>lg_locked := True\<rparr>) w of
        Done l w \<Rightarrow> Done (l\<lparr>lg_locked := False\<rparr>) w
      | Threw l w \<Rightarrow> Threw (l\<lparr>lg_locked := False\<rparr>) w
      | Stuck \<Rightarrow> Stuck)"

section \<open>Settings\<close>

definition setLevel :: "LogLevel \<Rightarrow> Logger \<Rightarrow> log_world \<Rightarrow> result" where
  "setLevel level = locked (\<lambda>l. Done (l\<lparr>lg_level := level\<rparr>))"

definition setFormat :: "LogFormat \<Rightarrow> Logger \<Rightarrow> log_world \<Rightarrow> result" where
  "setFormat format = locked (\<lambda>l. Done (l\<lparr>lg_format := format\<rparr>))"

definition setMaxFileSize :: "size_t \<Rightarrow> Logger \<Rightarrow> log_world \<Rightarrow> result" where
  "setMaxFileSize max_size = locked (\<lambda>l. Done (l\<lparr>lg_max_file_size := max_size\<rparr>))"

definition setMaxFiles :: "size_t \<Rightarrow> Logger \<Rightarrow> log_world \<Rightarrow> result" where
  "setMaxFiles max_files = locked (\<lambda>l. Done (l\<lparr>lg_max_files := max_files\<rparr>))"

definition setCompressOldLogs :: "bool \<Rightarrow> Logger \<Rightarrow> log_world \<Rightarrow> result" where
  "setCompressOldLogs compress = locked (\<lambda>l. Done (l\<lparr>lg_compress := compress\<rparr>))"

definition addFilter :: "string \<Rightarrow> Logger \<Rightarrow> log_world \<Rightarrow> result" where
  "addFilter pattern = locked (\<lambda>l. Done (l\<lparr>lg_filters := lg_filters l @ [pattern]\<rparr>))"

definition removeFilter :: "string \<Rightarrow> Logger \<Rightarrow> log_world \<Rightarrow> result" where
  "removeFilter pattern = locked (\<lambda>l. Done (l\<lparr>lg_filters := filter (\<lambda>p. p \<noteq> pattern) (lg_filters l)\<rparr>))"

definition clearFilters :: "Logger \<Rightarrow> log_world \<Rightarrow> result" where
  "clearFilters = locked (\<lambda>l. Done (l\<lparr>lg_filters := []\<rparr>))"

text \<open>Opening for appending keeps what the file holds.\<close>

definition open_app :: "fs \<Rightarrow> string \<Rightarrow> (phys \<times> string) option \<times> fs" where
  "open_app s p =
     (case locate s Create p of
        Found q \<Rightarrow>
          (case node_at s q of
             Some (File c) \<Rightarrow> if can_write s q then (Some (q, c), s) else (None, s)
           | None \<Rightarrow> if can_write s (butlast q) then (Some (q, []), set_node q (File []) s) else (None, s)
           | _ \<Rightarrow> (None, s))
      | _ \<Rightarrow> (None, s))"

definition setFile :: "string \<Rightarrow> Logger \<Rightarrow> log_world \<Rightarrow> result" where
  "setFile fname = locked (\<lambda>l w.
     let l = l\<lparr>lg_file := fname, lg_stream := None\<rparr>
     in if fname = [] then Done l w
        else case open_app (lw_fs w) fname of
          (None, s) \<Rightarrow> Done l (w\<lparr>lw_fs := s\<rparr>)
        | (Some (q, c), s) \<Rightarrow>
            Done (l\<lparr>lg_stream := Some q, lg_current_size := word_of_nat (length c)\<rparr>) (w\<lparr>lw_fs := s\<rparr>))"

section \<open>Rotation\<close>

definition getLogFilename :: "Logger \<Rightarrow> nat \<Rightarrow> string" where
  "getLogFilename l index =
     (if lg_file l = [] then []
      else let rotated_file = stem (lg_file l) @ ''.'' @ show_nat index @ extension (lg_file l);
               dir = parent_path (lg_file l)
           in if dir \<noteq> [] then dir @ ''/'' @ rotated_file else rotated_file)"

text \<open>A file operation that may throw: whether it returned, and the file system it leaves.\<close>

definition move :: "fs \<Rightarrow> string \<Rightarrow> string \<Rightarrow> bool \<times> fs" where
  "move s old_file new_file = (case rename_file s old_file new_file of None \<Rightarrow> (False, s) | Some s' \<Rightarrow> (True, s'))"

definition compressLog :: "fs \<Rightarrow> string \<Rightarrow> bool \<times> fs" where
  "compressLog s fname =
     (case fs_exists s fname of
        None \<Rightarrow> (False, s)
      | Some False \<Rightarrow> (True, s)
      | Some True \<Rightarrow> move s fname (fname @ ''.gz''))"

text \<open>The loop from \<open>i = max_files_ - 1\<close> down to 1; for no files at all it starts at 2^64 - 1.\<close>

fun rotate_loop :: "Logger \<Rightarrow> nat \<Rightarrow> fs \<Rightarrow> bool \<times> fs" where
  "rotate_loop l 0 s = (True, s)"
| "rotate_loop l (Suc i) s =
     (let old_file = getLogFilename l i; new_file = getLogFilename l (Suc i)
      in case fs_exists s old_file of
           None \<Rightarrow> (False, s)
         | Some False \<Rightarrow> rotate_loop l i s
         | Some True \<Rightarrow>
             (case (if Suc i = unat (lg_max_files l - 1) \<and> lg_compress l then compressLog s old_file
                    else move s old_file new_file) of
                (False, s) \<Rightarrow> (False, s)
              | (True, s) \<Rightarrow> rotate_loop l i s))"

definition move_current :: "Logger \<Rightarrow> fs \<Rightarrow> bool \<times> fs" where
  "move_current l s =
     (case fs_exists s (lg_file l) of
        None \<Rightarrow> (False, s)
      | Some False \<Rightarrow> (True, s)
      | Some True \<Rightarrow> move s (lg_file l) (getLogFilename l 0))"

definition rotateLog :: "Logger \<Rightarrow> log_world \<Rightarrow> result" where
  "rotateLog = locked (\<lambda>l w.
     if lg_file l = [] \<or> lg_stream l = None then Done l w
     else let l = l\<lparr>lg_stream := None\<rparr>
          in case rotate_loop l (unat (lg_max_files l - 1)) (lw_fs w) of
               (False, s) \<Rightarrow> Threw l (w\<lparr>lw_fs := s\<rparr>)
             | (True, s) \<Rightarrow>
                 (case move_current l s of
                    (False, s) \<Rightarrow> Threw l (w\<lparr>lw_fs := s\<rparr>)
                  | (True, s) \<Rightarrow>
                      (case open_out s (lg_file l) of
                         (stream, s) \<Rightarrow>
                           Done (l\<lparr>lg_stream := stream, lg_current_size := 0\<rparr>) (w\<lparr>lw_fs := s\<rparr>))))"

definition checkRotation :: "Logger \<Rightarrow> log_world \<Rightarrow> result" where
  "checkRotation l w = (if lg_current_size l \<ge> lg_max_file_size l then rotateLog l w else Done l w)"

section \<open>Logging\<close>

definition shouldLog :: "(string \<Rightarrow> string \<Rightarrow> bool option) \<Rightarrow> Logger \<Rightarrow> string \<Rightarrow> bool" where
  "shouldLog regex_search l message \<longleftrightarrow> \<not> list_ex (\<lambda>p. regex_search message p = Some True) (lg_filters l)"

definition log_line :: "Logger \<Rightarrow> LogEntry \<Rightarrow> string" where
  "log_line l entry = (if lg_format l = JSON then toJSON entry else toText entry) @ [newline]"

definition logEntry :: "LogEntry \<Rightarrow> Logger \<Rightarrow> log_world \<Rightarrow> result" where
  "logEntry entry = locked (\<lambda>l w.
     let line = log_line l entry;
         w = (if lg_console l then w\<lparr>lw_out := lw_out w @ line\<rparr> else w)
     in case lg_stream l of
          None \<Rightarrow> Done l w
        | Some q \<Rightarrow>
            let w = w\<lparr>lw_fs := append_file q line (lw_fs w)\<rparr>;
                l = l\<lparr>lg_current_size := lg_current_size l + word_of_nat (length line)\<rparr>
            in if lg_current_size l \<ge> lg_max_file_size l then checkRotation l w else Done l w)"

definition log :: "(string \<Rightarrow> string \<Rightarrow> bool option) \<Rightarrow> string \<Rightarrow> LogLevel \<Rightarrow> string \<Rightarrow> string \<Rightarrow>
    (string, string) std_map \<Rightarrow> Logger \<Rightarrow> log_world \<Rightarrow> result" where
  "log regex_search stamp level message component flds l w =
     (if level < lg_level l then Done l w
      else if \<not> shouldLog regex_search l message then Done l w
      else logEntry \<lparr>le_timestamp = stamp, le_level = level, le_message = message,
                     le_component = component, le_fields = flds\<rparr> l w)"

text \<open>The five wrappers pass neither component nor fields.\<close>

definition debug :: "(string \<Rightarrow> string \<Rightarrow> bool option) \<Rightarrow> string \<Rightarrow> string \<Rightarrow> Logger \<Rightarrow> log_world \<Rightarrow> result" where
  "debug regex_search stamp message = log regex_search stamp DEBUG message [] []"

definition info :: "(string \<Rightarrow> string \<Rightarrow> bool option) \<Rightarrow> string \<Rightarrow> string \<Rightarrow> Logger \<Rightarrow> log_world \<Rightarrow> result" where
  "info regex_search stamp message = log regex_search stamp INFO message [] []"

definition warn :: "(string \<Rightarrow> string \<Rightarrow> bool option) \<Rightarrow> string \<Rightarrow> string \<Rightarrow> Logger \<Rightarrow> log_world \<Rightarrow> result" where
  "warn regex_search stamp message = log regex_search stamp WARN message [] []"

definition error_log :: "(string \<Rightarrow> string \<Rightarrow> bool option) \<Rightarrow> string \<Rightarrow> string \<Rightarrow> Logger \<Rightarrow> log_world \<Rightarrow> result" where
  "error_log regex_search stamp message = log regex_search stamp ERROR message [] []"

definition fatal :: "(string \<Rightarrow> string \<Rightarrow> bool option) \<Rightarrow> string \<Rightarrow> string \<Rightarrow> Logger \<Rightarrow> log_world \<Rightarrow> result" where
  "fatal regex_search stamp message = log regex_search stamp FATAL message [] []"

end
