(* ===== verification/Logger_Facts.thy ===== *)
theory Logger_Facts
  imports Logger
begin

text \<open>
  The logger at work: a sequence of calls of \<open>log\<close> on one logger, with the log file's contents
  compared with the text of the admitted messages.  A message comes with the clock's reading when it
  is logged.
\<close>

type_synonym message = "string \<times> LogLevel \<times> string \<times> string \<times> (string, string) std_map"

fun log_all :: "(string \<Rightarrow> string \<Rightarrow> bool option) \<Rightarrow> message list \<Rightarrow> Logger \<Rightarrow> log_world \<Rightarrow> result" where
  "log_all rs [] l w = Done l w"
| "log_all rs ((stamp, level, msg, cpt, flds) # ms) l w =
     (case log rs stamp level msg cpt flds l w of
        Done l w \<Rightarrow> log_all rs ms l w
      | r \<Rightarrow> r)"

text \<open>The text of the messages the level and the filters admit, in order.\<close>

fun log_text :: "(string \<Rightarrow> string \<Rightarrow> bool option) \<Rightarrow> message list \<Rightarrow> Logger \<Rightarrow> string" where
  "log_text rs [] l = []"
| "log_text rs ((stamp, level, msg, cpt, flds) # ms) l =
     (if lg_level l \<le> level \<and> shouldLog rs l msg
      then log_line l \<lparr>le_timestamp = stamp, le_level = level, le_message = msg, le_component = cpt, le_fields = flds\<rparr>
      else []) @ log_text rs ms l"

lemma log_text_size [simp]: "log_text rs ms (l\<lparr>lg_current_size := n\<rparr>) = log_text rs ms l"
  by (induction ms) (auto simp: shouldLog_def log_line_def)

lemma log_line_locked [simp]: "log_line (l\<lparr>lg_locked := b\<rparr>) e = log_line l e"
  by (simp add: log_line_def)

lemma not_less_LogLevel [simp]: "\<not> (a :: LogLevel) < b \<longleftrightarrow> b \<le> a"
  by (rule not_less)

lemma log_refused: "\<not> (lg_level l \<le> level \<and> shouldLog rs l msg) \<Longrightarrow> log rs stamp level msg cpt flds l w = Done l w"
  by (auto simp: log_def)

lemma checkRotation_held: "lg_locked l \<Longrightarrow> lg_max_file_size l \<le> lg_current_size l \<Longrightarrow> checkRotation l w = Stuck"
  by (simp add: checkRotation_def rotateLog_def locked_def)

lemma log_admitted:
  assumes "lg_level l \<le> level" "shouldLog rs l msg" "\<not> lg_locked l" "lg_stream l = Some q"
    and "line = log_line l \<lparr>le_timestamp = stamp, le_level = level, le_message = msg, le_component = cpt, le_fields = flds\<rparr>"
  shows "log rs stamp level msg cpt flds l w =
    (if lg_max_file_size l \<le> lg_current_size l + word_of_nat (length line) then Stuck
     else Done (l\<lparr>lg_current_size := lg_current_size l + word_of_nat (length line)\<rparr>)
            (w\<lparr>lw_fs := append_file q line (lw_fs w), lw_out := lw_out w @ (if lg_console l then line else [])\<rparr>))"
  using assms(1-4) unfolding assms(5)
  by (simp add: log_def logEntry_def locked_def Let_def checkRotation_held leD)

lemma word_of_nat_le_iff:
  "n < 2 ^ 64 \<Longrightarrow> (m :: 64 word) \<le> word_of_nat n \<longleftrightarrow> unat m \<le> n"
  by (simp add: word_le_nat_alt unat_of_nat take_bit_nat_eq_self_iff)

section \<open>Properties\<close>

text \<open>
  C31. Rotation by size never happens, and ends the logging.  On a logger with an open file below its size limit, a sequence of
  messages leaves in the file what it held followed by exactly the lines of the messages the level
  and the filters admit, in order, as long as the total stays below the limit (and the console
  shows the same lines).  The message that reaches the limit never returns: \<open>logEntry\<close> still holds
  the mutex that \<open>rotateLog\<close> takes.
\<close>

theorem log_until_full:
  assumes "\<not> lg_locked l" and "lg_stream l = Some q" and "q \<noteq> []"
    and "node_at (lw_fs w) q = Some (File c)" and "lg_current_size l = word_of_nat (length c)"
    and "length c < unat (lg_max_file_size l)" and "length c + length (log_text rs ms l) < 2 ^ 64"
  shows "if length c + length (log_text rs ms l) < unat (lg_max_file_size l)
         then \<exists>l' w'. log_all rs ms l w = Done l' w'
           \<and> node_at (lw_fs w') q = Some (File (c @ log_text rs ms l))
           \<and> lw_out w' = lw_out w @ (if lg_console l then log_text rs ms l else [])
         else log_all rs ms l w = Stuck"
  using assms
proof (induction ms arbitrary: l w c)
  case Nil
  then show ?case by simp
next
  case (Cons m ms)
  obtain stamp level msg cpt flds where m: "m = (stamp, level, msg, cpt, flds)" by (cases m)
  show ?case
  proof (cases "lg_level l \<le> level \<and> shouldLog rs l msg")
    case False
    have eq: "log_text rs (m # ms) l = log_text rs ms l"
      by (simp only: m log_text.simps False if_False append_Nil)
    have run: "log_all rs (m # ms) l w = log_all rs ms l w"
      by (simp add: m log_refused [OF False])
    show ?thesis
      using Cons.IH [OF Cons.prems(1-6)] Cons.prems(7) unfolding eq run .
  next
    case True
    define line where "line = log_line l \<lparr>le_timestamp = stamp, le_level = level, le_message = msg,
      le_component = cpt, le_fields = flds\<rparr>"
    define rest where "rest = log_text rs ms l"
    define l1 where "l1 = l\<lparr>lg_current_size := word_of_nat (length (c @ line))\<rparr>"
    define w1 where "w1 = w\<lparr>lw_fs := append_file q line (lw_fs w), lw_out := lw_out w @ (if lg_console l then line else [])\<rparr>"
    have eq: "log_text rs (m # ms) l = line @ rest"
      using True by (simp add: m line_def rest_def)
    have lt: "length c + length line + length rest < 2 ^ 64" using Cons.prems(7) by (simp add: eq)
    have size: "lg_current_size l + word_of_nat (length line) = word_of_nat (length (c @ line))"
      using Cons.prems(5) by simp
    have step: "log rs stamp level msg cpt flds l w =
      (if unat (lg_max_file_size l) \<le> length (c @ line) then Stuck else Done l1 w1)"
      using log_admitted [OF _ _ Cons.prems(1,2) line_def, of rs w] True lt
        word_of_nat_le_iff [of "length (c @ line)" "lg_max_file_size l"]
      unfolding size l1_def w1_def by simp
    show ?thesis
    proof (cases "unat (lg_max_file_size l) \<le> length (c @ line)")
      case full: True
      have run: "log_all rs (m # ms) l w = Stuck"
        using full by (simp add: m step)
      show ?thesis using full unfolding run eq by simp
    next
      case below: False
      have node: "node_at (lw_fs w1) q = Some (File (c @ line))"
        using Cons.prems(3,4) by (simp add: w1_def node_at_append_file)
      have rest1: "log_text rs ms l1 = rest" by (simp add: l1_def rest_def)
      have max1: "lg_max_file_size l1 = lg_max_file_size l" "lg_console l1 = lg_console l" by (simp_all add: l1_def)
      have l1: "\<not> lg_locked l1" "lg_stream l1 = Some q" "lg_current_size l1 = word_of_nat (length (c @ line))"
        using Cons.prems(1,2) by (simp_all add: l1_def)
      have ih: "if length (c @ line) + length rest < unat (lg_max_file_size l)
         then \<exists>l' w'. log_all rs ms l1 w1 = Done l' w'
           \<and> node_at (lw_fs w') q = Some (File ((c @ line) @ rest))
           \<and> lw_out w' = lw_out w1 @ (if lg_console l then rest else [])
         else log_all rs ms l1 w1 = Stuck"
        using Cons.IH [OF l1(1,2) Cons.prems(3) node l1(3)] below lt unfolding rest1 max1 by simp
      have run: "log_all rs (m # ms) l w = log_all rs ms l1 w1"
        using below by (simp add: m step)
      have out: "lw_out w1 = lw_out w @ (if lg_console l then line else [])" by (simp add: w1_def)
      show ?thesis using ih unfolding run eq out by (simp add: add.assoc split: if_splits)
    qed
  qed
qed

definition demo_logger :: "nat \<Rightarrow> Logger" where
  "demo_logger n = new_Logger\<lparr>lg_stream := Some [''d.log''], lg_file := ''/d.log'', lg_console := False,
     lg_current_size := 1, lg_max_file_size := word_of_nat n\<rparr>"

definition demo_disk :: log_world where
  "demo_disk = \<lparr>lw_fs = \<lparr>entries = [([''d.log''], File ''#'')], cwd = [], can_search = (\<lambda>_. True),
     can_read = (\<lambda>_. True), can_write = (\<lambda>_. True), links = (\<lambda>_. 1), what_text = []\<rparr>, lw_out = []\<rparr>"

lemma log_until_full_witness:
  "log_all (\<lambda>_ _. None) [(''T'', WARN, ''w'', [], []), (''U'', INFO, ''i'', [], [])] (demo_logger 25) demo_disk = Stuck"
  using log_until_full [where l = "demo_logger 25" and q = "[''d.log'']" and w = demo_disk and c = "''#''"
      and rs = "\<lambda>_ _. None" and ms = "[(''T'', WARN, ''w'', [], []), (''U'', INFO, ''i'', [], [])]"]
  by (simp add: demo_logger_def demo_disk_def new_Logger_def node_at_def shouldLog_def log_line_def toText_def
      less_eq_LogLevel_def)

text \<open>An explicit rotation does move the files: the current log becomes number 0, and so on.\<close>

lemma rotate_example:
  "(case rotateLog (demo_logger 25) demo_disk of
     Done l w \<Rightarrow> node_at (lw_fs w) [''d.0.log''] = Some (File ''#'') \<and> node_at (lw_fs w) [''d.log''] = Some (File [])
   | _ \<Rightarrow> False)"
  by code_simp

end
