(* ===== verification/Errors.thy ===== *)
theory Errors
  imports Std_Map Logger
begin

text \<open>
  \<open>src/simple-rsyncd/core/error.cpp\<close>: the error object and the builder of an error's context.  The
  time stamp a C++ object holds is kept as the text \<open>put_time\<close> makes of it.
\<close>

section \<open>Codes and categories\<close>

datatype ErrorCategory =
  CONFIGURATION | AUTHENTICATION | AUTHORIZATION | NETWORK | FILE_SYSTEM
  | PROTOCOL | MODULE | INTERNAL | EXTERNAL

datatype ErrorCode =
    CONFIG_FILE_NOT_FOUND | CONFIG_INVALID_FORMAT | CONFIG_VALIDATION_FAILED
  | CONFIG_RELOAD_FAILED | AUTH_FAILED | AUTH_USER_NOT_FOUND
  | AUTH_PASSWORD_INVALID | AUTH_ACCOUNT_LOCKED | AUTH_PASSWORD_EXPIRED
  | AUTH_SESSION_EXPIRED | AUTHZ_ACCESS_DENIED | AUTHZ_INSUFFICIENT_PERMISSIONS
  | AUTHZ_IP_DENIED | NETWORK_CONNECTION_FAILED | NETWORK_BIND_FAILED
  | NETWORK_LISTEN_FAILED | NETWORK_ACCEPT_FAILED | NETWORK_TIMEOUT
  | FS_FILE_NOT_FOUND | FS_PERMISSION_DENIED | FS_DISK_FULL
  | FS_PATH_TRAVERSAL | FS_INVALID_PATH | PROTOCOL_INVALID_MESSAGE
  | PROTOCOL_UNSUPPORTED_VERSION | PROTOCOL_PARSE_ERROR | MODULE_NOT_FOUND
  | MODULE_INVALID_CONFIG | MODULE_OPERATION_FAILED | INTERNAL_ERROR
  | INTERNAL_MEMORY_ERROR | INTERNAL_THREAD_ERROR | EXTERNAL_DEPENDENCY_ERROR
  | EXTERNAL_SSL_ERROR

fun code_value :: "ErrorCode \<Rightarrow> int" where
  "code_value CONFIG_FILE_NOT_FOUND = 1001"
| "code_value CONFIG_INVALID_FORMAT = 1002"
| "code_value CONFIG_VALIDATION_FAILED = 1003"
| "code_value CONFIG_RELOAD_FAILED = 1004"
| "code_value AUTH_FAILED = 2001"
| "code_value AUTH_USER_NOT_FOUND = 2002"
| "code_value AUTH_PASSWORD_INVALID = 2003"
| "code_value AUTH_ACCOUNT_LOCKED = 2004"
| "code_value AUTH_PASSWORD_EXPIRED = 2005"
| "code_value AUTH_SESSION_EXPIRED = 2006"
| "code_value AUTHZ_ACCESS_DENIED = 3001"
| "code_value AUTHZ_INSUFFICIENT_PERMISSIONS = 3002"
| "code_value AUTHZ_IP_DENIED = 3003"
| "code_value NETWORK_CONNECTION_FAILED = 4001"
| "code_value NETWORK_BIND_FAILED = 4002"
| "code_value NETWORK_LISTEN_FAILED = 4003"
| "code_value NETWORK_ACCEPT_FAILED = 4004"
| "code_value NETWORK_TIMEOUT = 4005"
| "code_value FS_FILE_NOT_FOUND = 5001"
| "code_value FS_PERMISSION_DENIED = 5002"
| "code_value FS_DISK_FULL = 5003"
| "code_value FS_PATH_TRAVERSAL = 5004"
| "code_value FS_INVALID_PATH = 5005"
| "code_value PROTOCOL_INVALID_MESSAGE = 6001"
| "code_value PROTOCOL_UNSUPPORTED_VERSION = 6002"
| "code_value PROTOCOL_PARSE_ERROR = 6003"
| "code_value MODULE_NOT_FOUND = 7001"
| "code_value MODULE_INVALID_CONFIG = 7002"
| "code_value MODULE_OPERATION_FAILED = 7003"
| "code_value INTERNAL_ERROR = 8001"
| "code_value INTERNAL_MEMORY_ERROR = 8002"
| "code_value INTERNAL_THREAD_ERROR = 8003"
| "code_value EXTERNAL_DEPENDENCY_ERROR = 9001"
| "code_value EXTERNAL_SSL_ERROR = 9002"

fun getErrorCodeString :: "ErrorCode \<Rightarrow> string" where
  "getErrorCodeString CONFIG_FILE_NOT_FOUND = ''CONFIG_FILE_NOT_FOUND''"
| "getErrorCodeString CONFIG_INVALID_FORMAT = ''CONFIG_INVALID_FORMAT''"
| "getErrorCodeString CONFIG_VALIDATION_FAILED = ''CONFIG_VALIDATION_FAILED''"
| "getErrorCodeString CONFIG_RELOAD_FAILED = ''CONFIG_RELOAD_FAILED''"
| "getErrorCodeString AUTH_FAILED = ''AUTH_FAILED''"
| "getErrorCodeString AUTH_USER_NOT_FOUND = ''AUTH_USER_NOT_FOUND''"
| "getErrorCodeString AUTH_PASSWORD_INVALID = ''AUTH_PASSWORD_INVALID''"
| "getErrorCodeString AUTH_ACCOUNT_LOCKED = ''AUTH_ACCOUNT_LOCKED''"
| "getErrorCodeString AUTH_PASSWORD_EXPIRED = ''AUTH_PASSWORD_EXPIRED''"
| "getErrorCodeString AUTH_SESSION_EXPIRED = ''AUTH_SESSION_EXPIRED''"
| "getErrorCodeString AUTHZ_ACCESS_DENIED = ''AUTHZ_ACCESS_DENIED''"
| "getErrorCodeString AUTHZ_INSUFFICIENT_PERMISSIONS = ''AUTHZ_INSUFFICIENT_PERMISSIONS''"
| "getErrorCodeString AUTHZ_IP_DENIED = ''AUTHZ_IP_DENIED''"
| "getErrorCodeString NETWORK_CONNECTION_FAILED = ''NETWORK_CONNECTION_FAILED''"
| "getErrorCodeString NETWORK_BIND_FAILED = ''NETWORK_BIND_FAILED''"
| "getErrorCodeString NETWORK_LISTEN_FAILED = ''NETWORK_LISTEN_FAILED''"
| "getErrorCodeString NETWORK_ACCEPT_FAILED = ''NETWORK_ACCEPT_FAILED''"
| "getErrorCodeString NETWORK_TIMEOUT = ''NETWORK_TIMEOUT''"
| "getErrorCodeString FS_FILE_NOT_FOUND = ''FS_FILE_NOT_FOUND''"
| "getErrorCodeString FS_PERMISSION_DENIED = ''FS_PERMISSION_DENIED''"
| "getErrorCodeString FS_DISK_FULL = ''FS_DISK_FULL''"
| "getErrorCodeString FS_PATH_TRAVERSAL = ''FS_PATH_TRAVERSAL''"
| "getErrorCodeString FS_INVALID_PATH = ''FS_INVALID_PATH''"
| "getErrorCodeString PROTOCOL_INVALID_MESSAGE = ''PROTOCOL_INVALID_MESSAGE''"
| "getErrorCodeString PROTOCOL_UNSUPPORTED_VERSION = ''PROTOCOL_UNSUPPORTED_VERSION''"
| "getErrorCodeString PROTOCOL_PARSE_ERROR = ''PROTOCOL_PARSE_ERROR''"
| "getErrorCodeString MODULE_NOT_FOUND = ''MODULE_NOT_FOUND''"
| "getErrorCodeString MODULE_INVALID_CONFIG = ''MODULE_INVALID_CONFIG''"
| "getErrorCodeString MODULE_OPERATION_FAILED = ''MODULE_OPERATION_FAILED''"
| "getErrorCodeString INTERNAL_ERROR = ''INTERNAL_ERROR''"
| "getErrorCodeString INTERNAL_MEMORY_ERROR = ''INTERNAL_MEMORY_ERROR''"
| "getErrorCodeString INTERNAL_THREAD_ERROR = ''INTERNAL_THREAD_ERROR''"
| "getErrorCodeString EXTERNAL_DEPENDENCY_ERROR = ''EXTERNAL_DEPENDENCY_ERROR''"
| "getErrorCodeString EXTERNAL_SSL_ERROR = ''EXTERNAL_SSL_ERROR''"

fun getCategoryString :: "ErrorCategory \<Rightarrow> string" where
  "getCategoryString CONFIGURATION = ''CONFIGURATION''"
| "getCategoryString AUTHENTICATION = ''AUTHENTICATION''"
| "getCategoryString AUTHORIZATION = ''AUTHORIZATION''"
| "getCategoryString NETWORK = ''NETWORK''"
| "getCategoryString FILE_SYSTEM = ''FILE_SYSTEM''"
| "getCategoryString PROTOCOL = ''PROTOCOL''"
| "getCategoryString MODULE = ''MODULE''"
| "getCategoryString INTERNAL = ''INTERNAL''"
| "getCategoryString EXTERNAL = ''EXTERNAL''"

fun isRecoverableError :: "ErrorCode \<Rightarrow> bool" where
  "isRecoverableError NETWORK_TIMEOUT = True"
| "isRecoverableError NETWORK_CONNECTION_FAILED = True"
| "isRecoverableError AUTH_SESSION_EXPIRED = True"
| "isRecoverableError CONFIG_RELOAD_FAILED = True"
| "isRecoverableError _ = False"

fun getRecoverySuggestionForCode :: "ErrorCode \<Rightarrow> string" where
  "getRecoverySuggestionForCode CONFIG_FILE_NOT_FOUND =
     ''Check that the configuration file exists and is readable''"
| "getRecoverySuggestionForCode CONFIG_INVALID_FORMAT =
     ''Verify the configuration file format (INI or JSON)''"
| "getRecoverySuggestionForCode AUTH_FAILED =
     ''Check username and password''"
| "getRecoverySuggestionForCode AUTH_ACCOUNT_LOCKED =
     ''Account is locked. Contact administrator''"
| "getRecoverySuggestionForCode AUTH_PASSWORD_EXPIRED =
     ''Password has expired. Please change your password''"
| "getRecoverySuggestionForCode NETWORK_BIND_FAILED =
     ''Check if the port is already in use or if you have permission to bind''"
| "getRecoverySuggestionForCode FS_PERMISSION_DENIED =
     ''Check file permissions and ownership''"
| "getRecoverySuggestionForCode FS_DISK_FULL =
     ''Free up disk space''"
| "getRecoverySuggestionForCode _ = ''Check logs for more details''"

section \<open>Errors\<close>

record RSyncError =
  re_code :: ErrorCode
  re_category :: ErrorCategory
  re_message :: string
  re_context :: string
  re_fields :: "(string, string) std_map"
  re_timestamp :: string

text \<open>The two constructors; the category's default argument is \<open>INTERNAL\<close>.\<close>

definition new_RSyncError :: "string \<Rightarrow> ErrorCode \<Rightarrow> string \<Rightarrow> ErrorCategory \<Rightarrow> RSyncError" where
  "new_RSyncError stamp code message category = \<lparr>re_code = code, re_category = category, re_message = message,
     re_context = [], re_fields = [], re_timestamp = stamp\<rparr>"

definition new_RSyncError_context ::
  "string \<Rightarrow> ErrorCode \<Rightarrow> string \<Rightarrow> string \<Rightarrow> ErrorCategory \<Rightarrow> RSyncError" where
  "new_RSyncError_context stamp code message ctx category = \<lparr>re_code = code, re_category = category,
     re_message = message, re_context = ctx, re_fields = [], re_timestamp = stamp\<rparr>"

definition err_addField :: "string \<Rightarrow> string \<Rightarrow> RSyncError \<Rightarrow> RSyncError" where
  "err_addField key v e = e\<lparr>re_fields := std_insert key v (re_fields e)\<rparr>"

definition setContext :: "string \<Rightarrow> RSyncError \<Rightarrow> RSyncError" where
  "setContext ctx e = e\<lparr>re_context := ctx\<rparr>"

definition what :: "RSyncError \<Rightarrow> string" where
  "what e = c_str (re_message e)"

definition toString :: "RSyncError \<Rightarrow> string" where
  "toString e =
     ''['' @ getCategoryString (re_category e) @ ''] ''
     @ ''['' @ getErrorCodeString (re_code e) @ ''] ''
     @ re_message e
     @ (if re_context e \<noteq> [] then '' (Context: '' @ re_context e @ '')'' else [])
     @ (if re_fields e \<noteq> [] then
          '' {'' @ separated '', '' (map (\<lambda>(key, v). key @ ''='' @ v) (re_fields e)) @ ''}''
        else [])"

definition err_toJSON :: "RSyncError \<Rightarrow> string" where
  "err_toJSON e =
     ''{'' @ dq @ ''timestamp'' @ dq @ '':'' @ dq @ re_timestamp e @ dq @ '',''
     @ dq @ ''code'' @ dq @ '':'' @ show_int (code_value (re_code e)) @ '',''
     @ dq @ ''code_string'' @ dq @ '':'' @ dq @ getErrorCodeString (re_code e) @ dq @ '',''
     @ dq @ ''category'' @ dq @ '':'' @ dq @ getCategoryString (re_category e) @ dq @ '',''
     @ dq @ ''message'' @ dq @ '':'' @ dq @ re_message e @ dq
     @ (if re_context e \<noteq> [] then '','' @ dq @ ''context'' @ dq @ '':'' @ dq @ re_context e @ dq else [])
     @ (if re_fields e \<noteq> [] then
          '','' @ dq @ ''fields'' @ dq @ '':{''
          @ separated '','' (map (\<lambda>(key, v). dq @ key @ dq @ '':'' @ dq @ v @ dq) (re_fields e)) @ ''}''
        else [])
     @ ''}''"

definition isRecoverable :: "RSyncError \<Rightarrow> bool" where
  "isRecoverable e = isRecoverableError (re_code e)"

definition getRecoverySuggestion :: "RSyncError \<Rightarrow> string" where
  "getRecoverySuggestion e = getRecoverySuggestionForCode (re_code e)"

section \<open>Context builder\<close>

record ErrorContext =
  ec_component :: string
  ec_operation :: string
  ec_path :: string
  ec_user :: string
  ec_client_address :: string
  ec_fields :: "(string, string) std_map"

definition new_ErrorContext :: ErrorContext where
  "new_ErrorContext = \<lparr>ec_component = [], ec_operation = [], ec_path = [], ec_user = [],
     ec_client_address = [], ec_fields = []\<rparr>"

definition ctx_addField :: "string \<Rightarrow> string \<Rightarrow> ErrorContext \<Rightarrow> ErrorContext" where
  "ctx_addField key v c = c\<lparr>ec_fields := std_insert key v (ec_fields c)\<rparr>"

definition setComponent :: "string \<Rightarrow> ErrorContext \<Rightarrow> ErrorContext" where
  "setComponent v c = c\<lparr>ec_component := v\<rparr>"

definition setOperation :: "string \<Rightarrow> ErrorContext \<Rightarrow> ErrorContext" where
  "setOperation v c = c\<lparr>ec_operation := v\<rparr>"

definition setPath :: "string \<Rightarrow> ErrorContext \<Rightarrow> ErrorContext" where
  "setPath v c = c\<lparr>ec_path := v\<rparr>"

definition setUser :: "string \<Rightarrow> ErrorContext \<Rightarrow> ErrorContext" where
  "setUser v c = c\<lparr>ec_user := v\<rparr>"

definition setClientAddress :: "string \<Rightarrow> ErrorContext \<Rightarrow> ErrorContext" where
  "setClientAddress v c = c\<lparr>ec_client_address := v\<rparr>"

text \<open>The pieces \<open>build\<close> writes, each after a comma but the first.\<close>

definition piece :: "string \<Rightarrow> string \<Rightarrow> string list" where
  "piece key v = (if v \<noteq> [] then [key @ ''='' @ v] else [])"

definition build :: "ErrorContext \<Rightarrow> string" where
  "build c = separated '', ''
     (piece ''component'' (ec_component c) @ piece ''operation'' (ec_operation c) @ piece ''path'' (ec_path c)
      @ piece ''user'' (ec_user c) @ piece ''client'' (ec_client_address c)
      @ map (\<lambda>(key, v). key @ ''='' @ v) (ec_fields c))"

definition assign_if :: "string \<Rightarrow> string \<Rightarrow> (string, string) std_map \<Rightarrow> (string, string) std_map" where
  "assign_if key v m = (if v \<noteq> [] then std_insert key v m else m)"

definition ctx_getFields :: "ErrorContext \<Rightarrow> (string, string) std_map" where
  "ctx_getFields c =
     assign_if ''client_address'' (ec_client_address c) (assign_if ''user'' (ec_user c)
       (assign_if ''path'' (ec_path c) (assign_if ''operation'' (ec_operation c)
         (assign_if ''component'' (ec_component c) (ec_fields c)))))"

section \<open>Lemmas\<close>

definition all_codes :: "ErrorCode list" where
  "all_codes = [CONFIG_FILE_NOT_FOUND, CONFIG_INVALID_FORMAT, CONFIG_VALIDATION_FAILED, CONFIG_RELOAD_FAILED,
     AUTH_FAILED, AUTH_USER_NOT_FOUND, AUTH_PASSWORD_INVALID, AUTH_ACCOUNT_LOCKED,
     AUTH_PASSWORD_EXPIRED, AUTH_SESSION_EXPIRED, AUTHZ_ACCESS_DENIED, AUTHZ_INSUFFICIENT_PERMISSIONS,
     AUTHZ_IP_DENIED, NETWORK_CONNECTION_FAILED, NETWORK_BIND_FAILED, NETWORK_LISTEN_FAILED,
     NETWORK_ACCEPT_FAILED, NETWORK_TIMEOUT, FS_FILE_NOT_FOUND, FS_PERMISSION_DENIED,
     FS_DISK_FULL, FS_PATH_TRAVERSAL, FS_INVALID_PATH, PROTOCOL_INVALID_MESSAGE,
     PROTOCOL_UNSUPPORTED_VERSION, PROTOCOL_PARSE_ERROR, MODULE_NOT_FOUND, MODULE_INVALID_CONFIG,
     MODULE_OPERATION_FAILED, INTERNAL_ERROR, INTERNAL_MEMORY_ERROR, INTERNAL_THREAD_ERROR,
     EXTERNAL_DEPENDENCY_ERROR, EXTERNAL_SSL_ERROR]"

lemma all_codes_UNIV: "set all_codes = UNIV"
proof -
  have "c \<in> set all_codes" for c by (cases c) (simp_all add: all_codes_def)
  then show ?thesis by auto
qed

lemma inj_by_list: "set xs = UNIV \<Longrightarrow> distinct (map f xs) \<Longrightarrow> inj f"
  by (simp add: distinct_map)

text \<open>
  The catalogue of error codes is consistent: no two codes share a number or a printed name, the
  default name \<open>UNKNOWN_ERROR\<close> is never printed, and the codes that are recoverable are exactly the
  two transient network failures, an expired session and a failed reload.
\<close>

theorem error_codes_distinct:
  "inj code_value \<and> inj getErrorCodeString \<and> (\<forall>c. getErrorCodeString c \<noteq> ''UNKNOWN_ERROR'')
   \<and> {c. isRecoverableError c}
       = {NETWORK_TIMEOUT, NETWORK_CONNECTION_FAILED, AUTH_SESSION_EXPIRED, CONFIG_RELOAD_FAILED}"
proof (intro conjI allI)
  show "inj code_value" by (rule inj_by_list [OF all_codes_UNIV]) (simp add: all_codes_def)
  show "inj getErrorCodeString" by (rule inj_by_list [OF all_codes_UNIV]) (simp add: all_codes_def)
  show "getErrorCodeString c \<noteq> ''UNKNOWN_ERROR''" for c by (cases c) simp_all
  have "isRecoverableError c \<longleftrightarrow> c \<in> {NETWORK_TIMEOUT, NETWORK_CONNECTION_FAILED, AUTH_SESSION_EXPIRED, CONFIG_RELOAD_FAILED}"
    for c by (cases c) simp_all
  then show "{c. isRecoverableError c}
       = {NETWORK_TIMEOUT, NETWORK_CONNECTION_FAILED, AUTH_SESSION_EXPIRED, CONFIG_RELOAD_FAILED}" by auto
qed

lemma find_assign_if [simp]: "std_find (assign_if key v m) k = (if v \<noteq> [] \<and> k = key then Some v else std_find m k)"
  by (simp add: assign_if_def)

lemma wf_assign_if [simp]: "std_wf m \<Longrightarrow> std_wf (assign_if key v m)"
  by (simp add: assign_if_def)

text \<open>What a reader of the merged fields finds under a key: the setter of that name wins over a field.\<close>

lemma ctx_getFields_find:
  "std_find (ctx_getFields c) k =
     (if k = ''component'' \<and> ec_component c \<noteq> [] then Some (ec_component c)
      else if k = ''operation'' \<and> ec_operation c \<noteq> [] then Some (ec_operation c)
      else if k = ''path'' \<and> ec_path c \<noteq> [] then Some (ec_path c)
      else if k = ''user'' \<and> ec_user c \<noteq> [] then Some (ec_user c)
      else if k = ''client_address'' \<and> ec_client_address c \<noteq> [] then Some (ec_client_address c)
      else std_find (ec_fields c) k)"
  by (simp add: ctx_getFields_def)

lemma ctx_getFields_wf: "std_wf (ec_fields c) \<Longrightarrow> std_wf (ctx_getFields c)"
  by (simp add: ctx_getFields_def)

end
