(* ===== verification/Daemon.thy ===== *)
theory Daemon
  imports Session Config_Docs NetworkAccess RateLimiter Privileges Logger
begin

text \<open>
  The daemon of \<open>src/simple-rsyncd/core/daemon.cpp\<close>: start and stop, the modules it loads, the accept
  loop, the workers that serve the sessions, reloading.

  Its threads are interleaved at the points where they hold no mutex: the accept thread is between
  two connections or holds a session it has admitted and not yet published (\<open>d_pending\<close>); a worker is
  idle or holds the sessions it took from the table (\<open>d_workers\<close>), those it has still to serve and
  those it has served.  A step is what a thread does between two such points.  What the daemon logs
  is the list of its messages.  A session keeps a reference to the modules it was created with; they
  are a component of the table's entries.  The sessions share the daemon's configuration object.
\<close>

section \<open>State\<close>

record client =
  cl_session :: RSyncSession
  cl_modules :: modules
  cl_wire :: string
  cl_clear :: string
  cl_sends :: nat

datatype worker = Idle | Busy "client list" "client list"

record Daemon =
  d_config :: "Configuration option"
  d_ssl_context :: "bool option"
  d_auth_manager :: "AuthenticationManager option"
  d_listening :: bool
  d_bind_address :: string
  d_bind_port :: uint16_t
  d_running :: bool
  d_shutdown :: bool
  d_sessions :: "client list"
  d_total_connections :: size_t
  d_start_time :: ticks
  d_modules :: modules
  d_authentication_failures :: size_t
  d_access_denied :: size_t
  d_limiter :: "ConnectionRateLimiter option"
  d_accepting :: bool
  d_pending :: "client option"
  d_workers :: "worker list"
  d_monitoring :: bool
  d_stopping :: bool
  d_process :: process
  d_fs :: fs
  d_log :: "(LogLevel \<times> string) list"

text \<open>The operating system and the libraries.\<close>

record ('k, 'j, 'y) host =
  h_ssl :: "'k openssl"
  h_indet :: size_t
  h_pton :: inet_pton4
  h_kernel :: kernel
  h_loader :: "('j, 'y) loader"
  h_tls_initialize :: "SSLConfig \<Rightarrow> bool"
  h_socket :: bool
  h_setsockopt :: bool
  h_nonblock :: bool
  h_inet_aton :: "string \<Rightarrow> bool"
  h_bind :: "process \<Rightarrow> string \<Rightarrow> uint16_t \<Rightarrow> bool"
  h_listen :: "int \<Rightarrow> bool"
  h_error :: string
  h_chroot_view :: "string \<Rightarrow> fs \<Rightarrow> fs"

definition say :: "LogLevel \<Rightarrow> string \<Rightarrow> Daemon \<Rightarrow> Daemon" where
  "say level message d = d\<lparr>d_log := d_log d @ [(level, message)]\<rparr>"

definition new_RSyncDaemon :: "ticks \<Rightarrow> process \<Rightarrow> fs \<Rightarrow> Configuration option \<Rightarrow> Daemon" where
  "new_RSyncDaemon now p s config =
     (let d = \<lparr>d_config = config, d_ssl_context = None, d_auth_manager = None, d_listening = False,
                d_bind_address = ''0.0.0.0'', d_bind_port = 873, d_running = False, d_shutdown = False,
                d_sessions = [], d_total_connections = 0, d_start_time = now, d_modules = [],
                d_authentication_failures = 0, d_access_denied = 0, d_limiter = None,
                d_accepting = False, d_pending = None, d_workers = [], d_monitoring = False,
                d_stopping = False, d_process = p, d_fs = s, d_log = []\<rparr>
      in case config of
           None \<Rightarrow> d
         | Some cfg \<Rightarrow>
             let d = d\<lparr>d_bind_address := net_bind_address (c_network cfg), d_bind_port := net_bind_port (c_network cfg)\<rparr>
             in if auth_enabled (c_auth cfg) then
                  say INFO (''Authentication enabled: '' @ auth_method (c_auth cfg))
                    (d\<lparr>d_auth_manager := Some (new_AuthenticationManager s (c_auth cfg))\<rparr>)
                else d)"

section \<open>Modules\<close>

definition secure_module :: "SecurityConfig \<Rightarrow> ModuleConfig \<Rightarrow> ModuleConfig" where
  "secure_module sec m = m\<lparr>mc_allow_symlinks := sec_allow_symlinks sec, mc_allow_hardlinks := sec_allow_hardlinks sec\<rparr>"

definition load_module :: "SecurityConfig \<Rightarrow> Daemon \<Rightarrow> string \<times> ModuleConfig \<Rightarrow> Daemon" where
  "load_module sec d entry =
     (case entry of (name, module_config) \<Rightarrow>
        let secured = secure_module sec module_config
        in case module_validate (d_fs d) secured of
             None \<Rightarrow> say ERROR (''Exception loading module '' @ name @ '': '' @ what_text (d_fs d)) d
           | Some True \<Rightarrow>
               say INFO (''Loaded module: '' @ name @ '' at '' @ mc_path module_config)
                 (d\<lparr>d_modules := std_insert name secured (d_modules d)\<rparr>)
           | Some False \<Rightarrow>
               let d = say WARN (''Failed to load module: '' @ name) d
               in case module_getErrors (d_fs d) secured of
                    None \<Rightarrow> say ERROR (''Exception loading module '' @ name @ '': '' @ what_text (d_fs d)) d
                  | Some errors \<Rightarrow> foldl (\<lambda>d err. say WARN (''  '' @ err) d) d errors)"

definition loadModules :: "Daemon \<Rightarrow> bool \<times> Daemon" where
  "loadModules d =
     (case d_config d of
        None \<Rightarrow> (False, d)
      | Some cfg \<Rightarrow>
          let d = foldl (load_module (c_security cfg)) (d\<lparr>d_modules := []\<rparr>) (c_modules cfg)
          in (d_modules d \<noteq> [], d))"

definition unloadModules :: "Daemon \<Rightarrow> bool \<times> Daemon" where
  "unloadModules d = (True, say INFO ''All modules unloaded'' (d\<lparr>d_modules := []\<rparr>))"

definition reloadModules :: "Daemon \<Rightarrow> bool \<times> Daemon" where
  "reloadModules d = loadModules d"

section \<open>Start\<close>

definition validateConfiguration :: "Daemon \<Rightarrow> bool option \<times> Daemon" where
  "validateConfiguration d =
     (case d_config d of
        None \<Rightarrow> (Some False, d)
      | Some cfg \<Rightarrow> (case validate (d_fs d) cfg of (ok, cfg) \<Rightarrow> (ok, d\<lparr>d_config := Some cfg\<rparr>)))"

definition initializeSSL :: "('k, 'j, 'y) host \<Rightarrow> Daemon \<Rightarrow> bool \<times> Daemon" where
  "initializeSSL h d =
     (case d_config d of
        None \<Rightarrow> (True, d)
      | Some cfg \<Rightarrow>
          if \<not> ssl_enabled (c_ssl cfg) then (True, d)
          else if h_tls_initialize h (c_ssl cfg) then
            (True, say INFO (''SSL/TLS enabled (min TLS '' @ ssl_tls_version (c_ssl cfg) @ '')'')
                     (d\<lparr>d_ssl_context := Some True\<rparr>))
          else (False, say ERROR (''SSL initialization failed: '' @ h_error h) (d\<lparr>d_ssl_context := Some False\<rparr>)))"

definition initializeNetwork :: "('k, 'j, 'y) host \<Rightarrow> Daemon \<Rightarrow> bool \<times> Daemon" where
  "initializeNetwork h d =
     (case d_config d of
        None \<Rightarrow> (False, say ERROR ''Configuration not set'' d)
      | Some cfg \<Rightarrow>
          let addr = net_bind_address (c_network cfg); port = net_bind_port (c_network cfg);
              backlog = (if net_backlog (c_network cfg) > 0 then net_backlog (c_network cfg) else 128);
              d = d\<lparr>d_bind_address := addr, d_bind_port := port, d_listening := False\<rparr>
          in if \<not> h_socket h then (False, say ERROR (''Failed to create socket: '' @ h_error h) d)
             else if \<not> h_setsockopt h then (False, say ERROR (''Failed to set socket options: '' @ h_error h) d)
             else if \<not> h_nonblock h then (False, say ERROR (''Failed to set non-blocking mode: '' @ h_error h) d)
             else if \<not> (addr = ''0.0.0.0'' \<or> addr = []) \<and> \<not> h_inet_aton h (c_str addr) then
               (False, say ERROR (''Invalid bind address: '' @ addr) d)
             else if \<not> h_bind h (d_process d) (if addr = [] then ''0.0.0.0'' else addr) port then
               (False, say ERROR (''Failed to bind socket: '' @ h_error h) d)
             else if \<not> h_listen h backlog then (False, say ERROR (''Failed to listen on socket: '' @ h_error h) d)
             else (True, say INFO (''Network initialized: listening on '' @ addr @ '':'' @ show_nat (unat port))
                           (d\<lparr>d_listening := True\<rparr>)))"

definition confine :: "('k, 'j, 'y) host \<Rightarrow> Daemon \<Rightarrow> bool \<times> Daemon" where
  "confine h d =
     (case d_config d of
        None \<Rightarrow> (True, d)
      | Some cfg \<Rightarrow>
          let dir = sec_chroot_directory (c_security cfg)
          in if sec_chroot_enabled (c_security cfg) \<and> dir \<noteq> [] then
               (case enterChroot (h_kernel h) dir (d_process d) of
                  (False, p) \<Rightarrow> (False, say ERROR (''Failed to enter chroot: '' @ dir) (d\<lparr>d_process := p\<rparr>))
                | (True, p) \<Rightarrow>
                    (True, say INFO (''Entered chroot: '' @ dir)
                             (d\<lparr>d_process := p, d_fs := h_chroot_view h (c_str dir) (d_fs d)\<rparr>)))
             else (True, d))"

definition give_up_root :: "('k, 'j, 'y) host \<Rightarrow> Daemon \<Rightarrow> bool \<times> Daemon" where
  "give_up_root h d =
     (case d_config d of
        None \<Rightarrow> (True, d)
      | Some cfg \<Rightarrow>
          let user = sec_user (c_security cfg); grp = sec_group (c_security cfg)
          in if sec_drop_privileges (c_security cfg) then
               (case dropProcessPrivileges (h_kernel h) user grp (d_process d) of
                  (False, p) \<Rightarrow> (False, say ERROR ''Failed to drop privileges'' (d\<lparr>d_process := p\<rparr>))
                | (True, p) \<Rightarrow>
                    let d = d\<lparr>d_process := p\<rparr>
                    in (True, if user \<noteq> [] \<or> grp \<noteq> [] then
                                say INFO (''Dropped privileges to user='' @ user @ '' group='' @ grp) d
                              else d))
             else (True, d))"

definition startWorkerThreads :: "Daemon \<Rightarrow> Daemon" where
  "startWorkerThreads d =
     (let num_workers = (case d_config d of Some cfg \<Rightarrow> net_worker_threads (c_network cfg) | None \<Rightarrow> 4)
      in say INFO (''Started '' @ show_nat (unat num_workers) @ '' worker threads'')
           (d\<lparr>d_workers := d_workers d @ replicate (unat num_workers) Idle\<rparr>))"

text \<open>The threads start; their loops test \<open>running_\<close> and \<open>shutdown_requested_\<close> before each turn.\<close>

definition launch :: "Daemon \<Rightarrow> Daemon" where
  "launch d =
     (let d = (case d_config d of
                 Some cfg \<Rightarrow>
                   if rl_enabled (c_rate_limit cfg) then
                     say INFO ''Connection rate limiting enabled''
                       (d\<lparr>d_limiter := Some (new_ConnectionRateLimiter
                             (rl_max_connections_per_minute (c_rate_limit cfg))
                             (rl_max_connections_per_hour (c_rate_limit cfg)))\<rparr>)
                   else d
               | None \<Rightarrow> d);
          d = say INFO ''Signal handlers configured'' d;
          d = say INFO ''Accept loop started'' (d\<lparr>d_running := True, d_accepting := True\<rparr>);
          d = startWorkerThreads d;
          d = (case d_config d of
                 Some cfg \<Rightarrow>
                   if c_auto_reload cfg then
                     say INFO ''Configuration auto-reload enabled'' (d\<lparr>d_monitoring := True\<rparr>)
                   else d
               | None \<Rightarrow> d)
      in say INFO ''Daemon started successfully'' d)"

definition stage :: "string \<Rightarrow> (Daemon \<Rightarrow> bool \<times> Daemon) \<Rightarrow> (Daemon \<Rightarrow> bool \<times> Daemon) \<Rightarrow> Daemon \<Rightarrow> bool \<times> Daemon" where
  "stage failure f rest d =
     (case f d of
        (False, d) \<Rightarrow> (False, if failure = [] then d else say ERROR failure d)
      | (True, d) \<Rightarrow> rest d)"

definition daemon_start :: "('k, 'j, 'y) host \<Rightarrow> Daemon \<Rightarrow> bool option \<times> Daemon" where
  "daemon_start h d =
     (if d_running d then (Some True, say WARN ''Daemon is already running'' d)
      else case validateConfiguration (say INFO ''Starting simple-rsyncd daemon'' d) of
        (None, d) \<Rightarrow> (None, d)
      | (Some False, d) \<Rightarrow> (Some False, say ERROR ''Configuration validation failed'' d)
      | (Some True, d) \<Rightarrow>
          apfst Some
            (stage ''Failed to load modules'' loadModules
              (stage ''Failed to initialize SSL/TLS'' (initializeSSL h)
                (stage ''Failed to initialize network'' (initializeNetwork h)
                  (stage [] (confine h)
                    (stage [] (give_up_root h) (\<lambda>d. (True, launch d)))))) d))"

section \<open>Admission\<close>

definition logAccess :: "string \<Rightarrow> string \<Rightarrow> bool \<Rightarrow> Daemon \<Rightarrow> Daemon" where
  "logAccess client_address module allowed d =
     say INFO (''access '' @ (if allowed then ''allowed'' else ''denied'') @ '' client='' @ client_address
               @ (if module = [] then [] else '' module='' @ module)) d"

definition checkAccess :: "inet_pton4 \<Rightarrow> string \<Rightarrow> string \<Rightarrow> Daemon \<Rightarrow> bool \<times> Daemon" where
  "checkAccess pton client_address module_name d =
     (case d_config d of
        None \<Rightarrow> (True, d)
      | Some cfg \<Rightarrow>
          let a = c_access cfg
          in if \<not> acc_enabled a then (True, d)
             else if \<not> isAllowed pton client_address (acc_denied_hosts a) (acc_denied_networks a)
                         (acc_allowed_hosts a) (acc_allowed_networks a) then
               (False, logAccess client_address module_name False (d\<lparr>d_access_denied := d_access_denied d + 1\<rparr>))
             else (True, logAccess client_address module_name True d))"

definition limiting :: "Daemon \<Rightarrow> ConnectionRateLimiter option" where
  "limiting d =
     (case d_config d of
        None \<Rightarrow> None
      | Some cfg \<Rightarrow> if rl_enabled (c_rate_limit cfg) then d_limiter d else None)"

definition checkRateLimit :: "ticks \<Rightarrow> string \<Rightarrow> Daemon \<Rightarrow> bool \<times> Daemon" where
  "checkRateLimit now client_address d =
     (case limiting d of
        None \<Rightarrow> (True, d)
      | Some l \<Rightarrow> (case allowConnection now client_address l of (ok, l) \<Rightarrow> (ok, d\<lparr>d_limiter := Some l\<rparr>)))"

definition updateRateLimit :: "ticks \<Rightarrow> ticks \<Rightarrow> string \<Rightarrow> Daemon \<Rightarrow> Daemon" where
  "updateRateLimit now_minute now_hour client_address d =
     (case limiting d of
        None \<Rightarrow> d
      | Some l \<Rightarrow> d\<lparr>d_limiter := Some (recordConnection now_minute now_hour client_address l)\<rparr>)"

definition validateClient :: "inet_pton4 \<Rightarrow> ticks \<Rightarrow> string \<Rightarrow> Daemon \<Rightarrow> bool \<times> Daemon" where
  "validateClient pton now client_address d =
     (case checkAccess pton client_address [] d of
        (False, d) \<Rightarrow> (False, d)
      | (True, d) \<Rightarrow> checkRateLimit now client_address d)"

text \<open>The two checks no connection goes through.\<close>

definition checkAuthentication :: "'k openssl \<Rightarrow> uint8_t list \<Rightarrow> uint8_t list \<Rightarrow> time_point \<Rightarrow> string \<Rightarrow> string \<Rightarrow> Daemon \<Rightarrow>
    bool \<times> Daemon" where
  "checkAuthentication ssl salt rnd now username password d =
     (case d_config d of
        None \<Rightarrow> (False, d)
      | Some cfg \<Rightarrow>
          if \<not> auth_enabled (c_auth cfg) then (auth_anonymous_access (c_auth cfg), d)
          else case d_auth_manager d of
            None \<Rightarrow> (False, d)
          | Some am \<Rightarrow>
              (case authenticateUser ssl salt rnd now am username password of
                 (authenticated, am) \<Rightarrow>
                   let d = d\<lparr>d_auth_manager := Some am\<rparr>
                   in (authenticated,
                       if authenticated then d
                       else d\<lparr>d_authentication_failures := d_authentication_failures d + 1\<rparr>)))"

definition checkPermissions :: "string \<Rightarrow> string \<Rightarrow> string \<Rightarrow> Daemon \<Rightarrow> bool" where
  "checkPermissions username module_name operation d =
     (case std_find (d_modules d) module_name of
        None \<Rightarrow> False
      | Some m \<Rightarrow>
          if operation = ''read'' \<or> operation = ''list'' then allowsListing m
          else if operation = ''write'' \<or> operation = ''upload'' then \<not> isReadOnly m \<and> allowsOverwriting m
          else if operation = ''delete'' then \<not> isReadOnly m \<and> allowsDeletion m
          else False)"

text \<open>
  One turn of \<open>acceptLoop\<close> with a connection: its address, the clock readings of the three limiter
  operations, and whether a TLS handshake with it succeeds.  An admitted connection becomes the
  session the accept thread is about to publish.
\<close>

record connection =
  cn_address :: string
  cn_check :: ticks
  cn_minute :: ticks
  cn_hour :: ticks
  cn_tls :: bool

definition open_session :: "Configuration \<Rightarrow> bool option \<Rightarrow> string \<Rightarrow> Daemon \<Rightarrow> Daemon" where
  "open_session cfg tls client_address d =
     d\<lparr>d_pending := Some \<lparr>cl_session = new_RSyncSession client_address (Some (c_auth cfg)) tls,
                            cl_modules = d_modules d, cl_wire = [], cl_clear = [], cl_sends = 0\<rparr>\<rparr>"

definition accept_connection :: "('k, 'j, 'y) host \<Rightarrow> connection \<Rightarrow> Daemon \<Rightarrow> Daemon" where
  "accept_connection h c d =
     (case d_config d of
        None \<Rightarrow> d
      | Some cfg \<Rightarrow>
          (case checkAccess (h_pton h) (cn_address c) [] d of
             (False, d) \<Rightarrow> say WARN (''Access denied for '' @ cn_address c) d
           | (True, d) \<Rightarrow>
               (case checkRateLimit (cn_check c) (cn_address c) d of
                  (False, d) \<Rightarrow> say WARN (''Rate limit exceeded for '' @ cn_address c) d
                | (True, d) \<Rightarrow>
                    if net_max_connections (c_network cfg) \<le> word_of_nat (length (d_sessions d)) then
                      say WARN (''Max connections reached, rejecting '' @ cn_address c) d
                    else
                      let d = updateRateLimit (cn_minute c) (cn_hour c) (cn_address c) d
                      in if ssl_enabled (c_ssl cfg) \<and> d_ssl_context d = Some True then
                           if cn_tls c then open_session cfg (Some True) (cn_address c) d
                           else say ERROR (''TLS handshake failed for '' @ cn_address c @ '': '' @ h_error h) d
                         else open_session cfg None (cn_address c) d)))"

definition publish :: "Daemon \<Rightarrow> Daemon" where
  "publish d =
     (case d_pending d of
        None \<Rightarrow> d
      | Some cl \<Rightarrow>
          say INFO (''Accepted connection from '' @ sn_client_address (cl_session cl))
            (d\<lparr>d_sessions := d_sessions d @ [cl], d_total_connections := d_total_connections d + 1,
               d_pending := None\<rparr>))"

section \<open>Workers\<close>

text \<open>\<open>workerLoop\<close>: take every active session out of the table, serve each once, put back the active ones.\<close>

definition is_active :: "client \<Rightarrow> bool" where
  "is_active cl \<longleftrightarrow> sn_active (cl_session cl)"

definition take_sessions :: "nat \<Rightarrow> Daemon \<Rightarrow> Daemon" where
  "take_sessions i d =
     d\<lparr>d_workers := (d_workers d)[i := Busy (filter is_active (d_sessions d)) []],
       d_sessions := filter (\<lambda>cl. \<not> is_active cl) (d_sessions d)\<rparr>"

definition serve :: "('k, 'j, 'y) host \<Rightarrow> (nat \<Rightarrow> nat \<Rightarrow> int) \<Rightarrow> rx \<Rightarrow> random \<Rightarrow> time_point \<Rightarrow> client \<Rightarrow> Daemon \<Rightarrow>
    client \<times> Daemon" where
  "serve h send r rnd now cl d =
     (case worker_step \<lparr>e_ssl = h_ssl h, e_modules = cl_modules cl, e_indet = h_indet h, e_send = send\<rparr> r rnd now
             (cl_session cl, \<lparr>w_fs = d_fs d, w_auth = d_auth_manager d, w_wire = cl_wire cl, w_clear = cl_clear cl, w_sends = cl_sends cl\<rparr>) of
        (sn, w) \<Rightarrow> (cl\<lparr>cl_session := sn, cl_wire := w_wire w, cl_clear := w_clear w, cl_sends := w_sends w\<rparr>,
                    d\<lparr>d_fs := w_fs w, d_auth_manager := w_auth w\<rparr>))"

definition serve_next :: "('k, 'j, 'y) host \<Rightarrow> (nat \<Rightarrow> nat \<Rightarrow> int) \<Rightarrow> rx \<Rightarrow> random \<Rightarrow> time_point \<Rightarrow> nat \<Rightarrow> Daemon \<Rightarrow>
    Daemon" where
  "serve_next h send r rnd now i d =
     (case d_workers d ! i of
        Busy (cl # todo) done \<Rightarrow>
          (case serve h send r rnd now cl d of
             (cl, d) \<Rightarrow> d\<lparr>d_workers := (d_workers d)[i := Busy todo (done @ [cl])]\<rparr>)
      | _ \<Rightarrow> d)"

definition give_back :: "nat \<Rightarrow> Daemon \<Rightarrow> Daemon" where
  "give_back i d =
     (case d_workers d ! i of
        Busy [] done \<Rightarrow>
          d\<lparr>d_workers := (d_workers d)[i := Idle], d_sessions := d_sessions d @ filter is_active done\<rparr>
      | _ \<Rightarrow> d)"

section \<open>Stop\<close>

definition begin_stop :: "Daemon \<Rightarrow> Daemon" where
  "begin_stop d =
     (if \<not> d_running d then d
      else let d = (say INFO ''Stopping simple-rsyncd daemon'' d)\<lparr>d_shutdown := True, d_running := False, d_stopping := True\<rparr>
           in if d_listening d then say INFO ''Listen socket closed'' (d\<lparr>d_listening := False\<rparr>) else d)"

definition closeSessions :: "Daemon \<Rightarrow> Daemon" where
  "closeSessions d =
     say INFO ''All sessions closed''
       (d\<lparr>d_sessions := map (\<lambda>cl. cl\<lparr>cl_session := sn_close (cl_session cl)\<rparr>) (d_sessions d)\<rparr>)"

definition cleanupSessions :: "Daemon \<Rightarrow> Daemon" where
  "cleanupSessions d = say INFO ''All sessions cleaned up'' (d\<lparr>d_sessions := []\<rparr>)"

definition joinThreads :: "Daemon \<Rightarrow> Daemon" where
  "joinThreads d = say INFO ''All threads joined'' (d\<lparr>d_workers := []\<rparr>)"

text \<open>The rest of \<open>stop\<close> (\<open>d_stopping\<close> is set while the call waits), once the accept thread, the monitor and the workers have left their loops.\<close>

definition finish_stop :: "Daemon \<Rightarrow> Daemon" where
  "finish_stop d =
     say INFO ''Daemon stopped''
       (snd (unloadModules (cleanupSessions (closeSessions
          (joinThreads (d\<lparr>d_accepting := False, d_monitoring := False, d_stopping := False\<rparr>))))))"

section \<open>Reload\<close>

definition share_client :: "Configuration \<Rightarrow> client \<Rightarrow> client" where
  "share_client cfg cl = cl\<lparr>cl_session := (cl_session cl)\<lparr>sn_auth_config := Some (c_auth cfg)\<rparr>\<rparr>"

fun share_worker :: "Configuration \<Rightarrow> worker \<Rightarrow> worker" where
  "share_worker cfg Idle = Idle"
| "share_worker cfg (Busy todo done) = Busy (map (share_client cfg) todo) (map (share_client cfg) done)"

text \<open>The configuration object changes under the daemon and all its sessions.\<close>

definition share_config :: "Configuration \<Rightarrow> Daemon \<Rightarrow> Daemon" where
  "share_config cfg d =
     d\<lparr>d_config := Some cfg, d_sessions := map (share_client cfg) (d_sessions d),
       d_pending := map_option (share_client cfg) (d_pending d),
       d_workers := map (share_worker cfg) (d_workers d)\<rparr>"

definition reloadConfig :: "('k, 'j, 'y) host \<Rightarrow> Daemon \<Rightarrow> bool option \<times> Daemon" where
  "reloadConfig h d =
     (let d = say INFO ''Reloading configuration'' d
      in case d_config d of
           None \<Rightarrow> (Some False, say ERROR ''No configuration available for reload'' d)
         | Some cfg \<Rightarrow>
             (case conf_reload ((h_loader h)\<lparr>l_fs := d_fs d\<rparr>) cfg of
                (reloaded, cfg) \<Rightarrow>
                  let d = share_config cfg d
                  in case reloaded of
                       None \<Rightarrow> (None, d)
                     | Some False \<Rightarrow> (Some False, say ERROR ''Failed to reload configuration'' d)
                     | Some True \<Rightarrow>
                         (case validateConfiguration d of
                            (None, d) \<Rightarrow> (None, d)
                          | (Some False, d) \<Rightarrow> (Some False, say ERROR ''New configuration validation failed'' d)
                          | (Some True, d) \<Rightarrow>
                              (case reloadModules d of
                                 (False, d) \<Rightarrow> (Some False, say ERROR ''Failed to reload modules'' d)
                               | (True, d) \<Rightarrow> (Some True, say INFO ''Configuration reloaded successfully'' d)))))"

text \<open>
  One turn of \<open>configMonitorLoop\<close>; nothing catches what the reload throws, which ends the process.
  The watcher and the health monitor are started by nobody and test constants.
\<close>

definition monitor_turn :: "('k, 'j, 'y) host \<Rightarrow> Daemon \<Rightarrow> Daemon option" where
  "monitor_turn h d =
     (case d_config d of
        None \<Rightarrow> Some d
      | Some cfg \<Rightarrow>
          if \<not> hasChanged cfg then Some d
          else case reloadConfig h (say INFO ''Configuration file changed, reloading...'' d) of
            (None, _) \<Rightarrow> None
          | (Some True, d) \<Rightarrow> Some (say INFO ''Configuration reloaded successfully'' d)
          | (Some False, d) \<Rightarrow>
              Some (say ERROR ''Failed to reload configuration, keeping existing configuration'' d))"

definition hasConfigChanged :: "Daemon \<Rightarrow> bool" where
  "hasConfigChanged d = False"

definition checkHealth :: "Daemon \<Rightarrow> bool" where
  "checkHealth d = True"

section \<open>Status\<close>

definition isRunning :: "Daemon \<Rightarrow> bool" where
  "isRunning d = d_running d"

definition getActiveConnections :: "Daemon \<Rightarrow> size_t" where
  "getActiveConnections d = word_of_nat (length (d_sessions d))"

definition getTotalConnections :: "Daemon \<Rightarrow> size_t" where
  "getTotalConnections d = d_total_connections d"

definition getUptime :: "ticks \<Rightarrow> Daemon \<Rightarrow> int" where
  "getUptime now d = whole_seconds (now - d_start_time d)"

definition getVersion :: string where
  "getVersion = ''0.4.0''"

definition line :: "string \<Rightarrow> string" where
  "line s = s @ [newline]"

definition getStatus :: "ticks \<Rightarrow> Daemon \<Rightarrow> string" where
  "getStatus now d =
     line ''Simple RSync Daemon Status''
     @ line ''==========================''
     @ line (''Running: '' @ (if d_running d then ''Yes'' else ''No''))
     @ line (''Bind Address: '' @ d_bind_address d @ '':'' @ show_nat (unat (d_bind_port d)))
     @ line (''Active Connections: '' @ show_nat (unat (getActiveConnections d)))
     @ line (''Total Connections: '' @ show_nat (unat (getTotalConnections d)))
     @ line (''Uptime: '' @ show_int (getUptime now d) @ '' seconds'')
     @ line (''Version: '' @ getVersion)
     @ [newline] @ line ''Modules:''
     @ concat (map (\<lambda>(name, m). line (''  '' @ name @ '': Active'')) (d_modules d))"

section \<open>The threads together\<close>

text \<open>
  \<open>Connect\<close> and \<open>Publish\<close> are the accept thread, \<open>AcceptFails\<close> the error that ends it, \<open>Take\<close>, \<open>Serve\<close>
  and \<open>Give\<close> the workers, \<open>Monitor\<close> the configuration monitor; \<open>Reload\<close>, \<open>StopBegin\<close> and \<open>StopEnd\<close>
  are calls of the daemon's public methods.

  A \<open>Serve\<close> is the client's step as much as the worker's: it is the request whose read (or, in a
  download, whose send) has returned, with what it returned.  The code sets no timeout, so a silent
  client keeps its worker from any step for as long as it likes; no statement about what the program
  can do by itself counts a \<open>Serve\<close>.  A TLS handshake is part of its \<open>Connect\<close>.
\<close>

datatype label = Connect connection | Publish | AcceptFails | Take nat
  | Serve nat "nat \<Rightarrow> nat \<Rightarrow> int" rx random time_point | Give nat | Monitor | Reload | StopBegin | StopEnd

inductive daemon_step :: "('k, 'j, 'y) host \<Rightarrow> Daemon \<Rightarrow> label \<Rightarrow> Daemon \<Rightarrow> bool" for h where
  connect: "d_running d \<Longrightarrow> \<not> d_shutdown d \<Longrightarrow> d_accepting d \<Longrightarrow> d_listening d \<Longrightarrow> d_pending d = None \<Longrightarrow>
     daemon_step h d (Connect c) (accept_connection h c d)"
| publish: "d_pending d \<noteq> None \<Longrightarrow> daemon_step h d Publish (publish d)"
| accept_fails: "d_accepting d \<Longrightarrow> d_pending d = None \<Longrightarrow>
     daemon_step h d AcceptFails (d\<lparr>d_accepting := False\<rparr>)"
| take: "d_running d \<Longrightarrow> \<not> d_shutdown d \<Longrightarrow> i < length (d_workers d) \<Longrightarrow> d_workers d ! i = Idle \<Longrightarrow>
     daemon_step h d (Take i) (take_sessions i d)"
| serve: "i < length (d_workers d) \<Longrightarrow> d_workers d ! i = Busy (cl # todo) served \<Longrightarrow>
     daemon_step h d (Serve i send r rnd now) (serve_next h send r rnd now i d)"
| give: "i < length (d_workers d) \<Longrightarrow> d_workers d ! i = Busy [] served \<Longrightarrow>
     daemon_step h d (Give i) (give_back i d)"
| monitor: "d_monitoring d \<Longrightarrow> \<not> d_shutdown d \<Longrightarrow> monitor_turn h d = Some d' \<Longrightarrow> daemon_step h d Monitor d'"
| reload: "reloadConfig h d = (x, d') \<Longrightarrow> daemon_step h d Reload d'"
| stop_begin: "d_running d \<Longrightarrow> daemon_step h d StopBegin (begin_stop d)"
| stop_end: "d_stopping d \<Longrightarrow> d_pending d = None \<Longrightarrow> \<forall>w \<in> set (d_workers d). w = Idle \<Longrightarrow>
     daemon_step h d StopEnd (finish_stop d)"

inductive daemon_run :: "('k, 'j, 'y) host \<Rightarrow> Daemon \<Rightarrow> label list \<Rightarrow> Daemon \<Rightarrow> bool" for h where
  stay: "daemon_run h d [] d"
| more: "daemon_run h d ls d' \<Longrightarrow> daemon_step h d' l d'' \<Longrightarrow> daemon_run h d (ls @ [l]) d''"

inductive_cases step_elims:
  "daemon_step h d (Connect c) d'"
  "daemon_step h d Publish d'"
  "daemon_step h d (Take i) d'"
  "daemon_step h d (Serve i send r rnd now) d'"
  "daemon_step h d (Give i) d'"

end
