(* ===== verification/Daemon_Demo.thy ===== *)
theory Daemon_Demo
  imports Daemon SshKey_Facts Config_Valid Confinement
begin

text \<open>A concrete daemon, on which the properties of the daemon are exercised.\<close>

definition demo_pton :: inet_pton4 where
  "demo_pton s =
     (if s = ''127.0.0.1'' then Some (127, 0, 0, 1)
      else if s = ''10.0.0.0'' then Some (10, 0, 0, 0)
      else if s = ''172.16.0.0'' then Some (172, 16, 0, 0)
      else if s = ''10.1.2.3'' then Some (10, 1, 2, 3)
      else if s = ''192.168.0.7'' then Some (192, 168, 0, 7)
      else None)"

definition demo_host :: "(string, unit, unit) host" where
  "demo_host = \<lparr>h_ssl = toy_ssl, h_indet = 0, h_pton = demo_pton, h_kernel = demo_kernel, h_loader = ini_loader [],
     h_tls_initialize = (\<lambda>_. False), h_socket = True, h_setsockopt = True, h_nonblock = True,
     h_inet_aton = (\<lambda>_. True), h_bind = (\<lambda>p a n. 1024 \<le> n \<or> p_euid p = 0), h_listen = (\<lambda>_. True),
     h_error = ''error'', h_chroot_view = (\<lambda>_ s. s)\<rparr>"

definition demo_cfg :: "bool \<Rightarrow> Configuration" where
  "demo_cfg limited = new_Configuration\<lparr>c_modules := [(''m'', demo_module)],
     c_rate_limit := setDefaultRateLimit\<lparr>rl_enabled := limited\<rparr>,
     c_network := setDefaultNetwork\<lparr>net_worker_threads := 1, net_max_connections := 1\<rparr>,
     c_security := setDefaultSecurity\<lparr>sec_user := ''nobody''\<rparr>\<rparr>"

definition demo_connection :: connection where
  "demo_connection = \<lparr>cn_address = ''10.1.2.3'', cn_check = 1, cn_minute = 2, cn_hour = 3, cn_tls = False\<rparr>"

definition demo_new :: "bool \<Rightarrow> Daemon" where
  "demo_new limited = new_RSyncDaemon 0 root_process demo_fs (Some (demo_cfg limited))"

definition demo_started :: "bool \<Rightarrow> Daemon" where
  "demo_started limited = snd (daemon_start demo_host (demo_new limited))"

text \<open>One evaluation of the start for every fact about it.\<close>

definition demo_ready :: "bool option \<times> Daemon \<Rightarrow> bool" where
  "demo_ready r = (case r of (x, d) \<Rightarrow> x = Some True \<and> d_running d \<and> \<not> d_shutdown d \<and> d_accepting d \<and> d_listening d
     \<and> d_pending d = None \<and> d_workers d = [Idle] \<and> d_sessions d = [] \<and> map fst (d_modules d) = [''m''])"

lemma demo_start_ready: "demo_ready (daemon_start demo_host (demo_new True))"
  "demo_ready (daemon_start demo_host (demo_new False))"
  by code_simp+

lemma demo_ready: "demo_ready (daemon_start demo_host (demo_new b))"
  using demo_start_ready by (cases b) (simp_all only:)

lemma demo_start_eq: "daemon_start demo_host (demo_new b) = (Some True, demo_started b)"
  using demo_ready [of b] by (auto simp: demo_ready_def demo_started_def prod_eq_iff split: prod.splits)

lemma demo_fields:
  "d_running (demo_started b)" "\<not> d_shutdown (demo_started b)" "d_accepting (demo_started b)"
  "d_listening (demo_started b)" "d_pending (demo_started b) = None" "d_workers (demo_started b) = [Idle]"
  "d_sessions (demo_started b) = []" "map fst (d_modules (demo_started b)) = [''m'']"
  using demo_ready [of b] by (simp_all add: demo_ready_def demo_start_eq)

definition demo_admits :: "Daemon \<Rightarrow> bool" where
  "demo_admits d = (case d_pending d of None \<Rightarrow> False
     | Some cl \<Rightarrow> sn_client_address (cl_session cl) = ''10.1.2.3'' \<and> map fst (cl_modules cl) = [''m''])"

lemma demo_admits: "demo_admits (accept_connection demo_host demo_connection (demo_started True))"
  by code_simp

end
