(* ===== verification/Daemon_Facts.thy ===== *)
theory Daemon_Facts
  imports Daemon_Demo Session_Facts Config_Facts
begin

text \<open>
  The daemon's threads together: who is served, from which addresses, how often, with which modules.
\<close>

section \<open>A session keeps its client\<close>

named_theorems keeps_address \<open>a session's client address never changes\<close>

lemma address_simple [simp]:
  "sn_client_address (endFileTransfer sn) = sn_client_address sn"
  "sn_client_address (sn_close sn) = sn_client_address sn"
  by (simp_all add: endFileTransfer_def sn_close_def split: option.split)

lemma address_read [keeps_address]:
  "readSocket r k sn = (d, n, sn') \<Longrightarrow> sn_client_address sn' = sn_client_address sn"
  by (auto elim!: readSocket_frame)

lemma address_continue [keeps_address]:
  "continueFileTransfer e r sn w = (b, sn', w') \<Longrightarrow> sn_client_address sn' = sn_client_address sn"
  by (cases "sn_state sn")
     (auto simp: continueFileTransfer_def sendChunk_def receiveChunk_def Let_def dest!: address_read
      split: prod.splits if_splits option.splits)

lemma address_start [keeps_address]:
  "startFileUpload e m p sn w = (b, sn', w') \<Longrightarrow> sn_client_address sn' = sn_client_address sn"
  "startFileDownload e m p sn w = (b, sn') \<Longrightarrow> sn_client_address sn' = sn_client_address sn"
  by (auto simp: startFileUpload_def startFileDownload_def Let_def split: option.splits if_splits prod.splits bool.splits)

lemma address_auth [keeps_address]:
  "handleAuthMessage e rnd now message sn w = (resp, sn', w') \<Longrightarrow> sn_client_address sn' = sn_client_address sn"
  by (auto simp: handleAuthMessage_def split: option.splits if_splits prod.splits)

lemma address_message [keeps_address]:
  "handleProtocolMessage e rnd now message sn w = (resp, sn', w') \<Longrightarrow> sn_client_address sn' = sn_client_address sn"
  by (auto simp: handleProtocolMessage_def Let_def split: if_splits prod.splits dest!: address_auth)

lemma address_serve [keeps_address]:
  "serveResponse e r message resp sn w = (b, sn', w') \<Longrightarrow> sn_client_address sn' = sn_client_address sn"
  by (auto simp: serveResponse_def split: option.splits if_splits prod.splits bool.splits
      dest!: respond_frame address_continue address_start)

lemma address_request [keeps_address]:
  "processRequest e r rnd now sn w = (b, sn', w') \<Longrightarrow> sn_client_address sn' = sn_client_address sn"
  by (auto simp: processRequest_def Let_def split: option.splits if_splits prod.splits
      dest!: respond_frame address_read address_continue address_message address_serve)

lemma address_worker: "sn_client_address (fst (worker_step e r rnd now (sn, w))) = sn_client_address sn"
  by (auto simp: worker_state split: prod.splits dest: address_request)

section \<open>Every client being served was admitted\<close>

fun worker_clients :: "worker \<Rightarrow> client list" where
  "worker_clients Idle = []"
| "worker_clients (Busy todo served) = todo @ served"

definition clients :: "Daemon \<Rightarrow> client list" where
  "clients d = d_sessions d @ (case d_pending d of None \<Rightarrow> [] | Some cl \<Rightarrow> [cl]) @ concat (map worker_clients (d_workers d))"

definition address_of :: "client \<Rightarrow> string" where
  "address_of cl = sn_client_address (cl_session cl)"

definition admits :: "inet_pton4 \<Rightarrow> AccessConfig \<Rightarrow> string \<Rightarrow> bool" where
  "admits pton a ip \<longleftrightarrow> acc_enabled a \<longrightarrow>
     isAllowed pton ip (acc_denied_hosts a) (acc_denied_networks a) (acc_allowed_hosts a) (acc_allowed_networks a)"

definition secured :: "bool \<Rightarrow> modules \<Rightarrow> bool" where
  "secured b ms \<longleftrightarrow> (\<forall>n m. std_find ms n = Some m \<longrightarrow> mc_allow_symlinks m = b)"

text \<open>What a served client is known by: its address and the modules its session sees.\<close>

definition ident :: "client \<Rightarrow> string \<times> modules" where
  "ident cl = (address_of cl, cl_modules cl)"

fun vetted :: "inet_pton4 \<Rightarrow> AccessConfig \<Rightarrow> bool \<Rightarrow> string \<times> modules \<Rightarrow> bool" where
  "vetted pton a b (ip, ms) \<longleftrightarrow> admits pton a ip \<and> secured b ms"

text \<open>
  The invariant: the configuration's access section and its symbolic-link switch are the initial
  ones, the loaded modules obey the switch, and whoever is served, or about to be, was admitted.
\<close>

definition settled :: "AccessConfig \<Rightarrow> bool \<Rightarrow> Daemon \<Rightarrow> bool" where
  "settled a b d \<longleftrightarrow> (\<exists>cfg. d_config d = Some cfg \<and> c_access cfg = a \<and> sec_allow_symlinks (c_security cfg) = b)"

definition daemon_inv :: "inet_pton4 \<Rightarrow> AccessConfig \<Rightarrow> bool \<Rightarrow> Daemon \<Rightarrow> bool" where
  "daemon_inv pton a b d \<longleftrightarrow> settled a b d \<and> secured b (d_modules d)
     \<and> (\<forall>cl \<in> set (clients d). vetted pton a b (ident cl))"

lemma set_clients:
  "set (clients d) = set (d_sessions d) \<union> set_option (d_pending d) \<union> (\<Union>w \<in> set (d_workers d). set (worker_clients w))"
  by (auto simp: clients_def split: option.splits)

lemma say_simps [simp]:
  "clients (say l m d) = clients d" "d_config (say l m d) = d_config d" "d_sessions (say l m d) = d_sessions d"
  "d_pending (say l m d) = d_pending d" "d_workers (say l m d) = d_workers d" "d_limiter (say l m d) = d_limiter d"
  "d_modules (say l m d) = d_modules d" "d_running (say l m d) = d_running d" "d_process (say l m d) = d_process d"
  "d_listening (say l m d) = d_listening d" "d_shutdown (say l m d) = d_shutdown d" "d_fs (say l m d) = d_fs d"
  "d_accepting (say l m d) = d_accepting d" "d_ssl_context (say l m d) = d_ssl_context d"
  by (simp_all add: say_def clients_def)

lemma inv_say [simp]: "daemon_inv pton a b (say l m d) = daemon_inv pton a b d"
  by (simp add: daemon_inv_def settled_def)

lemma inv_update:
  assumes "daemon_inv pton a b d" "d_config d' = d_config d" "d_modules d' = d_modules d"
    and "set (clients d') \<subseteq> set (clients d)"
  shows "daemon_inv pton a b d'"
  using assms by (auto simp: daemon_inv_def settled_def)

text \<open>What the accept thread does to the parts of the state the invariant reads.\<close>

lemma access_frame:
  "checkAccess pton ip m d = (ok, d') \<Longrightarrow> d_config d' = d_config d \<and> d_sessions d' = d_sessions d
     \<and> d_pending d' = d_pending d \<and> d_workers d' = d_workers d \<and> d_limiter d' = d_limiter d
     \<and> d_modules d' = d_modules d \<and> d_ssl_context d' = d_ssl_context d"
  by (auto simp: checkAccess_def logAccess_def Let_def split: option.splits if_splits)

lemma rate_frame:
  "checkRateLimit t ip d = (ok, d') \<Longrightarrow> d_config d' = d_config d \<and> d_sessions d' = d_sessions d
     \<and> d_pending d' = d_pending d \<and> d_workers d' = d_workers d \<and> d_modules d' = d_modules d
     \<and> d_ssl_context d' = d_ssl_context d"
  by (auto simp: checkRateLimit_def split: option.splits prod.splits)

lemma update_frame [simp]:
  "d_config (updateRateLimit t1 t2 ip d) = d_config d" "d_sessions (updateRateLimit t1 t2 ip d) = d_sessions d"
  "d_pending (updateRateLimit t1 t2 ip d) = d_pending d" "d_workers (updateRateLimit t1 t2 ip d) = d_workers d"
  "d_modules (updateRateLimit t1 t2 ip d) = d_modules d" "d_ssl_context (updateRateLimit t1 t2 ip d) = d_ssl_context d"
  by (simp_all add: updateRateLimit_def split: option.split)

lemma access_verdict:
  "checkAccess pton ip m d = (ok, d') \<Longrightarrow> d_config d = Some cfg \<Longrightarrow> ok = admits pton (c_access cfg) ip"
  by (auto simp: checkAccess_def admits_def Let_def split: if_splits)

text \<open>The stages of a turn of the accept loop, as one case distinction.\<close>

lemma accept_cases:
  assumes "d_config d = Some cfg"
  obtains (denied) d1 where "checkAccess (h_pton h) (cn_address c) [] d = (False, d1)"
      "accept_connection h c d = say WARN (''Access denied for '' @ cn_address c) d1"
  | (limited) d1 d2 where "checkAccess (h_pton h) (cn_address c) [] d = (True, d1)"
      "checkRateLimit (cn_check c) (cn_address c) d1 = (False, d2)"
      "accept_connection h c d = say WARN (''Rate limit exceeded for '' @ cn_address c) d2"
  | (full) d1 d2 where "checkAccess (h_pton h) (cn_address c) [] d = (True, d1)"
      "checkRateLimit (cn_check c) (cn_address c) d1 = (True, d2)"
      "net_max_connections (c_network cfg) \<le> word_of_nat (length (d_sessions d))"
      "accept_connection h c d = say WARN (''Max connections reached, rejecting '' @ cn_address c) d2"
  | (handshake) d1 d2 m where "checkAccess (h_pton h) (cn_address c) [] d = (True, d1)"
      "checkRateLimit (cn_check c) (cn_address c) d1 = (True, d2)"
      "\<not> net_max_connections (c_network cfg) \<le> word_of_nat (length (d_sessions d))"
      "accept_connection h c d = say ERROR m (updateRateLimit (cn_minute c) (cn_hour c) (cn_address c) d2)"
  | (opened) d1 d2 tls where "checkAccess (h_pton h) (cn_address c) [] d = (True, d1)"
      "checkRateLimit (cn_check c) (cn_address c) d1 = (True, d2)"
      "\<not> net_max_connections (c_network cfg) \<le> word_of_nat (length (d_sessions d))"
      "accept_connection h c d =
         open_session cfg tls (cn_address c) (updateRateLimit (cn_minute c) (cn_hour c) (cn_address c) d2)"
proof -
  obtain ok1 d1 where c1: "checkAccess (h_pton h) (cn_address c) [] d = (ok1, d1)"
    by (cases "checkAccess (h_pton h) (cn_address c) [] d")
  obtain ok2 d2 where c2: "checkRateLimit (cn_check c) (cn_address c) d1 = (ok2, d2)"
    by (cases "checkRateLimit (cn_check c) (cn_address c) d1")
  have s: "d_sessions d2 = d_sessions d" using access_frame [OF c1] rate_frame [OF c2] by simp
  note defs = accept_connection_def assms c1 c2 s Let_def
  show ?thesis
  proof (cases ok1)
    case False
    with c1 show ?thesis by (intro denied [of d1]) (simp_all add: defs)
  next
    case ok1: True
    show ?thesis
    proof (cases ok2)
      case False
      with ok1 c1 c2 show ?thesis by (intro limited [of d1 d2]) (simp_all add: defs)
    next
      case ok2: True
      show ?thesis
      proof (cases "net_max_connections (c_network cfg) \<le> word_of_nat (length (d_sessions d))")
        case True
        with ok1 ok2 c1 c2 show ?thesis by (intro full [of d1 d2]) (simp_all add: defs)
      next
        case room: False
        have tls: "accept_connection h c d =
          (let d = updateRateLimit (cn_minute c) (cn_hour c) (cn_address c) d2
           in if ssl_enabled (c_ssl cfg) \<and> d_ssl_context d = Some True then
                if cn_tls c then open_session cfg (Some True) (cn_address c) d
                else say ERROR (''TLS handshake failed for '' @ cn_address c @ '': '' @ h_error h) d
              else open_session cfg None (cn_address c) d)"
          using ok1 ok2 room by (simp add: defs)
        show ?thesis
          using handshake [of d1 d2] opened [of d1 d2 "Some True"] opened [of d1 d2 None] c1 c2 ok1 ok2 room tls
          by (auto simp: Let_def split: if_splits)
      qed
    qed
  qed
qed

lemma inv_accept:
  assumes "daemon_inv (h_pton h) a b d" "d_pending d = None"
  shows "daemon_inv (h_pton h) a b (accept_connection h c d)"
proof -
  from assms obtain cfg where cfg: "d_config d = Some cfg" "c_access cfg = a" by (auto simp: daemon_inv_def settled_def)
  have keep: "daemon_inv (h_pton h) a b d'" if "d_config d' = d_config d" "d_modules d' = d_modules d"
    "d_sessions d' = d_sessions d" "d_pending d' = d_pending d" "d_workers d' = d_workers d" for d'
    using inv_update [OF assms(1) that(1,2)] that by (simp add: set_clients)
  show ?thesis
    using cfg(1)
  proof (cases rule: accept_cases [where h = h and c = c])
    case (denied d1)
    then show ?thesis using access_frame [OF denied(1)] by (simp add: keep)
  next
    case (limited d1 d2)
    then show ?thesis using access_frame [OF limited(1)] rate_frame [OF limited(2)] by (simp add: keep)
  next
    case (full d1 d2)
    then show ?thesis using access_frame [OF full(1)] rate_frame [OF full(2)] by (simp add: keep)
  next
    case (handshake d1 d2 m)
    then show ?thesis using access_frame [OF handshake(1)] rate_frame [OF handshake(2)] by (simp add: keep)
  next
    case (opened d1 d2 tls)
    have "admits (h_pton h) a (cn_address c)" using access_verdict [OF opened(1) cfg(1)] cfg(2) by simp
    then show ?thesis
      using opened access_frame [OF opened(1)] rate_frame [OF opened(2)] assms
      by (auto simp: daemon_inv_def settled_def set_clients open_session_def ident_def address_of_def new_RSyncSession_def)
  qed
qed

lemma set_update_at: "i < length xs \<Longrightarrow> set (xs[i := x]) \<subseteq> insert x (set xs)"
  by (rule set_update_subset_insert)

text \<open>Replacing what one worker holds adds no client but the worker's.\<close>

lemma inv_worker:
  assumes "daemon_inv pton a b d" "d_config d' = d_config d" "d_modules d' = d_modules d"
    and "d_pending d' = d_pending d" "d_workers d' = (d_workers d)[i := w]"
    and "\<forall>cl \<in> set (d_sessions d') \<union> set (worker_clients w). ident cl \<in> ident ` set (clients d)"
  shows "daemon_inv pton a b d'"
proof -
  have "\<forall>cl \<in> set (clients d'). ident cl \<in> ident ` set (clients d)"
  proof
    fix cl assume "cl \<in> set (clients d')"
    then consider "cl \<in> set (d_sessions d') \<union> set (worker_clients w)" | "cl \<in> set_option (d_pending d)"
      | v where "v \<in> set (d_workers d)" "cl \<in> set (worker_clients v)"
      using set_update_subset_insert [of "d_workers d" i w] by (auto simp: set_clients assms(4,5))
    then show "ident cl \<in> ident ` set (clients d)"
    proof cases
      case 1 with assms(6) show ?thesis by blast
    next
      case 2 then show ?thesis by (auto simp: set_clients)
    next
      case 3 then show ?thesis by (auto simp: set_clients)
    qed
  qed
  moreover have "\<forall>cl \<in> set (clients d). vetted pton a b (ident cl)"
    using assms(1) by (simp add: daemon_inv_def)
  ultimately have "\<forall>cl \<in> set (clients d'). vetted pton a b (ident cl)" by fastforce
  then show ?thesis using assms(1-3) by (simp add: daemon_inv_def settled_def)
qed

lemma serve_frame:
  assumes "serve h send r rnd now cl d = (cl', d')"
  shows "ident cl' = ident cl \<and> d_modules d' = d_modules d \<and> d_config d' = d_config d \<and> d_sessions d' = d_sessions d
     \<and> d_pending d' = d_pending d \<and> d_workers d' = d_workers d \<and> d_limiter d' = d_limiter d"
proof -
  let ?e = "\<lparr>e_ssl = h_ssl h, e_modules = cl_modules cl, e_indet = h_indet h, e_send = send\<rparr>"
  let ?w = "\<lparr>w_fs = d_fs d, w_auth = d_auth_manager d, w_wire = cl_wire cl, w_clear = cl_clear cl, w_sends = cl_sends cl\<rparr>"
  obtain sn w where s: "worker_step ?e r rnd now (cl_session cl, ?w) = (sn, w)"
    by (cases "worker_step ?e r rnd now (cl_session cl, ?w)")
  have "sn_client_address sn = sn_client_address (cl_session cl)"
    using address_worker [of ?e r rnd now "cl_session cl" ?w] by (simp add: s)
  with assms s show ?thesis by (auto simp: serve_def ident_def address_of_def)
qed

lemma in_workers: "i < length (d_workers d) \<Longrightarrow> d_workers d ! i = w \<Longrightarrow> set (worker_clients w) \<subseteq> set (clients d)"
  by (auto simp: set_clients)

lemma inv_take: "daemon_inv pton a b d \<Longrightarrow> daemon_inv pton a b (take_sessions i d)"
  by (rule inv_worker [where w = "Busy (filter is_active (d_sessions d)) []"])
     (auto simp: take_sessions_def set_clients)

lemma inv_serve:
  assumes "daemon_inv pton a b d" "i < length (d_workers d)" "d_workers d ! i = Busy (cl # todo) served"
  shows "daemon_inv pton a b (serve_next h send r rnd now i d)"
proof -
  obtain cl' d' where s: "serve h send r rnd now cl d = (cl', d')" by (cases "serve h send r rnd now cl d")
  note f = serve_frame [OF s] and w = in_workers [OF assms(2,3)]
  have "serve_next h send r rnd now i d = d'\<lparr>d_workers := (d_workers d')[i := Busy todo (served @ [cl'])]\<rparr>"
    by (simp add: serve_next_def assms(3) s)
  then show ?thesis
    using f w by (intro inv_worker [OF assms(1), where i = i and w = "Busy todo (served @ [cl'])"])
      (auto simp: set_clients)
qed

lemma inv_give:
  assumes "daemon_inv pton a b d" "i < length (d_workers d)" "d_workers d ! i = Busy [] served"
  shows "daemon_inv pton a b (give_back i d)"
  using in_workers [OF assms(2,3)]
  by (intro inv_worker [OF assms(1), where i = i and w = Idle])
     (auto simp: give_back_def assms(3) set_clients)

lemma inv_publish: "daemon_inv pton a b d \<Longrightarrow> daemon_inv pton a b (publish d)"
  by (cases "d_pending d") (auto simp: publish_def daemon_inv_def settled_def set_clients)

section \<open>Reloading\<close>

lemma reload_access: "conf_reload l cfg = (x, cfg') \<Longrightarrow> fixed_part cfg' = fixed_part cfg"
  using stable_file [where cfg = cfg and l = l and fname = "c_config_file_path cfg"]
  by (auto simp: conf_reload_def stable_def split: if_splits dest: arg_cong [where f = snd])

lemma validate_config:
  "validateConfiguration d = (x, d') \<Longrightarrow> \<exists>c. d' = d\<lparr>d_config := c\<rparr>
     \<and> (case d_config d of None \<Rightarrow> c = None | Some cfg \<Rightarrow> \<exists>cfg'. c = Some cfg' \<and> fixed_part cfg' = fixed_part cfg)"
  by (cases "d_config d")
     (auto simp: validateConfiguration_def validate_def fixed_part_def split: prod.splits intro: exI [of _ None])

text \<open>Loading modules changes the modules and the log only.\<close>

definition modules_only :: "Daemon \<Rightarrow> Daemon \<Rightarrow> bool" where
  "modules_only d d' \<longleftrightarrow> d'\<lparr>d_modules := [], d_log := []\<rparr> = d\<lparr>d_modules := [], d_log := []\<rparr>"

lemma modules_only_refl [simp]: "modules_only d d" "modules_only d (say l m d)" "modules_only d (d\<lparr>d_modules := ms\<rparr>)"
  by (simp_all add: modules_only_def say_def)

lemma modules_only_trans: "modules_only d d' \<Longrightarrow> modules_only d' d'' \<Longrightarrow> modules_only d d''"
  by (simp add: modules_only_def)

lemma modules_only_fold: "(\<And>d x. modules_only d (f d x)) \<Longrightarrow> modules_only d (foldl f d xs)"
  by (induction xs arbitrary: d) (auto intro: modules_only_trans)

lemma modules_only_load: "modules_only d (load_module sec d e)"
proof (cases e)
  case (Pair name m)
  have f: "modules_only d (foldl (\<lambda>d err. say WARN (g err) d) (say l t d) errs)" for d l t g errs
    by (rule modules_only_trans [OF _ modules_only_fold]) simp_all
  have i: "modules_only d (say l t (d\<lparr>d_modules := ms\<rparr>))" "modules_only d (say l t (say l' t' d))" for l t l' t' d ms
    by (simp_all add: modules_only_def say_def)
  show ?thesis by (simp add: Pair load_module_def Let_def f i split: option.split bool.split)
qed

lemma modules_only_loads: "modules_only d (foldl (load_module sec) (d\<lparr>d_modules := []\<rparr>) es)"
  by (rule modules_only_trans [OF modules_only_refl(3) modules_only_fold [OF modules_only_load]])

lemma loadModules_frame: "loadModules d = (ok, d') \<Longrightarrow> modules_only d d'"
  using modules_only_loads [of d] by (auto simp: loadModules_def Let_def split: option.splits)

lemma modules_only_fields:
  "modules_only d d' \<Longrightarrow> d_config d' = d_config d" "modules_only d d' \<Longrightarrow> d_sessions d' = d_sessions d"
  "modules_only d d' \<Longrightarrow> d_pending d' = d_pending d" "modules_only d d' \<Longrightarrow> d_workers d' = d_workers d"
  "modules_only d d' \<Longrightarrow> d_limiter d' = d_limiter d" "modules_only d d' \<Longrightarrow> d_process d' = d_process d"
  "modules_only d d' \<Longrightarrow> d_running d' = d_running d" "modules_only d d' \<Longrightarrow> d_listening d' = d_listening d"
  "modules_only d d' \<Longrightarrow> d_fs d' = d_fs d"
  by (cases d; cases d'; simp add: modules_only_def)+

lemma ident_share [simp]: "ident (share_client cfg cl) = ident cl"
  by (simp add: ident_def address_of_def share_client_def)

lemma worker_clients_share: "worker_clients (share_worker cfg w) = map (share_client cfg) (worker_clients w)"
  by (cases w) simp_all

lemma clients_share: "set (clients (share_config cfg d)) = share_client cfg ` set (clients d)"
  by (auto simp: set_clients share_config_def worker_clients_share option.set_map image_UN)

lemma inv_share:
  "daemon_inv pton a b d \<Longrightarrow> c_access cfg = a \<Longrightarrow> sec_allow_symlinks (c_security cfg) = b \<Longrightarrow>
     daemon_inv pton a b (share_config cfg d)"
  using clients_share [of cfg d] by (auto simp: daemon_inv_def) (simp_all add: settled_def share_config_def)

lemma fixed_switch: "fixed_part cfg' = fixed_part cfg \<Longrightarrow> sec_allow_symlinks (c_security cfg') = sec_allow_symlinks (c_security cfg)"
  by (cases "c_security cfg"; cases "c_security cfg'") (simp add: fixed_part_def)

lemma inv_validate:
  assumes "daemon_inv pton a b d" "validateConfiguration d = (x, d')"
  shows "daemon_inv pton a b d'"
proof -
  from assms(1) obtain cfg where cfg: "d_config d = Some cfg" "c_access cfg = a" "sec_allow_symlinks (c_security cfg) = b"
    by (auto simp: daemon_inv_def settled_def)
  with validate_config [OF assms(2)] obtain cfg' where d': "d' = d\<lparr>d_config := Some cfg'\<rparr>"
    and f: "fixed_part cfg' = fixed_part cfg" by auto
  have "c_access cfg' = a" using f cfg(2) by (simp add: fixed_part_def)
  then show ?thesis using assms(1) fixed_switch [OF f] cfg(3) by (simp add: d' daemon_inv_def settled_def clients_def)
qed

lemma secured_insert: "secured b ms \<Longrightarrow> mc_allow_symlinks m = b \<Longrightarrow> secured b (std_insert n m ms)"
  by (simp add: secured_def)

lemma say_modules: "d_modules (foldl (\<lambda>d err. say l (g err) d) d errs) = d_modules d"
  by (induction errs arbitrary: d) simp_all

lemma secured_load:
  "secured (sec_allow_symlinks sec) (d_modules d) \<Longrightarrow> secured (sec_allow_symlinks sec) (d_modules (load_module sec d e))"
  by (cases e) (simp add: load_module_def Let_def say_modules secured_insert secure_module_def split: option.split bool.split)

lemma secured_loads:
  "secured (sec_allow_symlinks sec) (d_modules d) \<Longrightarrow>
     secured (sec_allow_symlinks sec) (d_modules (foldl (load_module sec) d es))"
  by (induction es arbitrary: d) (simp_all add: secured_load)

lemma inv_modules:
  assumes "daemon_inv pton a b d" "loadModules d = (ok, d')"
  shows "daemon_inv pton a b d'"
proof -
  from assms(1) obtain cfg where cfg: "d_config d = Some cfg" "sec_allow_symlinks (c_security cfg) = b"
    by (auto simp: daemon_inv_def settled_def)
  have "secured b (d_modules d')"
    using assms(2) cfg secured_loads [of "c_security cfg" "d\<lparr>d_modules := []\<rparr>"]
    by (auto simp: loadModules_def Let_def secured_def)
  then show ?thesis
    using assms(1) modules_only_fields [OF loadModules_frame [OF assms(2)]]
    by (simp add: daemon_inv_def settled_def clients_def)
qed

lemma inv_reload:
  assumes inv: "daemon_inv pton a b d" and r: "reloadConfig h d = (x, d')"
  shows "daemon_inv pton a b d'"
proof -
  from inv obtain cfg where cfg: "d_config d = Some cfg" "c_access cfg = a" "sec_allow_symlinks (c_security cfg) = b"
    by (auto simp: daemon_inv_def settled_def)
  obtain y cfg' where y: "conf_reload ((h_loader h)\<lparr>l_fs := d_fs d\<rparr>) cfg = (y, cfg')"
    by (cases "conf_reload ((h_loader h)\<lparr>l_fs := d_fs d\<rparr>) cfg")
  let ?d = "share_config cfg' (say INFO ''Reloading configuration'' d)"
  have "c_access cfg' = a" "sec_allow_symlinks (c_security cfg') = b"
    using reload_access [OF y] cfg(2,3) fixed_switch [of cfg' cfg] by (simp_all add: fixed_part_def)
  then have s: "daemon_inv pton a b ?d" by (intro inv_share) (simp_all add: inv)
  obtain z d1 where z: "validateConfiguration ?d = (z, d1)" by (cases "validateConfiguration ?d")
  have v: "daemon_inv pton a b d1" by (rule inv_validate [OF s z])
  obtain ok d2 where m: "reloadModules d1 = (ok, d2)" by (cases "reloadModules d1")
  have l: "daemon_inv pton a b d2"
    using inv_modules [OF v] m by (simp add: reloadModules_def)
  show ?thesis
    using r s v l by (simp add: reloadConfig_def Let_def cfg y z m split: option.splits bool.splits)
      (auto)
qed

lemma inv_stop:
  "daemon_inv pton a b d \<Longrightarrow> daemon_inv pton a b (begin_stop d)"
  "daemon_inv pton a b d \<Longrightarrow> d_pending d = None \<Longrightarrow> daemon_inv pton a b (finish_stop d)"
proof -
  show "daemon_inv pton a b d \<Longrightarrow> daemon_inv pton a b (begin_stop d)"
    by (auto simp: begin_stop_def Let_def daemon_inv_def settled_def secured_def say_def clients_def)
  show "daemon_inv pton a b d \<Longrightarrow> d_pending d = None \<Longrightarrow> daemon_inv pton a b (finish_stop d)"
    by (auto simp: finish_stop_def unloadModules_def cleanupSessions_def closeSessions_def joinThreads_def
        daemon_inv_def settled_def secured_def say_def clients_def)
qed

lemma inv_step: "daemon_step h d l d' \<Longrightarrow> daemon_inv (h_pton h) a b d \<Longrightarrow> daemon_inv (h_pton h) a b d'"
proof (induction rule: daemon_step.induct)
  case (monitor d d')
  then show ?case
    by (auto simp: monitor_turn_def split: option.splits if_splits prod.splits bool.splits dest!: inv_reload [rotated])
next
  case (accept_fails d)
  then show ?case by (auto simp: daemon_inv_def settled_def clients_def)
qed (simp_all add: inv_accept inv_publish inv_take inv_serve inv_give inv_stop inv_reload)

section \<open>Starting\<close>

text \<open>The stages of \<open>start\<close>, as one chain.\<close>

lemma stage_True: "stage m f rest d = (True, d') \<longleftrightarrow> (\<exists>d1. f d = (True, d1) \<and> rest d1 = (True, d'))"
  by (auto simp: stage_def split: prod.splits bool.splits)

lemma inv_stage:
  "(\<And>d. daemon_inv pton a b d \<Longrightarrow> daemon_inv pton a b (snd (f d))) \<Longrightarrow>
   (\<And>d. daemon_inv pton a b d \<Longrightarrow> daemon_inv pton a b (snd (rest d))) \<Longrightarrow>
   daemon_inv pton a b d \<Longrightarrow> daemon_inv pton a b (snd (stage m f rest d))"
  by (cases "f d") (force simp: stage_def split: bool.split)

lemma inv_fields:
  "daemon_inv pton a b d \<Longrightarrow> d_config d' = d_config d \<Longrightarrow> d_modules d' = d_modules d \<Longrightarrow> clients d' = clients d \<Longrightarrow>
     daemon_inv pton a b d'"
  using inv_update [of pton a b d d'] by simp

lemma start_frames:
  "d_config (snd (initializeSSL h d)) = d_config d" "d_modules (snd (initializeSSL h d)) = d_modules d"
  "clients (snd (initializeSSL h d)) = clients d"
  "d_config (snd (initializeNetwork h d)) = d_config d" "d_modules (snd (initializeNetwork h d)) = d_modules d"
  "clients (snd (initializeNetwork h d)) = clients d"
  "d_config (snd (confine h d)) = d_config d" "d_modules (snd (confine h d)) = d_modules d"
  "clients (snd (confine h d)) = clients d"
  "d_config (snd (give_up_root h d)) = d_config d" "d_modules (snd (give_up_root h d)) = d_modules d"
  "clients (snd (give_up_root h d)) = clients d"
  by (simp_all add: initializeSSL_def initializeNetwork_def confine_def give_up_root_def Let_def say_def clients_def
      split: option.split prod.split bool.split)

lemma inv_stages:
  "daemon_inv pton a b d \<Longrightarrow> daemon_inv pton a b (snd (loadModules d))"
  "daemon_inv pton a b d \<Longrightarrow> daemon_inv pton a b (snd (initializeSSL h d))"
  "daemon_inv pton a b d \<Longrightarrow> daemon_inv pton a b (snd (initializeNetwork h d))"
  "daemon_inv pton a b d \<Longrightarrow> daemon_inv pton a b (snd (confine h d))"
  "daemon_inv pton a b d \<Longrightarrow> daemon_inv pton a b (snd (give_up_root h d))"
  by (cases "loadModules d", simp add: inv_modules) (simp_all add: inv_fields [of _ _ _ d] start_frames)

lemma launch_frame: "d_config (launch d) = d_config d" "d_modules (launch d) = d_modules d"
  "set (clients (launch d)) = set (clients d)"
  by (auto simp: launch_def startWorkerThreads_def Let_def say_def set_clients split: option.split)

lemma inv_start:
  assumes "daemon_inv pton a b d"
  shows "daemon_inv pton a b (snd (daemon_start h d))"
proof (cases "d_running d")
  case True
  with assms show ?thesis by (simp add: daemon_start_def)
next
  case False
  obtain x d1 where v: "validateConfiguration (say INFO ''Starting simple-rsyncd daemon'' d) = (x, d1)"
    by (cases "validateConfiguration (say INFO ''Starting simple-rsyncd daemon'' d)")
  have d1: "daemon_inv pton a b d1" by (rule inv_validate [OF _ v]) (simp add: assms)
  have launched: "daemon_inv pton a b (launch d)" if "daemon_inv pton a b d" for d
    by (rule inv_update [OF that]) (simp_all add: launch_frame)
  have "daemon_inv pton a b (snd (stage ''Failed to load modules'' loadModules
      (stage ''Failed to initialize SSL/TLS'' (initializeSSL h)
        (stage ''Failed to initialize network'' (initializeNetwork h)
          (stage [] (confine h) (stage [] (give_up_root h) (\<lambda>d. (True, launch d)))))) d1))"
    by (intro inv_stage inv_stages d1) (simp_all add: launched)
  with False v d1 show ?thesis by (simp add: daemon_start_def snd_apfst split: option.split bool.split)
qed

lemma inv_new:
  "daemon_inv pton (c_access cfg) (sec_allow_symlinks (c_security cfg)) (new_RSyncDaemon now p s (Some cfg))"
  by (simp add: new_RSyncDaemon_def Let_def daemon_inv_def settled_def secured_def clients_def say_def)

text \<open>A daemon built on a configuration and started, whatever \<open>start\<close> said.\<close>

definition started :: "('k, 'j, 'y) host \<Rightarrow> ticks \<Rightarrow> process \<Rightarrow> fs \<Rightarrow> Configuration \<Rightarrow> Daemon" where
  "started h now p s cfg = snd (daemon_start h (new_RSyncDaemon now p s (Some cfg)))"

lemma inv_of_run: "daemon_run h d0 ls d \<Longrightarrow> daemon_inv (h_pton h) a b d0 \<Longrightarrow> daemon_inv (h_pton h) a b d"
  by (induction ls d rule: daemon_run.induct) (simp_all add: inv_step)

lemma inv_reached:
  assumes "daemon_run h (started h now p s cfg) ls d"
  shows "daemon_inv (h_pton h) (c_access cfg) (sec_allow_symlinks (c_security cfg)) d"
  by (rule inv_of_run [OF assms]) (simp add: started_def inv_start inv_new)

text \<open>
  C5. The access lists hold for everyone the daemon serves.  However a started daemon's threads
  interleave, whatever the clients send, and through any reloads and stops, the address of every client
  in the session table, on its way into it or in a worker's hands passes the access lists of the
  configuration the daemon was built with, unless that disables them.
\<close>

theorem served_were_admitted:
  assumes "daemon_run h (started h now p s cfg) ls d" and "cl \<in> set (clients d)"
  shows "admits (h_pton h) (c_access cfg) (address_of cl)"
  using inv_reached [OF assms(1)] assms(2) by (auto simp: daemon_inv_def ident_def)

lemma demo_started_eq: "started demo_host 0 root_process demo_fs (demo_cfg b) = demo_started b"
  by (simp add: started_def demo_started_def demo_new_def)

lemma demo_connects:
  "daemon_step demo_host (demo_started b) (Connect c) (accept_connection demo_host c (demo_started b))"
  by (rule daemon_step.connect) (simp_all add: demo_fields)

theorem served_were_admitted_witness:
  "\<exists>cl \<in> set (clients (accept_connection demo_host demo_connection (demo_started True))).
     address_of cl = ''10.1.2.3'' \<and> admits demo_pton setDefaultAccess ''10.1.2.3''"
proof -
  obtain cl where cl: "d_pending (accept_connection demo_host demo_connection (demo_started True)) = Some cl"
    "address_of cl = ''10.1.2.3''"
    using demo_admits by (auto simp: demo_admits_def address_of_def split: option.splits)
  have "daemon_run demo_host (started demo_host 0 root_process demo_fs (demo_cfg True)) ([] @ [Connect demo_connection])
      (accept_connection demo_host demo_connection (demo_started True))"
    unfolding demo_started_eq by (rule daemon_run.more [OF daemon_run.stay demo_connects])
  from served_were_admitted [OF this, of cl] cl show ?thesis
    by (auto simp: set_clients demo_cfg_def new_Configuration_def demo_host_def intro!: bexI [of _ cl])
qed

text \<open>
  The symbolic-link switch of the security section rules every module: whatever a module's own
  section says, the modules the daemon loads, and those any served client can reach, follow symbolic
  links exactly when the daemon's configuration allowed it at construction; reloading cannot change it.
\<close>

theorem modules_obey_security:
  assumes "daemon_run h (started h now p s cfg) ls d"
    and "std_find (d_modules d) name = Some m \<or> (\<exists>cl \<in> set (clients d). std_find (cl_modules cl) name = Some m)"
  shows "mc_allow_symlinks m = sec_allow_symlinks (c_security cfg)"
  using inv_reached [OF assms(1)] assms(2) by (force simp: daemon_inv_def ident_def secured_def)

theorem modules_obey_security_witness:
  "\<exists>m. std_find (d_modules (demo_started True)) ''m'' = Some m \<and> \<not> mc_allow_symlinks m"
proof -
  have "''m'' \<in> dom (std_find (d_modules (demo_started True)))"
    using demo_fields(8) [of True] by (simp add: dom_map_of_conv_image_fst flip: list.set_map)
  then obtain m where m: "std_find (d_modules (demo_started True)) ''m'' = Some m" by auto
  have "daemon_run demo_host (started demo_host 0 root_process demo_fs (demo_cfg True)) [] (demo_started True)"
    unfolding demo_started_eq by (rule daemon_run.stay)
  from modules_obey_security [OF this] m show ?thesis
    by (auto simp: demo_cfg_def new_Configuration_def setDefaultSecurity_def)
qed

end
