(* ===== verification/Daemon_Limits.thy ===== *)
theory Daemon_Limits
  imports Daemon_Facts
begin

text \<open>
  Limits: the daemon's accept loop as a client of the rate limiter, and the connection limit that
  the workers undo.
\<close>

section \<open>Only the accept loop touches the limiter\<close>

lemma share_frame [simp]: "d_limiter (share_config cfg d) = d_limiter d" "d_config (share_config cfg d) = Some cfg"
  by (simp_all add: share_config_def)

lemma validate_limiter: "validateConfiguration d = (x, d') \<Longrightarrow> d_limiter d' = d_limiter d"
  using validate_config [of d x d'] by auto

lemma reload_frame:
  assumes "reloadConfig h d = (x, d')" "d_config d = Some cfg"
  shows "d_limiter d' = d_limiter d \<and> (\<exists>cfg'. d_config d' = Some cfg' \<and> fixed_part cfg' = fixed_part cfg)"
proof -
  obtain y c where y: "conf_reload ((h_loader h)\<lparr>l_fs := d_fs d\<rparr>) cfg = (y, c)"
    by (cases "conf_reload ((h_loader h)\<lparr>l_fs := d_fs d\<rparr>) cfg")
  let ?d = "share_config c (say INFO ''Reloading configuration'' d)"
  obtain z d1 where z: "validateConfiguration ?d = (z, d1)" by (cases "validateConfiguration ?d")
  obtain ok d2 where m: "loadModules d1 = (ok, d2)" by (cases "loadModules d1")
  from validate_config [OF z] obtain c1 where c1: "d_config d1 = Some c1" "fixed_part c1 = fixed_part c"
    by auto
  note f = modules_only_fields [OF loadModules_frame [OF m]] validate_limiter [OF z] reload_access [OF y] c1
  show ?thesis
    using assms(1) f by (auto simp: reloadConfig_def Let_def assms(2) y z reloadModules_def m split: option.splits bool.splits)
qed

lemma other_step:
  assumes "daemon_step h d l d'" "d_config d = Some cfg" "\<forall>c. l \<noteq> Connect c"
  shows "d_limiter d' = d_limiter d \<and> (\<exists>cfg'. d_config d' = Some cfg' \<and> fixed_part cfg' = fixed_part cfg)"
  using assms
proof (induction rule: daemon_step.induct)
  case (publish d)
  then show ?case by (auto simp: publish_def)
next
  case (take d i)
  then show ?case by (simp add: take_sessions_def)
next
  case (serve i d cl todo served send r rnd now)
  obtain cl' d1 where s: "Daemon.serve h send r rnd now cl d = (cl', d1)" by (cases "Daemon.serve h send r rnd now cl d")
  show ?case using serve_frame [OF s] serve by (simp add: serve_next_def s)
next
  case (give i d served)
  then show ?case by (simp add: give_back_def)
next
  case (monitor d d')
  then show ?case
    using reload_frame [of h "say INFO ''Configuration file changed, reloading...'' d"]
    by (auto simp: monitor_turn_def split: if_splits prod.splits option.splits bool.splits)
next
  case (reload d x d')
  then show ?case by (simp add: reload_frame)
next
  case (stop_begin d)
  then show ?case by (simp add: begin_stop_def Let_def)
next
  case (stop_end d)
  then show ?case
    by (simp add: finish_stop_def unloadModules_def cleanupSessions_def closeSessions_def joinThreads_def)
qed simp_all

section \<open>Admissions\<close>

text \<open>The admissions of a turn of the accept loop, with the clock readings they are counted under.\<close>

definition passes :: "('k, 'j, 'y) host \<Rightarrow> connection \<Rightarrow> Daemon \<Rightarrow> bool" where
  "passes h c d \<longleftrightarrow> fst (checkAccess (h_pton h) (cn_address c) [] d)"

definition full :: "Daemon \<Rightarrow> bool" where
  "full d \<longleftrightarrow> (case d_config d of None \<Rightarrow> True
     | Some cfg \<Rightarrow> net_max_connections (c_network cfg) \<le> word_of_nat (length (d_sessions d)))"

definition admitted :: "('k, 'j, 'y) host \<Rightarrow> connection \<Rightarrow> Daemon \<Rightarrow> bool" where
  "admitted h c d \<longleftrightarrow> passes h c d \<and> fst (checkRateLimit (cn_check c) (cn_address c) d) \<and> \<not> full d"

text \<open>
  Runs with the list of admissions, newest first, and the last clock reading; the clock is steady.
\<close>

inductive logged_run :: "('k, 'j, 'y) host \<Rightarrow> Daemon \<Rightarrow> (string \<times> ticks \<times> ticks) list \<Rightarrow> ticks \<Rightarrow> Daemon \<Rightarrow> bool"
  for h d0 where
  start: "logged_run h d0 [] 0 d0"
| connect: "logged_run h d0 es clk d \<Longrightarrow> daemon_step h d (Connect c) d' \<Longrightarrow>
     0 < cn_check c \<Longrightarrow> clk \<le> cn_check c \<Longrightarrow> cn_check c \<le> cn_minute c \<Longrightarrow> cn_minute c \<le> cn_hour c \<Longrightarrow>
     logged_run h d0 (if admitted h c d then (cn_address c, cn_minute c, cn_hour c) # es else es)
       (if admitted h c d then cn_hour c else if passes h c d then cn_check c else clk) d'"
| other: "logged_run h d0 es clk d \<Longrightarrow> daemon_step h d l d' \<Longrightarrow> \<forall>c. l \<noteq> Connect c \<Longrightarrow> logged_run h d0 es clk d'"

text \<open>The event of the limiter's own model a connection that passes the access lists stands for.\<close>

definition limiter_event :: "connection \<Rightarrow> Daemon \<Rightarrow> accept_event" where
  "limiter_event c d = \<lparr>ev_ip = cn_address c, ev_check = cn_check c, ev_minute = cn_minute c, ev_hour = cn_hour c,
     ev_full = full d\<rparr>"

lemma limiting_Some:
  "d_config d = Some cfg \<Longrightarrow> rl_enabled (c_rate_limit cfg) \<Longrightarrow> d_limiter d = Some l \<Longrightarrow> limiting d = Some l"
  by (simp add: limiting_def)

lemma limiting_frame: "d_config d' = d_config d \<Longrightarrow> d_limiter d' = d_limiter d \<Longrightarrow> limiting d' = limiting d"
  by (simp add: limiting_def split: option.split)

lemma rate_limiter_of:
  assumes "checkRateLimit t ip d = (ok, d')" "limiting d = Some l"
  shows "ok = fst (allowConnection t ip l) \<and> d_limiter d' = Some (snd (allowConnection t ip l))"
  using assms by (auto simp: checkRateLimit_def split: prod.splits)

lemma update_limiter:
  "limiting d = Some l \<Longrightarrow> d_limiter (updateRateLimit m t ip d) = Some (recordConnection m t ip l)"
  by (simp add: updateRateLimit_def)

lemma limiting_after:
  "limiting d = Some l \<Longrightarrow> d_config d' = d_config d \<Longrightarrow> d_limiter d' = Some l' \<Longrightarrow> limiting d' = Some l'"
  by (auto simp: limiting_def split: option.splits if_splits)

text \<open>A turn of the accept loop is a step of the limiter's model, or no step at all.\<close>

lemma accept_simulates:
  assumes lim: "limiting d = Some l"
    and r_def: "r = \<lparr>limiter = l, clock = clk, limiter_run.log = es\<rparr>"
    and d'_def: "d' = accept_connection h c d"
  shows "(if passes h c d
      then d_limiter d' = Some (limiter (accept_step r (limiter_event c d)))
        \<and> limiter_run.log (accept_step r (limiter_event c d))
            = (if admitted h c d then (cn_address c, cn_minute c, cn_hour c) # es else es)
        \<and> clock (accept_step r (limiter_event c d)) = (if admitted h c d then cn_hour c else cn_check c)
      else d_limiter d' = Some l \<and> \<not> admitted h c d)
    \<and> d_config d' = d_config d"
proof -
  obtain cfg where cfg: "d_config d = Some cfg" using lim by (auto simp: limiting_def split: option.splits)
  have l: "d_limiter d = Some l" using lim by (auto simp: limiting_def split: option.splits if_splits)
  obtain ok l1 where a: "allowConnection (cn_check c) (cn_address c) l = (ok, l1)"
    by (cases "allowConnection (cn_check c) (cn_address c) l")
  have rate: "fst (checkRateLimit (cn_check c) (cn_address c) d) = ok"
    using rate_limiter_of [OF _ lim] a by (cases "checkRateLimit (cn_check c) (cn_address c) d") force
  have sub: "ok' = ok \<and> d_limiter d2 = Some l1 \<and> d_config d2 = Some cfg \<and> limiting d2 = Some l1"
    if "checkAccess (h_pton h) (cn_address c) [] d = (b, d1)" "checkRateLimit (cn_check c) (cn_address c) d1 = (ok', d2)"
    for b d1 ok' d2
  proof -
    from access_frame [OF that(1)] have "limiting d1 = Some l" using lim limiting_frame [of d1 d] by simp
    from rate_limiter_of [OF that(2) this] rate_frame [OF that(2)] access_frame [OF that(1)] a cfg
    have "ok' = ok \<and> d_limiter d2 = Some l1 \<and> d_config d2 = Some cfg" by simp
    with limiting_after [OF lim, of d2 l1] cfg show ?thesis by simp
  qed
  note defs = r_def limiter_event_def accept_step_def a Let_def
  show ?thesis
    using cfg
  proof (cases rule: accept_cases [where h = h and c = c])
    case (denied d1)
    then show ?thesis using access_frame [OF denied(1)] by (simp add: d'_def passes_def admitted_def l)
  next
    case (limited d1 d2)
    then show ?thesis using sub [OF limited(1,2)] by (simp add: d'_def passes_def admitted_def rate defs cfg)
  next
    case (full d1 d2)
    then show ?thesis using sub [OF full(1,2)] by (simp add: d'_def passes_def admitted_def rate defs cfg full_def)
  next
    case (handshake d1 d2 m)
    then show ?thesis using sub [OF handshake(1,2)]
      by (simp add: d'_def passes_def admitted_def rate defs cfg full_def update_limiter)
  next
    case (opened d1 d2 tls)
    then show ?thesis using sub [OF opened(1,2)]
      by (simp add: d'_def passes_def admitted_def rate defs cfg full_def update_limiter open_session_def)
  qed
qed

definition limits_kept :: "RateLimitConfig \<Rightarrow> Daemon \<Rightarrow> bool" where
  "limits_kept rl d \<longleftrightarrow> rl_enabled rl \<and> (\<exists>cfg. d_config d = Some cfg \<and> c_rate_limit cfg = rl)
     \<and> (\<exists>l. d_limiter d = Some l \<and> max_per_minute l = rl_max_connections_per_minute rl
              \<and> max_per_hour l = rl_max_connections_per_hour rl)"

lemma limiter_run_eta: "\<lparr>limiter = limiter r, clock = clock r, limiter_run.log = limiter_run.log r\<rparr> = (r :: limiter_run)"
  by simp

lemma logged_inv:
  assumes "logged_run h d0 es clk d" "limits_kept rl d0"
    and "run_inv \<lparr>limiter = the (d_limiter d0), clock = 0, limiter_run.log = []\<rparr>"
  shows "limits_kept rl d \<and> run_inv \<lparr>limiter = the (d_limiter d), clock = clk, limiter_run.log = es\<rparr>"
  using assms(1)
proof (induction rule: logged_run.induct)
  case start
  with assms(2,3) show ?case by simp
next
  case (connect es clk d c d')
  let ?r = "\<lparr>limiter = the (d_limiter d), clock = clk, limiter_run.log = es\<rparr>"
  have d': "d' = accept_connection h c d" using connect.hyps(2) by (auto elim: step_elims)
  from connect.IH obtain cfg l where k: "rl_enabled rl" "d_config d = Some cfg" "c_rate_limit cfg = rl" "d_limiter d = Some l"
      "max_per_minute l = rl_max_connections_per_minute rl" "max_per_hour l = rl_max_connections_per_hour rl"
    by (auto simp: limits_kept_def)
  have lim: "limiting d = Some l" using k by (simp add: limiting_def)
  note sim = accept_simulates [OF lim _ d', where r = ?r and clk = clk and es = es]
  have ok: "clock_ok ?r (limiter_event c d)"
    using connect.hyps(3-6) by (simp add: clock_ok_def limiter_event_def)
  have inv: "run_inv (accept_step ?r (limiter_event c d))"
    using accept.inv_step [OF _ ok] connect.IH by blast
  have lm: "max_per_minute (limiter (accept_step ?r (limiter_event c d))) = rl_max_connections_per_minute rl"
    "max_per_hour (limiter (accept_step ?r (limiter_event c d))) = rl_max_connections_per_hour rl"
    using k by simp_all
  show ?case
  proof (cases "passes h c d")
    case True
    let ?s = "accept_step ?r (limiter_event c d)"
    have f: "d_limiter d' = Some (limiter ?s)" "d_config d' = d_config d"
        "limiter_run.log ?s = (if admitted h c d then (cn_address c, cn_minute c, cn_hour c) # es else es)"
        "clock ?s = (if admitted h c d then cn_hour c else cn_check c)"
      using sim True k(4) by (simp_all split: if_splits)
    have "run_inv \<lparr>limiter = the (d_limiter d'), clock = clock ?s, limiter_run.log = limiter_run.log ?s\<rparr>"
      unfolding f(1) option.sel limiter_run_eta by (rule inv)
    then have "run_inv \<lparr>limiter = the (d_limiter d'),
        clock = (if admitted h c d then cn_hour c else if passes h c d then cn_check c else clk),
        limiter_run.log = (if admitted h c d then (cn_address c, cn_minute c, cn_hour c) # es else es)\<rparr>"
      unfolding f(3,4) using True by (cases "admitted h c d") simp_all
    then show ?thesis using f k lm by (simp add: limits_kept_def)
  next
    case False
    then have "\<not> admitted h c d" "d_limiter d' = Some l" "d_config d' = d_config d"
      using sim k(4) by (simp_all add: admitted_def split: if_splits)
    with False k connect.IH show ?thesis by (simp add: limits_kept_def)
  qed
next
  case (other es clk d l d')
  from other.IH obtain cfg where "d_config d = Some cfg" by (auto simp: limits_kept_def)
  from other_step [OF other.hyps(2) this other.hyps(3)] other.IH \<open>d_config d = Some cfg\<close> show ?case
    by (auto simp: limits_kept_def fixed_part_def)
qed

lemma run_inv_fresh:
  "run_inv \<lparr>limiter = new_ConnectionRateLimiter m n, clock = 0, limiter_run.log = []\<rparr>"
  using run_inv_start [of m n] by (simp add: start_run_def)

section \<open>A successful start\<close>

lemma start_True:
  assumes "daemon_start h d = (Some True, d')" "\<not> d_running d"
  obtains d0 d1 d2 d3 d4 d5 where "validateConfiguration (say INFO ''Starting simple-rsyncd daemon'' d) = (Some True, d0)"
    "loadModules d0 = (True, d1)" "initializeSSL h d1 = (True, d2)" "initializeNetwork h d2 = (True, d3)"
    "confine h d3 = (True, d4)" "give_up_root h d4 = (True, d5)" "d' = launch d5"
proof -
  obtain x d0 where v: "validateConfiguration (say INFO ''Starting simple-rsyncd daemon'' d) = (x, d0)"
    by (cases "validateConfiguration (say INFO ''Starting simple-rsyncd daemon'' d)")
  with assms have x: "x = Some True" by (simp add: daemon_start_def split: option.splits bool.splits)
  have ap: "apfst Some p = (Some y, z) \<longleftrightarrow> p = (y, z)" for p :: "bool \<times> Daemon" and y z
    by (cases p) simp
  from assms v x that show ?thesis by (auto simp: daemon_start_def ap stage_True)
qed

lemma launch_limiter:
  "d_config d = Some cfg \<Longrightarrow> rl_enabled (c_rate_limit cfg) \<Longrightarrow>
     d_limiter (launch d) = Some (new_ConnectionRateLimiter (rl_max_connections_per_minute (c_rate_limit cfg))
                                   (rl_max_connections_per_hour (c_rate_limit cfg)))"
  by (simp add: launch_def startWorkerThreads_def Let_def split: option.split)

lemma start_limits:
  assumes "daemon_start h (new_RSyncDaemon now p s (Some cfg)) = (Some True, d)" "rl_enabled (c_rate_limit cfg)"
  shows "limits_kept (c_rate_limit cfg) d \<and> run_inv \<lparr>limiter = the (d_limiter d), clock = 0, limiter_run.log = []\<rparr>"
proof -
  let ?n = "new_RSyncDaemon now p s (Some cfg)"
  have n: "\<not> d_running ?n" "d_config ?n = Some cfg" by (simp_all add: new_RSyncDaemon_def Let_def)
  from start_True [OF assms(1) n(1)] obtain d0 d1 d2 d3 d4 d5 where
    st: "validateConfiguration (say INFO ''Starting simple-rsyncd daemon'' ?n) = (Some True, d0)"
    "loadModules d0 = (True, d1)" "initializeSSL h d1 = (True, d2)" "initializeNetwork h d2 = (True, d3)"
    "confine h d3 = (True, d4)" "give_up_root h d4 = (True, d5)" "d = launch d5" .
  from validate_config [OF st(1)] n(2) obtain c where c: "d_config d0 = Some c" "fixed_part c = fixed_part cfg" by auto
  have "d_config d5 = d_config d0"
    using start_frames(1,4,7,10) [of h] st modules_only_fields(1) [OF loadModules_frame [OF st(2)]]
    by (metis snd_conv)
  with c launch_limiter [of d5 c] launch_frame(1) [of d5] assms(2) st(7) show ?thesis
    by (auto simp: limits_kept_def fixed_part_def new_ConnectionRateLimiter_def [symmetric] run_inv_fresh)
       (simp_all add: new_ConnectionRateLimiter_def)
qed

text \<open>
  C7. The accept loop keeps the limiter's promise.  In any run of a started daemon with rate limiting
  on (access refusals, full tables, failed handshakes, workers, reloads and stops in any order, a
  steady clock), no address is admitted more than twice \<open>max_connections_per_minute\<close> times in any 60
  seconds, nor more than twice \<open>max_connections_per_hour\<close> times in any 3600; a limit of 0 turns that
  bound off.
\<close>

theorem daemon_rate_bound:
  assumes "daemon_start h (new_RSyncDaemon now p s (Some cfg)) = (Some True, d0)" and "rl_enabled (c_rate_limit cfg)"
    and "logged_run h d0 es clk d"
  shows "(rl_max_connections_per_minute (c_rate_limit cfg) > 0 \<longrightarrow>
            within a (a + seconds 60) (minute_log ip es) \<le> 2 * unat (rl_max_connections_per_minute (c_rate_limit cfg)))
       \<and> (rl_max_connections_per_hour (c_rate_limit cfg) > 0 \<longrightarrow>
            within a (a + seconds 3600) (hour_log ip es) \<le> 2 * unat (rl_max_connections_per_hour (c_rate_limit cfg)))"
  using logged_inv [OF assms(3)] start_limits [OF assms(1,2)]
  by (auto simp: limits_kept_def run_inv_def Let_def log_inv_def)

theorem daemon_rate_bound_witness:
  "\<exists>es. minute_log ''10.1.2.3'' es = [2] \<and> within 0 (seconds 60) (minute_log ''10.1.2.3'' es) \<le> 2 * unat (60 :: size_t)"
proof -
  let ?c = demo_connection and ?d = "demo_started True"
  have "passes demo_host ?c ?d" "fst (checkRateLimit (cn_check ?c) (cn_address ?c) ?d)" "\<not> full ?d" by code_simp+
  then have a: "admitted demo_host ?c ?d" by (simp add: admitted_def)
  have run: "logged_run demo_host ?d (if admitted demo_host ?c ?d then (cn_address ?c, cn_minute ?c, cn_hour ?c) # [] else [])
      (if admitted demo_host ?c ?d then cn_hour ?c else if passes demo_host ?c ?d then cn_check ?c else 0)
      (accept_connection demo_host ?c ?d)"
    by (rule logged_run.connect [OF logged_run.start demo_connects]) (simp_all add: demo_connection_def)
  have rl: "rl_enabled (c_rate_limit (demo_cfg True))" "rl_max_connections_per_minute (c_rate_limit (demo_cfg True)) = 60"
    by (simp_all add: demo_cfg_def setDefaultRateLimit_def)
  note b = daemon_rate_bound [OF demo_start_eq [of True, unfolded demo_new_def] rl(1) run, where a = 0 and ip = "''10.1.2.3''"]
  have "minute_log ''10.1.2.3'' (if admitted demo_host ?c ?d then (cn_address ?c, cn_minute ?c, cn_hour ?c) # [] else []) = [2]"
    using a by (simp add: demo_connection_def minute_log_def)
  with b rl(2) show ?thesis by auto
qed

end
