(* ===== verification/Daemon_Runs.thy ===== *)
theory Daemon_Runs
  imports Daemon_Limits
begin

text \<open>
  Runs of the daemon: its start, how many clients it serves at once, what a restart does; and the
  concrete daemon on which the properties are exercised.
\<close>

section \<open>The connection limit\<close>

text \<open>A session waiting for its next request on a plain socket.\<close>

definition waiting :: "client \<Rightarrow> bool" where
  "waiting cl \<longleftrightarrow> sn_active (cl_session cl) \<and> sn_socket_open (cl_session cl)
     \<and> sn_ssl (cl_session cl) = None \<and> sn_state (cl_session cl) = IDLE"

lemma waiting_active [simp]: "waiting cl \<Longrightarrow> is_active cl"
  by (simp add: waiting_def is_active_def)

lemma parse_junk: "parse v ''x'' = (default_ProtocolMessage\<lparr>pm_command := UNKNOWN\<rparr>, v)"
proof -
  have g: "getlines newline ''x'' = [''x'']" "\<not> starts_with ''@RSYNCD:'' ''x''" "parseCommand ''x'' = UNKNOWN" by code_simp+
  show ?thesis by (simp add: parse_def g)
qed

text \<open>A line that is no request is answered and leaves the session waiting.\<close>

lemma junk_keeps_waiting:
  assumes "waiting cl" "serve h (\<lambda>_ n. int n) (Bytes ''x'') rnd now cl d = (cl', d')"
  shows "waiting cl'"
proof -
  have r: "readSocket (Bytes ''x'') 4095 sn = (''x'', 1, sn)" if "sn_socket_open sn" for sn
    using that by (simp add: readSocket_def received_def)
  have m: "length (buildErrorResponse (- 1) (''Invalid protocol message: '' @ [])) > 0" by code_simp
  show ?thesis
    using assms m
    by (auto simp: serve_def worker_state processRequest_def waiting_def r parse_junk Let_def respond_def writeResponse_def
        writeSocket_def default_ProtocolMessage_def split: prod.splits if_splits)
qed

text \<open>The daemon between two turns: nothing pending, the first worker idle, everyone in the table.\<close>

definition resting :: "Configuration \<Rightarrow> nat \<Rightarrow> Daemon \<Rightarrow> bool" where
  "resting cfg n d \<longleftrightarrow> d_config d = Some cfg \<and> d_running d \<and> \<not> d_shutdown d \<and> d_accepting d \<and> d_listening d
     \<and> d_pending d = None \<and> (\<exists>ws. d_workers d = Idle # ws)
     \<and> length (d_sessions d) = n \<and> (\<forall>cl \<in> set (d_sessions d). waiting cl)"

text \<open>The same, while the first worker holds everyone and one new client is in the table.\<close>

definition crowding :: "Configuration \<Rightarrow> client list \<Rightarrow> client list \<Rightarrow> Daemon \<Rightarrow> bool" where
  "crowding cfg todo served d \<longleftrightarrow> d_config d = Some cfg \<and> d_running d \<and> \<not> d_shutdown d \<and> d_accepting d \<and> d_listening d
     \<and> d_pending d = None \<and> (\<exists>ws. d_workers d = Busy todo served # ws)
     \<and> length (d_sessions d) = 1 \<and> (\<forall>cl \<in> set (d_sessions d @ todo @ served). waiting cl)"

lemma run_trans:
  assumes "daemon_run h d ls d'" "daemon_run h d' ls' d''"
  shows "daemon_run h d (ls @ ls') d''"
  using assms(2,1)
proof (induction rule: daemon_run.induct)
  case (more d0 ks d1 l d2)
  from more.IH [OF more.prems] more.hyps(2) have "daemon_run h d ((ls @ ks) @ [l]) d2" by (rule daemon_run.more)
  then show ?case by simp
qed simp

lemma run_one: "daemon_step h d l d' \<Longrightarrow> daemon_run h d [l] d'"
  using daemon_run.more [OF daemon_run.stay] by fastforce

lemma accept_open:
  assumes "d_config d = Some cfg" "admits (h_pton h) (c_access cfg) (cn_address c)" "\<not> rl_enabled (c_rate_limit cfg)"
    and "\<not> ssl_enabled (c_ssl cfg)" "\<not> net_max_connections (c_network cfg) \<le> word_of_nat (length (d_sessions d))"
    and "a = accept_connection h c d"
  shows "\<exists>cl. d_pending a = Some cl \<and> waiting cl \<and> d_config a = Some cfg
     \<and> d_sessions a = d_sessions d \<and> d_workers a = d_workers d \<and> d_running a = d_running d
     \<and> d_shutdown a = d_shutdown d \<and> d_accepting a = d_accepting d \<and> d_listening a = d_listening d"
  using assms
  by (simp add: accept_connection_def checkAccess_def checkRateLimit_def limiting_def updateRateLimit_def logAccess_def
      admits_def Let_def open_session_def waiting_def new_RSyncSession_def)

lemma serve_all:
  assumes "crowding cfg todo served d"
  shows "\<exists>ls d' served'. daemon_run h d ls d' \<and> crowding cfg [] served' d' \<and> length served' = length todo + length served"
  using assms
proof (induction todo arbitrary: served d)
  case Nil
  then show ?case using daemon_run.stay by fastforce
next
  case (Cons cl todo)
  let ?send = "\<lambda>_ n. int n :: int"
  obtain ws where ws: "d_workers d = Busy (cl # todo) served # ws" using Cons.prems by (auto simp: crowding_def)
  obtain cl' d1 where s: "serve h ?send (Bytes ''x'') ([], []) 0 cl d = (cl', d1)"
    by (cases "serve h ?send (Bytes ''x'') ([], []) 0 cl d")
  let ?d = "serve_next h ?send (Bytes ''x'') ([], []) 0 0 d"
  have step: "daemon_step h d (Serve 0 ?send (Bytes ''x'') ([], []) 0) ?d"
    by (rule daemon_step.serve) (simp_all add: ws)
  have cl': "waiting cl'" using junk_keeps_waiting [OF _ s] Cons.prems by (simp add: crowding_def)
  have d1: "d_running d1 = d_running d" "d_shutdown d1 = d_shutdown d" "d_accepting d1 = d_accepting d" "d_listening d1 = d_listening d"
    using s by (auto simp: serve_def split: prod.splits)
  have "crowding cfg todo (served @ [cl']) ?d"
    using Cons.prems serve_frame [OF s] cl' d1 by (simp add: serve_next_def ws s crowding_def)
  from Cons.IH [OF this] obtain ls d' served' where
    "daemon_run h ?d ls d'" "crowding cfg [] served' d'" "length served' = length todo + Suc (length served)" by auto
  then show ?case using run_trans [OF run_one [OF step]] by fastforce
qed

lemma one_more:
  fixes c :: connection
  assumes r: "resting cfg n d" and c: "admits (h_pton h) (c_access cfg) (cn_address c)" "\<not> rl_enabled (c_rate_limit cfg)"
    "\<not> ssl_enabled (c_ssl cfg)" "0 < net_max_connections (c_network cfg)"
  shows "\<exists>ls d'. daemon_run h d ls d' \<and> resting cfg (Suc n) d'"
proof -
  obtain ws where ws: "d_workers d = Idle # ws" using r by (auto simp: resting_def)
  let ?t = "take_sessions 0 d"
  have s1: "daemon_step h d (Take 0) ?t" by (rule daemon_step.take) (use r ws in \<open>simp_all add: resting_def\<close>)
  have t: "d_config ?t = Some cfg" "d_sessions ?t = []" "d_workers ?t = Busy (d_sessions d) [] # ws" "d_running ?t" "\<not> d_shutdown ?t"
      "d_accepting ?t" "d_listening ?t" "d_pending ?t = None"
    using r ws by (auto simp: take_sessions_def resting_def)
  have "\<not> net_max_connections (c_network cfg) \<le> word_of_nat (length (d_sessions ?t))" using c(4) t(2) by simp
  from accept_open [OF t(1) c(1-3) this refl] obtain cl where a: "d_pending (accept_connection h c ?t) = Some cl"
    "waiting cl" "d_config (accept_connection h c ?t) = Some cfg" "d_sessions (accept_connection h c ?t) = []"
    "d_workers (accept_connection h c ?t) = Busy (d_sessions d) [] # ws" "d_running (accept_connection h c ?t)"
    "\<not> d_shutdown (accept_connection h c ?t)" "d_accepting (accept_connection h c ?t)" "d_listening (accept_connection h c ?t)"
    using t by auto
  let ?a = "accept_connection h c ?t"
  have s2: "daemon_step h ?t (Connect c) ?a" by (rule daemon_step.connect [OF t(4-8)])
  have s3: "daemon_step h ?a Publish (publish ?a)" by (rule daemon_step.publish) (simp add: a(1))
  have "crowding cfg (d_sessions d) [] (publish ?a)"
    using a r by (simp add: crowding_def publish_def say_def resting_def)
  from serve_all [OF this, of h] obtain ls d2 served where d2: "daemon_run h (publish ?a) ls d2" "crowding cfg [] served d2"
    "length served = n" using r unfolding resting_def by auto
  let ?g = "give_back 0 d2"
  have s4: "daemon_step h d2 (Give 0) ?g" by (rule daemon_step.give) (use d2(2) in \<open>auto simp: crowding_def\<close>)
  have act: "filter is_active served = served" using d2(2) by (auto simp: crowding_def intro!: filter_True)
  have "resting cfg (Suc n) ?g"
    using d2 by (auto simp: resting_def crowding_def give_back_def act)
  moreover have "\<exists>ls. daemon_run h d ls ?g"
    using run_trans [OF run_one [OF s1] run_trans [OF run_one [OF s2] run_trans [OF run_one [OF s3] run_trans [OF d2(1) run_one [OF s4]]]]]
    by blast
  ultimately show ?thesis by blast
qed

text \<open>
  C32. \<open>max_connections\<close> bounds nothing.  Whatever positive limit is configured, from a running daemon
  with one idle worker and an empty table, for every number n there is a run after which n clients are
  in the session table, all of them waiting for their next request: the accept loop compares the
  limit with the table only, and a worker has moved every active session out of the table while it
  serves them.  (No rate limit, no TLS.)
\<close>

theorem max_connections_unbounded:
  assumes "d_config d = Some cfg" "admits (h_pton h) (c_access cfg) ip" "\<not> rl_enabled (c_rate_limit cfg)"
    and "\<not> ssl_enabled (c_ssl cfg)" "0 < net_max_connections (c_network cfg)"
    and "d_running d" "\<not> d_shutdown d" "d_accepting d" "d_listening d" "d_pending d = None"
    and "d_workers d = Idle # ws" "d_sessions d = []"
  shows "\<exists>ls d'. daemon_run h d ls d' \<and> length (d_sessions d') = n \<and> (\<forall>cl \<in> set (d_sessions d'). waiting cl)"
proof -
  let ?c = "\<lparr>cn_address = ip, cn_check = 0, cn_minute = 0, cn_hour = 0, cn_tls = False\<rparr>"
  have "\<exists>ls d'. daemon_run h d ls d' \<and> resting cfg n d'"
  proof (induction n)
    case 0
    have "resting cfg 0 d" using assms by (simp add: resting_def)
    then show ?case using daemon_run.stay by blast
  next
    case (Suc n)
    then obtain ls d1 where d1: "daemon_run h d ls d1" "resting cfg n d1" by blast
    from one_more [OF d1(2), of h ?c] assms(2-5) obtain ls' d' where "daemon_run h d1 ls' d'" "resting cfg (Suc n) d'"
      by auto
    with run_trans [OF d1(1)] show ?case by blast
  qed
  then show ?thesis by (auto simp: resting_def)
qed

theorem max_connections_unbounded_witness:
  "net_max_connections (c_network (demo_cfg False)) = 1
   \<and> (\<exists>ls d. daemon_run demo_host (demo_started False) ls d \<and> length (d_sessions d) = 3)"
proof -
  have a: "admits (h_pton demo_host) (c_access (demo_cfg False)) ''10.1.2.3''" by code_simp
  have c: "d_config (demo_started False) = Some (demo_cfg False)" by code_simp
  show ?thesis
    using max_connections_unbounded [OF c a, where ws = "[]" and n = 3] demo_fields [of False]
    by (auto simp: demo_cfg_def new_Configuration_def setDefaultSSL_def setDefaultRateLimit_def setDefaultNetwork_def)
qed

section \<open>Starting\<close>

lemma stage_frames:
  "initializeSSL h d = (ok, d') \<Longrightarrow> d_config d' = d_config d \<and> d_modules d' = d_modules d \<and> d_process d' = d_process d
     \<and> d_running d' = d_running d \<and> d_shutdown d' = d_shutdown d"
  "initializeNetwork h d = (ok, d') \<Longrightarrow> d_config d' = d_config d \<and> d_modules d' = d_modules d \<and> d_process d' = d_process d
     \<and> d_running d' = d_running d \<and> d_shutdown d' = d_shutdown d \<and> (ok \<longrightarrow> d_listening d')"
  "confine h d = (ok, d') \<Longrightarrow> d_config d' = d_config d \<and> d_modules d' = d_modules d \<and> d_listening d' = d_listening d
     \<and> d_running d' = d_running d \<and> d_shutdown d' = d_shutdown d"
  "give_up_root h d = (ok, d') \<Longrightarrow> d_config d' = d_config d \<and> d_modules d' = d_modules d \<and> d_listening d' = d_listening d
     \<and> d_running d' = d_running d \<and> d_shutdown d' = d_shutdown d"
  by (auto simp: initializeSSL_def initializeNetwork_def confine_def give_up_root_def Let_def
      split: option.splits prod.splits bool.splits if_splits)

lemma modules_only_more:
  assumes "modules_only d d'"
  shows "d_shutdown d' = d_shutdown d"
  using assms by (cases d; cases d') (simp add: modules_only_def)

lemma launch_fields:
  "d_listening (launch d) = d_listening d" "d_running (launch d)" "d_process (launch d) = d_process d"
  "d_shutdown (launch d) = d_shutdown d" "d_accepting (launch d)" "d_pending (launch d) = d_pending d"
  by (simp_all add: launch_def startWorkerThreads_def Let_def say_def split: option.split)

lemma validate_frame:
  "validateConfiguration d = (x, d') \<Longrightarrow> d_shutdown d' = d_shutdown d \<and> d_running d' = d_running d
     \<and> d_process d' = d_process d"
  using validate_config [of d x d'] by auto

lemma give_up_root_process:
  "give_up_root h d = (True, d') \<Longrightarrow> d_config d = Some cfg \<Longrightarrow>
     (if sec_drop_privileges (c_security cfg)
      then dropProcessPrivileges (h_kernel h) (sec_user (c_security cfg)) (sec_group (c_security cfg)) (d_process d) = (True, d_process d')
      else d_process d' = d_process d)"
  by (auto simp: give_up_root_def Let_def split: prod.splits bool.splits if_splits)

lemma confine_process:
  "confine h d = (True, d') \<Longrightarrow> d_config d = Some cfg \<Longrightarrow>
     (if sec_chroot_enabled (c_security cfg) \<and> sec_chroot_directory (c_security cfg) \<noteq> []
      then p_euid (d_process d) = 0 \<and> p_euid (d_process d') = 0 \<and> p_root (d_process d') = c_str (sec_chroot_directory (c_security cfg))
      else d_process d' = d_process d)"
  by (auto simp: confine_def enterChroot_def Let_def split: prod.splits bool.splits if_splits)

lemma dropped_process:
  "dropProcessPrivileges k user grp p = (True, p') \<Longrightarrow>
     p_root p' = p_root p \<and> (p_euid p = 0 \<and> user \<noteq> [] \<longrightarrow> k_getpwnam k (c_str user) = Some (p_euid p') \<and> p_groups p' = [])"
  by (auto simp: dropProcessPrivileges_def drop_group_def drop_user_def Let_def
      split: option.splits prod.splits bool.splits if_splits)

lemma startup_process:
  assumes "confine h d = (True, d1)" "give_up_root h d1 = (True, d2)" "d_config d = Some cfg" "d_process d = p"
  shows "(sec_chroot_enabled (c_security cfg) \<and> sec_chroot_directory (c_security cfg) \<noteq> [] \<longrightarrow>
            p_euid p = 0 \<and> p_root (d_process d2) = c_str (sec_chroot_directory (c_security cfg)))
     \<and> (sec_drop_privileges (c_security cfg) \<and> sec_user (c_security cfg) \<noteq> [] \<and> p_euid p = 0 \<longrightarrow>
            k_getpwnam (h_kernel h) (c_str (sec_user (c_security cfg))) = Some (p_euid (d_process d2))
            \<and> p_groups (d_process d2) = [])"
  using confine_process [OF assms(1,3)] give_up_root_process [OF assms(2), of cfg] stage_frames(3) [OF assms(1)]
    dropped_process [where k = "h_kernel h" and p = "d_process d1" and p' = "d_process d2"] assms(3,4)
  by (auto split: if_splits)

text \<open>A stage that fails leaves a daemon that does not run.\<close>

definition fails_idle :: "(Daemon \<Rightarrow> bool \<times> Daemon) \<Rightarrow> bool" where
  "fails_idle g \<longleftrightarrow> (\<forall>d d'. \<not> d_running d \<longrightarrow> g d = (False, d') \<longrightarrow> \<not> d_running d')"

lemma fails_idleD: "fails_idle g \<Longrightarrow> g d = (False, d') \<Longrightarrow> \<not> d_running d \<Longrightarrow> \<not> d_running d'"
  unfolding fails_idle_def by blast

lemma fails_idle_stage:
  assumes "\<And>d x d'. f d = (x, d') \<Longrightarrow> d_running d' = d_running d" "fails_idle rest"
  shows "fails_idle (stage m f rest)"
  unfolding fails_idle_def
proof (intro allI impI)
  fix d d' assume d: "\<not> d_running d" "stage m f rest d = (False, d')"
  obtain x d1 where f: "f d = (x, d1)" by (cases "f d")
  show "\<not> d_running d'"
  proof (cases x)
    case True
    with d(2) have "rest d1 = (False, d')" by (simp add: stage_def f)
    moreover have "\<not> d_running d1" using d(1) assms(1) [OF f] by simp
    ultimately show ?thesis by (rule fails_idleD [OF assms(2)])
  next
    case False
    with d(2) have "d_running d' = d_running d1" by (auto simp: stage_def f split: if_splits)
    also have "d_running d1 = d_running d" by (rule assms(1) [OF f])
    finally show ?thesis using d(1) by simp
  qed
qed

lemma running_frames:
  "loadModules d = (x, d') \<Longrightarrow> d_running d' = d_running d"
  "initializeSSL h d = (x, d') \<Longrightarrow> d_running d' = d_running d"
  "initializeNetwork h d = (x, d') \<Longrightarrow> d_running d' = d_running d"
  "confine h d = (x, d') \<Longrightarrow> d_running d' = d_running d"
  "give_up_root h d = (x, d') \<Longrightarrow> d_running d' = d_running d"
  by (rule modules_only_fields(7), erule loadModules_frame) (simp_all add: stage_frames)

lemma stages_idle:
  "fails_idle (stage m1 loadModules (stage m2 (initializeSSL h) (stage m3 (initializeNetwork h)
     (stage m4 (confine h) (stage m5 (give_up_root h) (\<lambda>d. (True, g d)))))))"
  by (rule fails_idle_stage, erule running_frames)+ (simp add: fails_idle_def)

lemma unprivileged_startup:
  "confine h d = (True, d') \<Longrightarrow> give_up_root h d' = (True, d'') \<Longrightarrow> p_euid (d_process d) \<noteq> 0 \<Longrightarrow>
     d_process d'' = d_process d"
  by (auto simp: confine_def give_up_root_def enterChroot_def dropProcessPrivileges_def Let_def
      split: option.splits prod.splits bool.splits if_splits)


section \<open>Starting again\<close>

lemma share_shutdown: "d_shutdown (share_config cfg d) = d_shutdown d"
  by (simp add: share_config_def)

lemma reload_shutdown:
  assumes "reloadConfig h d = (x, d')" "d_config d = Some cfg"
  shows "d_shutdown d' = d_shutdown d"
proof -
  obtain y c where y: "conf_reload ((h_loader h)\<lparr>l_fs := d_fs d\<rparr>) cfg = (y, c)"
    by (cases "conf_reload ((h_loader h)\<lparr>l_fs := d_fs d\<rparr>) cfg")
  let ?d = "share_config c (say INFO ''Reloading configuration'' d)"
  obtain z d1 where z: "validateConfiguration ?d = (z, d1)" by (cases "validateConfiguration ?d")
  obtain ok d2 where m: "loadModules d1 = (ok, d2)" by (cases "loadModules d1")
  show ?thesis
    using assms(1) validate_frame [OF z] modules_only_more [OF loadModules_frame [OF m]]
    by (auto simp: reloadConfig_def Let_def assms(2) y z reloadModules_def m share_shutdown split: option.splits bool.splits)
qed

text \<open>After a shutdown request no thread of the daemon takes up new work.\<close>

fun starts_work :: "label \<Rightarrow> bool" where
  "starts_work (Connect c) = True"
| "starts_work (Take i) = True"
| "starts_work Monitor = True"
| "starts_work _ = False"

definition shut :: "Daemon \<Rightarrow> bool" where
  "shut d \<longleftrightarrow> d_shutdown d \<and> d_config d \<noteq> None"

lemma shut_step: "daemon_step h d l d' \<Longrightarrow> shut d \<Longrightarrow> shut d' \<and> \<not> starts_work l"
proof (induction rule: daemon_step.induct)
  case (publish d)
  then show ?case by (auto simp: publish_def shut_def)
next
  case (serve i d cl todo served send r rnd now)
  then show ?case by (simp add: serve_next_def shut_def Daemon.serve_def split: prod.split)
next
  case (give i d served)
  then show ?case by (simp add: give_back_def shut_def)
next
  case (reload d x d')
  then obtain cfg where cfg: "d_config d = Some cfg" by (auto simp: shut_def)
  from reload_shutdown [OF reload.hyps cfg] reload_frame [OF reload.hyps cfg] reload.prems show ?case by (auto simp: shut_def)
next
  case (stop_begin d)
  then show ?case by (simp add: begin_stop_def Let_def shut_def)
next
  case (stop_end d)
  then show ?case
    by (simp add: finish_stop_def unloadModules_def cleanupSessions_def closeSessions_def joinThreads_def shut_def)
qed (simp_all add: shut_def)

lemma start_shutdown:
  assumes "daemon_start h d = (Some True, d')" "\<not> d_running d" "d_config d = Some cfg"
  shows "d_shutdown d' = d_shutdown d \<and> d_config d' \<noteq> None"
proof -
  from start_True [OF assms(1,2)] obtain d0 d1 d2 d3 d4 d5 where
    st: "validateConfiguration (say INFO ''Starting simple-rsyncd daemon'' d) = (Some True, d0)"
    "loadModules d0 = (True, d1)" "initializeSSL h d1 = (True, d2)" "initializeNetwork h d2 = (True, d3)"
    "confine h d3 = (True, d4)" "give_up_root h d4 = (True, d5)" "d' = launch d5" .
  have c: "d_config d0 \<noteq> None" using st(2) by (auto simp: loadModules_def split: option.splits)
  show ?thesis
    using validate_frame [OF st(1)] modules_only_more [OF loadModules_frame [OF st(2)]]
      modules_only_fields(1) [OF loadModules_frame [OF st(2)]]
      stage_frames(1) [OF st(3)] stage_frames(2) [OF st(4)] stage_frames(3) [OF st(5)] stage_frames(4) [OF st(6)] c
    by (simp add: st(7) launch_fields launch_frame)
qed

text \<open>
  A daemon started again after a stop serves nobody, although \<open>start\<close> succeeds: nothing resets
  \<open>shutdown_requested_\<close>, so in every run from there the accept loop takes no connection, no worker
  takes a session and the monitor does nothing.
\<close>

theorem restart_serves_nobody:
  assumes "d_shutdown d0" "\<not> d_running d0" "d_config d0 = Some cfg" "daemon_start h d0 = (Some True, d1)"
    and "daemon_run h d1 ls d"
  shows "d_running d1 \<and> (\<forall>l \<in> set ls. \<not> starts_work l)"
proof -
  have s: "shut d1" using start_shutdown [OF assms(4,2,3)] assms(1) by (simp add: shut_def)
  from assms(5) s have "shut d \<and> (\<forall>l \<in> set ls. \<not> starts_work l)"
    by (induction rule: daemon_run.induct) (auto dest: shut_step)
  moreover from start_True [OF assms(4,2)] have "d_running d1" by (metis launch_fields(2))
  ultimately show ?thesis by blast
qed


text \<open>The demonstration daemon, stopped and started again.\<close>

definition demo_stopped :: Daemon where
  "demo_stopped = finish_stop (begin_stop (demo_started True))"

definition demo_restarted :: "bool option \<times> Daemon" where
  "demo_restarted = daemon_start demo_host (demo_stopped\<lparr>d_process := root_process\<rparr>)"

theorem restart_serves_nobody_witness:
  "d_running (snd demo_restarted) \<and> (\<forall>d. \<not> daemon_step demo_host (snd demo_restarted) (Connect demo_connection) d)"
proof -
  let ?d = "demo_stopped\<lparr>d_process := root_process\<rparr>"
  have s: "d_shutdown ?d" "\<not> d_running ?d" "fst demo_restarted = Some True" "d_config ?d \<noteq> None" by code_simp+
  then obtain cfg where cfg: "d_config ?d = Some cfg" by blast
  have r: "daemon_start demo_host ?d = (Some True, snd demo_restarted)"
    using s(3) by (simp add: demo_restarted_def prod_eq_iff)
  have no: "\<not> daemon_step demo_host (snd demo_restarted) (Connect demo_connection) d" for d
  proof
    assume "daemon_step demo_host (snd demo_restarted) (Connect demo_connection) d"
    from restart_serves_nobody [OF s(1,2) cfg r daemon_run.more [OF daemon_run.stay this]] show False by simp
  qed
  show ?thesis using restart_serves_nobody [OF s(1,2) cfg r daemon_run.stay] no by simp
qed

end
