(* ===== verification/Daemon_Stop.thy ===== *)
theory Daemon_Stop
  imports Daemon_Runs
begin

text \<open>What is left to do once the daemon has been told to stop.\<close>

section \<open>Stopping\<close>

text \<open>What the threads have still to do: publish the pending session, serve, give back.\<close>

fun worker_load :: "worker \<Rightarrow> nat" where
  "worker_load Idle = 0"
| "worker_load (Busy todo served) = Suc (length todo)"

definition load :: "Daemon \<Rightarrow> nat" where
  "load d = (case d_pending d of None \<Rightarrow> 0 | Some _ \<Rightarrow> 1) + sum_list (map worker_load (d_workers d))"

fun drains :: "label \<Rightarrow> bool" where
  "drains Publish = True"
| "drains (Serve i send r rnd now) = True"
| "drains (Give i) = True"
| "drains _ = False"

lemma load_update:
  "i < length ws \<Longrightarrow> sum_list (map worker_load (ws[i := w])) + worker_load (ws ! i) = sum_list (map worker_load ws) + worker_load w"
  by (induction ws arbitrary: i) (auto split: nat.split)

lemma sum_load_zero: "\<forall>w \<in> set ws. worker_load w = 0 \<Longrightarrow> sum_list (map worker_load ws) = 0"
  by (induction ws) auto

lemma d_config_say: "d_config (say l m d) = d_config d" and d_fs_say: "d_fs (say l m d) = d_fs d"
  by simp_all

lemma share_load: "load (share_config cfg d) = load d"
proof -
  have "worker_load (share_worker cfg w) = worker_load w" for w by (cases w) simp_all
  then show ?thesis by (simp add: load_def share_config_def comp_def split: option.split)
qed

lemma load_frame: "d_pending d' = d_pending d \<Longrightarrow> d_workers d' = d_workers d \<Longrightarrow> load d' = load d"
  by (simp add: load_def)

lemma load_say: "load (say k t d) = load d"
  by (rule load_frame) simp_all

lemma reload_load:
  assumes "reloadConfig h d = (x, d')" "d_config d = Some cfg"
  shows "load d' = load d"
proof -
  obtain y c where y: "conf_reload ((h_loader h)\<lparr>l_fs := d_fs d\<rparr>) cfg = (y, c)"
    by (cases "conf_reload ((h_loader h)\<lparr>l_fs := d_fs d\<rparr>) cfg")
  let ?d = "share_config c (say INFO ''Reloading configuration'' d)"
  obtain z d1 where z: "validateConfiguration ?d = (z, d1)" by (cases "validateConfiguration ?d")
  obtain ok d2 where m: "loadModules d1 = (ok, d2)" by (cases "loadModules d1")
  have s: "load ?d = load d" by (simp add: share_load load_say)
  from validate_config [OF z] obtain c' where d1: "d1 = ?d\<lparr>d_config := c'\<rparr>" by blast
  have "load d1 = load ?d" unfolding d1 by (rule load_frame) simp_all
  with s have l: "load d1 = load d" by simp
  note f = modules_only_fields(3,4) [OF loadModules_frame [OF m]]
  have d2: "load d2 = load d" using load_frame [OF f] l by simp
  show ?thesis
  proof (cases y)
    case None
    with assms(1) have "d' = ?d" by (simp add: reloadConfig_def Let_def assms(2) y)
    then show ?thesis using s by simp
  next
    case (Some b)
    show ?thesis
    proof (cases b)
      case False
      with Some assms(1) have "d' = say ERROR ''Failed to reload configuration'' ?d"
        by (simp add: reloadConfig_def Let_def assms(2) y)
      then show ?thesis using s load_say by simp
    next
      case True
      with Some have y1: "y = Some True" by simp
      note r = assms(1) [unfolded reloadConfig_def Let_def d_config_say assms(2) option.case d_fs_say y prod.case y1 bool.case z
          reloadModules_def m]
      show ?thesis
        using r load_say l d2 by (cases z; cases "the z"; cases ok) auto
    qed
  qed
qed

lemma load_step:
  "daemon_step h d l d' \<Longrightarrow> shut d \<Longrightarrow> load d' + (if drains l then 1 else 0) \<le> load d"
proof (induction rule: daemon_step.induct)
  case (publish d)
  then show ?case by (auto simp: publish_def load_def)
next
  case (serve i d cl todo served send r rnd now)
  obtain cl' d1 where s: "Daemon.serve h send r rnd now cl d = (cl', d1)" by (cases "Daemon.serve h send r rnd now cl d")
  have "load (serve_next h send r rnd now i d) + 1 = load d"
    using serve_frame [OF s] load_update [OF serve.hyps(1), of "Busy todo (served @ [cl'])"] serve.hyps
    by (simp add: serve_next_def s load_def)
  then show ?case by simp
next
  case (give i d served)
  have "load (give_back i d) + 1 = load d"
    using load_update [OF give.hyps(1), of Idle] give.hyps by (simp add: give_back_def load_def)
  then show ?case by simp
next
  case (reload d x d')
  then obtain cfg where "d_config d = Some cfg" by (auto simp: shut_def)
  from reload_load [OF reload.hyps this] show ?case by simp
next
  case (stop_begin d)
  then show ?case by (simp add: begin_stop_def Let_def load_def)
next
  case (stop_end d)
  then show ?case
    by (simp add: finish_stop_def unloadModules_def cleanupSessions_def closeSessions_def joinThreads_def load_def)
qed (auto simp: shut_def load_def)

text \<open>
  A worker that has a session to serve waits for that session's client: its next step is a \<open>Serve\<close>,
  whatever the read of it will return, and until then nothing it holds changes.
\<close>

fun is_serve :: "label \<Rightarrow> bool" where
  "is_serve (Serve i send r rnd now) = True"
| "is_serve _ = False"

definition awaits :: "nat \<Rightarrow> Daemon \<Rightarrow> bool" where
  "awaits i d \<longleftrightarrow> i < length (d_workers d) \<and> (\<exists>cl todo served. d_workers d ! i = Busy (cl # todo) served)"

lemma awaits_serve: "awaits i d \<Longrightarrow> daemon_step h d (Serve i send r rnd now) (serve_next h send r rnd now i d)"
  by (auto simp: awaits_def intro: daemon_step.serve)

lemma awaits_workers: "d_workers d' = d_workers d \<Longrightarrow> awaits i d' = awaits i d"
  by (simp add: awaits_def)

lemma awaits_update: "awaits i d \<Longrightarrow> d_workers d' = (d_workers d)[j := w] \<Longrightarrow> i \<noteq> j \<Longrightarrow> awaits i d'"
  by (simp add: awaits_def)

lemma awaits_busy: "awaits i d \<Longrightarrow> \<not> (\<forall>w \<in> set (d_workers d). w = Idle)"
  by (force simp: awaits_def in_set_conv_nth)

lemma load_progress:
  assumes "shut d" "0 < load d"
  shows "(\<exists>l d'. daemon_step h d l d' \<and> drains l \<and> \<not> is_serve l) \<or> (\<exists>i. awaits i d)"
proof (cases "d_pending d")
  case (Some cl)
  then have "daemon_step h d Publish (publish d)" by (intro daemon_step.publish) simp
  then show ?thesis by (intro disjI1 exI [of _ Publish] exI [of _ "publish d"]) simp
next
  case None
  with assms(2) have "0 < sum_list (map worker_load (d_workers d))" by (simp add: load_def)
  then obtain w where w: "w \<in> set (d_workers d)" "0 < worker_load w"
    using sum_load_zero [of "d_workers d"] by fastforce
  then obtain i where i: "i < length (d_workers d)" "d_workers d ! i = w" by (auto simp: in_set_conv_nth)
  show ?thesis
  proof (cases w)
    case Idle
    with w show ?thesis by simp
  next
    case (Busy todo served)
    show ?thesis
    proof (cases todo)
      case Nil
      with Busy i have "daemon_step h d (Give i) (give_back i d)" by (intro daemon_step.give) simp_all
      then show ?thesis by (intro disjI1 exI [of _ "Give i"] exI [of _ "give_back i d"]) simp
    next
      case (Cons cl rest)
      with Busy i show ?thesis by (auto simp: awaits_def)
    qed
  qed
qed

lemma load_idle: "load d = 0 \<Longrightarrow> d_pending d = None \<and> (\<forall>w \<in> set (d_workers d). w = Idle)"
proof -
  have "worker_load w = 0 \<longleftrightarrow> w = Idle" for w by (cases w) simp_all
  then show "load d = 0 \<Longrightarrow> ?thesis" by (auto simp: load_def sum_list_eq_0_iff split: option.splits)
qed

text \<open>
  A shutdown drains, if its clients let it.  Once shutdown is requested, the threads' remaining work is
  bounded by what they hold: in every run from there, publishing, serving and giving back together
  happen at most as often as the load says (one for a pending session, one for each session a worker
  has still to serve, one for each busy worker), whatever else happens; as long as any is left, the
  daemon can take such a step by itself or a worker waits for a client, and takes its step whatever
  that client's read returns; and when none is left, every worker is idle and nothing pends, which is
  what \<open>stop\<close> waits for.
\<close>

theorem shutdown_drains:
  assumes "d_shutdown d" "d_config d = Some cfg" "daemon_run h d ls d'"
  shows "length (filter drains ls) + load d' \<le> load d
     \<and> (0 < load d' \<longrightarrow> (\<exists>l d''. daemon_step h d' l d'' \<and> drains l \<and> \<not> is_serve l) \<or> (\<exists>i. awaits i d'))
     \<and> (\<forall>i send r rnd now. awaits i d' \<longrightarrow> daemon_step h d' (Serve i send r rnd now) (serve_next h send r rnd now i d'))
     \<and> (load d' = 0 \<longrightarrow> d_pending d' = None \<and> (\<forall>w \<in> set (d_workers d'). w = Idle))"
proof -
  have s: "shut d" using assms(1,2) by (simp add: shut_def)
  from assms(3) s have "shut d' \<and> length (filter drains ls) + load d' \<le> load d"
  proof (induction rule: daemon_run.induct)
    case (more d ls d' l d'')
    with load_step [OF more.hyps(2)] shut_step [OF more.hyps(2)] show ?case by (auto split: if_splits)
  qed simp
  then show ?thesis using load_progress [of d' h] load_idle [of d'] awaits_serve by blast
qed

theorem shutdown_drains_witness:
  "load ((demo_started True)\<lparr>d_shutdown := True, d_workers := [Busy [] []]\<rparr>) = 1
   \<and> (\<exists>l d. daemon_step demo_host ((demo_started True)\<lparr>d_shutdown := True, d_workers := [Busy [] []]\<rparr>) l d \<and> drains l \<and> \<not> is_serve l)"
proof -
  let ?d = "(demo_started True)\<lparr>d_shutdown := True, d_workers := [Busy [] []]\<rparr>"
  obtain cfg where cfg: "d_config ?d = Some cfg"
    using start_shutdown [OF demo_start_eq [of True], of "demo_cfg True"]
    by (auto simp: demo_new_def new_RSyncDaemon_def Let_def demo_cfg_def new_Configuration_def setDefaultAuth_def)
  have l: "load ?d = 1" by (simp add: load_def demo_fields)
  have "\<not> awaits i ?d" for i by (auto simp: awaits_def)
  with l shutdown_drains [OF _ cfg daemon_run.stay, of demo_host] show ?thesis by auto
qed

end
