(* ===== verification/Main_Program.thy ===== *)
theory Main_Program
  imports Daemon_Runs
begin

text \<open>
  The program of \<open>src/main.cpp\<close>: the command line and its commands.

  What the program prints is a list of lines, each on the standard output or the error output.  A
  command ends the process with an exit code, or the process is terminated by an exception nothing
  catches.  The life of the started daemon, from the end of \<open>start\<close> to the end of the event loop and
  the \<open>stop\<close> after it, is an argument; \<open>Event_Loop\<close> says which lives there are.
\<close>

datatype channel = Out | Err

record main_world =
  mw_fs :: fs
  mw_process :: process
  mw_console :: "(channel \<times> string) list"

datatype exit = Exited int main_world | Terminated main_world

definition print :: "string \<Rightarrow> main_world \<Rightarrow> main_world" where
  "print s w = w\<lparr>mw_console := mw_console w @ [(Out, s)]\<rparr>"

definition print_err :: "string \<Rightarrow> main_world \<Rightarrow> main_world" where
  "print_err s w = w\<lparr>mw_console := mw_console w @ [(Err, s)]\<rparr>"

definition print_all :: "string list \<Rightarrow> main_world \<Rightarrow> main_world" where
  "print_all ss w = fold print ss w"

definition usage_text :: "string list" where
  "usage_text =
    [[],
     ''Usage: simple-rsyncd [OPTIONS] [COMMAND] [ARGS...]'',
     [],
     ''Options:'',
     ''  --help, -h           Show this help message'',
     ''  --version, -v        Show version information'',
     ''  --config, -c FILE    Use specified configuration file'',
     ''  --verbose, -V        Enable verbose logging'',
     ''  --daemon, -d         Run as daemon'',
     ''  --foreground, -f     Run in foreground (default)'',
     ''  --pid-file FILE      Write PID to specified file'',
     ''  --user USER          Run as specified user'',
     ''  --group GROUP        Run as specified group'',
     [],
     ''Commands:'',
     ''  start                Start the rsync daemon'',
     ''  stop                 Stop the rsync daemon'',
     ''  restart              Restart the rsync daemon'',
     ''  status               Show daemon status'',
     ''  reload               Reload configuration'',
     ''  test                 Test configuration'',
     ''  modules              List available modules'',
     ''  logs                 Show recent logs'',
     ''  metrics              Show metrics'',
     [],
     ''Examples:'',
     ''  simple-rsyncd start --config /etc/simple-rsyncd/rsyncd.conf'',
     ''  simple-rsyncd start --daemon --config /etc/simple-rsyncd/rsyncd.conf'',
     ''  simple-rsyncd status'',
     ''  simple-rsyncd reload'',
     ''  simple-rsyncd test --config /etc/simple-rsyncd/rsyncd.conf'',
     ''  simple-rsyncd modules'',
     ''  simple-rsyncd logs --tail 100'',
     ''  simple-rsyncd metrics --format json'']"

definition printUsage :: "main_world \<Rightarrow> main_world" where
  "printUsage w = print_all usage_text w"

definition printVersion :: "main_world \<Rightarrow> main_world" where
  "printVersion w = print_all [''simple-rsyncd v0.4.0'',
     ''Simple RSync Daemon - A lightweight and secure rsync server'',
     ''Copyright (c) 2024 simple-rsyncd contributors'', ''License: Apache 2.0''] w"

section \<open>The command line\<close>

record options =
  o_config_file :: string
  o_command :: string
  o_daemon_mode :: bool
  o_verbose :: bool
  o_pid_file :: string
  o_user :: string
  o_group :: string

definition no_options :: options where
  "no_options = \<lparr>o_config_file = [], o_command = [], o_daemon_mode = False, o_verbose = False,
     o_pid_file = [], o_user = [], o_group = []\<rparr>"

text \<open>What the chain of comparisons makes of an argument.\<close>

datatype arg_kind = Help | Version | Flag "options \<Rightarrow> options" | Valued "string \<Rightarrow> options \<Rightarrow> options" string
  | Command | Unknown_option

definition kind_of_arg :: "string \<Rightarrow> arg_kind" where
  "kind_of_arg arg =
     (if arg = ''--help'' \<or> arg = ''-h'' then Help
      else if arg = ''--version'' \<or> arg = ''-v'' then Version
      else if arg = ''--config'' \<or> arg = ''-c'' then
        Valued (\<lambda>v opts. opts\<lparr>o_config_file := v\<rparr>) ''Error: --config requires a file path''
      else if arg = ''--verbose'' \<or> arg = ''-V'' then Flag (\<lambda>opts. opts\<lparr>o_verbose := True\<rparr>)
      else if arg = ''--daemon'' \<or> arg = ''-d'' then Flag (\<lambda>opts. opts\<lparr>o_daemon_mode := True\<rparr>)
      else if arg = ''--foreground'' \<or> arg = ''-f'' then Flag (\<lambda>opts. opts\<lparr>o_daemon_mode := False\<rparr>)
      else if arg = ''--pid-file'' then
        Valued (\<lambda>v opts. opts\<lparr>o_pid_file := v\<rparr>) ''Error: --pid-file requires a file path''
      else if arg = ''--user'' then
        Valued (\<lambda>v opts. opts\<lparr>o_user := v\<rparr>) ''Error: --user requires a username''
      else if arg = ''--group'' then
        Valued (\<lambda>v opts. opts\<lparr>o_group := v\<rparr>) ''Error: --group requires a group name''
      else if \<not> starts_with ''-'' arg then Command
      else Unknown_option)"

text \<open>The loop over \<open>argv\<close>; an option with a value takes the next argument, whatever it is.\<close>

fun parse_loop :: "string list \<Rightarrow> options \<Rightarrow> main_world \<Rightarrow> options option \<times> main_world" where
  "parse_loop [] opts w = (Some opts, w)"
| "parse_loop (arg # args) opts w =
     (case kind_of_arg arg of
        Help \<Rightarrow> (None, printUsage w)
      | Version \<Rightarrow> (None, printVersion w)
      | Flag f \<Rightarrow> parse_loop args (f opts) w
      | Valued f missing \<Rightarrow>
          (case args of
             v # rest \<Rightarrow> parse_loop rest (f v opts) w
           | [] \<Rightarrow> (None, print_err missing w))
      | Command \<Rightarrow> parse_loop args (opts\<lparr>o_command := arg\<rparr>) w
      | Unknown_option \<Rightarrow> (None, printUsage (print_err (''Error: Unknown option: '' @ arg) w)))"

text \<open>\<open>argv\<close> without the program's name.\<close>

definition cli_parseArguments :: "string list \<Rightarrow> main_world \<Rightarrow> options option \<times> main_world" where
  "cli_parseArguments args w = parse_loop args no_options w"

section \<open>Files of the process\<close>

fun first_existing :: "fs \<Rightarrow> string list \<Rightarrow> string \<Rightarrow> string option" where
  "first_existing s [] other = Some other"
| "first_existing s (p # ps) other =
     (case fs_exists s p of
        None \<Rightarrow> None
      | Some True \<Rightarrow> Some p
      | Some False \<Rightarrow> first_existing s ps other)"

definition getDefaultConfigFile :: "fs \<Rightarrow> string \<Rightarrow> string option" where
  "getDefaultConfigFile s config_file =
     (if config_file \<noteq> [] then Some config_file
      else first_existing s [''/etc/simple-rsyncd/rsyncd.conf'', ''/usr/local/etc/simple-rsyncd/rsyncd.conf'',
             ''/opt/simple-rsyncd/etc/rsyncd.conf'', ''./rsyncd.conf'', ''./config/rsyncd.conf'']
             ''/etc/simple-rsyncd/rsyncd.conf'')"

definition writePidFile :: "nat \<Rightarrow> string \<Rightarrow> fs \<Rightarrow> bool \<times> fs" where
  "writePidFile pid pid_file s =
     (if pid_file = [] then (True, s)
      else case open_out s pid_file of
        (Some q, s) \<Rightarrow> (True, append_file q (show_nat pid @ [newline]) s)
      | (None, s) \<Rightarrow> (False, s))"

text \<open>The test for the file is outside the \<open>try\<close>, its removal inside.\<close>

definition removePidFile :: "string \<Rightarrow> main_world \<Rightarrow> main_world option" where
  "removePidFile pid_file w =
     (if pid_file = [] then Some w
      else case fs_exists (mw_fs w) pid_file of
        None \<Rightarrow> None
      | Some False \<Rightarrow> Some w
      | Some True \<Rightarrow>
          (case fs_remove (mw_fs w) pid_file of
             None \<Rightarrow> Some (print_err (''Warning: Could not remove PID file: '' @ what_text (mw_fs w)) w)
           | Some (_, s) \<Rightarrow> Some (w\<lparr>mw_fs := s\<rparr>)))"

definition remove_and_exit :: "string \<Rightarrow> int \<Rightarrow> main_world \<Rightarrow> exit" where
  "remove_and_exit pid_file code w =
     (case removePidFile pid_file w of None \<Rightarrow> Terminated w | Some w \<Rightarrow> Exited code w)"

section \<open>Commands\<close>

definition print_errors :: "Configuration \<Rightarrow> main_world \<Rightarrow> main_world" where
  "print_errors cfg w = fold (\<lambda>err. print_err (''  '' @ err)) (conf_getErrors cfg)
     (print_err ''Configuration errors:'' w)"

text \<open>Loading and validating, which \<open>start\<close> and \<open>test\<close> share.\<close>

definition with_config :: "('j, 'y) loader \<Rightarrow> string \<Rightarrow> (Configuration \<Rightarrow> main_world \<Rightarrow> exit) \<Rightarrow> main_world \<Rightarrow> exit" where
  "with_config l config_file rest w =
     (case loadFromFile (l\<lparr>l_fs := mw_fs w\<rparr>) config_file new_Configuration of
        (None, _) \<Rightarrow> Terminated w
      | (Some False, cfg) \<Rightarrow>
          Exited 1 (print_errors cfg (print_err (''Error: Failed to load configuration from '' @ config_file) w))
      | (Some True, cfg) \<Rightarrow>
          (case validate (mw_fs w) cfg of
             (None, _) \<Rightarrow> Terminated w
           | (Some False, cfg) \<Rightarrow>
               Exited 1 (print_errors cfg (print_err ''Error: Configuration validation failed'' w))
           | (Some True, cfg) \<Rightarrow> rest cfg w))"

definition main_dropPrivileges :: "kernel \<Rightarrow> string \<Rightarrow> string \<Rightarrow> process \<Rightarrow> bool \<times> process" where
  "main_dropPrivileges k user grp p = dropProcessPrivileges k user grp p"

definition daemonize :: "main_world \<Rightarrow> bool \<times> main_world" where
  "daemonize w = (True, print ''Would daemonize the process'' w)"

text \<open>
  What a life of the daemon leaves: the file system, what was printed, and whether some \<open>stop\<close> joined
  the threads.  If none did, the destructor of a joinable \<open>std::thread\<close> terminates the program when the
  global daemon is destroyed.
\<close>

record lived =
  lv_fs :: fs
  lv_console :: "(channel \<times> string) list"
  lv_joined :: bool

definition lived_through :: "lived \<Rightarrow> main_world \<Rightarrow> main_world" where
  "lived_through lv w = w\<lparr>mw_fs := lv_fs lv, mw_console := mw_console w @ lv_console lv\<rparr>"

text \<open>The process the rest of the program is given: its start-up clock reading and identifier.\<close>

record self =
  self_clock :: ticks
  self_pid :: nat

definition run_daemon :: "('k, 'j, 'y) host \<Rightarrow> self \<Rightarrow> (Daemon \<Rightarrow> lived) \<Rightarrow> string \<Rightarrow> Configuration \<Rightarrow> main_world \<Rightarrow> exit" where
  "run_daemon h self life pid_file cfg w =
     (case daemon_start h (new_RSyncDaemon (self_clock self) (mw_process w) (mw_fs w) (Some cfg)) of
        (None, d) \<Rightarrow>
          remove_and_exit pid_file 1
            (print_err (''Error: '' @ what_text (d_fs d)) (w\<lparr>mw_fs := d_fs d, mw_process := d_process d\<rparr>))
      | (Some False, d) \<Rightarrow>
          remove_and_exit pid_file 1
            (print_err ''Error: Failed to start daemon'' (w\<lparr>mw_fs := d_fs d, mw_process := d_process d\<rparr>))
      | (Some True, d) \<Rightarrow>
          (case remove_and_exit pid_file 0
                  (lived_through (life d) (print ''Daemon started successfully'' (w\<lparr>mw_process := d_process d\<rparr>))) of
             Exited code w \<Rightarrow>
               let w = print ''Daemon stopped'' w
               in if lv_joined (life d) then Exited code w else Terminated w
           | Terminated w \<Rightarrow> Terminated w))"

text \<open>What \<open>start\<close> does with a valid configuration.\<close>

definition start_with :: "('k, 'j, 'y) host \<Rightarrow> self \<Rightarrow> (Daemon \<Rightarrow> lived) \<Rightarrow> options \<Rightarrow> Configuration \<Rightarrow> main_world \<Rightarrow> exit" where
  "start_with h self life opts cfg w =
     (let w = print ''Configuration loaded successfully'' w
      in case main_dropPrivileges (h_kernel h) (o_user opts) (o_group opts) (mw_process w) of
           (False, p) \<Rightarrow> Exited 1 (print_err ''Error: Failed to drop privileges'' (w\<lparr>mw_process := p\<rparr>))
         | (True, p) \<Rightarrow>
             (let w = w\<lparr>mw_process := p\<rparr>
              in case (if o_daemon_mode opts then daemonize w else (True, w)) of
                   (False, w) \<Rightarrow> Exited 1 (print_err ''Error: Failed to daemonize'' w)
                 | (True, w) \<Rightarrow>
                     (case writePidFile (self_pid self) (o_pid_file opts) (mw_fs w) of
                        (ok, s) \<Rightarrow>
                          let w = w\<lparr>mw_fs := s\<rparr>;
                              w = (if ok then w else print_err ''Warning: Failed to write PID file'' w)
                          in run_daemon h self life (o_pid_file opts) cfg w)))"

definition handleStart :: "('k, 'j, 'y) host \<Rightarrow> self \<Rightarrow> (Daemon \<Rightarrow> lived) \<Rightarrow> options \<Rightarrow> string \<Rightarrow> main_world \<Rightarrow> exit" where
  "handleStart h self life opts config_file w =
     with_config (h_loader h) config_file (start_with h self life opts) (print ''Starting simple-rsyncd...'' w)"

text \<open>The commands that only say what they would do.\<close>

definition stub :: "string \<Rightarrow> string \<Rightarrow> main_world \<Rightarrow> exit" where
  "stub announcement intention w = Exited 0 (print intention (print announcement w))"

definition handleStop :: "main_world \<Rightarrow> exit" where
  "handleStop = stub ''Stopping simple-rsyncd...'' ''Would stop the daemon''"

definition handleStatus :: "main_world \<Rightarrow> exit" where
  "handleStatus = stub ''Checking simple-rsyncd status...'' ''Would check daemon status''"

definition handleReload :: "main_world \<Rightarrow> exit" where
  "handleReload = stub ''Reloading simple-rsyncd configuration...'' ''Would reload configuration''"

definition handleModules :: "main_world \<Rightarrow> exit" where
  "handleModules = stub ''Listing simple-rsyncd modules...'' ''Would list available modules''"

definition handleLogs :: "main_world \<Rightarrow> exit" where
  "handleLogs = stub ''Showing simple-rsyncd logs...'' ''Would show recent logs''"

definition handleMetrics :: "main_world \<Rightarrow> exit" where
  "handleMetrics = stub ''Showing simple-rsyncd metrics...'' ''Would show metrics''"

definition handleRestart :: "('k, 'j, 'y) host \<Rightarrow> self \<Rightarrow> (Daemon \<Rightarrow> lived) \<Rightarrow> options \<Rightarrow> string \<Rightarrow> main_world \<Rightarrow> exit" where
  "handleRestart h self life opts config_file w =
     (case handleStop (print ''Restarting simple-rsyncd...'' w) of
        Terminated w \<Rightarrow> Terminated w
      | Exited stop_result w \<Rightarrow>
          handleStart h self life opts config_file
            (if stop_result \<noteq> 0 then print_err ''Warning: Failed to stop daemon, continuing with restart'' w else w))"

definition yes_no :: "bool \<Rightarrow> string" where
  "yes_no b = (if b then ''yes'' else ''no'')"

definition test_module :: "string \<times> ModuleConfig \<Rightarrow> main_world \<Rightarrow> main_world option" where
  "test_module entry w =
     (case entry of (name, m) \<Rightarrow>
        let w = print_all [''  Module: '' @ name, ''    Path: '' @ mc_path m, ''    Comment: '' @ mc_comment m,
                  ''    Read-only: '' @ yes_no (mc_read_only m), ''    List: '' @ yes_no (mc_list m),
                  ''    Delete: '' @ yes_no (mc_allow_delete m), ''    Overwrite: '' @ yes_no (mc_overwrite m)] w
        in case fs_exists (mw_fs w) (mc_path m) of
             None \<Rightarrow> None
           | Some False \<Rightarrow> Some (print_all [''    Path exists: no'', []] w)
           | Some True \<Rightarrow>
               (case is_directory (mw_fs w) (mc_path m) of
                  None \<Rightarrow> None
                | Some dir \<Rightarrow>
                    Some (print_all [''    Path exists: yes'',
                            ''    Path type: '' @ (if dir then ''directory'' else ''file''), []] w)))"

fun test_modules :: "(string \<times> ModuleConfig) list \<Rightarrow> main_world \<Rightarrow> exit" where
  "test_modules [] w = Exited 0 (print ''Configuration test completed successfully'' w)"
| "test_modules (m # ms) w =
     (case test_module m w of None \<Rightarrow> Terminated w | Some w \<Rightarrow> test_modules ms w)"

definition handleTest :: "('j, 'y) loader \<Rightarrow> string \<Rightarrow> main_world \<Rightarrow> exit" where
  "handleTest l config_file w =
     with_config l config_file
       (\<lambda>cfg w. test_modules (c_modules cfg) (print_all [''Configuration is valid'', ''Testing modules...''] w))
       (print ''Testing simple-rsyncd configuration...'' w)"

definition dispatch :: "('k, 'j, 'y) host \<Rightarrow> self \<Rightarrow> (Daemon \<Rightarrow> lived) \<Rightarrow> options \<Rightarrow> string \<Rightarrow> main_world \<Rightarrow> exit" where
  "dispatch h self life opts config_file w =
     (let command = o_command opts
      in if command = ''start'' then handleStart h self life opts config_file w
         else if command = ''stop'' then handleStop w
         else if command = ''restart'' then handleRestart h self life opts config_file w
         else if command = ''status'' then handleStatus w
         else if command = ''reload'' then handleReload w
         else if command = ''test'' then handleTest (h_loader h) config_file w
         else if command = ''modules'' then handleModules w
         else if command = ''logs'' then handleLogs w
         else if command = ''metrics'' then handleMetrics w
         else if command = [] then Exited 1 (printUsage (print_err ''Error: No command specified'' w))
         else Exited 1 (printUsage (print_err (''Error: Unknown command: '' @ command) w)))"

definition main :: "('k, 'j, 'y) host \<Rightarrow> self \<Rightarrow> (Daemon \<Rightarrow> lived) \<Rightarrow> string list \<Rightarrow> main_world \<Rightarrow> exit" where
  "main h self life args w =
     (case cli_parseArguments args w of
        (None, w) \<Rightarrow> Exited 0 w
      | (Some opts, w) \<Rightarrow>
          (case getDefaultConfigFile (mw_fs w) (o_config_file opts) of
             None \<Rightarrow> Terminated w
           | Some config_file \<Rightarrow> dispatch h self life opts config_file w))"

end
