(* ===== verification/Main_Facts.thy ===== *)
theory Main_Facts
  imports Main_Program
begin

text \<open>What the command line and the commands come to.\<close>

section \<open>Options\<close>

text \<open>A command line that states every option.\<close>

definition argv_of :: "options \<Rightarrow> string list" where
  "argv_of opts =
     [''--config'', o_config_file opts, ''--pid-file'', o_pid_file opts, ''--user'', o_user opts, ''--group'', o_group opts,
      if o_daemon_mode opts then ''-d'' else ''--foreground'']
     @ (if o_verbose opts then [''--verbose''] else []) @ [o_command opts]"

lemma kinds [simp]:
  "kind_of_arg ''--config'' = Valued (\<lambda>v opts. opts\<lparr>o_config_file := v\<rparr>) ''Error: --config requires a file path''"
  "kind_of_arg ''--pid-file'' = Valued (\<lambda>v opts. opts\<lparr>o_pid_file := v\<rparr>) ''Error: --pid-file requires a file path''"
  "kind_of_arg ''--user'' = Valued (\<lambda>v opts. opts\<lparr>o_user := v\<rparr>) ''Error: --user requires a username''"
  "kind_of_arg ''--group'' = Valued (\<lambda>v opts. opts\<lparr>o_group := v\<rparr>) ''Error: --group requires a group name''"
  "kind_of_arg ''-d'' = Flag (\<lambda>opts. opts\<lparr>o_daemon_mode := True\<rparr>)"
  "kind_of_arg ''--foreground'' = Flag (\<lambda>opts. opts\<lparr>o_daemon_mode := False\<rparr>)"
  "kind_of_arg ''--verbose'' = Flag (\<lambda>opts. opts\<lparr>o_verbose := True\<rparr>)"
  by (simp_all add: kind_of_arg_def)

lemma kind_command:
  assumes "\<not> starts_with ''-'' arg"
  shows "kind_of_arg arg = Command"
proof -
  have "arg \<noteq> CHR ''-'' # s" for s using assms by (auto simp: starts_with_def)
  with assms show ?thesis by (simp add: kind_of_arg_def)
qed

text \<open>
  Any options can be given on the command line: the line that states them all parses back to
  them, whatever the values are (a file name or a user that looks like an option included); only
  the command may not begin with a dash.
\<close>

theorem arguments_roundtrip:
  assumes "\<not> starts_with ''-'' (o_command opts)"
  shows "cli_parseArguments (argv_of opts) w = (Some opts, w)"
  using kind_command [OF assms]
  by (cases opts) (simp add: cli_parseArguments_def argv_of_def no_options_def)

theorem arguments_roundtrip_witness:
  "cli_parseArguments [''--config'', ''-c'', ''--pid-file'', [], ''--user'', ''--help'', ''--group'', [],
     ''-d'', ''--verbose'', ''start''] w
   = (Some \<lparr>o_config_file = ''-c'', o_command = ''start'', o_daemon_mode = True, o_verbose = True,
            o_pid_file = [], o_user = ''--help'', o_group = []\<rparr>, w)"
  using arguments_roundtrip [of "\<lparr>o_config_file = ''-c'', o_command = ''start'', o_daemon_mode = True, o_verbose = True,
            o_pid_file = [], o_user = ''--help'', o_group = []\<rparr>" w]
  by (simp add: argv_of_def starts_with_def)

section \<open>What the commands touch\<close>

text \<open>The world outside the console.\<close>

definition untouched :: "main_world \<Rightarrow> main_world \<Rightarrow> bool" where
  "untouched w w' \<longleftrightarrow> mw_fs w' = mw_fs w \<and> mw_process w' = mw_process w"

fun exit_world :: "exit \<Rightarrow> main_world" where
  "exit_world (Exited n w) = w"
| "exit_world (Terminated w) = w"

lemma untouched_trans: "untouched a b \<Longrightarrow> untouched b c \<Longrightarrow> untouched a c"
  by (simp add: untouched_def)

lemma untouched_print [simp]:
  "untouched w w" "untouched w (print s w')= untouched w w'" "untouched w (print_err s w') = untouched w w'"
  by (simp_all add: untouched_def print_def print_err_def)

lemma untouched_fold: "(\<And>x w. untouched w (f x w)) \<Longrightarrow> untouched w (fold f xs w)"
  by (induction xs arbitrary: w) (auto intro: untouched_trans)

lemma untouched_all [simp]: "untouched w (print_all ss w') = untouched w w'"
proof -
  have "untouched v (print_all ss v)" for v by (simp add: print_all_def untouched_fold)
  then show ?thesis by (simp add: untouched_def)
qed

lemma untouched_usage [simp]: "untouched w (printUsage w') = untouched w w'" "untouched w (printVersion w') = untouched w w'"
  by (simp_all add: printUsage_def printVersion_def)

lemma untouched_errors [simp]: "untouched w (print_errors cfg w') = untouched w w'"
proof -
  have "untouched v (print_errors cfg v)" for v
    using untouched_fold [of "\<lambda>err. print_err (''  '' @ err)" "print_err ''Configuration errors:'' v" "conf_getErrors cfg"]
    by (simp add: print_errors_def) (simp add: untouched_def print_err_def)
  then show ?thesis by (simp add: untouched_def)
qed

lemma parse_loop_untouched: "parse_loop args opts w = (r, w') \<Longrightarrow> untouched w w'"
  by (induction args opts w rule: parse_loop.induct) (auto split: arg_kind.splits list.splits)

lemma with_config_untouched:
  assumes "\<And>cfg w. untouched w (exit_world (rest cfg w))"
  shows "untouched w (exit_world (with_config l file_name rest w))"
  using assms by (auto simp: with_config_def split: option.split prod.split bool.split)

lemma test_modules_untouched: "untouched w (exit_world (test_modules ms w))"
proof (induction ms arbitrary: w)
  case (Cons m ms)
  have t: "test_module m w = Some w' \<Longrightarrow> untouched w w'" for w'
    by (auto simp: test_module_def Let_def split: prod.splits option.splits bool.splits)
  show ?case using Cons t by (auto split: option.split intro: untouched_trans)
qed simp

lemma test_untouched: "untouched w (exit_world (handleTest l file_name w))"
proof -
  have "untouched (print ''x'' w) (exit_world (handleTest l file_name w))"
  proof -
    have "untouched v (exit_world (test_modules ms (print_all ss v)))" for v ms ss
      by (rule untouched_trans [OF _ test_modules_untouched]) simp
    then have "untouched v (exit_world (with_config l file_name
        (\<lambda>cfg w. test_modules (c_modules cfg) (print_all [''Configuration is valid'', ''Testing modules...''] w)) v))" for v
      by (intro with_config_untouched)
    then show ?thesis by (simp add: handleTest_def untouched_def print_def)
  qed
  then show ?thesis by (simp add: untouched_def print_def)
qed

text \<open>
  C36. Only \<open>start\<close> and \<open>restart\<close> act.  Whatever the command line and the configuration, a run of the
  program that does not parse to one of these two commands changes neither the file system nor the
  process: \<open>stop\<close>, \<open>status\<close>, \<open>reload\<close>, \<open>modules\<close>, \<open>logs\<close> and \<open>metrics\<close> reach no daemon.  A command line that
  does not parse, an unknown option included, ends with exit code 0.
\<close>

theorem only_start_acts:
  assumes "cli_parseArguments args w = (r, w1)"
    and "\<forall>opts. r = Some opts \<longrightarrow> o_command opts \<noteq> ''start'' \<and> o_command opts \<noteq> ''restart''"
  shows "untouched w (exit_world (main h self life args w)) \<and> (r = None \<longrightarrow> main h self life args w = Exited 0 w1)"
proof -
  have w1: "untouched w w1" using parse_loop_untouched assms(1) by (simp add: cli_parseArguments_def)
  have stubs: "untouched w1 (exit_world (stub a b w1))" for a b by (simp add: stub_def)
  have "untouched w1 (exit_world (dispatch h self life opts f w1))" if "r = Some opts" for opts f
    using assms(2) that stubs test_untouched [of w1 "h_loader h" f]
    by (simp add: dispatch_def Let_def handleStop_def handleStatus_def handleReload_def handleModules_def handleLogs_def
        handleMetrics_def)
  with w1 assms(1) show ?thesis
    by (auto simp: main_def split: option.split intro: untouched_trans)
qed

text \<open>A life in which nothing happens to the files.\<close>

definition demo_life :: "Daemon \<Rightarrow> lived" where
  "demo_life d = \<lparr>lv_fs = d_fs d, lv_console = [], lv_joined = True\<rparr>"

theorem only_start_acts_witness:
  "main demo_host \<lparr>self_clock = 0, self_pid = 7\<rparr> demo_life [''start'', ''--pid-file'']
     \<lparr>mw_fs = demo_fs, mw_process = root_process, mw_console = []\<rparr>
   = Exited 0 \<lparr>mw_fs = demo_fs, mw_process = root_process,
               mw_console = [(Err, ''Error: --pid-file requires a file path'')]\<rparr>"
proof -
  let ?w = "\<lparr>mw_fs = demo_fs, mw_process = root_process, mw_console = []\<rparr>"
  have "cli_parseArguments [''start'', ''--pid-file''] ?w = (None, print_err ''Error: --pid-file requires a file path'' ?w)"
    by (simp add: cli_parseArguments_def kind_command starts_with_def)
  from only_start_acts [OF this, of demo_host "\<lparr>self_clock = 0, self_pid = 7\<rparr>" demo_life]
  show ?thesis by (simp add: print_err_def)
qed

section \<open>Starting as a user\<close>

lemma run_daemon_unbound:
  assumes "p_euid (mw_process w) \<noteq> 0" "net_bind_port (c_network cfg) < 1024"
    and "\<forall>p a n. n < 1024 \<longrightarrow> p_euid p \<noteq> 0 \<longrightarrow> \<not> h_bind h p a n"
  shows "case run_daemon h self life pid_file cfg w of Exited n _ \<Rightarrow> n = 1 | Terminated _ \<Rightarrow> True"
proof -
  let ?n = "new_RSyncDaemon (self_clock self) (mw_process w) (mw_fs w) (Some cfg)"
  obtain r d where r: "daemon_start h ?n = (r, d)" by (cases "daemon_start h ?n")
  have n: "\<not> d_running ?n" "d_config ?n = Some cfg" "d_process ?n = mw_process w"
    by (simp_all add: new_RSyncDaemon_def Let_def)
  have "r \<noteq> Some True"
  proof
    assume "r = Some True"
    with r have "daemon_start h ?n = (Some True, d)" by simp
    from start_True [OF this n(1)] obtain d0 d1 d2 d3 where
      st: "validateConfiguration (say INFO ''Starting simple-rsyncd daemon'' ?n) = (Some True, d0)"
      "loadModules d0 = (True, d1)" "initializeSSL h d1 = (True, d2)" "initializeNetwork h d2 = (True, d3)" by metis
    have net: "\<exists>c. d_config d0 = Some c \<and> c_network c = c_network cfg"
      using st(1) n(2) by (auto simp: validateConfiguration_def validate_def split: prod.splits)
    have p: "p_euid (d_process d2) \<noteq> 0" "d_config d2 = d_config d0"
      using validate_frame [OF st(1)] modules_only_fields [OF loadModules_frame [OF st(2)]] stage_frames(1) [OF st(3)] n(3) assms(1)
      by simp_all
    from net p(2) obtain c where c: "d_config d2 = Some c" "c_network c = c_network cfg" by auto
    have "\<not> h_bind h (d_process d2) a (net_bind_port (c_network cfg))" for a using assms(2,3) p(1) by blast
    with st(4) c show False by (simp add: initializeNetwork_def Let_def split: if_splits)
  qed
  then show ?thesis by (simp add: run_daemon_def r remove_and_exit_def split: option.split bool.split)
qed

text \<open>
  C35. \<open>--user\<close> makes the default port unusable.  The program gives up root before it creates the
  daemon, and the daemon binds its port afterwards: started as root with \<open>--user\<close> of an unprivileged
  user and a configuration whose port is below 1024 (873 is the default), the program ends with exit
  code 1 or an exception, and never serves, given a system that lets only root bind such ports.
\<close>

theorem user_option_prevents_start:
  assumes "p_euid (mw_process w) = 0" and "o_user opts \<noteq> []" and "k_getpwnam (h_kernel h) (c_str (o_user opts)) \<noteq> Some 0"
    and "\<forall>p a n. n < 1024 \<longrightarrow> p_euid p \<noteq> 0 \<longrightarrow> \<not> h_bind h p a n"
    and "net_bind_port (c_network (snd (loadFromFile ((h_loader h)\<lparr>l_fs := mw_fs w\<rparr>) file_name new_Configuration))) < 1024"
  shows "case handleStart h self life opts file_name w of Exited n _ \<Rightarrow> n = 1 | Terminated _ \<Rightarrow> True"
proof -
  let ?w = "print ''Starting simple-rsyncd...'' w"
  have w: "mw_fs ?w = mw_fs w" "mw_process ?w = mw_process w" by (simp_all add: print_def)
  obtain r cfg where l: "loadFromFile ((h_loader h)\<lparr>l_fs := mw_fs w\<rparr>) file_name new_Configuration = (r, cfg)"
    by (cases "loadFromFile ((h_loader h)\<lparr>l_fs := mw_fs w\<rparr>) file_name new_Configuration")
  obtain v cfg1 where v: "validate (mw_fs w) cfg = (v, cfg1)" by (cases "validate (mw_fs w) cfg")
  have port: "net_bind_port (c_network cfg1) < 1024"
    using assms(5) v by (auto simp: l validate_def split: prod.splits)
  obtain ok p where d: "dropProcessPrivileges (h_kernel h) (o_user opts) (o_group opts) (mw_process w) = (ok, p)"
    by (cases "dropProcessPrivileges (h_kernel h) (o_user opts) (o_group opts) (mw_process w)")
  have p: "ok \<Longrightarrow> p_euid p \<noteq> 0"
    using dropped_process [of "h_kernel h" "o_user opts" "o_group opts" "mw_process w" p] d assms(1-3) by auto
  have run: "ok \<Longrightarrow> mw_process u = p \<Longrightarrow>
      case run_daemon h self life (o_pid_file opts) cfg1 u of Exited n _ \<Rightarrow> n = 1 | Terminated _ \<Rightarrow> True" for u
    using run_daemon_unbound [of u cfg1 h self life "o_pid_file opts"] p port assms(4) by simp
  show ?thesis
    using run
    by (simp add: handleStart_def start_with_def with_config_def w l v main_dropPrivileges_def d daemonize_def Let_def print_def print_err_def
        split: option.split bool.split prod.split)
qed

theorem user_option_prevents_start_witness:
  "case handleStart demo_host \<lparr>self_clock = 0, self_pid = 7\<rparr> demo_life (no_options\<lparr>o_user := ''nobody''\<rparr>) ''/r.conf''
      \<lparr>mw_fs = l_fs (ini_loader one_module), mw_process = root_process, mw_console = []\<rparr> of Exited n _ \<Rightarrow> n = 1 | Terminated _ \<Rightarrow> True"
proof -
  let ?w = "\<lparr>mw_fs = l_fs (ini_loader one_module), mw_process = root_process, mw_console = []\<rparr>"
  let ?o = "no_options\<lparr>o_user := ''nobody''\<rparr>"
  have a: "p_euid (mw_process ?w) = 0" "o_user ?o \<noteq> []" "k_getpwnam (h_kernel demo_host) (c_str (o_user ?o)) \<noteq> Some 0"
    "net_bind_port (c_network (snd (loadFromFile ((h_loader demo_host)\<lparr>l_fs := mw_fs ?w\<rparr>) ''/r.conf'' new_Configuration))) < 1024"
    by code_simp+
  have b: "\<forall>p a n. n < 1024 \<longrightarrow> p_euid p \<noteq> 0 \<longrightarrow> \<not> h_bind demo_host p a n" by (auto simp: demo_host_def)
  show ?thesis by (rule user_option_prevents_start [OF a(1-3) b a(4)])
qed

end
