(* ===== verification/Event_Loop.thy ===== *)
theory Event_Loop
  imports Main_Program Daemon_Stop
begin

text \<open>
  The life of the started program: the event loop of \<open>src/main.cpp\<close>, its signal handler and the
  daemon's threads beside them.

  The main thread polls two flags; \<open>signalHandler\<close> runs on whichever thread the system delivers the
  signal to, in the middle of what that thread does, and calls the daemon's \<open>stop\<close> there.  The first
  \<open>stop\<close> to find the daemon running joins its threads one after the other: the accept thread, the
  monitor, the workers; every later one returns at once.  A daemon thread that runs the handler
  (\<open>pg_stuck\<close>) waits for the threads before it in that order and then joins itself, which throws a
  \<open>system_error\<close>: \<open>stop\<close> is never finished (\<open>pg_thrown\<close>).  The exception leaves the handler for the
  interrupted code.  What that means the C++ standard leaves open; here it unwinds as if thrown at the
  interrupted point, as compiled programs do: to the catch of \<open>workerLoop\<close> around a request, to the
  one of \<open>acceptLoop\<close> around a new session (\<open>rescued\<close>), or, where none of them surrounds that point,
  out of the thread function, which terminates the process (\<open>Aborted\<close>).

  Steps are taken between the points where a thread holds a mutex, signals included: a handler that
  interrupts the logger deadlocks, which is not seen here, and a signal in the midst of a request or
  a TLS handshake is seen before or after it.  Signals before \<open>start\<close> has returned leave the flag set
  (the argument of \<open>enter\<close>).
\<close>

datatype phase = Looping | In_handler | Closing | Returned | Aborted

datatype thread = Acceptor | Worker nat | Monitor_thread

fun runs_on :: "label \<Rightarrow> thread option" where
  "runs_on (Connect c) = Some Acceptor"
| "runs_on Publish = Some Acceptor"
| "runs_on AcceptFails = Some Acceptor"
| "runs_on (Take i) = Some (Worker i)"
| "runs_on (Serve i send r rnd now) = Some (Worker i)"
| "runs_on (Give i) = Some (Worker i)"
| "runs_on Monitor = Some Monitor_thread"
| "runs_on Reload = None"
| "runs_on StopBegin = None"
| "runs_on StopEnd = None"

fun thread_alive :: "thread \<Rightarrow> Daemon \<Rightarrow> bool" where
  "thread_alive Acceptor d = d_accepting d"
| "thread_alive (Worker i) d = (i < length (d_workers d))"
| "thread_alive Monitor_thread d = d_monitoring d"

record program =
  pg_daemon :: Daemon
  pg_requested :: bool
  pg_phase :: phase
  pg_stuck :: "thread option"
  pg_thrown :: bool
  pg_joined :: bool
  pg_console :: "(channel \<times> string) list"

definition enter :: "bool \<Rightarrow> Daemon \<Rightarrow> program" where
  "enter requested d = \<lparr>pg_daemon = d, pg_requested = requested, pg_phase = Looping, pg_stuck = None,
     pg_thrown = False, pg_joined = False, pg_console = []\<rparr>"

definition say_line :: "string \<Rightarrow> program \<Rightarrow> program" where
  "say_line s p = p\<lparr>pg_console := pg_console p @ [(Out, s)]\<rparr>"

text \<open>The handler; the flag of the result says that its \<open>stop\<close> found the daemon running and waits.\<close>

definition signalHandler :: "int \<Rightarrow> program \<Rightarrow> bool \<times> program" where
  "signalHandler n p =
     (let p = say_line (''Received signal '' @ show_int n @ '', shutting down gracefully...'') (say_line [] p);
          p = p\<lparr>pg_requested := True\<rparr>
      in (d_running (pg_daemon p), p\<lparr>pg_daemon := begin_stop (pg_daemon p)\<rparr>))"

text \<open>The joins that come before the thread's own in \<open>stop\<close>, done.\<close>

fun joins_before :: "thread \<Rightarrow> Daemon \<Rightarrow> bool" where
  "joins_before Acceptor d = True"
| "joins_before Monitor_thread d = (d_pending d = None)"
| "joins_before (Worker i) d = (d_pending d = None \<and> (\<forall>w \<in> set (take i (d_workers d)). w = Idle))"

text \<open>
  The catch around the interrupted point, where there is one: \<open>workerLoop\<close> closes the session whose
  request threw, \<open>acceptLoop\<close> the session it was about to publish.
\<close>

definition catch_session :: "('k, 'j, 'y) host \<Rightarrow> Daemon \<Rightarrow> Daemon option" where
  "catch_session h d =
     (case d_pending d of
        None \<Rightarrow> None
      | Some cl \<Rightarrow> Some (say ERROR (''Failed to create session: '' @ h_error h) (d\<lparr>d_pending := None\<rparr>)))"

definition catch_request :: "('k, 'j, 'y) host \<Rightarrow> nat \<Rightarrow> Daemon \<Rightarrow> Daemon option" where
  "catch_request h i d =
     (if i < length (d_workers d) then
        (case d_workers d ! i of
           Busy (cl # todo) served \<Rightarrow>
             Some (say ERROR (''Error processing session: '' @ h_error h)
               (d\<lparr>d_workers := (d_workers d)
                    [i := Busy todo (served @ [cl\<lparr>cl_session := sn_close (cl_session cl)\<rparr>])]\<rparr>))
         | _ \<Rightarrow> None)
      else None)"

fun rescued :: "('k, 'j, 'y) host \<Rightarrow> thread \<Rightarrow> Daemon \<Rightarrow> Daemon option" where
  "rescued h Acceptor d = catch_session h d"
| "rescued h (Worker i) d = catch_request h i d"
| "rescued h Monitor_thread d = None"

text \<open>The end of the loop and the \<open>stop\<close> after it.\<close>

definition leave_loop :: "program \<Rightarrow> program" where
  "leave_loop p =
     (let running = d_running (pg_daemon p)
      in (say_line ''Shutting down daemon...'' p)
           \<lparr>pg_daemon := begin_stop (pg_daemon p), pg_phase := (if running then Closing else Returned)\<rparr>)"

text \<open>
  \<open>Step\<close> is a step of a daemon thread; \<open>Interrupt\<close> and \<open>Strike\<close> are a signal handled by the main thread
  and by a daemon thread; \<open>Handled\<close> and \<open>Closed\<close> are the return of a \<open>stop\<close> that joined the threads;
  \<open>Caught\<close> and \<open>Uncaught\<close> are the end of one that a daemon thread runs.  (A worker that has sessions
  left may be interrupted in a request or between two of them, so both can be its end.)  No step
  follows \<open>Aborted\<close>.
\<close>

datatype event = Step label | Interrupt int | Strike thread int | Handled | Leave | Closed | Caught | Uncaught

inductive program_step :: "('k, 'j, 'y) host \<Rightarrow> program \<Rightarrow> event \<Rightarrow> program \<Rightarrow> bool" for h where
  step: "runs_on l = Some t \<Longrightarrow> pg_phase p \<noteq> Aborted \<Longrightarrow> pg_stuck p \<noteq> Some t \<Longrightarrow>
     daemon_step h (pg_daemon p) l d \<Longrightarrow>
     program_step h p (Step l) (p\<lparr>pg_daemon := d\<rparr>)"
| interrupt: "pg_phase p \<notin> {Returned, Aborted} \<Longrightarrow> signalHandler n p = (waits, p') \<Longrightarrow>
     program_step h p (Interrupt n) (if waits then p'\<lparr>pg_phase := In_handler\<rparr> else p')"
| strike: "pg_phase p \<noteq> Aborted \<Longrightarrow> thread_alive t (pg_daemon p) \<Longrightarrow> signalHandler n p = (waits, p') \<Longrightarrow>
     program_step h p (Strike t n) (if waits then p'\<lparr>pg_stuck := Some t\<rparr> else p')"
| handled: "pg_phase p = In_handler \<Longrightarrow> daemon_step h (pg_daemon p) StopEnd d \<Longrightarrow>
     program_step h p Handled (p\<lparr>pg_daemon := d, pg_phase := Looping, pg_joined := True\<rparr>)"
| leave: "pg_phase p = Looping \<Longrightarrow> pg_requested p \<or> \<not> isRunning (pg_daemon p) \<Longrightarrow>
     program_step h p Leave (leave_loop p)"
| closed: "pg_phase p = Closing \<Longrightarrow> daemon_step h (pg_daemon p) StopEnd d \<Longrightarrow>
     program_step h p Closed (p\<lparr>pg_daemon := d, pg_phase := Returned, pg_joined := True\<rparr>)"
| caught: "pg_phase p \<noteq> Aborted \<Longrightarrow> pg_stuck p = Some t \<Longrightarrow> joins_before t (pg_daemon p) \<Longrightarrow>
     rescued h t (pg_daemon p) = Some d \<Longrightarrow>
     program_step h p Caught (p\<lparr>pg_daemon := d, pg_stuck := None, pg_thrown := True\<rparr>)"
| uncaught: "pg_phase p \<noteq> Aborted \<Longrightarrow> pg_stuck p = Some t \<Longrightarrow> joins_before t (pg_daemon p) \<Longrightarrow>
     program_step h p Uncaught (p\<lparr>pg_phase := Aborted, pg_thrown := True\<rparr>)"

inductive program_run :: "('k, 'j, 'y) host \<Rightarrow> program \<Rightarrow> event list \<Rightarrow> program \<Rightarrow> bool" for h where
  rest: "program_run h p [] p"
| onward: "program_run h p es p' \<Longrightarrow> program_step h p' e p'' \<Longrightarrow> program_run h p (es @ [e]) p''"

inductive_cases program_elims:
  "program_step h p (Interrupt n) p'"
  "program_step h p (Strike t n) p'"

fun is_signal :: "event \<Rightarrow> bool" where
  "is_signal (Interrupt n) = True"
| "is_signal (Strike t n) = True"
| "is_signal _ = False"

text \<open>
  What a finished run is to the rest of \<open>handleStart\<close>; after a run that ends \<open>Aborted\<close> there is no
  rest.
\<close>

definition outcome :: "program \<Rightarrow> lived" where
  "outcome p = \<lparr>lv_fs = d_fs (pg_daemon p), lv_console = pg_console p, lv_joined = pg_joined p\<rparr>"

definition lives :: "('k, 'j, 'y) host \<Rightarrow> Daemon \<Rightarrow> lived \<Rightarrow> bool" where
  "lives h d lv \<longleftrightarrow> (\<exists>requested es p. program_run h (enter requested d) es p \<and> pg_phase p = Returned \<and> lv = outcome p)"

end
