(* ===== verification/Event_Facts.thy ===== *)
theory Event_Facts
  imports Event_Loop Main_Facts
begin

text \<open>How the program ends: on a signal to the main thread, on one to a daemon thread; and what no signal does.\<close>

section \<open>A step of a daemon thread\<close>

text \<open>A configuration whose change flag is down; nothing raises it.\<close>

definition quiet :: "Daemon \<Rightarrow> bool" where
  "quiet d \<longleftrightarrow> (\<exists>cfg. d_config d = Some cfg \<and> \<not> c_has_changed cfg)"

definition control :: "Daemon \<Rightarrow> bool \<times> bool \<times> bool \<times> bool \<times> bool" where
  "control d = (d_running d, d_shutdown d, d_stopping d, d_listening d, d_monitoring d)"

lemma control_say [simp]: "control (say l m d) = control d"
  by (simp add: control_def say_def)

lemma control_accept:
  assumes "d_config d = Some cfg"
  shows "control (accept_connection h c d) = control d \<and> d_config (accept_connection h c d) = d_config d
     \<and> d_modules (accept_connection h c d) = d_modules d \<and> d_accepting (accept_connection h c d) = d_accepting d"
proof -
  have a: "control d' = control d \<and> d_config d' = d_config d \<and> d_modules d' = d_modules d \<and> d_accepting d' = d_accepting d"
    if "checkAccess (h_pton h) (cn_address c) [] d = (ok, d')" for ok d d'
    using that by (auto simp: checkAccess_def logAccess_def Let_def control_def say_def split: option.splits if_splits)
  have r: "control d' = control d \<and> d_config d' = d_config d \<and> d_modules d' = d_modules d \<and> d_accepting d' = d_accepting d"
    if "checkRateLimit t ip d = (ok, d')" for t ip ok d d'
    using that by (auto simp: checkRateLimit_def control_def split: option.splits prod.splits)
  have u: "control (updateRateLimit t1 t2 ip d) = control d" "d_accepting (updateRateLimit t1 t2 ip d) = d_accepting d" for t1 t2 ip d
    by (simp_all add: updateRateLimit_def control_def split: option.split)
  have o: "control (open_session cfg x ip d) = control d" "d_config (open_session cfg x ip d) = d_config d"
    "d_modules (open_session cfg x ip d) = d_modules d" "d_accepting (open_session cfg x ip d) = d_accepting d" for x ip d
    by (simp_all add: open_session_def control_def)
  show ?thesis
    by (auto simp: accept_connection_def assms Let_def u o dest!: a r split: prod.split bool.split)
qed

lemma thread_frame:
  assumes "daemon_step h d l d'" "runs_on l = Some t" "quiet d"
  shows "control d' = control d \<and> d_config d' = d_config d \<and> d_modules d' = d_modules d
     \<and> (d_accepting d' \<longrightarrow> d_accepting d)"
  using assms
proof (induction rule: daemon_step.induct)
  case (connect d c)
  then show ?case using control_accept by (auto simp: quiet_def)
next
  case (publish d)
  then show ?case by (auto simp: publish_def control_def say_def)
next
  case (take d i)
  then show ?case by (simp add: take_sessions_def control_def)
next
  case (serve i d cl todo served send r rnd now)
  then show ?case by (simp add: serve_next_def Daemon.serve_def control_def split: prod.split)
next
  case (give i d served)
  then show ?case by (simp add: give_back_def control_def)
next
  case (monitor d d')
  then have "d' = d" by (auto simp: monitor_turn_def quiet_def hasChanged_def)
  then show ?case by simp
qed (simp_all add: control_def)

lemma quiet_step:
  "daemon_step h d l d' \<Longrightarrow> runs_on l = Some t \<Longrightarrow> quiet d \<Longrightarrow> quiet d'"
  using thread_frame by (fastforce simp: quiet_def)

section \<open>The states of the program\<close>

text \<open>A daemon whose threads have been joined.\<close>

definition over :: "Daemon \<Rightarrow> bool" where
  "over d \<longleftrightarrow> \<not> d_accepting d \<and> \<not> d_monitoring d \<and> \<not> d_listening d \<and> d_pending d = None \<and> d_workers d = []
     \<and> d_sessions d = [] \<and> d_modules d = []"

text \<open>
  Before any \<open>stop\<close>; in a \<open>stop\<close> that will return; in one that will not; after one.
\<close>

definition serving :: "program \<Rightarrow> bool" where
  "serving p \<longleftrightarrow> quiet (pg_daemon p) \<and> d_running (pg_daemon p) \<and> pg_phase p = Looping \<and> pg_stuck p = None
     \<and> \<not> pg_thrown p \<and> \<not> pg_joined p"

definition stopped :: "program \<Rightarrow> bool" where
  "stopped p \<longleftrightarrow> quiet (pg_daemon p) \<and> \<not> d_running (pg_daemon p) \<and> d_shutdown (pg_daemon p) \<and> \<not> d_listening (pg_daemon p)"

definition ending :: "program \<Rightarrow> bool" where
  "ending p \<longleftrightarrow> stopped p \<and> pg_stuck p = None \<and> \<not> pg_thrown p
     \<and> (d_stopping (pg_daemon p) \<and> pg_phase p \<in> {In_handler, Closing} \<and> \<not> pg_joined p
        \<or> over (pg_daemon p) \<and> pg_phase p \<in> {Looping, Returned} \<and> pg_joined p)"

definition doomed :: "program \<Rightarrow> bool" where
  "doomed p \<longleftrightarrow> stopped p \<and> (pg_stuck p \<noteq> None \<or> pg_thrown p) \<and> pg_phase p \<in> {Looping, Returned, Aborted} \<and> \<not> pg_joined p"

lemma quiet_shut: "quiet d \<Longrightarrow> d_shutdown d \<Longrightarrow> shut d"
  by (auto simp: quiet_def shut_def)

lemma say_line_simps [simp]:
  "pg_daemon (say_line s p) = pg_daemon p" "pg_phase (say_line s p) = pg_phase p" "pg_stuck (say_line s p) = pg_stuck p"
  "pg_joined (say_line s p) = pg_joined p" "pg_thrown (say_line s p) = pg_thrown p" "pg_requested (say_line s p) = pg_requested p"
  by (simp_all add: say_line_def)

lemma begin_stop_running:
  assumes "d_running d"
  shows "\<not> d_running (begin_stop d)" "d_shutdown (begin_stop d)" "d_stopping (begin_stop d)" "\<not> d_listening (begin_stop d)"
    "d_config (begin_stop d) = d_config d" "d_modules (begin_stop d) = d_modules d" "quiet (begin_stop d) = quiet d"
  using assms by (simp_all add: begin_stop_def Let_def say_def quiet_def)

lemma begin_stop_idle: "\<not> d_running d \<Longrightarrow> begin_stop d = d"
  by (simp add: begin_stop_def)

lemma handler_frame:
  assumes "signalHandler n p = (waits, p')"
  shows "waits = d_running (pg_daemon p) \<and> pg_daemon p' = begin_stop (pg_daemon p) \<and> pg_phase p' = pg_phase p
     \<and> pg_stuck p' = pg_stuck p \<and> pg_thrown p' = pg_thrown p \<and> pg_joined p' = pg_joined p \<and> pg_requested p'"
  using assms by (auto simp: signalHandler_def Let_def)

lemma stop_end_over:
  assumes "daemon_step h d StopEnd d'"
  shows "d' = finish_stop d" "d_pending d = None" "\<forall>w \<in> set (d_workers d). w = Idle" "d_stopping d"
  using assms by (auto elim: daemon_step.cases)

lemma finish_stop_fields:
  "d_running (finish_stop d) = d_running d" "d_shutdown (finish_stop d) = d_shutdown d" "d_listening (finish_stop d) = d_listening d"
  "quiet (finish_stop d) = quiet d" "d_config (finish_stop d) = d_config d"
  "\<not> d_listening d \<Longrightarrow> d_pending d = None \<Longrightarrow> over (finish_stop d)"
  by (simp_all add: finish_stop_def unloadModules_def cleanupSessions_def closeSessions_def joinThreads_def say_def quiet_def over_def)

lemma over_no_step:
  "daemon_step h d l d' \<Longrightarrow> over d \<Longrightarrow> runs_on l = Some t \<Longrightarrow> False"
  by (cases rule: daemon_step.cases, assumption) (auto simp: over_def)

section \<open>Every step\<close>

lemma step_thread:
  assumes "daemon_step h (pg_daemon p) l d" "runs_on l = Some t" "stopped p"
  shows "stopped (p\<lparr>pg_daemon := d\<rparr>)"
proof -
  have q: "quiet (pg_daemon p)" using assms(3) by (simp add: stopped_def)
  from thread_frame [OF assms(1,2) q] quiet_step [OF assms(1,2) q] assms(3) show ?thesis
    by (simp add: stopped_def control_def)
qed

lemma rescued_frame:
  "rescued h t d = Some d' \<Longrightarrow> control d' = control d \<and> d_config d' = d_config d \<and> d_modules d' = d_modules d"
  by (cases t) (auto simp: catch_session_def catch_request_def control_def say_def split: option.splits if_splits worker.splits list.splits)

lemma rescued_stopped: "rescued h t (pg_daemon p) = Some d \<Longrightarrow> stopped p \<Longrightarrow> stopped (p\<lparr>pg_daemon := d\<rparr>)"
  by (drule rescued_frame) (simp add: stopped_def control_def quiet_def)

lemma stopped_cong: "pg_daemon p' = pg_daemon p \<Longrightarrow> stopped p' = stopped p"
  by (simp add: stopped_def)

lemma doomed_step: "program_step h p e p' \<Longrightarrow> doomed p \<Longrightarrow> doomed p'"
proof (induction rule: program_step.induct)
  case (step l t p d)
  then show ?case using step_thread [OF step.hyps(4,1)] by (simp add: doomed_def)
next
  case (interrupt p n waits p')
  then show ?case using handler_frame [OF interrupt.hyps(2)]
    by (auto simp: doomed_def stopped_def begin_stop_idle)
next
  case (strike p t n waits p')
  then show ?case using handler_frame [OF strike.hyps(3)]
    by (auto simp: doomed_def stopped_def begin_stop_idle)
next
  case (leave p)
  then show ?case by (auto simp: doomed_def stopped_def leave_loop_def Let_def begin_stop_idle)
next
  case (caught p t d)
  then show ?case using rescued_stopped [OF caught.hyps(4)] by (simp add: doomed_def stopped_def)
next
  case (uncaught p t)
  then show ?case by (simp add: doomed_def stopped_def)
qed (simp_all add: doomed_def)

lemma ending_step: "program_step h p e p' \<Longrightarrow> ending p \<Longrightarrow> ending p'"
proof (induction rule: program_step.induct)
  case (step l t p d)
  have st: "stopped p" using step.prems by (simp add: ending_def)
  have c: "d_stopping d = d_stopping (pg_daemon p)"
    using thread_frame [OF step.hyps(4,1)] st by (simp add: stopped_def control_def)
  have "\<not> over (pg_daemon p)" using over_no_step [OF step.hyps(4) _ step.hyps(1)] by blast
  with step_thread [OF step.hyps(4,1) st] step.prems c show ?case by (auto simp: ending_def)
next
  case (interrupt p n waits p')
  then show ?case using handler_frame [OF interrupt.hyps(2)]
    by (auto simp: ending_def stopped_def begin_stop_idle)
next
  case (strike p t n waits p')
  then show ?case using handler_frame [OF strike.hyps(3)]
    by (auto simp: ending_def stopped_def begin_stop_idle)
next
  case (handled p d)
  then show ?case using stop_end_over [OF handled.hyps(2)]
    by (auto simp: ending_def stopped_def finish_stop_fields)
next
  case (leave p)
  then show ?case by (auto simp: ending_def stopped_def leave_loop_def Let_def begin_stop_idle)
next
  case (closed p d)
  then show ?case using stop_end_over [OF closed.hyps(2)]
    by (auto simp: ending_def stopped_def finish_stop_fields)
qed (simp_all add: ending_def)

lemma serving_step: "program_step h p e p' \<Longrightarrow> serving p \<Longrightarrow> serving p' \<or> ending p' \<or> doomed p'"
proof (induction rule: program_step.induct)
  case (step l t p d)
  then have q: "quiet (pg_daemon p)" by (simp add: serving_def)
  from thread_frame [OF step.hyps(4,1) q] quiet_step [OF step.hyps(4,1) q] step.prems show ?case
    by (simp add: serving_def control_def)
next
  case (interrupt p n waits p')
  then show ?case using handler_frame [OF interrupt.hyps(2)]
    by (simp add: serving_def ending_def stopped_def begin_stop_running)
next
  case (strike p t n waits p')
  then show ?case using handler_frame [OF strike.hyps(3)]
    by (simp add: serving_def doomed_def stopped_def begin_stop_running)
next
  case (leave p)
  then show ?case by (simp add: serving_def ending_def stopped_def leave_loop_def Let_def begin_stop_running)
qed (simp_all add: serving_def)

section \<open>What is left to do\<close>

fun rank :: "phase \<Rightarrow> nat" where
  "rank Looping = 1"
| "rank In_handler = 2"
| "rank Closing = 1"
| "rank Returned = 0"
| "rank Aborted = 0"

text \<open>The daemon's load, the accept thread's last turn, and what the main thread has before it.\<close>

definition work :: "program \<Rightarrow> nat" where
  "work p = load (pg_daemon p) + (if d_accepting (pg_daemon p) then 1 else 0) + rank (pg_phase p)"

lemma shut_steps_drain:
  "daemon_step h d l d' \<Longrightarrow> d_shutdown d \<Longrightarrow> runs_on l = Some t \<Longrightarrow> drains l \<or> l = AcceptFails \<and> d_accepting d \<and> \<not> d_accepting d'"
  by (cases rule: daemon_step.cases, assumption) simp_all

lemma stopped_thread_work:
  assumes "daemon_step h (pg_daemon p) l d" "runs_on l = Some t" "stopped p"
  shows "Suc (work (p\<lparr>pg_daemon := d\<rparr>)) \<le> work p"
proof -
  have q: "quiet (pg_daemon p)" "d_shutdown (pg_daemon p)" "shut (pg_daemon p)"
    using assms(3) quiet_shut by (simp_all add: stopped_def)
  from shut_steps_drain [OF assms(1) q(2) assms(2)] load_step [OF assms(1) q(3)] thread_frame [OF assms(1,2) q(1)]
  show ?thesis by (auto simp: work_def)
qed

lemma step_work:
  "program_step h p e p' \<Longrightarrow> ending p \<Longrightarrow> work p' + (if is_signal e then 0 else 1) \<le> work p"
proof (induction rule: program_step.induct)
  case (step l t p d)
  then show ?case using stopped_thread_work [OF step.hyps(4,1)] by (simp add: ending_def)
next
  case (interrupt p n waits p')
  then show ?case using handler_frame [OF interrupt.hyps(2)]
    by (simp add: ending_def stopped_def begin_stop_idle work_def)
next
  case (strike p t n waits p')
  then show ?case using handler_frame [OF strike.hyps(3)]
    by (simp add: ending_def stopped_def begin_stop_idle work_def)
next
  case (handled p d)
  then have "shut (pg_daemon p)" "over d" using stop_end_over [OF handled.hyps(2)] finish_stop_fields(6) quiet_shut
    by (auto simp: ending_def stopped_def)
  with load_step [OF handled.hyps(2)] handled.hyps(1) show ?case by (simp add: work_def over_def)
next
  case (leave p)
  then show ?case by (simp add: ending_def stopped_def leave_loop_def Let_def begin_stop_idle work_def)
next
  case (closed p d)
  then have "shut (pg_daemon p)" "over d" using stop_end_over [OF closed.hyps(2)] finish_stop_fields(6) quiet_shut
    by (auto simp: ending_def stopped_def)
  with load_step [OF closed.hyps(2)] closed.hyps(1) show ?case by (simp add: work_def over_def)
qed (simp_all add: ending_def)

lemma drains_runs: "drains l \<Longrightarrow> \<exists>t. runs_on l = Some t"
  by (cases l) simp_all

text \<open>The steps the program cannot take by itself: a signal, and a request, which a client's bytes complete.\<close>

fun is_request :: "event \<Rightarrow> bool" where
  "is_request (Step l) = is_serve l"
| "is_request _ = False"

lemma ending_stop_end:
  assumes "ending p" "pg_phase p \<in> {In_handler, Closing}" "d_stopping (pg_daemon p)" "d_pending (pg_daemon p) = None"
    and "\<forall>w \<in> set (d_workers (pg_daemon p)). w = Idle"
  shows "\<exists>e p'. program_step h p e p' \<and> \<not> is_signal e \<and> \<not> is_request e"
proof -
  from assms(3-5) have e: "daemon_step h (pg_daemon p) StopEnd (finish_stop (pg_daemon p))" by (intro daemon_step.stop_end)
  from assms(2) consider "pg_phase p = In_handler" | "pg_phase p = Closing" by blast
  then show ?thesis
  proof cases
    case 1
    from program_step.handled [OF this e] show ?thesis by (intro exI [of _ Handled] exI conjI) simp_all
  next
    case 2
    from program_step.closed [OF this e] show ?thesis by (intro exI [of _ Closed] exI conjI) simp_all
  qed
qed

lemma ending_progress:
  assumes "ending p" "pg_phase p \<noteq> Returned"
  shows "(\<exists>e p'. program_step h p e p' \<and> \<not> is_signal e \<and> \<not> is_request e) \<or> (\<exists>i. awaits i (pg_daemon p))"
proof (cases "over (pg_daemon p)")
  case False
  with assms have e: "stopped p" "pg_stuck p = None" "d_stopping (pg_daemon p)" "pg_phase p \<in> {In_handler, Closing}"
    by (auto simp: ending_def)
  show ?thesis
  proof (cases "load (pg_daemon p)")
    case 0
    from load_idle [OF this] ending_stop_end [OF assms(1) e(4,3)] show ?thesis by blast
  next
    case (Suc n)
    from e(1) have s: "shut (pg_daemon p)" using quiet_shut by (simp add: stopped_def)
    show ?thesis
    proof (cases "\<exists>i. awaits i (pg_daemon p)")
      case False
      with load_progress [OF s, of h] Suc obtain l d where l: "daemon_step h (pg_daemon p) l d" "drains l" "\<not> is_serve l" by auto
      from drains_runs [OF l(2)] obtain t where "runs_on l = Some t" by blast
      with l(1) e(2,4) have "program_step h p (Step l) (p\<lparr>pg_daemon := d\<rparr>)" by (intro program_step.step) auto
      with l(3) show ?thesis by (intro disjI1 exI [of _ "Step l"] exI conjI) simp_all
    qed blast
  qed
next
  case True
  show ?thesis
  proof (cases "pg_phase p = Looping")
    case True
    with assms(1) have "program_step h p Leave (leave_loop p)"
      by (intro program_step.leave) (auto simp: ending_def stopped_def isRunning_def)
    then show ?thesis by (intro disjI1 exI [of _ Leave] exI conjI) simp_all
  next
    case False
    with assms have e: "d_stopping (pg_daemon p)" "pg_phase p \<in> {In_handler, Closing}" by (auto simp: ending_def)
    from True have "d_pending (pg_daemon p) = None" "\<forall>w \<in> set (d_workers (pg_daemon p)). w = Idle" by (simp_all add: over_def)
    from ending_stop_end [OF assms(1) e(2,1) this] show ?thesis by blast
  qed
qed

lemma ending_run:
  "program_run h p es p' \<Longrightarrow> ending p \<Longrightarrow> ending p' \<and> length (filter (\<lambda>e. \<not> is_signal e) es) + work p' \<le> work p"
proof (induction rule: program_run.induct)
  case (onward p es p' e p'')
  with ending_step [OF onward.hyps(2)] step_work [OF onward.hyps(2)] show ?case by (auto split: if_splits)
qed simp

text \<open>A worker that waits for its client holds \<open>stop\<close> up.\<close>

lemma awaits_step:
  assumes "daemon_step h d l d'" "runs_on l = Some t" "awaits i d" "\<And>send r rnd now. l \<noteq> Serve i send r rnd now" "quiet d" "d_shutdown d"
  shows "awaits i d'"
  using assms
proof (induction rule: daemon_step.induct)
  case (publish d)
  have w: "d_workers (publish d) = d_workers d" by (simp add: publish_def split: option.split)
  show ?case using publish.prems(2) awaits_workers [OF w] by simp
next
  case (serve j d cl todo served send r rnd now)
  have ij: "i \<noteq> j" using serve.prems(3) [of send r rnd now] by (cases rnd) auto
  obtain cl' d1 where s: "Daemon.serve h send r rnd now cl d = (cl', d1)" by (cases "Daemon.serve h send r rnd now cl d")
  have "d_workers (serve_next h send r rnd now j d) = (d_workers d)[j := Busy todo (served @ [cl'])]"
    using serve_frame [OF s] serve.hyps by (simp add: serve_next_def s)
  from awaits_update [OF serve.prems(2) this ij] show ?case .
next
  case (give j d served)
  then have ij: "i \<noteq> j" by (auto simp: awaits_def)
  have "d_workers (give_back j d) = (d_workers d)[j := Idle]" using give.hyps by (simp add: give_back_def)
  from awaits_update [OF give.prems(2) this ij] show ?case .
next
  case (accept_fails d)
  then show ?case by (simp add: awaits_def)
qed simp_all

lemma silent_step:
  assumes "program_step h p e p'" "ending p" "awaits i (pg_daemon p)" "\<And>send r rnd now. e \<noteq> Step (Serve i send r rnd now)"
  shows "awaits i (pg_daemon p')"
  using assms
proof (induction rule: program_step.induct)
  case (step l t p d)
  then have q: "quiet (pg_daemon p)" "d_shutdown (pg_daemon p)" by (simp_all add: ending_def stopped_def)
  from step.prems(3) have "\<And>send r rnd now. l \<noteq> Serve i send r rnd now" by auto
  from awaits_step [OF step.hyps(4,1) step.prems(2) this q] show ?case by simp
next
  case (interrupt p n waits p')
  then show ?case using handler_frame [OF interrupt.hyps(2)] by (simp add: ending_def stopped_def begin_stop_idle)
next
  case (strike p t n waits p')
  then show ?case using handler_frame [OF strike.hyps(3)] by (simp add: ending_def stopped_def begin_stop_idle)
next
  case (handled p d)
  then show ?case using stop_end_over(3) [OF handled.hyps(2)] awaits_busy by blast
next
  case (leave p)
  then show ?case by (simp add: ending_def stopped_def leave_loop_def Let_def begin_stop_idle)
next
  case (closed p d)
  then show ?case using stop_end_over(3) [OF closed.hyps(2)] awaits_busy by blast
next
  case (caught p t d)
  show ?case using caught.hyps(2) caught.prems(1) by (simp add: ending_def)
next
  case (uncaught p t)
  show ?case using uncaught.hyps(2) uncaught.prems(1) by (simp add: ending_def)
qed

lemma silent_run:
  assumes "program_run h p es p'" "ending p" "awaits i (pg_daemon p)"
    and "\<And>send r rnd now. Step (Serve i send r rnd now) \<notin> set es"
  shows "awaits i (pg_daemon p')"
  using assms
proof (induction rule: program_run.induct)
  case (onward p es p' e p'')
  then have "awaits i (pg_daemon p')" by simp
  moreover have "ending p'" using ending_run [OF onward.hyps(1) onward.prems(1)] by simp
  moreover have "e \<noteq> Step (Serve i send r rnd now)" for send r rnd now
    using onward.prems(3) [of send r rnd now] by auto
  ultimately show ?case using silent_step [OF onward.hyps(2)] by blast
qed simp

lemma doomed_run: "program_run h p es p' \<Longrightarrow> doomed p \<Longrightarrow> doomed p'"
  by (induction rule: program_run.induct) (auto intro: doomed_step)

lemma any_run:
  "program_run h p es p' \<Longrightarrow> serving p \<Longrightarrow> serving p' \<or> ending p' \<or> doomed p'"
  by (induction rule: program_run.induct) (auto dest: serving_step ending_step doomed_step)

section \<open>From the start\<close>

lemma quiet_start:
  assumes "daemon_start h d = (Some True, d')" "\<not> d_running d" "quiet d"
  shows "quiet d' \<and> d_running d'"
proof -
  from start_True [OF assms(1,2)] obtain d0 d1 d2 d3 d4 d5 where
    st: "validateConfiguration (say INFO ''Starting simple-rsyncd daemon'' d) = (Some True, d0)"
    "loadModules d0 = (True, d1)" "initializeSSL h d1 = (True, d2)" "initializeNetwork h d2 = (True, d3)"
    "confine h d3 = (True, d4)" "give_up_root h d4 = (True, d5)" "d' = launch d5" .
  have "quiet d0"
    using st(1) assms(3) by (auto simp: validateConfiguration_def validate_def quiet_def split: prod.splits)
  then have "quiet d5"
    using modules_only_fields(1) [OF loadModules_frame [OF st(2)]] stage_frames(1) [OF st(3)] stage_frames(2) [OF st(4)]
      stage_frames(3) [OF st(5)] stage_frames(4) [OF st(6)] by (simp add: quiet_def)
  then show ?thesis by (simp add: st(7) launch_fields launch_frame quiet_def)
qed

text \<open>A daemon as \<open>handleStart\<close> has started it, from a file it has loaded and validated.\<close>

definition up :: "('k, 'j, 'y) host \<Rightarrow> Daemon \<Rightarrow> bool" where
  "up h d \<longleftrightarrow> (\<exists>s f now p s' cfg0 cfg. loadFromFile ((h_loader h)\<lparr>l_fs := s\<rparr>) f new_Configuration = (Some True, cfg0)
     \<and> validate s cfg0 = (Some True, cfg)
     \<and> daemon_start h (new_RSyncDaemon now p s' (Some cfg)) = (Some True, d))"

lemma finish_quiet: "finish_load s c = (Some True, cfg) \<Longrightarrow> \<not> c_has_changed cfg"
  by (auto simp: finish_load_def split: prod.splits option.splits bool.splits)

lemma load_quiet:
  assumes "loadFromFile l f cfg0 = (Some True, cfg)"
  shows "\<not> c_has_changed cfg"
proof -
  have "loadFromJSON s j t c = (Some True, cfg) \<Longrightarrow> \<not> c_has_changed cfg" for s j t c
    by (auto simp: loadFromJSON_def Let_def dest: finish_quiet split: option.splits if_splits sum.splits prod.splits)
  moreover have "loadFromYAML s j t c = (Some True, cfg) \<Longrightarrow> \<not> c_has_changed cfg" for s j t c
    by (auto simp: loadFromYAML_def Let_def dest: finish_quiet split: option.splits if_splits sum.splits prod.splits)
  ultimately show ?thesis using assms
    by (auto simp: loadFromFile_def Let_def dest: finish_quiet split: option.splits bool.splits if_splits prod.splits)
qed

lemma new_daemon_fields:
  "\<not> d_running (new_RSyncDaemon now p s config)" "d_config (new_RSyncDaemon now p s config) = config"
  "d_pending (new_RSyncDaemon now p s config) = None" "d_workers (new_RSyncDaemon now p s config) = []"
  by (simp_all add: new_RSyncDaemon_def Let_def say_def split: option.split)

lemma up_serving:
  assumes "up h d"
  shows "serving (enter requested d)"
proof -
  from assms obtain s f now p s' cfg0 cfg where u: "loadFromFile ((h_loader h)\<lparr>l_fs := s\<rparr>) f new_Configuration = (Some True, cfg0)"
    "validate s cfg0 = (Some True, cfg)" "daemon_start h (new_RSyncDaemon now p s' (Some cfg)) = (Some True, d)"
    unfolding up_def by blast
  have "\<not> c_has_changed cfg" using load_quiet [OF u(1)] u(2) by (auto simp: validate_def split: prod.splits)
  then have "quiet (new_RSyncDaemon now p s' (Some cfg))" by (simp add: new_daemon_fields quiet_def)
  from quiet_start [OF u(3) new_daemon_fields(1) this] show ?thesis by (simp add: serving_def enter_def)
qed

lemma load_validate: "validateConfiguration d = (x, d') \<Longrightarrow> load d' = load d"
  by (rule load_frame) (auto dest: validate_config)

lemma load_loaded: "loadModules d = (ok, d') \<Longrightarrow> load d' = load d"
  by (rule load_frame) (simp_all add: modules_only_fields(3,4) [OF loadModules_frame])

lemma load_secured: "initializeSSL h d = (ok, d') \<Longrightarrow> load d' = load d"
  by (rule load_frame) (auto simp: initializeSSL_def split: option.splits if_splits)

lemma load_bound: "initializeNetwork h d = (ok, d') \<Longrightarrow> load d' = load d"
  by (rule load_frame) (auto simp: initializeNetwork_def Let_def split: option.splits if_splits)

lemma load_confined: "confine h d = (ok, d') \<Longrightarrow> load d' = load d" "give_up_root h d = (ok, d') \<Longrightarrow> load d' = load d"
  by (rule load_frame; auto simp: confine_def give_up_root_def Let_def split: option.splits prod.splits bool.splits if_splits)+

lemmas load_stages = load_validate load_loaded load_secured load_bound load_confined

lemma launch_workers: "\<exists>n. d_workers (launch d) = d_workers d @ replicate n Idle"
  by (simp add: launch_def startWorkerThreads_def Let_def split: option.split)

lemma load_launch: "load (launch d) = load d"
  using launch_workers [of d] by (auto simp: load_def launch_fields sum_list_replicate)

text \<open>At the start no thread holds a session.\<close>

lemma up_idle:
  assumes "up h d"
  shows "load d = 0"
proof -
  from assms obtain now p s' cfg where u: "daemon_start h (new_RSyncDaemon now p s' (Some cfg)) = (Some True, d)"
    unfolding up_def by blast
  from start_True [OF this new_daemon_fields(1)] obtain d0 d1 d2 d3 d4 d5 where
    st: "validateConfiguration (say INFO ''Starting simple-rsyncd daemon'' (new_RSyncDaemon now p s' (Some cfg))) = (Some True, d0)"
    "loadModules d0 = (True, d1)" "initializeSSL h d1 = (True, d2)" "initializeNetwork h d2 = (True, d3)"
    "confine h d3 = (True, d4)" "give_up_root h d4 = (True, d5)" "d = launch d5" .
  have "load (say INFO ''Starting simple-rsyncd daemon'' (new_RSyncDaemon now p s' (Some cfg))) = 0"
    by (simp add: load_say) (simp add: load_def new_daemon_fields)
  with load_stages(1) [OF st(1)] load_stages(2) [OF st(2)] load_stages(3) [OF st(3)] load_stages(4) [OF st(4)]
    load_stages(5) [OF st(5)] load_stages(6) [OF st(6)] show ?thesis by (simp add: st(7) load_launch)
qed

lemma console_kept:
  "\<exists>ws. mw_console (print s w) = mw_console w @ ws" "\<exists>ws. mw_console (print_err s w) = mw_console w @ ws"
  by (simp_all add: print_def print_err_def)

lemma remove_exit_console:
  assumes "remove_and_exit pid_file code w = Exited n w'"
  shows "n = code \<and> (\<exists>ws. mw_console w' = mw_console w @ ws)"
  using assms by (auto simp: remove_and_exit_def removePidFile_def print_err_def split: option.splits bool.splits if_splits prod.splits)

text \<open>Exit code 0 of \<open>run_daemon\<close>: the daemon started, lived and was joined.\<close>

lemma run_daemon_zero:
  assumes "run_daemon h self life pid_file cfg w = Exited 0 w'"
  obtains d before later where
    "daemon_start h (new_RSyncDaemon (self_clock self) (mw_process w) (mw_fs w) (Some cfg)) = (Some True, d)"
    "lv_joined (life d)" "mw_console w' = before @ lv_console (life d) @ later @ [(Out, ''Daemon stopped'')]"
proof -
  let ?n = "new_RSyncDaemon (self_clock self) (mw_process w) (mw_fs w) (Some cfg)"
  obtain r d where r: "daemon_start h ?n = (r, d)" by (cases "daemon_start h ?n")
  have "r = Some True"
    using assms by (auto simp: run_daemon_def r dest!: remove_exit_console split: option.splits bool.splits)
  with r have r: "daemon_start h ?n = (Some True, d)" by simp
  let ?w = "lived_through (life d) (print ''Daemon started successfully'' (w\<lparr>mw_process := d_process d\<rparr>))"
  from assms obtain w1 where w1: "remove_and_exit pid_file 0 ?w = Exited 0 w1" "lv_joined (life d)"
    "w' = print ''Daemon stopped'' w1"
    by (auto simp: run_daemon_def r Let_def dest: remove_exit_console split: exit.splits if_splits)
  from remove_exit_console [OF w1(1)] obtain ws where "mw_console w1 = mw_console ?w @ ws" by blast
  with w1(3) have "mw_console w' = (mw_console w @ [(Out, ''Daemon started successfully'')]) @ lv_console (life d) @ ws
      @ [(Out, ''Daemon stopped'')]"
    by (simp add: print_def lived_through_def)
  with r w1(2) that show ?thesis by blast
qed

section \<open>How the program ends\<close>

text \<open>
  C9. A signal to the main thread ends the program once its clients let it.  Whatever its number, the
  handler stops the daemon; from there on, whatever further signals arrive and wherever, all other
  steps together are at most as many as the work left then (one for a pending session, each session a
  worker has still to serve, each busy worker and the accept thread, and the two steps of the main
  thread).  Until the event loop has returned, the program can take such a step by itself or some
  worker waits for the client of a session it has taken (\<open>awaits\<close>), and goes on with whatever that
  client's read returns.  But no read has a time limit: a worker that waits for a client when the
  signal comes, and whose client stays silent, keeps the program from ever returning.  When the loop
  has returned, every thread was joined and the daemon has neither sessions nor modules.  (A TLS
  handshake is part of the accept thread's turn, taken before or after the signal; it can be stalled
  in the same way.)
\<close>

theorem signal_ends_program:
  assumes "up h d" "program_run h (enter requested d) es0 p0" "d_running (pg_daemon p0)"
    and "program_step h p0 (Interrupt n) p1" "program_run h p1 es p"
  shows "length (filter (\<lambda>e. \<not> is_signal e) es) + work p \<le> work p1
     \<and> (pg_phase p \<noteq> Returned \<longrightarrow>
          (\<exists>e p'. program_step h p e p' \<and> \<not> is_signal e \<and> \<not> is_request e) \<or> (\<exists>i. awaits i (pg_daemon p)))
     \<and> (\<forall>i send r rnd now. awaits i (pg_daemon p) \<longrightarrow> (\<exists>p'. program_step h p (Step (Serve i send r rnd now)) p'))
     \<and> (\<forall>i. awaits i (pg_daemon p1) \<and> (\<forall>send r rnd now. Step (Serve i send r rnd now) \<notin> set es) \<longrightarrow> pg_phase p \<noteq> Returned)
     \<and> (pg_phase p = Returned \<longrightarrow> lv_joined (outcome p) \<and> over (pg_daemon p))"
proof -
  have "serving p0" using any_run [OF assms(2) up_serving [OF assms(1)]] assms(3)
    by (auto simp: ending_def doomed_def stopped_def)
  then have e1: "ending p1" using assms(4)
    by (auto elim!: program_elims dest!: handler_frame simp: serving_def ending_def stopped_def begin_stop_running)
  from ending_run [OF assms(5) this] have e: "ending p" "length (filter (\<lambda>e. \<not> is_signal e) es) + work p \<le> work p1" by simp_all
  have "\<exists>p'. program_step h p (Step (Serve i send r rnd now)) p'" if "awaits i (pg_daemon p)" for i send r rnd now
    using program_step.step [OF _ _ _ awaits_serve [OF that]] e(1) by (fastforce simp: ending_def)
  moreover have "pg_phase p \<noteq> Returned"
    if "awaits i (pg_daemon p1)" "\<forall>send r rnd now. Step (Serve i send r rnd now) \<notin> set es" for i
  proof -
    have "awaits i (pg_daemon p)" using silent_run [OF assms(5) e1 that(1)] that(2) by blast
    with e(1) show ?thesis by (auto simp: ending_def over_def awaits_def)
  qed
  ultimately show ?thesis using e ending_progress [OF e(1)] by (auto simp: ending_def outcome_def)
qed

lemma struck_by:
  "program_run h p es p' \<Longrightarrow> doomed p \<Longrightarrow> pg_stuck p = Some t \<Longrightarrow>
     pg_stuck p' = Some t \<or> pg_stuck p' = None \<and> pg_thrown p'"
proof (induction rule: program_run.induct)
  case (onward p es p' e p'')
  then have d: "stopped p'" using doomed_run [OF onward.hyps(1)] by (simp add: doomed_def)
  from onward.hyps(2) d onward.IH [OF onward.prems] show ?case
    by cases (auto dest!: handler_frame simp: stopped_def leave_loop_def Let_def)
qed simp


lemma joined_step: "program_step h p e p' \<Longrightarrow> pg_joined p \<Longrightarrow> pg_joined p'"
  by (induction rule: program_step.induct) (auto dest!: handler_frame simp: leave_loop_def Let_def)

lemma thrown_step: "program_step h p e p' \<Longrightarrow> pg_thrown p \<Longrightarrow> pg_thrown p'"
  by (induction rule: program_step.induct) (auto dest!: handler_frame simp: leave_loop_def Let_def)

text \<open>What a run keeps: the configuration, and the modules until the threads are joined.\<close>

lemma kept_step:
  assumes "program_step h p e p'" "serving p \<or> ending p \<or> doomed p"
  shows "d_config (pg_daemon p') = d_config (pg_daemon p)
     \<and> (d_modules (pg_daemon p') = d_modules (pg_daemon p) \<or> pg_joined p' \<and> over (pg_daemon p'))"
  using assms
proof (induction rule: program_step.induct)
  case (step l t p d)
  then have "quiet (pg_daemon p)" by (auto simp: serving_def ending_def doomed_def stopped_def)
  from thread_frame [OF step.hyps(4,1) this] show ?case by simp
next
  case (interrupt p n waits p')
  then show ?case using handler_frame [OF interrupt.hyps(2)]
    by (cases "d_running (pg_daemon p)") (simp_all add: begin_stop_running begin_stop_idle)
next
  case (strike p t n waits p')
  then show ?case using handler_frame [OF strike.hyps(3)]
    by (cases "d_running (pg_daemon p)") (simp_all add: begin_stop_running begin_stop_idle)
next
  case (handled p d)
  then show ?case using stop_end_over [OF handled.hyps(2)]
    by (auto simp: finish_stop_fields serving_def ending_def doomed_def stopped_def)
next
  case (leave p)
  then show ?case
    by (cases "d_running (pg_daemon p)") (simp_all add: begin_stop_running begin_stop_idle leave_loop_def Let_def)
next
  case (closed p d)
  then show ?case using stop_end_over [OF closed.hyps(2)]
    by (auto simp: finish_stop_fields serving_def ending_def doomed_def stopped_def)
next
  case (caught p t d)
  then show ?case using rescued_frame [OF caught.hyps(4)] by simp
qed simp

text \<open>
  C28. A started program never reads its configuration again.  In every run of the event loop, with
  any signals (SIGHUP, which the documentation says reloads, included), any changes of the file and
  the monitor thread running or not, the daemon's configuration stays the one it was started with,
  and its modules stay those it loaded until its threads have been joined.
\<close>

theorem nothing_reloads:
  assumes "up h d" "program_run h (enter requested d) es p"
  shows "d_config (pg_daemon p) = d_config d
     \<and> (d_modules (pg_daemon p) = d_modules d \<or> lv_joined (outcome p) \<and> over (pg_daemon p))"
proof -
  have s: "serving (enter requested d)" using up_serving [OF assms(1)] .
  from assms(2) s have "(serving p \<or> ending p \<or> doomed p) \<and> d_config (pg_daemon p) = d_config (pg_daemon (enter requested d))
     \<and> (d_modules (pg_daemon p) = d_modules (pg_daemon (enter requested d)) \<or> pg_joined p \<and> over (pg_daemon p))"
  proof (induction rule: program_run.induct)
    case (onward p es p' e p'')
    have k: "serving p' \<or> ending p' \<or> doomed p'" using onward by simp
    have k': "serving p'' \<or> ending p'' \<or> doomed p''"
      using k serving_step [OF onward.hyps(2)] ending_step [OF onward.hyps(2)] doomed_step [OF onward.hyps(2)] by blast
    have "pg_joined p' \<Longrightarrow> pg_joined p''"
      using onward.hyps(2) by (rule joined_step)
    moreover have "pg_joined p'' \<Longrightarrow> over (pg_daemon p'')"
      using k' by (auto simp: serving_def ending_def doomed_def)
    ultimately show ?case using kept_step [OF onward.hyps(2) k] k' onward.IH [OF onward.prems] by auto
  qed simp
  then show ?thesis by (simp add: enter_def outcome_def)
qed

section \<open>The whole program\<close>

text \<open>
  A run of the program in which no \<open>stop\<close> threw is a run of the daemon, so what holds of every run of the
  daemon holds of it.
\<close>

lemma run_one_more: "daemon_run h d ls d' \<Longrightarrow> daemon_step h d' l d'' \<Longrightarrow> \<exists>ls. daemon_run h d ls d''"
  by (blast intro: daemon_run.more)

lemma run_begin_stop: "daemon_run h d ls d' \<Longrightarrow> \<exists>ls. daemon_run h d ls (begin_stop d')"
  by (cases "d_running d'") (auto simp: begin_stop_idle intro: run_one_more daemon_step.stop_begin)

lemma program_daemon_run:
  "program_run h p es p' \<Longrightarrow> \<not> pg_thrown p' \<Longrightarrow> \<exists>ls. daemon_run h (pg_daemon p) ls (pg_daemon p')"
proof (induction rule: program_run.induct)
  case (rest p)
  then show ?case by (blast intro: daemon_run.stay)
next
  case (onward p es p' e p'')
  have "\<not> pg_thrown p'" using thrown_step [OF onward.hyps(2)] onward.prems by blast
  with onward.IH obtain ls where ls: "daemon_run h (pg_daemon p) ls (pg_daemon p')" by blast
  from onward.hyps(2) show ?case
  proof cases
    case (step l t d)
    then show ?thesis using run_one_more [OF ls] by simp
  next
    case (interrupt n waits q)
    then show ?thesis using run_begin_stop [OF ls] handler_frame [of n p' waits q] by simp
  next
    case (strike t n waits q)
    then show ?thesis using run_begin_stop [OF ls] handler_frame [of n p' waits q] by simp
  next
    case (handled d)
    then show ?thesis using run_one_more [OF ls] by simp
  next
    case leave
    then show ?thesis using run_begin_stop [OF ls] by (simp add: leave_loop_def Let_def)
  next
    case (closed d)
    then show ?thesis using run_one_more [OF ls] by simp
  qed (use onward.prems in simp_all)
qed

lemma load_run_validates:
  assumes "with_config l f rest w = Exited 0 w'"
  obtains cfg0 cfg where "loadFromFile (l\<lparr>l_fs := mw_fs w\<rparr>) f new_Configuration = (Some True, cfg0)"
    "validate (mw_fs w) cfg0 = (Some True, cfg)" "rest cfg w = Exited 0 w'"
  using assms by (auto simp: with_config_def split: prod.splits option.splits bool.splits)

lemma start_with_runs:
  assumes "start_with h self life opts cfg w = Exited 0 w'"
  obtains w2 where "run_daemon h self life (o_pid_file opts) cfg w2 = Exited 0 w'"
  using assms by (auto simp: start_with_def Let_def split: prod.splits bool.splits)

text \<open>
  C18. Exit code 0 of \<open>start\<close>.  If the command line asks for \<open>start\<close> and the process exits with code 0, then
  a configuration file was loaded and validated, a daemon started from it (\<open>up\<close>) lived through a run
  of the event loop that is a run of the daemon's threads, every thread was joined, no session or
  module is left, and what the run printed is on the console, before the last line.  The hypothesis
  is that the life the program is given is one the event loop can have.
\<close>

theorem start_exits_zero:
  assumes "cli_parseArguments args w = (Some opts, w1)" "o_command opts = ''start''"
    and "\<forall>d. up h d \<longrightarrow> lives h d (life d)" and "main h self life args w = Exited 0 w'"
  shows "\<exists>d requested es p ls before later. up h d \<and> program_run h (enter requested d) es p \<and> pg_phase p = Returned
     \<and> daemon_run h d ls (pg_daemon p) \<and> over (pg_daemon p)
     \<and> mw_console w' = before @ pg_console p @ later @ [(Out, ''Daemon stopped'')]"
proof -
  from assms(1,2,4) obtain f where "handleStart h self life opts f w1 = Exited 0 w'"
    by (auto simp: main_def dispatch_def split: option.splits)
  then have "with_config (h_loader h) f (start_with h self life opts) (print ''Starting simple-rsyncd...'' w1) = Exited 0 w'"
    by (simp add: handleStart_def)
  from load_run_validates [OF this] obtain s cfg0 cfg w2 where
    l: "loadFromFile ((h_loader h)\<lparr>l_fs := s\<rparr>) f new_Configuration = (Some True, cfg0)"
    and v: "validate s cfg0 = (Some True, cfg)"
    and r: "run_daemon h self life (o_pid_file opts) cfg w2 = Exited 0 w'"
    using start_with_runs by metis
  from run_daemon_zero [OF r] obtain d before later where
    d: "daemon_start h (new_RSyncDaemon (self_clock self) (mw_process w2) (mw_fs w2) (Some cfg)) = (Some True, d)"
    "lv_joined (life d)" "mw_console w' = before @ lv_console (life d) @ later @ [(Out, ''Daemon stopped'')]" .
  from l v d(1) have up: "up h d" unfolding up_def by blast
  with assms(3) obtain requested es p where
    p: "program_run h (enter requested d) es p" "pg_phase p = Returned" "life d = outcome p"
    unfolding lives_def by blast
  have o: "over (pg_daemon p)" "\<not> pg_thrown p"
    using any_run [OF p(1) up_serving [OF up]] p(2,3) d(2)
    by (auto simp: serving_def ending_def doomed_def outcome_def)
  from program_daemon_run [OF p(1) o(2)] obtain ls where ls: "daemon_run h d ls (pg_daemon p)" by (auto simp: enter_def)
  have "mw_console w' = before @ pg_console p @ later @ [(Out, ''Daemon stopped'')]"
    using d(3) p(3) by (simp add: outcome_def)
  with up p(1,2) ls o(1) show ?thesis by blast
qed

section \<open>Concrete programs\<close>

text \<open>A daemon started from an INI file with one module, and the life in which it is told to stop at once.\<close>

definition demo_daemon :: Daemon where
  "demo_daemon = (let s = l_fs (ini_loader one_module);
       cfg = snd (validate s (snd (loadFromFile ((h_loader demo_host)\<lparr>l_fs := s\<rparr>) ''/r.conf'' new_Configuration)))
     in snd (daemon_start demo_host (new_RSyncDaemon 0 root_process s (Some cfg))))"

definition short_life :: "Daemon \<Rightarrow> lived" where
  "short_life d = \<lparr>lv_fs = d_fs d, lv_console = [(Out, ''Shutting down daemon...'')], lv_joined = True\<rparr>"

lemma demo_up: "up demo_host demo_daemon"
proof -
  let ?s = "l_fs (ini_loader one_module)"
  let ?l = "loadFromFile ((h_loader demo_host)\<lparr>l_fs := ?s\<rparr>) ''/r.conf'' new_Configuration"
  let ?v = "validate ?s (snd ?l)"
  let ?d = "daemon_start demo_host (new_RSyncDaemon 0 root_process ?s (Some (snd ?v)))"
  have "fst ?l = Some True" "fst ?v = Some True" "fst ?d = Some True" by code_simp+
  then have "?l = (Some True, snd ?l)" "?v = (Some True, snd ?v)" "?d = (Some True, snd ?d)" by (simp_all add: prod_eq_iff)
  then show ?thesis unfolding up_def demo_daemon_def Let_def by blast
qed

lemma up_stops:
  assumes "up h d"
  shows "daemon_step h (begin_stop d) StopEnd (finish_stop (begin_stop d))" "d_running d"
proof -
  show r: "d_running d" using up_serving [OF assms] by (simp add: serving_def enter_def)
  have "d_pending (begin_stop d) = d_pending d" "d_workers (begin_stop d) = d_workers d"
    using r by (simp_all add: begin_stop_def Let_def)
  with load_idle [OF up_idle [OF assms]] begin_stop_running [OF r]
  show "daemon_step h (begin_stop d) StopEnd (finish_stop (begin_stop d))" by (intro daemon_step.stop_end) simp_all
qed

lemma short_life_lives:
  assumes "up h d"
  shows "lives h d (short_life d)"
proof -
  let ?p = "enter True d"
  let ?q = "leave_loop ?p"
  let ?r = "?q\<lparr>pg_daemon := finish_stop (begin_stop d), pg_phase := Returned, pg_joined := True\<rparr>"
  have q: "pg_daemon ?q = begin_stop d" "pg_phase ?q = Closing"
    using up_stops(2) [OF assms] by (simp_all add: leave_loop_def Let_def enter_def say_line_def)
  have "program_step h ?p Leave ?q" by (rule program_step.leave) (simp_all add: enter_def)
  then have "program_run h ?p ([] @ [Leave]) ?q" by (rule program_run.onward [OF program_run.rest])
  moreover have "program_step h ?q Closed ?r"
    using up_stops(1) [OF assms] by (intro program_step.closed) (simp_all add: q)
  ultimately have run: "program_run h ?p (([] @ [Leave]) @ [Closed]) ?r" by (rule program_run.onward)
  have o: "short_life d = outcome ?r"
    by (simp add: outcome_def short_life_def leave_loop_def Let_def enter_def say_line_def begin_stop_def
        finish_stop_def unloadModules_def cleanupSessions_def closeSessions_def joinThreads_def)
  have "pg_phase ?r = Returned" by simp
  with run o show ?thesis unfolding lives_def by blast
qed

text \<open>The demonstration program under a signal to the main thread, and under one to the accept thread.\<close>

definition demo_interrupted :: program where
  "demo_interrupted = (snd (signalHandler 15 (enter False demo_daemon)))\<lparr>pg_phase := In_handler\<rparr>"

definition demo_struck :: program where
  "demo_struck = (snd (signalHandler 15 (enter False demo_daemon)))\<lparr>pg_stuck := Some Acceptor\<rparr>"

lemma handler_runs: "signalHandler n (enter r demo_daemon) = (True, snd (signalHandler n (enter r demo_daemon)))"
  using up_stops(2) [OF demo_up] by (simp add: signalHandler_def Let_def enter_def prod_eq_iff say_line_def)

lemma demo_interrupt: "program_step demo_host (enter False demo_daemon) (Interrupt 15) demo_interrupted"
  using program_step.interrupt [where h = demo_host, OF _ handler_runs [of 15 False]]
  by (simp add: demo_interrupted_def enter_def)

lemma demo_strike: "program_step demo_host (enter False demo_daemon) (Strike Acceptor 15) demo_struck"
proof -
  have "pg_phase (enter False demo_daemon) \<noteq> Aborted" by (simp add: enter_def)
  moreover have "thread_alive Acceptor (pg_daemon (enter False demo_daemon))" by code_simp
  ultimately show ?thesis using program_step.strike [where h = demo_host, OF _ _ handler_runs] by (simp add: demo_struck_def)
qed

text \<open>The same program with a client that has connected and sends nothing, taken by the first worker.\<close>

definition waiting :: "Daemon \<Rightarrow> bool" where
  "waiting d \<longleftrightarrow> 0 < length (d_workers d) \<and> (case d_workers d ! 0 of Busy (cl # todo) served \<Rightarrow> True | _ \<Rightarrow> False)"

lemma waiting_awaits: "waiting d \<Longrightarrow> awaits 0 d"
  by (auto simp: waiting_def awaits_def split: worker.splits list.splits)

definition takeable :: "Daemon \<Rightarrow> bool" where
  "takeable d \<longleftrightarrow> d_running d \<and> \<not> d_shutdown d \<and> 0 < length (d_workers d) \<and> (case d_workers d ! 0 of Idle \<Rightarrow> True | _ \<Rightarrow> False)"

definition demo_engaged :: Daemon where
  "demo_engaged = take_sessions 0 (publish (accept_connection demo_host demo_connection demo_daemon))"

text \<open>One evaluation of the start for every fact about the connection.\<close>

definition engages :: "Daemon \<Rightarrow> bool" where
  "engages d \<longleftrightarrow> d_running d \<and> \<not> d_shutdown d \<and> d_accepting d \<and> d_listening d
     \<and> (let a = accept_connection demo_host demo_connection d; b = publish a; c = take_sessions 0 b
         in \<not> Option.is_none (d_pending a) \<and> takeable b \<and> waiting c \<and> d_running c)"

lemma demo_engages: "engages demo_daemon"
  by code_simp

lemma enter_step: "daemon_step h d l d' \<Longrightarrow> runs_on l = Some t \<Longrightarrow> program_step h (enter r d) (Step l) (enter r d')"
  using program_step.step [of l t "enter r d" h d'] by (simp add: enter_def)

lemma demo_engaged:
  "program_run demo_host (enter False demo_daemon) [Step (Connect demo_connection), Step Publish, Step (Take 0)]
     (enter False demo_engaged)"
  "waiting demo_engaged" "d_running demo_engaged"
proof -
  let ?a = "accept_connection demo_host demo_connection demo_daemon"
  have d: "d_running demo_daemon" "\<not> d_shutdown demo_daemon" "d_accepting demo_daemon" "d_listening demo_daemon"
    "\<not> Option.is_none (d_pending ?a)" "takeable (publish ?a)"
    using demo_engages by (simp_all add: engages_def Let_def)
  show w: "waiting demo_engaged" "d_running demo_engaged"
    using demo_engages by (simp_all add: engages_def Let_def demo_engaged_def)
  have "d_pending demo_daemon = None" using load_idle [OF up_idle [OF demo_up]] by simp
  then have "daemon_step demo_host demo_daemon (Connect demo_connection) ?a" using d by (intro daemon_step.connect)
  from enter_step [OF this] have c: "program_step demo_host (enter False demo_daemon) (Step (Connect demo_connection)) (enter False ?a)" by simp
  have "daemon_step demo_host ?a Publish (publish ?a)" using d(5) by (intro daemon_step.publish) (simp add: Option.is_none_def)
  from enter_step [OF this] have p: "program_step demo_host (enter False ?a) (Step Publish) (enter False (publish ?a))" by simp
  have "d_workers (publish ?a) ! 0 = Idle" using d(6) by (simp add: takeable_def split: worker.splits)
  then have "daemon_step demo_host (publish ?a) (Take 0) demo_engaged"
    unfolding demo_engaged_def using d(6) by (intro daemon_step.take) (simp_all add: takeable_def)
  from enter_step [OF this] have t: "program_step demo_host (enter False (publish ?a)) (Step (Take 0)) (enter False demo_engaged)" by simp
  from program_run.onward [OF program_run.onward [OF program_run.onward [OF program_run.rest c] p] t]
  show "program_run demo_host (enter False demo_daemon) [Step (Connect demo_connection), Step Publish, Step (Take 0)]
     (enter False demo_engaged)" by simp
qed

theorem signal_ends_program_witness:
  "(\<exists>p. program_run demo_host demo_interrupted [Handled, Leave] p \<and> lv_joined (outcome p) \<and> over (pg_daemon p))
   \<and> (\<exists>p0 p1. program_run demo_host (enter False demo_daemon) [Step (Connect demo_connection), Step Publish, Step (Take 0)] p0
        \<and> program_step demo_host p0 (Interrupt 15) p1
        \<and> (\<forall>es p. program_run demo_host p1 es p \<and> (\<forall>send r rnd now. Step (Serve 0 send r rnd now) \<notin> set es)
             \<longrightarrow> pg_phase p \<noteq> Returned))"
proof (rule conjI)
  let ?p0 = "enter False demo_engaged"
  note p0 = demo_engaged(1)
  obtain p' where h: "signalHandler 15 ?p0 = (True, p')" using demo_engaged(3) by (simp add: signalHandler_def Let_def enter_def)
  let ?p1 = "p'\<lparr>pg_phase := In_handler\<rparr>"
  have i: "program_step demo_host ?p0 (Interrupt 15) ?p1"
    using program_step.interrupt [where h = demo_host, OF _ h] by (simp add: enter_def)
  have "d_workers (begin_stop demo_engaged) = d_workers demo_engaged" using demo_engaged(3) by (simp add: begin_stop_def Let_def)
  then have "awaits 0 (pg_daemon ?p1)"
    using handler_frame [OF h] waiting_awaits [OF demo_engaged(2)] by (simp add: awaits_def enter_def)
  moreover have "d_running (pg_daemon ?p0)" using demo_engaged(3) by (simp add: enter_def)
  ultimately show "\<exists>p0 p1. program_run demo_host (enter False demo_daemon) [Step (Connect demo_connection), Step Publish, Step (Take 0)] p0
        \<and> program_step demo_host p0 (Interrupt 15) p1
        \<and> (\<forall>es p. program_run demo_host p1 es p \<and> (\<forall>send r rnd now. Step (Serve 0 send r rnd now) \<notin> set es)
             \<longrightarrow> pg_phase p \<noteq> Returned)"
    using signal_ends_program [OF demo_up p0 _ i] p0 i by blast
next
  let ?p = "demo_interrupted\<lparr>pg_daemon := finish_stop (begin_stop demo_daemon), pg_phase := Looping, pg_joined := True\<rparr>"
  have i: "pg_phase demo_interrupted = In_handler" "pg_daemon demo_interrupted = begin_stop demo_daemon"
    "pg_requested demo_interrupted"
    using handler_frame [OF handler_runs [of 15 False]] by (simp_all add: demo_interrupted_def enter_def)
  have "program_step demo_host demo_interrupted Handled ?p"
    using up_stops(1) [OF demo_up] by (intro program_step.handled) (simp_all add: i)
  then have "program_run demo_host demo_interrupted ([] @ [Handled]) ?p" by (rule program_run.onward [OF program_run.rest])
  moreover have "program_step demo_host ?p Leave (leave_loop ?p)" by (rule program_step.leave) (simp_all add: i)
  ultimately have r: "program_run demo_host demo_interrupted (([] @ [Handled]) @ [Leave]) (leave_loop ?p)"
    by (rule program_run.onward)
  have "d_running (pg_daemon (enter False demo_daemon))" using up_stops(2) [OF demo_up] by (simp add: enter_def)
  from signal_ends_program [OF demo_up program_run.rest this demo_interrupt r] r
  show "\<exists>p. program_run demo_host demo_interrupted [Handled, Leave] p \<and> lv_joined (outcome p) \<and> over (pg_daemon p)"
    using begin_stop_running(1) [OF up_stops(2) [OF demo_up]]
    by (auto simp: leave_loop_def Let_def finish_stop_fields)
qed


theorem nothing_reloads_witness:
  "d_config demo_daemon \<noteq> None \<and> d_config (pg_daemon demo_interrupted) = d_config demo_daemon
   \<and> d_modules demo_daemon \<noteq> [] \<and> d_modules (pg_daemon demo_interrupted) = d_modules demo_daemon"
proof -
  have "program_run demo_host (enter False demo_daemon) ([] @ [Interrupt 15]) demo_interrupted"
    by (rule program_run.onward [OF program_run.rest demo_interrupt])
  note k = nothing_reloads [OF demo_up this]
  have "\<not> lv_joined (outcome demo_interrupted)"
    using handler_frame [OF handler_runs [of 15 False]] by (simp add: demo_interrupted_def outcome_def enter_def)
  moreover have "d_modules demo_daemon \<noteq> [] \<and> d_config demo_daemon \<noteq> None" by code_simp
  ultimately show ?thesis using k by simp
qed

definition exit_code :: "exit \<Rightarrow> int option" where
  "exit_code e = (case e of Exited n w \<Rightarrow> Some n | Terminated w \<Rightarrow> None)"

theorem start_exits_zero_witness:
  "\<exists>d requested es p. up demo_host d \<and> program_run demo_host (enter requested d) es p \<and> over (pg_daemon p)"
proof -
  let ?w = "\<lparr>mw_fs = l_fs (ini_loader one_module), mw_process = root_process, mw_console = []\<rparr>"
  let ?args = "[''start'', ''--config'', ''/r.conf'']"
  let ?m = "main demo_host \<lparr>self_clock = 0, self_pid = 7\<rparr> short_life ?args ?w"
  have "exit_code ?m = Some 0" by code_simp
  then obtain w' where m: "?m = Exited 0 w'" by (cases ?m) (simp_all add: exit_code_def)
  have a: "cli_parseArguments ?args ?w = (Some (no_options\<lparr>o_config_file := ''/r.conf'', o_command := ''start''\<rparr>), ?w)"
    by (simp add: cli_parseArguments_def kinds kind_command starts_with_def)
  have c: "o_command (no_options\<lparr>o_config_file := ''/r.conf'', o_command := ''start''\<rparr>) = ''start''" by simp
  have "\<forall>d. up demo_host d \<longrightarrow> lives demo_host d (short_life d)" using short_life_lives by blast
  from start_exits_zero [OF a c this m] show ?thesis by blast
qed

end
