(* ===== verification/Settings.thy ===== *)
theory Settings
  imports Event_Facts
begin

text \<open>
  Which settings matter.  The configuration has sections and members the daemon never consults: the
  whole of logging, performance and monitoring, and parts of the others.  Two configurations that
  agree on the rest are started alike and behave alike.
\<close>

section \<open>The settings that are consulted\<close>

text \<open>\<open>keep_live cfg other\<close> is \<open>other\<close> with the settings of \<open>cfg\<close> that something reads after loading.\<close>

definition keep_live :: "Configuration \<Rightarrow> Configuration \<Rightarrow> Configuration" where
  "keep_live cfg other = other
     \<lparr>c_ssl := c_ssl cfg, c_auth := c_auth cfg,
      c_access := (c_access other)\<lparr>acc_enabled := acc_enabled (c_access cfg),
        acc_allowed_hosts := acc_allowed_hosts (c_access cfg), acc_denied_hosts := acc_denied_hosts (c_access cfg),
        acc_allowed_networks := acc_allowed_networks (c_access cfg),
        acc_denied_networks := acc_denied_networks (c_access cfg)\<rparr>,
      c_rate_limit := (c_rate_limit other)\<lparr>rl_enabled := rl_enabled (c_rate_limit cfg),
        rl_max_connections_per_minute := rl_max_connections_per_minute (c_rate_limit cfg),
        rl_max_connections_per_hour := rl_max_connections_per_hour (c_rate_limit cfg)\<rparr>,
      c_network := (c_network other)\<lparr>net_bind_address := net_bind_address (c_network cfg),
        net_bind_port := net_bind_port (c_network cfg), net_backlog := net_backlog (c_network cfg),
        net_max_connections := net_max_connections (c_network cfg),
        net_worker_threads := net_worker_threads (c_network cfg)\<rparr>,
      c_security := (c_security other)\<lparr>sec_chroot_enabled := sec_chroot_enabled (c_security cfg),
        sec_chroot_directory := sec_chroot_directory (c_security cfg), sec_user := sec_user (c_security cfg),
        sec_group := sec_group (c_security cfg), sec_drop_privileges := sec_drop_privileges (c_security cfg),
        sec_allow_symlinks := sec_allow_symlinks (c_security cfg),
        sec_allow_hardlinks := sec_allow_hardlinks (c_security cfg)\<rparr>,
      c_modules := c_modules cfg, c_auto_reload := c_auto_reload cfg, c_errors := c_errors cfg,
      c_has_changed := c_has_changed cfg\<rparr>"

lemma live_members [simp]:
  "c_ssl (keep_live cfg other) = c_ssl cfg" "c_auth (keep_live cfg other) = c_auth cfg"
  "acc_enabled (c_access (keep_live cfg other)) = acc_enabled (c_access cfg)"
  "acc_allowed_hosts (c_access (keep_live cfg other)) = acc_allowed_hosts (c_access cfg)"
  "acc_denied_hosts (c_access (keep_live cfg other)) = acc_denied_hosts (c_access cfg)"
  "acc_allowed_networks (c_access (keep_live cfg other)) = acc_allowed_networks (c_access cfg)"
  "acc_denied_networks (c_access (keep_live cfg other)) = acc_denied_networks (c_access cfg)"
  "rl_enabled (c_rate_limit (keep_live cfg other)) = rl_enabled (c_rate_limit cfg)"
  "rl_max_connections_per_minute (c_rate_limit (keep_live cfg other)) = rl_max_connections_per_minute (c_rate_limit cfg)"
  "rl_max_connections_per_hour (c_rate_limit (keep_live cfg other)) = rl_max_connections_per_hour (c_rate_limit cfg)"
  "net_bind_address (c_network (keep_live cfg other)) = net_bind_address (c_network cfg)"
  "net_bind_port (c_network (keep_live cfg other)) = net_bind_port (c_network cfg)"
  "net_backlog (c_network (keep_live cfg other)) = net_backlog (c_network cfg)"
  "net_max_connections (c_network (keep_live cfg other)) = net_max_connections (c_network cfg)"
  "net_worker_threads (c_network (keep_live cfg other)) = net_worker_threads (c_network cfg)"
  "sec_chroot_enabled (c_security (keep_live cfg other)) = sec_chroot_enabled (c_security cfg)"
  "sec_chroot_directory (c_security (keep_live cfg other)) = sec_chroot_directory (c_security cfg)"
  "sec_user (c_security (keep_live cfg other)) = sec_user (c_security cfg)"
  "sec_group (c_security (keep_live cfg other)) = sec_group (c_security cfg)"
  "sec_drop_privileges (c_security (keep_live cfg other)) = sec_drop_privileges (c_security cfg)"
  "sec_allow_symlinks (c_security (keep_live cfg other)) = sec_allow_symlinks (c_security cfg)"
  "sec_allow_hardlinks (c_security (keep_live cfg other)) = sec_allow_hardlinks (c_security cfg)"
  "c_modules (keep_live cfg other) = c_modules cfg" "c_auto_reload (keep_live cfg other) = c_auto_reload cfg"
  "c_errors (keep_live cfg other) = c_errors cfg" "c_has_changed (keep_live cfg other) = c_has_changed cfg"
  by (simp_all add: keep_live_def)

lemma live_errors: "(keep_live cfg other)\<lparr>c_errors := es\<rparr> = keep_live (cfg\<lparr>c_errors := es\<rparr>) other"
  by (cases cfg; cases other) (simp add: keep_live_def)

text \<open>A daemon and a program with the other configuration.\<close>

definition resettle :: "Configuration \<Rightarrow> Daemon \<Rightarrow> Daemon" where
  "resettle other d = d\<lparr>d_config := map_option (\<lambda>cfg. keep_live cfg other) (d_config d)\<rparr>"

definition resettle_program :: "Configuration \<Rightarrow> program \<Rightarrow> program" where
  "resettle_program other p = p\<lparr>pg_daemon := resettle other (pg_daemon p)\<rparr>"

lemma resettle_fields [simp]:
  "d_config (resettle other d) = map_option (\<lambda>cfg. keep_live cfg other) (d_config d)"
  "d_ssl_context (resettle other d) = d_ssl_context d" "d_auth_manager (resettle other d) = d_auth_manager d"
  "d_listening (resettle other d) = d_listening d" "d_running (resettle other d) = d_running d"
  "d_shutdown (resettle other d) = d_shutdown d" "d_sessions (resettle other d) = d_sessions d"
  "d_modules (resettle other d) = d_modules d" "d_limiter (resettle other d) = d_limiter d"
  "d_accepting (resettle other d) = d_accepting d" "d_pending (resettle other d) = d_pending d"
  "d_workers (resettle other d) = d_workers d" "d_monitoring (resettle other d) = d_monitoring d"
  "d_stopping (resettle other d) = d_stopping d" "d_process (resettle other d) = d_process d"
  "d_fs (resettle other d) = d_fs d" "d_log (resettle other d) = d_log d"
  "d_access_denied (resettle other d) = d_access_denied d" "d_total_connections (resettle other d) = d_total_connections d"
  by (simp_all add: resettle_def)

text \<open>Changes of other members commute with the exchange.\<close>

lemma resettle_updates [simp]:
  "(resettle other d)\<lparr>d_ssl_context := a\<rparr> = resettle other (d\<lparr>d_ssl_context := a\<rparr>)"
  "(resettle other d)\<lparr>d_auth_manager := b\<rparr> = resettle other (d\<lparr>d_auth_manager := b\<rparr>)"
  "(resettle other d)\<lparr>d_listening := c\<rparr> = resettle other (d\<lparr>d_listening := c\<rparr>)"
  "(resettle other d)\<lparr>d_bind_address := e\<rparr> = resettle other (d\<lparr>d_bind_address := e\<rparr>)"
  "(resettle other d)\<lparr>d_bind_port := f\<rparr> = resettle other (d\<lparr>d_bind_port := f\<rparr>)"
  "(resettle other d)\<lparr>d_running := c\<rparr> = resettle other (d\<lparr>d_running := c\<rparr>)"
  "(resettle other d)\<lparr>d_shutdown := c\<rparr> = resettle other (d\<lparr>d_shutdown := c\<rparr>)"
  "(resettle other d)\<lparr>d_sessions := g\<rparr> = resettle other (d\<lparr>d_sessions := g\<rparr>)"
  "(resettle other d)\<lparr>d_total_connections := i\<rparr> = resettle other (d\<lparr>d_total_connections := i\<rparr>)"
  "(resettle other d)\<lparr>d_modules := j\<rparr> = resettle other (d\<lparr>d_modules := j\<rparr>)"
  "(resettle other d)\<lparr>d_access_denied := i\<rparr> = resettle other (d\<lparr>d_access_denied := i\<rparr>)"
  "(resettle other d)\<lparr>d_limiter := k\<rparr> = resettle other (d\<lparr>d_limiter := k\<rparr>)"
  "(resettle other d)\<lparr>d_accepting := c\<rparr> = resettle other (d\<lparr>d_accepting := c\<rparr>)"
  "(resettle other d)\<lparr>d_pending := l\<rparr> = resettle other (d\<lparr>d_pending := l\<rparr>)"
  "(resettle other d)\<lparr>d_workers := m\<rparr> = resettle other (d\<lparr>d_workers := m\<rparr>)"
  "(resettle other d)\<lparr>d_monitoring := c\<rparr> = resettle other (d\<lparr>d_monitoring := c\<rparr>)"
  "(resettle other d)\<lparr>d_stopping := c\<rparr> = resettle other (d\<lparr>d_stopping := c\<rparr>)"
  "(resettle other d)\<lparr>d_process := n\<rparr> = resettle other (d\<lparr>d_process := n\<rparr>)"
  "(resettle other d)\<lparr>d_fs := q\<rparr> = resettle other (d\<lparr>d_fs := q\<rparr>)"
  "(resettle other d)\<lparr>d_log := r\<rparr> = resettle other (d\<lparr>d_log := r\<rparr>)"
  by (cases d; simp add: resettle_def)+

lemma resettle_say [simp]: "say k t (resettle other d) = resettle other (say k t d)"
  by (simp add: say_def)

section \<open>Starting\<close>

lemma validate_resettle [simp]:
  "validateConfiguration (resettle other d) = map_prod id (resettle other) (validateConfiguration d)"
proof (cases "d_config d")
  case (Some cfg)
  have net: "validateNetwork (c_network (keep_live cfg other)) = validateNetwork (c_network cfg)"
    by (simp add: validateNetwork_def fun_eq_iff Let_def)
  have v: "validate s (keep_live cfg other) = map_prod id (\<lambda>cfg. keep_live cfg other) (validate s cfg)" for s
    by (simp add: validate_def net live_errors del: run_validators.simps split: prod.split)
  obtain x c where x: "validate (d_fs d) cfg = (x, c)" by (cases "validate (d_fs d) cfg")
  have "(resettle other d)\<lparr>d_config := Some (keep_live c other)\<rparr> = resettle other (d\<lparr>d_config := Some c\<rparr>)"
    by (simp add: resettle_def)
  then show ?thesis by (simp add: validateConfiguration_def Some v x)
qed (simp add: validateConfiguration_def)

lemma load_module_resettle [simp]:
  "load_module sec (resettle other d) m = resettle other (load_module sec d m)"
proof -
  have "foldl (\<lambda>d err. say WARN (''  '' @ err) d) (resettle other d) es
      = resettle other (foldl (\<lambda>d err. say WARN (''  '' @ err) d) d es)" for d es
    by (induction es arbitrary: d) simp_all
  then show ?thesis by (simp add: load_module_def Let_def split: prod.split option.split bool.split)
qed

lemma secure_resettle: "load_module (c_security (keep_live cfg other)) = load_module (c_security cfg)"
  by (simp add: load_module_def secure_module_def fun_eq_iff)

lemma loadModules_resettle [simp]:
  "loadModules (resettle other d) = map_prod id (resettle other) (loadModules d)"
proof -
  have "foldl (load_module sec) (resettle other d) ms = resettle other (foldl (load_module sec) d ms)" for sec d ms
    by (induction ms arbitrary: d) simp_all
  then show ?thesis by (simp add: loadModules_def secure_resettle Let_def split: option.split)
qed

lemma stages_resettle [simp]:
  "initializeSSL h (resettle other d) = map_prod id (resettle other) (initializeSSL h d)"
  "initializeNetwork h (resettle other d) = map_prod id (resettle other) (initializeNetwork h d)"
  "confine h (resettle other d) = map_prod id (resettle other) (confine h d)"
  "give_up_root h (resettle other d) = map_prod id (resettle other) (give_up_root h d)"
  by (simp_all add: initializeSSL_def initializeNetwork_def confine_def give_up_root_def Let_def
      split: option.split prod.split bool.split)

lemma launch_resettle [simp]: "launch (resettle other d) = resettle other (launch d)"
proof -
  define limit where "limit = (\<lambda>d. case d_config d of
                 Some cfg \<Rightarrow>
                   if rl_enabled (c_rate_limit cfg) then
                     say INFO ''Connection rate limiting enabled''
                       (d\<lparr>d_limiter := Some (new_ConnectionRateLimiter
                             (rl_max_connections_per_minute (c_rate_limit cfg))
                             (rl_max_connections_per_hour (c_rate_limit cfg)))\<rparr>)
                   else d
               | None \<Rightarrow> d)"
  define watch where "watch = (\<lambda>d. case d_config d of
                 Some cfg \<Rightarrow>
                   if c_auto_reload cfg then
                     say INFO ''Configuration auto-reload enabled'' (d\<lparr>d_monitoring := True\<rparr>)
                   else d
               | None \<Rightarrow> d)"
  have A: "limit (resettle other d) = resettle other (limit d)" for d by (cases "d_config d") (simp_all add: limit_def)
  have B: "watch (resettle other d) = resettle other (watch d)" for d by (cases "d_config d") (simp_all add: watch_def)
  have work: "startWorkerThreads (resettle other d) = resettle other (startWorkerThreads d)" for d
    by (cases "d_config d") (simp_all add: startWorkerThreads_def Let_def)
  have l: "launch d = say INFO ''Daemon started successfully'' (watch (startWorkerThreads
      (say INFO ''Accept loop started''
         ((say INFO ''Signal handlers configured'' (limit d))\<lparr>d_running := True, d_accepting := True\<rparr>))))" for d
    unfolding launch_def Let_def limit_def watch_def ..
  show ?thesis by (simp add: l A B work)
qed

lemma stage_resettle:
  assumes "\<And>d. f (resettle other d) = map_prod id (resettle other) (f d)"
    and "\<And>d. rest (resettle other d) = map_prod id (resettle other) (rest d)"
  shows "stage failure f rest (resettle other d) = map_prod id (resettle other) (stage failure f rest d)"
  by (simp add: stage_def assms split: prod.split bool.split)

lemma start_resettle: "daemon_start h (resettle other d) = map_prod id (resettle other) (daemon_start h d)"
proof -
  have ap: "apfst Some (map_prod id (resettle other) x) = map_prod id (resettle other) (apfst Some x)" for x
    by (cases x) simp
  have st: "stage ''Failed to load modules'' loadModules
            (stage ''Failed to initialize SSL/TLS'' (initializeSSL h)
              (stage ''Failed to initialize network'' (initializeNetwork h)
                (stage [] (confine h) (stage [] (give_up_root h) (\<lambda>d. (True, launch d)))))) (resettle other d)
      = map_prod id (resettle other) (stage ''Failed to load modules'' loadModules
            (stage ''Failed to initialize SSL/TLS'' (initializeSSL h)
              (stage ''Failed to initialize network'' (initializeNetwork h)
                (stage [] (confine h) (stage [] (give_up_root h) (\<lambda>d. (True, launch d)))))) d)" for d
    by (intro stage_resettle) simp_all
  show ?thesis
    by (simp add: daemon_start_def st ap split: prod.split option.split bool.split)
qed

lemma new_resettle:
  "new_RSyncDaemon now p s (Some (keep_live cfg other)) = resettle other (new_RSyncDaemon now p s (Some cfg))"
  by (simp add: new_RSyncDaemon_def Let_def resettle_def say_def)

section \<open>Running\<close>

lemma access_resettle [simp]:
  "checkAccess pton ip m (resettle other d) = map_prod id (resettle other) (checkAccess pton ip m d)"
  "checkRateLimit t ip (resettle other d) = map_prod id (resettle other) (checkRateLimit t ip d)"
  "updateRateLimit t1 t2 ip (resettle other d) = resettle other (updateRateLimit t1 t2 ip d)"
  "limiting (resettle other d) = limiting d"
proof -
  show l: "limiting (resettle other d) = limiting d" for d by (simp add: limiting_def split: option.split)
  show "checkAccess pton ip m (resettle other d) = map_prod id (resettle other) (checkAccess pton ip m d)"
    by (cases "d_config d") (simp_all add: checkAccess_def logAccess_def Let_def)
  show "checkRateLimit t ip (resettle other d) = map_prod id (resettle other) (checkRateLimit t ip d)"
    by (simp add: checkRateLimit_def l split: option.split prod.split)
  show "updateRateLimit t1 t2 ip (resettle other d) = resettle other (updateRateLimit t1 t2 ip d)"
    by (simp add: updateRateLimit_def l split: option.split)
qed

lemma open_session_resettle [simp]:
  "open_session (keep_live cfg other) x ip (resettle other d) = resettle other (open_session cfg x ip d)"
  by (simp add: open_session_def)

lemma accept_resettle: "accept_connection h c (resettle other d) = resettle other (accept_connection h c d)"
proof (cases "d_config d")
  case (Some cfg)
  obtain a d1 where a: "checkAccess (h_pton h) (cn_address c) [] d = (a, d1)"
    by (cases "checkAccess (h_pton h) (cn_address c) [] d")
  obtain b d2 where b: "checkRateLimit (cn_check c) (cn_address c) d1 = (b, d2)"
    by (cases "checkRateLimit (cn_check c) (cn_address c) d1")
  show ?thesis by (simp add: accept_connection_def Some a b Let_def split: bool.split)
qed (simp add: accept_connection_def)

lemma serve_resettle:
  "serve h send r rnd now cl (resettle other d) = map_prod id (resettle other) (serve h send r rnd now cl d)"
  by (simp add: serve_def split: prod.split)

lemma serve_next_resettle: "serve_next h send r rnd now i (resettle other d) = resettle other (serve_next h send r rnd now i d)"
  by (simp add: serve_next_def serve_resettle split: worker.split list.split prod.split)

lemma stops_resettle:
  "begin_stop (resettle other d) = resettle other (begin_stop d)"
  "finish_stop (resettle other d) = resettle other (finish_stop d)"
  by (simp_all add: begin_stop_def finish_stop_def unloadModules_def cleanupSessions_def closeSessions_def joinThreads_def Let_def)

lemma daemon_step_resettle:
  assumes "daemon_step h d l d'" "quiet d" "l \<noteq> Reload"
  shows "daemon_step h (resettle other d) l (resettle other d')"
  using assms
proof (induction rule: daemon_step.induct)
  case (connect d c)
  then show ?case using daemon_step.connect [of "resettle other d" h c] by (simp add: accept_resettle)
next
  case (publish d)
  have "publish (resettle other d) = resettle other (publish d)" by (simp add: publish_def split: option.split)
  with publish show ?case using daemon_step.publish [of "resettle other d" h] by simp
next
  case (accept_fails d)
  then show ?case using daemon_step.accept_fails [of "resettle other d" h] by simp
next
  case (take d i)
  have "take_sessions i (resettle other d) = resettle other (take_sessions i d)" by (simp add: take_sessions_def)
  with take show ?case using daemon_step.take [of "resettle other d" i h] by simp
next
  case (serve i d cl todo served send r rnd now)
  then show ?case using daemon_step.serve [of i "resettle other d" cl todo served h send r rnd now]
    by (simp add: serve_next_resettle)
next
  case (give i d served)
  have "give_back i (resettle other d) = resettle other (give_back i d)"
    by (simp add: give_back_def split: worker.split list.split)
  with give show ?case using daemon_step.give [of i "resettle other d" served h] by simp
next
  case (monitor d d')
  then have "d' = d" by (auto simp: monitor_turn_def quiet_def hasChanged_def)
  moreover have "monitor_turn h (resettle other d) = Some (resettle other d)"
    using monitor.prems(1) by (auto simp: monitor_turn_def quiet_def hasChanged_def)
  ultimately show ?case using monitor.hyps daemon_step.monitor [of "resettle other d" h "resettle other d"] by simp
next
  case (stop_begin d)
  then show ?case using daemon_step.stop_begin [of "resettle other d" h] by (simp add: stops_resettle)
next
  case (stop_end d)
  then show ?case using daemon_step.stop_end [of "resettle other d" h] by (simp add: stops_resettle)
qed simp

section \<open>The program\<close>

lemma handler_resettle:
  "signalHandler n (resettle_program other p) = map_prod id (resettle_program other) (signalHandler n p)"
  by (simp add: signalHandler_def say_line_def resettle_program_def stops_resettle Let_def)

lemma resettle_program_fields [simp]:
  "pg_daemon (resettle_program other p) = resettle other (pg_daemon p)" "pg_phase (resettle_program other p) = pg_phase p"
  "pg_stuck (resettle_program other p) = pg_stuck p" "pg_thrown (resettle_program other p) = pg_thrown p"
  "pg_requested (resettle_program other p) = pg_requested p"
  by (simp_all add: resettle_program_def)

lemma resettle_program_updates [simp]:
  "(resettle_program other p)\<lparr>pg_phase := a\<rparr> = resettle_program other (p\<lparr>pg_phase := a\<rparr>)"
  "(resettle_program other p)\<lparr>pg_stuck := b\<rparr> = resettle_program other (p\<lparr>pg_stuck := b\<rparr>)"
  "(resettle_program other p)\<lparr>pg_thrown := c\<rparr> = resettle_program other (p\<lparr>pg_thrown := c\<rparr>)"
  "(resettle_program other p)\<lparr>pg_joined := c\<rparr> = resettle_program other (p\<lparr>pg_joined := c\<rparr>)"
  "(resettle_program other p)\<lparr>pg_daemon := resettle other d\<rparr> = resettle_program other (p\<lparr>pg_daemon := d\<rparr>)"
  by (simp_all add: resettle_program_def)

lemma rescued_resettle [simp]:
  "joins_before t (resettle other d) = joins_before t d"
  "rescued h t (resettle other d) = map_option (resettle other) (rescued h t d)"
  by (cases t; simp add: catch_session_def catch_request_def split: option.split worker.split list.split)+

lemma program_step_resettle:
  assumes "program_step h p e p'" "quiet (pg_daemon p)"
  shows "program_step h (resettle_program other p) e (resettle_program other p')"
  using assms
proof (induction rule: program_step.induct)
  case (step l t p d)
  then have "daemon_step h (resettle other (pg_daemon p)) l (resettle other d)"
    by (intro daemon_step_resettle) auto
  with step program_step.step [of l t "resettle_program other p" h "resettle other d"] show ?case by simp
next
  case (interrupt p n waits p')
  with program_step.interrupt [of "resettle_program other p" n waits "resettle_program other p'" h]
  show ?case by (simp add: handler_resettle split: if_splits)
next
  case (strike p t n waits p')
  have "thread_alive t (resettle other d) = thread_alive t d" for d by (cases t) simp_all
  with strike program_step.strike [of "resettle_program other p" t n waits "resettle_program other p'" h]
  show ?case by (simp add: handler_resettle split: if_splits)
next
  case (handled p d)
  then have "daemon_step h (resettle other (pg_daemon p)) StopEnd (resettle other d)"
    by (intro daemon_step_resettle) auto
  with handled program_step.handled [of "resettle_program other p" h "resettle other d"] show ?case by simp
next
  case (leave p)
  have "leave_loop (resettle_program other p) = resettle_program other (leave_loop p)"
    by (simp add: leave_loop_def say_line_def resettle_program_def stops_resettle Let_def)
  with leave program_step.leave [of "resettle_program other p" h] show ?case by (simp add: isRunning_def)
next
  case (closed p d)
  then have "daemon_step h (resettle other (pg_daemon p)) StopEnd (resettle other d)"
    by (intro daemon_step_resettle) auto
  with closed program_step.closed [of "resettle_program other p" h "resettle other d"] show ?case by simp
next
  case (caught p t d)
  with program_step.caught [of "resettle_program other p" t h "resettle other d"] show ?case by simp
next
  case (uncaught p t)
  with program_step.uncaught [of "resettle_program other p" t h] show ?case by simp
qed

lemma program_run_resettle:
  assumes "program_run h p es p'" "serving p"
  shows "program_run h (resettle_program other p) es (resettle_program other p')"
  using assms
proof (induction rule: program_run.induct)
  case (onward p es p' e p'')
  have "quiet (pg_daemon p')"
    using any_run [OF onward.hyps(1) onward.prems] by (auto simp: serving_def ending_def doomed_def stopped_def)
  from program_step_resettle [OF onward.hyps(2) this] onward show ?case by (simp add: program_run.onward)
qed (rule program_run.rest)

text \<open>
  C22. Most settings do nothing.  Replace, in the configuration a daemon is created with, the whole log,
  performance and monitoring sections, the bandwidth limits and timeouts, the keep-alive settings, the
  access log, the umask and the switches for module-path confinement, devices and sockets, the
  program-wide paths and flags, all by those of any other configuration: the daemon starts or fails
  to start in the same way with the same messages, and every run of the program under any signals is
  matched, step for step, by a run with the other settings, with the same files, clients, messages,
  console output and exit.  (The roles of the two configurations can be exchanged.)
\<close>

theorem inert_settings:
  assumes "\<not> c_has_changed cfg"
  shows "daemon_start h (new_RSyncDaemon now p s (Some (keep_live cfg other)))
       = map_prod id (resettle other) (daemon_start h (new_RSyncDaemon now p s (Some cfg)))
     \<and> (\<forall>d requested es q. daemon_start h (new_RSyncDaemon now p s (Some cfg)) = (Some True, d)
          \<longrightarrow> program_run h (enter requested d) es q
          \<longrightarrow> program_run h (enter requested (resettle other d)) es (resettle_program other q)
              \<and> outcome (resettle_program other q) = outcome q)"
proof (intro conjI allI impI)
  show "daemon_start h (new_RSyncDaemon now p s (Some (keep_live cfg other)))
       = map_prod id (resettle other) (daemon_start h (new_RSyncDaemon now p s (Some cfg)))"
    by (simp add: new_resettle start_resettle)
next
  fix d requested es q
  assume d: "daemon_start h (new_RSyncDaemon now p s (Some cfg)) = (Some True, d)"
    and r: "program_run h (enter requested d) es q"
  have "quiet (new_RSyncDaemon now p s (Some cfg))" using assms by (simp add: new_daemon_fields quiet_def)
  from quiet_start [OF d new_daemon_fields(1) this] have "serving (enter requested d)" by (simp add: serving_def enter_def)
  from program_run_resettle [OF r this, of other]
  show "program_run h (enter requested (resettle other d)) es (resettle_program other q)"
    by (simp add: resettle_program_def enter_def)
  show "outcome (resettle_program other q) = outcome q" by (simp add: outcome_def resettle_program_def)
qed

text \<open>The demonstration daemon with logging to a file, debug messages and tiny limits.\<close>

theorem inert_settings_witness:
  "let other = new_Configuration\<lparr>c_log := setDefaultLog\<lparr>lc_level := ''debug'', lc_file := ''/d.log'', lc_file_output := True\<rparr>,
         c_rate_limit := setDefaultRateLimit\<lparr>rl_idle_timeout := 1, rl_max_bandwidth_total := 1\<rparr>\<rparr>
   in fst (daemon_start demo_host (new_RSyncDaemon 0 root_process demo_fs (Some (keep_live (demo_cfg True) other)))) = Some True"
proof -
  have n: "demo_new b = new_RSyncDaemon 0 root_process demo_fs (Some (demo_cfg b))" for b by (simp add: demo_new_def)
  have "\<not> c_has_changed (demo_cfg True)" by (simp add: demo_cfg_def new_Configuration_def)
  from inert_settings [OF this, of demo_host 0 root_process demo_fs] show ?thesis
    using demo_start_eq [of True] by (simp add: n Let_def)
qed

end
