(* ===== verification/Spec2Isabelle.thy ===== *)
theory Spec2Isabelle
  imports NetworkAccess RateLimiter Confinement Protocol_Facts SshKey_Facts SshKey_Objects Auth_Facts AuthManager_Facts
    Session_Runs Tls_Session Config_Valid Config_Facts Privileges Logger_Facts Errors Daemon_Limits Daemon_Runs Daemon_Stop Main_Facts Event_Facts Settings
begin

text \<open>
  Verification of simple-rsyncd, a file-transfer daemon in C++.

  The program.  The command line (\<open>src/main.cpp\<close>) builds a configuration and a daemon.  The daemon
  (\<open>core/daemon.cpp\<close>) binds a socket, enters a chroot, gives up root and starts its threads.  The
  accept thread checks the peer's address against the access lists and the rate limiter, builds a
  session and publishes it in the session table; a worker takes every session of the table, serves
  one request of each and gives the survivors back.  A session (\<open>core/session.cpp\<close>) authenticates
  the client if the configuration says so, hands its bytes to the protocol handler
  (\<open>core/protocol.cpp\<close>) and carries the transfers, which run over a module (\<open>core/module.cpp\<close>), an
  exported directory whose path checks are all that separates the client from the file system.
  Authentication (\<open>core/auth.cpp\<close>, \<open>security/ssh_key.cpp\<close>) rests on files of passwords, users and
  public keys.

  Paths in the texts are relative to \<open>src/\<close> and \<open>include/simple-rsyncd/\<close> of the repository.

  The theories and what they model.
  \<^item> \<open>Prelude\<close>, \<open>Std_Map\<close>, \<open>Paths\<close>, \<open>Filesystem\<close>: the C++ library as the program uses it: strings and
    machine integers at their width, \<open>stoi\<close> and the other conversions with what they throw (\<open>None\<close>),
    \<open>std::map\<close> as an ordered list of pairs, \<open>std::filesystem::path\<close> as its string, and a file system of
    directories, files and symbolic links with a finite number of nodes.
  \<^item> \<open>NetworkAccess\<close>: \<open>security/network_access.cpp\<close>.  \<open>RateLimiter\<close>: \<open>security/rate_limiter.cpp\<close>.
  \<^item> \<open>Config_Data\<close>, \<open>Config\<close>, \<open>Config_Docs\<close>: \<open>config/config.hpp\<close> and \<open>config.cpp\<close>, the records of the
    sections, the INI loader with environment substitution, the JSON and YAML loaders, validation and
    reload.  Facts in \<open>Config_Facts\<close> and \<open>Config_Valid\<close>.
  \<^item> \<open>Module\<close>: \<open>core/module.hpp\<close> and \<open>module.cpp\<close>.  Facts in \<open>Confinement\<close>.
  \<^item> \<open>Protocol\<close>: \<open>core/protocol.cpp\<close>, the parser and one function per command.  Facts in
    \<open>Protocol_Facts\<close>.
  \<^item> \<open>SshKey\<close>, \<open>Auth\<close>, \<open>PublicKeys\<close>, \<open>Sessions\<close>, \<open>AuthManager\<close>: \<open>security/ssh_key.cpp\<close> and the classes of
    \<open>core/auth.cpp\<close>: password file, user database, key database, session manager, manager.  Facts in
    \<open>SshKey_Facts\<close>, \<open>Auth_Facts\<close>, \<open>AuthManager_Facts\<close>.
  \<^item> \<open>SshKey_Objects\<close>: the key objects of \<open>ssh_key.cpp\<close> as the OpenSSL calls that build and release them.
  \<^item> \<open>Session\<close>: \<open>core/session.cpp\<close>, one record and one function per method; \<open>worker_step\<close> is a turn of a
    worker.  Facts in \<open>Session_Facts\<close> (a step), \<open>Session_Runs\<close> (runs) and \<open>Session_Tls\<close> (the channel).
  \<^item> \<open>Tls\<close>: \<open>security/ssl_context.cpp\<close>, the context and the connection as the OpenSSL calls they make.
    Facts in \<open>Tls_Facts\<close>; \<open>Tls_Session\<close> relates it to the session's flag.  \<open>Library_Calls\<close> is what both
    models of OpenSSL calls share.
  \<^item> \<open>Privileges\<close>, \<open>Logger\<close>, \<open>Errors\<close>: \<open>security/privileges.cpp\<close>, \<open>utils/logger.cpp\<close>, \<open>core/error.cpp\<close>.
    Facts about the logger in \<open>Logger_Facts\<close>.
  \<^item> \<open>Daemon\<close>: \<open>core/daemon.cpp\<close>, the record \<open>Daemon\<close>, one function per method, and the relation
    \<open>daemon_step\<close> for its threads.  Facts in \<open>Daemon_Facts\<close>, \<open>Daemon_Limits\<close>, \<open>Daemon_Runs\<close>,
    \<open>Daemon_Stop\<close>; \<open>Daemon_Demo\<close> is the concrete daemon of the witnesses.
  \<^item> \<open>Main_Program\<close>, \<open>Event_Loop\<close>: \<open>src/main.cpp\<close>, the command line and the commands, and the relation
    \<open>program_step\<close> for the event loop and the signal handler beside the daemon's threads.  Facts in
    \<open>Main_Facts\<close> and \<open>Event_Facts\<close>.
  \<^item> \<open>Settings\<close>: which members of the configuration are consulted once it is loaded.
  \<^item> This theory holds what needs the configuration, the access lists and the daemon at once.

  Interfaces.  \<open>key_store\<close> (in \<open>Std_Map\<close>) is the contract of a keyed container, met by \<open>std::map\<close>, the
  user database and the session manager; \<open>guarded_machine\<close> is a machine whose inputs are guarded and
  whose steps keep an invariant, met by the accept loop over the rate limiter, by the session (for the
  authentication gate, for TLS and past TLS) and by the TLS context with its connections;
  \<open>codec\<close> (in \<open>SshKey_Facts\<close>) is a printer and a reader that consumes what was printed, met by the wire
  strings.

  What the groups of lemmas show.  Access: the mask arithmetic is a comparison of prefixes, denial
  wins over permission, and a fresh configuration's lists stay in force whatever file is loaded.
  Rate: the fixed windows admit at most twice the limit in any interval of the window's length, first
  for the limiter, then for the daemon as its client.  Paths: an accepted path lies under the module's
  root, read-only modules stay unchanged, and the delete permission bites.  Files: INI text, the
  users of the database that have permissions, protocol requests and wire strings are read back as
  printed.  Logins: which passwords,
  users and signatures are accepted, with equality of digests as the only escape.  Sessions: no
  request is handled before the gate opens, a download delivers the file's bytes, an upload stays in
  its temporary name, and over TLS nothing goes out in the clear until an upload ends.  OpenSSL: every
  object of the TLS classes is released once, no version below 1.2 is spoken, and a key import
  releases RSA and ECDSA keys twice from OpenSSL 3 on.  Daemon: who is served, what a start leaves
  behind, how the configured limits are kept or not, what a shutdown drains and what a restart does.
  Program: what a signal does, by the thread that handles it and by what the clients do, that nothing reloads, what exit code 0
  means, and that logging, performance, monitoring and many other settings have no effect.

  Errors, bounds and termination.  A thrown exception, a failed stream and a deadlock are values
  (\<open>None\<close>, \<open>Inl\<close> or a verdict of the component's own).  Every function is total: recursion is structural
  or has a \<open>termination\<close> proof.  One definition takes fuel: the recursive listing of a directory gets one
  more than the depth of the deepest node, which \<open>rec_iter_enough\<close> in \<open>Confinement\<close> shows to be enough.  The substitution loops stop because the
  next search starts behind the inserted text; the loops over a buffer stop because each turn consumes;
  walking symbolic links stops because the kernel follows at most forty in one resolution.  The threads
  are not a function: the relation \<open>daemon_step\<close> interleaves them at the points where they hold no
  mutex, \<open>program_step\<close> adds the main thread and the signals, and properties hold for every finite run.
  That a program told to stop does end is proved by a measure of what is left to do, \<open>work\<close>, which every
  step but a signal lowers, and by progress while any is left: by a step of the program's own, or by the
  request of a client a worker waits for (\<open>awaits\<close>).  Reads have no time limit, so a client that stays
  silent keeps the program from ending, which \<open>signal_ends_program\<close> states too.

  Parameters.  Code outside the repository is an argument: \<open>inet_pton\<close> and the name service, the clock
  (readings are arguments of the operations that take them), random bytes, SHA-256 and the OpenSSL key
  operations (\<open>SshKey\<close>), what OpenSSL answers to a call after the calls made so far (\<open>Tls\<close>,
  \<open>SshKey_Objects\<close>), the JSON and YAML libraries (a record of
  functions each, or none where the build lacks it), the environment, the
  verdicts of the system calls that bind, change the root and change identity (the record \<open>host\<close> of
  \<open>Daemon\<close>), how much each \<open>send\<close> takes, and what \<open>recv\<close> returns.  What a property needs of them is
  among its hypotheses, and its witness instantiates them.

  Limits of the model.  A session's handler keeps a reference to a local map of the accept loop, which
  is gone once the session is published; the model gives the session a copy of that map, so what the
  dangling reference does is not seen.  The daemon takes the verdict of \<open>SSLContext::initialize\<close> and of
  a handshake as parameters; \<open>Tls\<close> says how they come about.  After a chroot the file system is a
  parameter of the view.  File permissions are those the program checks itself; an operation of the
  file system fails in the model where a parent is missing or the kind of a node is wrong, not for lack
  of space.

  Signals are delivered between the points where a thread holds a mutex, and before or after a request or
  a handshake; one that comes while \<open>start\<close> creates the threads is not distinguished from an earlier one.
  The exception of a \<open>stop\<close> that joins its own thread unwinds through the signal handler as compiled
  programs do, to a catch of the interrupted code or to the end of the process (\<open>rescued\<close>, \<open>Aborted\<close>); the
  language does not define it.

  A path handed to the operating system is not cut at a NUL character inside it, where the C++ library
  passes \<open>c_str()\<close>; the strings the program itself passes that way are cut.  A download reads its file at
  the moment it sends, without the stream's buffer: a file that changes under a download may reach the
  client in other pieces than those of the model.

  Not modelled.  Methods the headers declare and no file defines have no counterpart; nor do the
  statistics of a module, which nothing but their reset writes, the accessors that return a field, the
  validators that return true and are called by nothing, and the empty classes that stand for a
  missing document library.  The configuration's time of last modification is
  read by nothing and not kept.  Tests, build files, packaging and service files carry no logic of the
  daemon.
\<close>

section \<open>Access, whatever the configuration file says\<close>

text \<open>The addresses, as numbers of 32 bits, that the default lists admit.\<close>

definition default_network :: "uint32_t \<Rightarrow> bool" where
  "default_network ip \<longleftrightarrow> ip = 0x7F000001 \<or> drop_bit 24 ip = 10 \<or> drop_bit 20 ip = 0xAC1"

lemma default_rules:
  assumes "pton ''127.0.0.1'' = Some (127, 0, 0, 1)" "pton ''10.0.0.0'' = Some (10, 0, 0, 0)"
    "pton ''172.16.0.0'' = Some (172, 16, 0, 0)" "pton ''::1'' = None"
  shows "parseCidr pton ''127.0.0.1'' = Some (0x7F000001, 32)" "parseCidr pton ''::1'' = None"
    "parseCidr pton ''10.0.0.0/8'' = Some (0x0A000000, 8)" "parseCidr pton ''172.16.0.0/12'' = Some (0xAC100000, 12)"
proof -
  have f: "find_char (CHR ''/'') ''127.0.0.1'' = None" "find_char (CHR ''/'') ''::1'' = None"
    "find_char (CHR ''/'') ''10.0.0.0/8'' = Some 8" "find_char (CHR ''/'') ''172.16.0.0/12'' = Some 10"
    "stoi ''8'' = Some 8" "stoi ''12'' = Some 12" by code_simp+
  have c: "c_str ''127.0.0.1'' = ''127.0.0.1''" "c_str ''::1'' = ''::1''" "c_str ''10.0.0.0'' = ''10.0.0.0''"
    "c_str ''172.16.0.0'' = ''172.16.0.0''" by code_simp+
  have w: "push_bit 24 (127 :: uint32_t) OR push_bit 16 0 OR push_bit 8 0 OR 1 = 0x7F000001"
    "push_bit 24 (10 :: uint32_t) OR push_bit 16 0 OR push_bit 8 0 OR 0 = 0x0A000000"
    "push_bit 24 (172 :: uint32_t) OR push_bit 16 16 OR push_bit 8 0 OR 0 = 0xAC100000" by code_simp+
  show "parseCidr pton ''127.0.0.1'' = Some (0x7F000001, 32)" "parseCidr pton ''::1'' = None"
    "parseCidr pton ''10.0.0.0/8'' = Some (0x0A000000, 8)" "parseCidr pton ''172.16.0.0/12'' = Some (0xAC100000, 12)"
    using w by (simp_all add: parseCidr_def parseIpv4_def f c assms)
qed

lemma ipInCidr_default:
  "ipInCidr ip net 32 \<longleftrightarrow> ip = net" "ipInCidr ip 0x0A000000 8 \<longleftrightarrow> drop_bit 24 ip = 10"
  "ipInCidr ip 0xAC100000 12 \<longleftrightarrow> drop_bit 20 ip = 0xAC1"
  using ipInCidr_drop_bit [where p = 32 and ip = ip and net = net]
    ipInCidr_drop_bit [where p = 8 and ip = ip and net = "0x0A000000"]
    ipInCidr_drop_bit [where p = 12 and ip = ip and net = "0xAC100000"] by simp_all

lemma default_admits:
  assumes "pton ''127.0.0.1'' = Some (127, 0, 0, 1)" "pton ''10.0.0.0'' = Some (10, 0, 0, 0)"
    "pton ''172.16.0.0'' = Some (172, 16, 0, 0)" "pton ''::1'' = None"
  shows "admits pton setDefaultAccess ip \<longleftrightarrow> (\<exists>a. parseIpv4 pton ip = Some a \<and> default_network a)"
  by (auto simp: admits_def setDefaultAccess_def isAllowed_def ipMatchesRule_def default_rules [OF assms] ipInCidr_default
      default_network_def split: option.split)



end
